(* ===== verification/Js_Base.thy ===== *)
theory Js_Base
  imports Complex_Main "HOL-Library.Char_ord" "HOL-Library.List_Lexorder"
    "HOL-Library.Product_Lexorder"
begin

text \<open>
  The parts of JavaScript's standard library that the API services use: string trimming,
  case folding, numbers read from the environment, \<^verbatim>\<open>Math.round\<close> and \<^verbatim>\<open>Math.trunc\<close>, JSON
  values and \<^verbatim>\<open>JSON.stringify\<close>, and the generic lemmas on lists and options that every
  component shares.

  Strings are lists of code units below 256 (Latin-1), which covers every literal of the
  services; an accented letter is written by its code unit.  Money is an integer number of
  the currency's unit, as in the \<^verbatim>\<open>Int\<close> columns of the schema.
\<close>

subsection \<open>Strings\<close>

text \<open>The Latin-1 code units that \<^verbatim>\<open>String.prototype.trim\<close> strips.\<close>

definition js_ws :: "char \<Rightarrow> bool" where
  "js_ws c \<longleftrightarrow> (of_char c :: nat) \<in> set [9, 10, 11, 12, 13, 32, 160]"

definition js_trim :: "string \<Rightarrow> string" where
  "js_trim s = rev (dropWhile js_ws (rev (dropWhile js_ws s)))"

definition up_char :: "char \<Rightarrow> string" where
  "up_char c = (let n = of_char c :: nat in
     if 97 \<le> n \<and> n \<le> 122 \<or> 224 \<le> n \<and> n \<le> 254 \<and> n \<noteq> 247 then [char_of (n - 32)]
     else if n = 223 then ''SS'' else [c])"

definition js_upper :: "string \<Rightarrow> string" where
  "js_upper s = concat (map up_char s)"

definition low_char :: "char \<Rightarrow> char" where
  "low_char c = (let n = of_char c :: nat in
     if 65 \<le> n \<and> n \<le> 90 \<or> 192 \<le> n \<and> n \<le> 222 \<and> n \<noteq> 215 then char_of (n + 32) else c)"

definition js_lower :: "string \<Rightarrow> string" where
  "js_lower s = map low_char s"

definition js_starts_with :: "string \<Rightarrow> string \<Rightarrow> bool" where
  "js_starts_with s p \<longleftrightarrow> take (length p) s = p"

text \<open>\<^verbatim>\<open>s.split(',')\<close>: never empty, separators dropped.\<close>

fun js_split :: "char \<Rightarrow> string \<Rightarrow> string list" where
  "js_split sep [] = [[]]"
| "js_split sep (c # cs) =
     (if c = sep then [] # js_split sep cs
      else case js_split sep cs of [] \<Rightarrow> [[c]] | w # ws \<Rightarrow> (c # w) # ws)"

text \<open>The idioms \<^verbatim>\<open>x?.trim() || null\<close> and \<^verbatim>\<open>x || y\<close> on strings: the empty string is falsy.\<close>

definition truthy :: "string option \<Rightarrow> string option" where
  "truthy x = (case x of Some (c # cs) \<Rightarrow> Some (c # cs) | _ \<Rightarrow> None)"

definition trim_or_null :: "string option \<Rightarrow> string option" where
  "trim_or_null x = truthy (map_option js_trim x)"

definition or_else :: "'a option \<Rightarrow> 'a \<Rightarrow> 'a" where
  "or_else x d = (case x of Some v \<Rightarrow> v | None \<Rightarrow> d)"

definition or_opt :: "'a option \<Rightarrow> 'a option \<Rightarrow> 'a option" where
  "or_opt x y = (case x of Some v \<Rightarrow> Some v | None \<Rightarrow> y)"

lemma or_else_simps [simp]: "or_else (Some v) d = v" "or_else None d = d"
  by (simp_all add: or_else_def)

lemma or_opt_simps [simp]: "or_opt (Some v) y = Some v" "or_opt None y = y" "or_opt x None = x"
  by (simp_all add: or_opt_def split: option.split)

lemma truthy_simps [simp]: "truthy None = None" "truthy (Some []) = None"
    "truthy (Some (c # cs)) = Some (c # cs)"
  by (simp_all add: truthy_def)

lemma truthy_Some_iff: "truthy x = Some s \<longleftrightarrow> x = Some s \<and> s \<noteq> []"
  by (cases x) (auto simp: truthy_def split: list.splits)

lemma trim_or_null_nonempty: "trim_or_null x = Some s \<Longrightarrow> s \<noteq> []"
  by (simp add: trim_or_null_def truthy_Some_iff)

text \<open>Decimal digits of a number in a template literal.\<close>

definition digit_char :: "nat \<Rightarrow> char" where
  "digit_char d = char_of (48 + d)"

fun show_nat :: "nat \<Rightarrow> string" where
  "show_nat n = (if n < 10 then [digit_char n] else show_nat (n div 10) @ [digit_char (n mod 10)])"

declare show_nat.simps [simp del]

definition show_int :: "int \<Rightarrow> string" where
  "show_int i = (if i < 0 then CHR ''-'' # show_nat (nat (- i)) else show_nat (nat i))"

subsection \<open>Numbers\<close>

text \<open>
  The value of \<^verbatim>\<open>Number(process.env.X)\<close>: \<^verbatim>\<open>NaN\<close> and the infinities are not finite, every
  other double is a rational.
\<close>

datatype jsnum = NotFinite | Fin rat

definition js_trunc :: "rat \<Rightarrow> int" where
  "js_trunc q = (if 0 \<le> q then \<lfloor>q\<rfloor> else \<lceil>q\<rceil>)"

text \<open>\<^verbatim>\<open>Number.isFinite(p) ? Math.min(hi, Math.max(lo, Math.trunc(p))) : d\<close>.\<close>

definition env_clamped :: "int \<Rightarrow> int \<Rightarrow> int \<Rightarrow> jsnum \<Rightarrow> int" where
  "env_clamped d lo hi v =
     (case v of NotFinite \<Rightarrow> d | Fin q \<Rightarrow> min hi (max lo (js_trunc q)))"

lemma env_clamped_bounds:
  "lo \<le> d \<Longrightarrow> d \<le> hi \<Longrightarrow> lo \<le> hi \<Longrightarrow> lo \<le> env_clamped d lo hi v \<and> env_clamped d lo hi v \<le> hi"
  by (cases v) (auto simp: env_clamped_def)

text \<open>
  \<^verbatim>\<open>Math.round(n / d)\<close> for a positive integer \<open>d\<close>: the nearest integer, halves upward.
  The code divides doubles.  The rounding error of the quotient is below its distance to the
  next half while the numerator is below \<open>2 ^ 52\<close>, so up to there the two agree; the
  DTOs cap every amount and price at 100 million.
\<close>

definition round_div :: "int \<Rightarrow> int \<Rightarrow> int" where
  "round_div n d = (2 * n + d) div (2 * d)"

lemma round_div_is_round:
  assumes "0 < d"
  shows "round_div n d = \<lfloor>(of_int n / of_int d :: rat) + 1 / 2\<rfloor>"
proof -
  have "(of_int n / of_int d :: rat) + 1 / 2 = of_int (2 * n + d) / of_int (2 * d)"
    using assms by (simp add: field_simps)
  then show ?thesis
    unfolding round_div_def by (simp only: floor_divide_of_int_eq)
qed

lemma round_div_nonneg: "0 \<le> n \<Longrightarrow> 0 < d \<Longrightarrow> 0 \<le> round_div n d"
  by (simp add: round_div_def div_int_pos_iff)

lemma round_div_zero [simp]: "0 < d \<Longrightarrow> round_div 0 d = 0"
  by (simp add: round_div_def)

lemma round_div_mono: "0 < d \<Longrightarrow> m \<le> n \<Longrightarrow> round_div m d \<le> round_div n d"
  by (simp add: round_div_def zdiv_mono1)

lemma round_div_mult [simp]:
  assumes "0 < d"
  shows "round_div (k * d) d = k"
proof -
  have "(2 * (k * d) + d) div (2 * d) = k + d div (2 * d)"
    using assms div_mult_self1 [of "2 * d" d k] by (simp add: algebra_simps)
  then show ?thesis using assms by (simp add: round_div_def)
qed

lemma round_div_le: "0 < d \<Longrightarrow> n \<le> k * d \<Longrightarrow> round_div n d \<le> k"
  using round_div_mono [of d n "k * d"] by simp

subsection \<open>JSON\<close>

text \<open>A JSON number carries the text that \<^verbatim>\<open>String(n)\<close> gives.\<close>

datatype json =
    JNull
  | JBool bool
  | JNum string
  | JStr string
  | JArr "json list"
  | JObj "(string \<times> json) list"

definition json_get :: "json \<Rightarrow> string \<Rightarrow> json option" where
  "json_get j k = (case j of JObj kvs \<Rightarrow> map_of (rev kvs) k | _ \<Rightarrow> None)"

definition hex_char :: "nat \<Rightarrow> char" where
  "hex_char d = (if d < 10 then char_of (48 + d) else char_of (87 + d))"

definition json_char :: "char \<Rightarrow> string" where
  "json_char c = (let n = of_char c :: nat in
     if n = 34 then [CHR 0x5C, CHR 0x22]
     else if n = 92 then [CHR 0x5C, CHR 0x5C]
     else if n = 8 then [CHR 0x5C, CHR ''b'']
     else if n = 9 then [CHR 0x5C, CHR ''t'']
     else if n = 10 then [CHR 0x5C, CHR ''n'']
     else if n = 12 then [CHR 0x5C, CHR ''f'']
     else if n = 13 then [CHR 0x5C, CHR ''r'']
     else if n < 32 then CHR 0x5C # ''u00'' @ [hex_char (n div 16), hex_char (n mod 16)]
     else [c])"

definition json_string :: "string \<Rightarrow> string" where
  "json_string s = CHR 0x22 # concat (map json_char s) @ [CHR 0x22]"

text \<open>\<^verbatim>\<open>[a, b, c].join(',')\<close>.\<close>

fun join_comma :: "string list \<Rightarrow> string" where
  "join_comma [] = []"
| "join_comma [x] = x"
| "join_comma (x # y # xs) = x @ '','' @ join_comma (y # xs)"

fun json_stringify :: "json \<Rightarrow> string" where
  "json_stringify JNull = ''null''"
| "json_stringify (JBool b) = (if b then ''true'' else ''false'')"
| "json_stringify (JNum n) = n"
| "json_stringify (JStr s) = json_string s"
| "json_stringify (JArr js) = ''['' @ join_comma (map json_stringify js) @ '']''"
| "json_stringify (JObj kvs) = ''{'' @
     join_comma (map (\<lambda>kv. json_string (fst kv) @ '':'' @ json_stringify (snd kv)) kvs) @ ''}''"

definition json_of_opt :: "string option \<Rightarrow> json" where
  "json_of_opt x = (case x of Some s \<Rightarrow> JStr s | None \<Rightarrow> JNull)"

subsection \<open>Lists\<close>

text \<open>
  Ordered reads: \<^verbatim>\<open>orderBy: [{ createdAt: 'desc' }, { id: 'desc' }]\<close> sorts downward by the
  pair of both columns; ids are unique, so the order is total.
\<close>

definition sort_desc :: "('r \<Rightarrow> 'k::linorder) \<Rightarrow> 'r list \<Rightarrow> 'r list" where
  "sort_desc k rs = rev (sort_key k rs)"

lemma set_sort_desc [simp]: "set (sort_desc k rs) = set rs"
  by (simp add: sort_desc_def)

lemma length_sort_desc [simp]: "length (sort_desc k rs) = length rs"
  by (simp add: sort_desc_def)

lemma sort_desc_Nil_iff [simp]: "sort_desc k rs = [] \<longleftrightarrow> rs = []"
  using length_sort_desc [of k rs] by (metis length_0_conv)

lemma sort_desc_single [simp]: "sort_desc k [x] = [x]"
  by (simp add: sort_desc_def)

lemma sort_desc_sorted: "sorted_wrt (\<lambda>a b. k b \<le> k a) (sort_desc k rs)"
  using sorted_sort_key [of k rs]
  by (simp add: sort_desc_def sorted_wrt_rev sorted_map)

definition first_of :: "'r list \<Rightarrow> 'r option" where
  "first_of rs = (case rs of [] \<Rightarrow> None | r # _ \<Rightarrow> Some r)"

lemma first_of_simps [simp]: "first_of [] = None" "first_of (r # rs) = Some r"
  by (simp_all add: first_of_def)

lemma first_of_SomeD: "first_of rs = Some r \<Longrightarrow> r \<in> set rs"
  by (auto simp: first_of_def split: list.splits)

lemma first_of_None_iff: "first_of rs = None \<longleftrightarrow> rs = []"
  by (cases rs) simp_all

lemma first_of_sort_desc_max:
  "first_of (sort_desc k rs) = Some r \<Longrightarrow> x \<in> set rs \<Longrightarrow> k x \<le> k r"
  using sort_desc_sorted [of k rs] set_sort_desc [of k rs, symmetric]
  by (auto simp: first_of_def simp del: set_sort_desc split: list.splits)

text \<open>
  \<^verbatim>\<open>items.map(trim).filter((x, i, a) => x.length > 0 && a.indexOf(x) === i)\<close>: keeps the first
  occurrence of each value.
\<close>

fun first_occurrences :: "'a list \<Rightarrow> 'a list \<Rightarrow> 'a list" where
  "first_occurrences seen [] = []"
| "first_occurrences seen (x # xs) =
     (if x \<in> set seen then first_occurrences seen xs
      else x # first_occurrences (x # seen) xs)"

lemma set_first_occurrences: "set (first_occurrences seen xs) = set xs - set seen"
  by (induction seen xs rule: first_occurrences.induct) auto

lemma distinct_first_occurrences: "distinct (first_occurrences seen xs)"
  by (induction seen xs rule: first_occurrences.induct) (auto simp: set_first_occurrences)

lemma sum_list_filter_split:
  fixes f :: "'a \<Rightarrow> int"
  shows "sum_list (map f xs) = sum_list (map f (filter P xs)) + sum_list (map f (filter (\<lambda>x. \<not> P x) xs))"
  by (induction xs) auto

lemma sum_list_nonneg_int: "(\<And>x. x \<in> set xs \<Longrightarrow> (0::int) \<le> f x) \<Longrightarrow> 0 \<le> sum_list (map f xs)"
  by (induction xs) auto

end
