(* ===== verification/Schema.thy ===== *)
theory Schema
  imports Js_Base
begin

text \<open>
  The data model of \<^verbatim>\<open>packages/database/prisma/schema.prisma\<close>: one datatype per enum (the
  constructors carry the enum's initials so that they stay distinct), one record per model
  with its columns under a short prefix, and the record \<open>db\<close> of all tables, each the list
  of its rows in insertion order.  An instant is its number of milliseconds since the epoch;
  a nullable column is an \<open>option\<close>; the decimal rating average is kept in hundredths.
\<close>

type_synonym id = string
type_synonym time = int

subsection \<open>Enums\<close>

datatype jobStatus = JOB_REQUESTED | JOB_ACCEPTED | JOB_IN_PROGRESS | JOB_COMPLETED
  | JOB_CANCELED

datatype jobPricingMode = JPM_FIXED_PRICE | JPM_QUOTE_REQUEST

datatype serviceRequestStatus = SR_OPEN | SR_CLOSED | SR_EXPIRED

datatype proposalStatus = PR_SUBMITTED | PR_SELECTED | PR_REJECTED

datatype invitationStatus = RI_SENT | RI_ACCEPTED | RI_DECLINED | RI_EXPIRED

datatype notificationKind = NK_REQUEST_INVITATION_RECEIVED | NK_REQUEST_INVITATION_DECLINED | NK_PROPOSAL_SUBMITTED | NK_PROPOSAL_SELECTED
  | NK_PROPOSAL_REJECTED | NK_JOB_MESSAGE_RECEIVED | NK_JOB_CANCELED | NK_REFUND_REQUESTED
  | NK_REFUND_STATUS_UPDATED | NK_TRUST_SAFETY_UPDATE

datatype notificationTone = NT_ATTENTION | NT_SUCCESS | NT_INFO | NT_MUTED

datatype availabilityStatus = WA_AVAILABLE_NOW | WA_LIMITED_THIS_WEEK | WA_NEXT_WEEK | WA_UNAVAILABLE

datatype userRole = UR_USER | UR_ADMIN

datatype adminSubrole = AS_SUPPORT_ADMIN | AS_OPS_ADMIN | AS_SUPER_ADMIN

datatype recoveryStatus = PW_OPEN | PW_IN_PROGRESS | PW_RESOLVED | PW_CANCELED

datatype auditStatus = AU_SUCCESS | AU_DENIED | AU_FAILED

datatype paymentProvider = PP_INTERNAL | PP_MPESA | PP_EMOLA | PP_MKESH
  | PP_BANK_TRANSFER | PP_MANUAL

datatype intentStatus = PI_CREATED | PI_AWAITING_PAYMENT | PI_PAID_PARTIAL | PI_PENDING_CONFIRMATION
  | PI_SUCCEEDED | PI_FAILED | PI_EXPIRED | PI_CANCELED

datatype transactionType = TT_CHARGE | TT_PAYOUT | TT_REFUND | TT_REVERSAL
  | TT_ADJUSTMENT

datatype transactionStatus = TX_PENDING | TX_PROCESSING | TX_SUCCEEDED | TX_FAILED
  | TX_REVERSED | TX_CANCELED

datatype ledgerEntryType = LE_CUSTOMER_CHARGE | LE_PLATFORM_FEE_RESERVED | LE_PROVIDER_BALANCE_HELD | LE_PROVIDER_BALANCE_RELEASED
  | LE_PROVIDER_PAYOUT | LE_CUSTOMER_REFUND | LE_REVERSAL | LE_ADMIN_ADJUSTMENT

datatype payoutStatus = PO_PENDING | PO_APPROVED | PO_PROCESSING | PO_PAID
  | PO_FAILED | PO_CANCELED

datatype refundStatus = RF_PENDING | RF_APPROVED | RF_PROCESSING | RF_SUCCEEDED
  | RF_FAILED | RF_CANCELED

datatype incidentSource = IS_SUPPORT | IS_REFUND_DISPUTE | IS_TRUST_SAFETY | IS_PLATFORM

datatype incidentSeverity = IV_LOW | IV_MEDIUM | IV_HIGH | IV_CRITICAL

datatype incidentStatus = OI_OPEN | OI_INVESTIGATING | OI_MITIGATING | OI_MONITORING
  | OI_RESOLVED | OI_CANCELED

datatype incidentEventType = IE_CASE_OPENED | IE_EVIDENCE_ADDED | IE_OWNER_ASSIGNED | IE_STATUS_CHANGED
  | IE_SLA_UPDATED | IE_DECISION_RECORDED | IE_CASE_CLOSED

datatype eventVisibility = EV_INTERNAL | EV_PARTICIPANTS

datatype riskLevel = RL_LOW | RL_MEDIUM | RL_HIGH

datatype interventionAction = IA_WARNING | IA_TEMP_BLOCK

datatype interventionStatus = TI_LOGGED | TI_OPEN | TI_APPEALED | TI_CLEARED | TI_ENFORCED

datatype paymentActorType = PA_CUSTOMER | PA_PROVIDER | PA_PLATFORM | PA_SYSTEM
  | PA_ADMIN

datatype ledgerDirection = LD_DEBIT | LD_CREDIT

datatype ledgerBucket = LB_CUSTOMER_EXTERNAL | LB_PLATFORM_RESERVED | LB_PLATFORM_AVAILABLE | LB_PROVIDER_HELD
  | LB_PROVIDER_AVAILABLE | LB_PROVIDER_PAID_OUT

subsection \<open>Models\<close>

record user =
  us_id :: "id"
  us_email :: "string"
  us_name :: "string option"
  us_passwordHash :: "string"
  us_role :: "userRole"
  us_adminSubrole :: "adminSubrole option"
  us_isActive :: "bool"
  us_createdAt :: "time"
  us_updatedAt :: "time"

record category =
  ca_id :: "id"
  ca_name :: "string"
  ca_slug :: "string"
  ca_description :: "string option"
  ca_isActive :: "bool"
  ca_sortOrder :: "int"
  ca_createdAt :: "time"
  ca_updatedAt :: "time"

record workerProfile =
  wp_id :: "id"
  wp_userId :: "id"
  wp_publicName :: "string option"
  wp_bio :: "string option"
  wp_location :: "string option"
  wp_serviceAreaPreferences :: "string list"
  wp_hourlyRate :: "int option"
  wp_experienceYears :: "int"
  wp_isAvailable :: "bool"
  wp_availabilityStatus :: "availabilityStatus"
  wp_ratingAvg :: "int"
  wp_ratingCount :: "nat"
  wp_createdAt :: "time"
  wp_updatedAt :: "time"

record serviceRequest =
  sr_id :: "id"
  sr_customerId :: "id"
  sr_categoryId :: "id"
  sr_title :: "string"
  sr_description :: "string"
  sr_location :: "string option"
  sr_lastCustomerEditAt :: "time option"
  sr_status :: "serviceRequestStatus"
  sr_selectedProposalId :: "id option"
  sr_expiresAt :: "time"
  sr_createdAt :: "time"
  sr_updatedAt :: "time"

record requestInvitation =
  ri_id :: "id"
  ri_requestId :: "id"
  ri_providerUserId :: "id"
  ri_status :: "invitationStatus"
  ri_openedAt :: "time option"
  ri_respondedAt :: "time option"
  ri_expiresAt :: "time option"
  ri_createdAt :: "time"
  ri_updatedAt :: "time"

record proposal =
  pr_id :: "id"
  pr_requestId :: "id"
  pr_providerId :: "id"
  pr_price :: "int"
  pr_comment :: "string option"
  pr_status :: "proposalStatus"
  pr_createdAt :: "time"
  pr_updatedAt :: "time"

record job =
  jb_id :: "id"
  jb_clientId :: "id"
  jb_customerId :: "id option"
  jb_providerId :: "id option"
  jb_workerProfileId :: "id"
  jb_categoryId :: "id"
  jb_requestId :: "id option"
  jb_proposalId :: "id option"
  jb_agreedPrice :: "int option"
  jb_pricingMode :: "jobPricingMode"
  jb_title :: "string"
  jb_description :: "string"
  jb_budget :: "int option"
  jb_quotedAmount :: "int option"
  jb_quoteMessage :: "string option"
  jb_status :: "jobStatus"
  jb_acceptedAt :: "time option"
  jb_startedAt :: "time option"
  jb_completedAt :: "time option"
  jb_canceledAt :: "time option"
  jb_canceledBy :: "id option"
  jb_cancelReason :: "string option"
  jb_contactUnlockedAt :: "time option"
  jb_createdAt :: "time"
  jb_updatedAt :: "time"

record userNotification =
  un_id :: "id"
  un_userId :: "id"
  un_actorUserId :: "id option"
  un_kind :: "notificationKind"
  un_tone :: "notificationTone"
  un_title :: "string"
  un_description :: "string"
  un_href :: "string"
  un_hrefLabel :: "string option"
  un_readAt :: "time option"
  un_metadata :: "json option"
  un_createdAt :: "time"
  un_updatedAt :: "time"

record trustSafetyIntervention =
  ti_id :: "id"
  ti_jobId :: "id"
  ti_actorUserId :: "id"
  ti_counterpartUserId :: "id"
  ti_riskLevel :: "riskLevel"
  ti_action :: "interventionAction"
  ti_status :: "interventionStatus"
  ti_reasonSummary :: "string"
  ti_messagePreview :: "string"
  ti_blockedUntil :: "time option"
  ti_appealRequestedAt :: "time option"
  ti_appealReason :: "string option"
  ti_reviewedByUserId :: "id option"
  ti_reviewedAt :: "time option"
  ti_resolutionNote :: "string option"
  ti_metadata :: "json option"
  ti_createdAt :: "time"
  ti_updatedAt :: "time"

record review =
  rv_id :: "id"
  rv_jobId :: "id"
  rv_workerProfileId :: "id"
  rv_reviewerId :: "id"
  rv_rating :: "int"
  rv_comment :: "string option"
  rv_createdAt :: "time"
  rv_updatedAt :: "time"

record paymentIntent =
  pi_id :: "id"
  pi_jobId :: "id"
  pi_customerId :: "id"
  pi_providerUserId :: "id option"
  pi_amount :: "int"
  pi_currency :: "string"
  pi_platformFeeAmount :: "int"
  pi_providerNetAmount :: "int"
  pi_status :: "intentStatus"
  pi_provider :: "paymentProvider"
  pi_expiresAt :: "time option"
  pi_acceptedQuoteSnapshot :: "int option"
  pi_metadata :: "json option"
  pi_createdAt :: "time"
  pi_updatedAt :: "time"

record paymentTransaction =
  tx_id :: "id"
  tx_paymentIntentId :: "id option"
  tx_type :: "transactionType"
  tx_status :: "transactionStatus"
  tx_provider :: "paymentProvider"
  tx_providerReference :: "string option"
  tx_idempotencyKey :: "string"
  tx_requestedAmount :: "int"
  tx_confirmedAmount :: "int option"
  tx_currency :: "string"
  tx_providerPayload :: "json option"
  tx_failureReason :: "string option"
  tx_processedAt :: "time option"
  tx_createdAt :: "time"
  tx_updatedAt :: "time"

record ledgerEntry =
  le_id :: "id"
  le_jobId :: "id option"
  le_paymentIntentId :: "id option"
  le_transactionId :: "id option"
  le_actorType :: "paymentActorType"
  le_entryType :: "ledgerEntryType"
  le_amount :: "int"
  le_currency :: "string"
  le_direction :: "ledgerDirection"
  le_balanceBucket :: "ledgerBucket"
  le_description :: "string option"
  le_createdByUserId :: "id option"
  le_createdAt :: "time"

record payout =
  po_id :: "id"
  po_providerUserId :: "id"
  po_jobId :: "id option"
  po_paymentIntentId :: "id option"
  po_amount :: "int"
  po_currency :: "string"
  po_status :: "payoutStatus"
  po_provider :: "paymentProvider"
  po_providerReference :: "string option"
  po_requestedByUserId :: "id option"
  po_approvedByUserId :: "id option"
  po_processedAt :: "time option"
  po_failureReason :: "string option"
  po_createdAt :: "time"
  po_updatedAt :: "time"

record refundRequest =
  rf_id :: "id"
  rf_jobId :: "id"
  rf_paymentIntentId :: "id"
  rf_transactionId :: "id option"
  rf_requestedByUserId :: "id"
  rf_approvedByUserId :: "id option"
  rf_amount :: "int"
  rf_currency :: "string"
  rf_reason :: "string"
  rf_evidenceItems :: "string list"
  rf_decisionNote :: "string option"
  rf_status :: "refundStatus"
  rf_provider :: "paymentProvider"
  rf_providerReference :: "string option"
  rf_processedAt :: "time option"
  rf_failureReason :: "string option"
  rf_createdAt :: "time"
  rf_updatedAt :: "time"

record operationalIncident =
  oi_id :: "id"
  oi_title :: "string"
  oi_summary :: "string"
  oi_source :: "incidentSource"
  oi_severity :: "incidentSeverity"
  oi_status :: "incidentStatus"
  oi_baseSlaHours :: "int"
  oi_slaTargetAt :: "time"
  oi_impactedArea :: "string option"
  oi_customerImpact :: "string option"
  oi_evidenceItems :: "string list"
  oi_resolutionNote :: "string option"
  oi_createdByUserId :: "id"
  oi_ownerAdminUserId :: "id option"
  oi_relatedJobId :: "id option"
  oi_relatedRefundRequestId :: "id option"
  oi_relatedTrustSafetyInterventionId :: "id option"
  oi_detectedAt :: "time"
  oi_assumedAt :: "time option"
  oi_resolvedAt :: "time option"
  oi_createdAt :: "time"
  oi_updatedAt :: "time"

record incidentEvent =
  ie_id :: "id"
  ie_incidentId :: "id"
  ie_eventType :: "incidentEventType"
  ie_visibility :: "eventVisibility"
  ie_title :: "string"
  ie_description :: "string"
  ie_actorUserId :: "id option"
  ie_actorName :: "string option"
  ie_createdAt :: "time"

record paymentEvent =
  pe_id :: "id"
  pe_provider :: "paymentProvider"
  pe_eventType :: "string"
  pe_externalEventId :: "string option"
  pe_providerReference :: "string option"
  pe_paymentIntentId :: "id option"
  pe_transactionId :: "id option"
  pe_payload :: "json"
  pe_signatureValid :: "bool"
  pe_processed :: "bool"
  pe_processedAt :: "time option"
  pe_createdAt :: "time"
  pe_updatedAt :: "time"

record workerProfileCategory =
  pc_workerProfileId :: "id"
  pc_categoryId :: "id"
  pc_createdAt :: "time"

record jobMessage =
  jm_id :: "id"
  jm_jobId :: "id"
  jm_senderUserId :: "id"
  jm_recipientUserId :: "id"
  jm_content :: "string"
  jm_createdAt :: "time"
  jm_readAt :: "time option"

record jobMessageAttachment =
  ja_id :: "id"
  ja_jobMessageId :: "id"
  ja_url :: "string"
  ja_key :: "string option"
  ja_contentType :: "string option"
  ja_size :: "int option"
  ja_uploadedByUserId :: "id option"
  ja_createdAt :: "time"

record trackingWorkerAggregate =
  tw_workerProfileId :: "id"
  tw_interactions :: "int"
  tw_clicks :: "int"
  tw_ctaClicks :: "int"
  tw_conversions :: "int"
  tw_lastEventAt :: "time option"
  tw_createdAt :: "time"
  tw_updatedAt :: "time"

record trackingCategoryAggregate =
  tc_categorySlug :: "id"
  tc_interactions :: "int"
  tc_lastEventAt :: "time option"
  tc_createdAt :: "time"
  tc_updatedAt :: "time"

record session =
  se_id :: "id"
  se_userId :: "id"
  se_deviceId :: "string"
  se_refreshTokenHash :: "string"
  se_createdAt :: "time"
  se_lastUsedAt :: "time"
  se_revokedAt :: "time option"
  se_ip :: "string option"
  se_userAgent :: "string option"

record passwordRecoveryRequest =
  pq_id :: "id"
  pq_email :: "string"
  pq_userId :: "id option"
  pq_status :: "recoveryStatus"
  pq_note :: "string option"
  pq_requestedAt :: "time"
  pq_startedAt :: "time option"
  pq_resolvedAt :: "time option"
  pq_resolvedByUserId :: "id option"
  pq_createdAt :: "time"
  pq_updatedAt :: "time"

record auditLog =
  al_id :: "id"
  al_actorUserId :: "id option"
  al_actorRole :: "string option"
  al_action :: "string"
  al_targetType :: "string option"
  al_targetId :: "string option"
  al_status :: "auditStatus"
  al_reason :: "string option"
  al_ipAddress :: "string option"
  al_userAgent :: "string option"
  al_route :: "string"
  al_method :: "string"
  al_metadata :: "json option"
  al_createdAt :: "time"

record reauthChallenge =
  rc_id :: "id"
  rc_userId :: "id"
  rc_tokenHash :: "string"
  rc_expiresAt :: "time"
  rc_consumedAt :: "time option"
  rc_purpose :: "string option"
  rc_ipAddress :: "string option"
  rc_userAgent :: "string option"
  rc_createdAt :: "time"

record platformSetting =
  ps_key :: "id"
  ps_value :: "json"
  ps_updatedByUserId :: "id option"
  ps_createdAt :: "time"
  ps_updatedAt :: "time"

subsection \<open>The database\<close>

record db =
  users :: "user list"
  categories :: "category list"
  workerProfiles :: "workerProfile list"
  serviceRequests :: "serviceRequest list"
  invitations :: "requestInvitation list"
  proposals :: "proposal list"
  jobs :: "job list"
  notifications :: "userNotification list"
  interventions :: "trustSafetyIntervention list"
  reviews :: "review list"
  intents :: "paymentIntent list"
  transactions :: "paymentTransaction list"
  ledger :: "ledgerEntry list"
  payouts :: "payout list"
  refunds :: "refundRequest list"
  incidents :: "operationalIncident list"
  incidentEvents :: "incidentEvent list"
  paymentEvents :: "paymentEvent list"
  profileCategories :: "workerProfileCategory list"
  messages :: "jobMessage list"
  attachments :: "jobMessageAttachment list"
  workerAggregates :: "trackingWorkerAggregate list"
  categoryAggregates :: "trackingCategoryAggregate list"
  sessions :: "session list"
  recoveryRequests :: "passwordRecoveryRequest list"
  auditLogs :: "auditLog list"
  challenges :: "reauthChallenge list"
  settings :: "platformSetting list"

definition empty_db :: db where
  "empty_db = \<lparr>users = [], categories = [], workerProfiles = [], serviceRequests = [],
     invitations = [], proposals = [], jobs = [], notifications = [], interventions = [], reviews = [],
     intents = [], transactions = [], ledger = [], payouts = [], refunds = [],
     incidents = [], incidentEvents = [], paymentEvents = [],
     profileCategories = [], messages = [], attachments = [], workerAggregates = [], categoryAggregates = [],
     sessions = [], recoveryRequests = [], auditLogs = [], challenges = [], settings = []\<rparr>"

end
