(* ===== verification/Svc.thy ===== *)
theory Svc
  imports Schema
begin

text \<open>
  How a service method runs.  The state is the \<open>world\<close>: the database and what the services
  keep in memory (the simulated gateways' operations, the registry's warnings, the metric
  counters as the list of their increments) with the number of identifiers handed out so far.
  A method is a function from the world to a result and a new world; the result is an
  exception or a value.  An exception keeps the writes made before it, as in the code, except
  inside \<^verbatim>\<open>prisma.$transaction\<close>, which rolls the database (and nothing else) back.

  The environment \<open>env\<close> holds what one request reads from outside: the clock (one reading per
  request), the identifiers that \<^verbatim>\<open>cuid()\<close>, \<^verbatim>\<open>randomUUID()\<close> and \<^verbatim>\<open>randomBytes\<close> will deliver, the
  process environment, \<^verbatim>\<open>Date.parse\<close> and \<^verbatim>\<open>toLocaleString\<close> (implementation defined), the digests of
  \<^verbatim>\<open>node:crypto\<close>, and the packages outside the repository: \<^verbatim>\<open>bcryptjs\<close>, the JWT service (a signature
  takes the secret, the claims and the lifetime; verification returns the claims of a token that
  is valid now) and the S3 presigner.
  Requests run one after another; the interleaving of two requests at their awaits is not
  modelled.
\<close>

named_theorems wp_simps
named_theorems keeps_rules

subsection \<open>World, environment, exceptions\<close>

datatype gatewayStatus = GW_PENDING | GW_SUCCEEDED | GW_FAILED | GW_REVERSED

record storedOperation =
  so_status :: gatewayStatus
  so_createdAtMs :: time
  so_reason :: "string option"

datatype metricEvent =
    BusinessEvent string string string
  | JobTransition jobStatus jobStatus string

text \<open>A tracking event as \<^verbatim>\<open>tracking.service.ts\<close> queues it.\<close>

record trackingEventRecord =
  te_name :: string
  te_timestamp :: "string option"
  te_workerId :: "string option"
  te_workerProfileId :: "string option"
  te_categorySlug :: "string option"

record world =
  w_db :: db
  w_ids :: nat
  w_ops :: "paymentProvider \<times> string \<Rightarrow> storedOperation option"
  w_warned :: "paymentProvider list"
  w_metrics :: "metricEvent list"
  w_queue :: "trackingEventRecord list"
  w_flushScheduled :: bool

record env =
  e_now :: time
  e_cuid :: "nat \<Rightarrow> string"
  e_uuid :: "nat \<Rightarrow> string"
  e_dateParse :: "string \<Rightarrow> jsnum"
  e_hmac :: "string \<Rightarrow> string \<Rightarrow> string"
  e_feeBps :: jsnum
  e_releaseDelayHours :: jsnum
  e_depositPercent :: jsnum
  e_defaultProvider :: "string option"
  e_requestExpiryHours :: jsnum
  e_requestSweepMs :: jsnum
  e_reconcileBatch :: jsnum
  e_reconcileMinAge :: jsnum
  e_reconcileProviders :: "string option"
  e_reconcileEnabled :: "string option"
  e_reconcileIntervalMs :: jsnum
  e_nodeEnv :: "string option"
  e_webhookSecretOf :: "paymentProvider \<Rightarrow> string option"
  e_webhookSecret :: "string option"
  e_webhookTolerance :: jsnum
  e_webhookSkew :: jsnum
  e_settlementOf :: "paymentProvider \<Rightarrow> jsnum option"
  e_settlement :: jsnum
  e_localeString :: "time \<Rightarrow> string"
  e_randomHex :: "nat \<Rightarrow> string"
  e_sha256 :: "string \<Rightarrow> string"
  e_bcryptHash :: "string \<Rightarrow> string"
  e_bcryptCompare :: "string \<Rightarrow> string \<Rightarrow> bool"
  e_jwtSign :: "string \<Rightarrow> json \<Rightarrow> string \<Rightarrow> string"
  e_jwtVerify :: "string \<Rightarrow> string \<Rightarrow> json option"
  e_accessSecret :: "string option"
  e_refreshSecret :: "string option"
  e_reauthTtl :: jsnum
  e_s3AccessKey :: "string option"
  e_s3SecretKey :: "string option"
  e_s3Region :: "string option"
  e_s3Bucket :: "string option"
  e_signedUrl :: "string \<Rightarrow> string \<Rightarrow> string \<Rightarrow> int \<Rightarrow> string"

datatype exn =
    BadRequestException string
  | ConflictException string
  | ForbiddenException string
  | NotFoundException string
  | GoneException string
  | UnauthorizedException string
  | PrismaError string
  | PlainError string

definition init_world :: "db \<Rightarrow> world" where
  "init_world d = \<lparr>w_db = d, w_ids = 0, w_ops = (\<lambda>_. None), w_warned = [], w_metrics = [],
     w_queue = [], w_flushScheduled = False\<rparr>"

subsection \<open>The service monad\<close>

type_synonym 'a svc = "world \<Rightarrow> (exn + 'a) \<times> world"

definition sreturn :: "'a \<Rightarrow> 'a svc" where
  "sreturn v = (\<lambda>w. (Inr v, w))"

definition sthrow :: "exn \<Rightarrow> 'a svc" where
  "sthrow e = (\<lambda>w. (Inl e, w))"

definition sbind :: "'a svc \<Rightarrow> ('a \<Rightarrow> 'b svc) \<Rightarrow> 'b svc" where
  "sbind m f = (\<lambda>w. case m w of (Inl e, w') \<Rightarrow> (Inl e, w') | (Inr v, w') \<Rightarrow> f v w')"

definition sthen :: "'a svc \<Rightarrow> 'b svc \<Rightarrow> 'b svc" where
  "sthen m k = sbind m (\<lambda>_. k)"

text \<open>\<^verbatim>\<open>if (!c) throw e\<close>.\<close>

definition sguard :: "bool \<Rightarrow> exn \<Rightarrow> unit svc" where
  "sguard c e = (if c then sreturn () else sthrow e)"

definition sget :: "(world \<Rightarrow> 'a) \<Rightarrow> 'a svc" where
  "sget f = (\<lambda>w. (Inr (f w), w))"

definition sread :: "(db \<Rightarrow> 'a) \<Rightarrow> 'a svc" where
  "sread f = (\<lambda>w. (Inr (f (w_db w)), w))"

definition smodify :: "(world \<Rightarrow> world) \<Rightarrow> unit svc" where
  "smodify f = (\<lambda>w. (Inr (), f w))"

definition swhen :: "bool \<Rightarrow> unit svc \<Rightarrow> unit svc" where
  "swhen c m = (if c then m else sreturn ())"

definition sopt :: "'a option \<Rightarrow> exn \<Rightarrow> 'a svc" where
  "sopt x e = (case x of Some v \<Rightarrow> sreturn v | None \<Rightarrow> sthrow e)"

definition transact :: "'a svc \<Rightarrow> 'a svc" where
  "transact m = (\<lambda>w. case m w of
     (Inl e, w') \<Rightarrow> (Inl e, w'\<lparr>w_db := w_db w\<rparr>) | (Inr v, w') \<Rightarrow> (Inr v, w'))"

text \<open>\<^verbatim>\<open>try { ... } catch (error) { ... }\<close>.\<close>

definition stry :: "'a svc \<Rightarrow> (exn \<Rightarrow> 'a svc) \<Rightarrow> 'a svc" where
  "stry m h = (\<lambda>w. case m w of (Inl e, w') \<Rightarrow> h e w' | (Inr v, w') \<Rightarrow> (Inr v, w'))"

primrec sfor :: "'a list \<Rightarrow> ('a \<Rightarrow> unit svc) \<Rightarrow> unit svc" where
  "sfor [] f = sreturn ()"
| "sfor (x # xs) f = sbind (f x) (\<lambda>_. sfor xs f)"

primrec sfold :: "'a list \<Rightarrow> ('s \<Rightarrow> 'a \<Rightarrow> 's svc) \<Rightarrow> 's \<Rightarrow> 's svc" where
  "sfold [] f s = sreturn s"
| "sfold (x # xs) f s = sbind (f s x) (sfold xs f)"

subsection \<open>Weakest preconditions\<close>

text \<open>
  \<open>wp m Q X w\<close>: run from \<open>w\<close>, the method \<open>m\<close> returns with \<open>Q\<close> or throws with \<open>X\<close>.  Every
  method returns or throws, so this is total correctness.  One equation per construct lets
  the simplifier compute it.
\<close>

definition wp :: "'a svc \<Rightarrow> ('a \<Rightarrow> world \<Rightarrow> bool) \<Rightarrow> (exn \<Rightarrow> world \<Rightarrow> bool) \<Rightarrow> world \<Rightarrow> bool" where
  "wp m Q X w = (case m w of (Inl e, w') \<Rightarrow> X e w' | (Inr v, w') \<Rightarrow> Q v w')"

lemma wp_sreturn [wp_simps]: "wp (sreturn v) Q X = Q v"
  by (rule ext) (simp add: wp_def sreturn_def)

lemma wp_sthrow [wp_simps]: "wp (sthrow e) Q X = X e"
  by (rule ext) (simp add: wp_def sthrow_def)

lemma wp_sbind [wp_simps]: "wp (sbind m f) Q X w = wp m (\<lambda>v. wp (f v) Q X) X w"
  by (auto simp: wp_def sbind_def split: prod.splits sum.splits)

lemma wp_sthen [wp_simps]: "wp (sthen m k) Q X w = wp m (\<lambda>_. wp k Q X) X w"
  by (simp add: sthen_def wp_sbind)

lemma wp_sguard [wp_simps]: "wp (sguard c e) Q X w = (if c then Q () w else X e w)"
  by (simp add: sguard_def wp_sreturn wp_sthrow)

lemma wp_sget [wp_simps]: "wp (sget f) Q X w = Q (f w) w"
  by (simp add: wp_def sget_def)

lemma wp_sread [wp_simps]: "wp (sread f) Q X w = Q (f (w_db w)) w"
  by (simp add: wp_def sread_def)

lemma wp_smodify [wp_simps]: "wp (smodify f) Q X w = Q () (f w)"
  by (simp add: wp_def smodify_def)

lemma wp_swhen [wp_simps]: "wp (swhen c m) Q X w = (if c then wp m Q X w else Q () w)"
  by (simp add: swhen_def wp_sreturn)

lemma wp_sopt [wp_simps]:
  "wp (sopt x e) Q X w = (case x of Some v \<Rightarrow> Q v w | None \<Rightarrow> X e w)"
  by (simp add: sopt_def wp_sreturn wp_sthrow split: option.split)

lemma wp_transact [wp_simps]:
  "wp (transact m) Q X w = wp m Q (\<lambda>e w'. X e (w'\<lparr>w_db := w_db w\<rparr>)) w"
  by (auto simp: wp_def transact_def split: prod.splits sum.splits)

lemma wp_stry [wp_simps]: "wp (stry m h) Q X w = wp m Q (\<lambda>e. wp (h e) Q X) w"
  by (auto simp: wp_def stry_def split: prod.splits sum.splits)

lemma wp_if [wp_simps]:
  "wp (if c then m else k) Q X w = (if c then wp m Q X w else wp k Q X w)"
  by simp

lemma wp_option [wp_simps]:
  "wp (case x of None \<Rightarrow> m | Some v \<Rightarrow> f v) Q X w =
     (case x of None \<Rightarrow> wp m Q X w | Some v \<Rightarrow> wp (f v) Q X w)"
  by (simp split: option.split)

lemma wp_mono:
  "wp m Q X w \<Longrightarrow> (\<And>v w'. Q v w' \<Longrightarrow> Q' v w') \<Longrightarrow> (\<And>e w'. X e w' \<Longrightarrow> X' e w') \<Longrightarrow> wp m Q' X' w"
  by (auto simp: wp_def split: prod.splits sum.splits)

lemma wp_conj: "wp m Q X w \<Longrightarrow> wp m Q' X' w \<Longrightarrow> wp m (\<lambda>v w'. Q v w' \<and> Q' v w') (\<lambda>e w'. X e w' \<and> X' e w') w"
  by (auto simp: wp_def split: prod.splits sum.splits)

text \<open>From a precondition to the run itself.\<close>

lemma wp_returned: "wp m Q X w \<Longrightarrow> m w = (Inr v, w') \<Longrightarrow> Q v w'"
  by (simp add: wp_def)

lemma wp_thrown: "wp m Q X w \<Longrightarrow> m w = (Inl e, w') \<Longrightarrow> X e w'"
  by (simp add: wp_def)

lemma wpI_run: "(\<And>v w'. m w = (Inr v, w') \<Longrightarrow> Q v w') \<Longrightarrow> (\<And>e w'. m w = (Inl e, w') \<Longrightarrow> X e w') \<Longrightarrow> wp m Q X w"
  by (auto simp: wp_def split: prod.splits sum.splits)

lemma run_wp: "m w = (Inr r, w1) \<longleftrightarrow> wp m (\<lambda>r' w2. r' = r \<and> w2 = w1) (\<lambda>_ _. False) w"
  by (auto simp: wp_def split: prod.splits sum.splits)

lemma run_wp_exn: "m w = (Inl e, w1) \<longleftrightarrow> wp m (\<lambda>_ _. False) (\<lambda>e' w2. e' = e \<and> w2 = w1) w"
  by (auto simp: wp_def split: prod.splits sum.splits)

text \<open>A returning sequence returned at every step.\<close>

lemma sbind_returned: "sbind m f w = (Inr r, w2) \<longleftrightarrow> (\<exists>v w1. m w = (Inr v, w1) \<and> f v w1 = (Inr r, w2))"
  by (auto simp: sbind_def split: prod.splits sum.splits)

subsection \<open>Invariants of the database\<close>

text \<open>\<open>keeps J m\<close>: whatever \<open>m\<close> does, return or throw, \<open>J\<close> holds of the database after it.\<close>

definition keeps :: "(db \<Rightarrow> bool) \<Rightarrow> 'a svc \<Rightarrow> bool" where
  "keeps J m \<longleftrightarrow> (\<forall>w. J (w_db w) \<longrightarrow> J (w_db (snd (m w))))"

lemma keepsD: "keeps J m \<Longrightarrow> J (w_db w) \<Longrightarrow> J (w_db (snd (m w)))"
  by (simp add: keeps_def)

lemma wp_const: "wp m (\<lambda>_. P) (\<lambda>_. P) w = P (snd (m w))"
  by (auto simp: wp_def split: prod.splits sum.splits)

lemma keeps_wp: "keeps J m \<longleftrightarrow> (\<forall>w. J (w_db w) \<longrightarrow> wp m (\<lambda>_ w'. J (w_db w')) (\<lambda>_ w'. J (w_db w')) w)"
  by (simp add: keeps_def wp_const)

lemma keeps_sreturn [keeps_rules]: "keeps J (sreturn v)"
  by (simp add: keeps_def sreturn_def)

lemma keeps_sthrow [keeps_rules]: "keeps J (sthrow e)"
  by (simp add: keeps_def sthrow_def)

lemma keeps_sguard [keeps_rules]: "keeps J (sguard c e)"
  by (simp add: keeps_def sguard_def sreturn_def sthrow_def)

lemma keeps_sget [keeps_rules]: "keeps J (sget f)"
  by (simp add: keeps_def sget_def)

lemma keeps_sread [keeps_rules]: "keeps J (sread f)"
  by (simp add: keeps_def sread_def)

lemma keeps_sopt [keeps_rules]: "keeps J (sopt x e)"
  by (simp add: sopt_def keeps_sreturn keeps_sthrow split: option.split)

lemma keeps_sbind [keeps_rules]: "keeps J m \<Longrightarrow> (\<And>v. keeps J (f v)) \<Longrightarrow> keeps J (sbind m f)"
  by (simp add: keeps_wp wp_sbind) (blast intro: wp_mono)

text \<open>When a step needs what the state promises of the value just read.\<close>

lemma keeps_sbind_when:
  assumes "keeps J m" "\<And>w. J (w_db w) \<Longrightarrow> wp m (\<lambda>v _. P v) (\<lambda>_ _. True) w"
    and "\<And>v. P v \<Longrightarrow> keeps J (f v)"
  shows "keeps J (sbind m f)"
  unfolding keeps_wp wp_sbind
proof (intro allI impI)
  fix w :: world assume J: "J (w_db w)"
  have "wp m (\<lambda>v w'. J (w_db w') \<and> P v) (\<lambda>_ w'. J (w_db w')) w"
    using assms(1) [unfolded keeps_wp, rule_format, OF J] assms(2) [OF J]
    by (auto dest: wp_conj elim: wp_mono)
  then show "wp m (\<lambda>v. wp (f v) (\<lambda>_ w'. J (w_db w')) (\<lambda>_ w'. J (w_db w'))) (\<lambda>_ w'. J (w_db w')) w"
    by (rule wp_mono) (use assms(3) in \<open>auto simp: keeps_wp\<close>)
qed

lemma keeps_sthen [keeps_rules]: "keeps J m \<Longrightarrow> keeps J k \<Longrightarrow> keeps J (sthen m k)"
  by (simp add: sthen_def keeps_sbind)

lemma keeps_swhen [keeps_rules]: "keeps J m \<Longrightarrow> keeps J (swhen c m)"
  by (simp add: swhen_def keeps_sreturn)

lemma keeps_transact [keeps_rules]: "keeps J m \<Longrightarrow> keeps J (transact m)"
  by (simp add: keeps_wp wp_transact) (blast intro: wp_mono)

lemma keeps_stry [keeps_rules]: "keeps J m \<Longrightarrow> (\<And>e. keeps J (h e)) \<Longrightarrow> keeps J (stry m h)"
  by (simp add: keeps_wp wp_stry) (blast intro: wp_mono)

lemma keeps_sfor [keeps_rules]: "(\<And>x. keeps J (f x)) \<Longrightarrow> keeps J (sfor xs f)"
  by (induction xs) (simp_all add: keeps_sreturn keeps_sbind)

lemma keeps_sfold [keeps_rules]: "(\<And>s x. keeps J (f s x)) \<Longrightarrow> keeps J (sfold xs f s)"
  by (induction xs arbitrary: s) (simp_all add: keeps_sreturn keeps_sbind)

lemma keeps_if [keeps_rules]: "keeps J m \<Longrightarrow> keeps J k \<Longrightarrow> keeps J (if c then m else k)"
  by simp

lemma keeps_option [keeps_rules]:
  "keeps J m \<Longrightarrow> (\<And>v. keeps J (f v)) \<Longrightarrow> keeps J (case x of None \<Rightarrow> m | Some v \<Rightarrow> f v)"
  by (simp split: option.split)

lemma keeps_let [keeps_rules]: "(\<And>v. keeps J (f v)) \<Longrightarrow> keeps J (Let x f)"
  by simp

lemma keeps_smodify: "(\<And>w. J (w_db w) \<Longrightarrow> J (w_db (f w))) \<Longrightarrow> keeps J (smodify f)"
  by (simp add: keeps_def smodify_def)

text \<open>Atomicity: an exception inside a transaction leaves the database as it was.\<close>

lemma transact_atomic: "transact m w = (Inl e, w') \<Longrightarrow> w_db w' = w_db w"
  by (auto simp: transact_def split: prod.splits sum.splits)

subsection \<open>Tables\<close>

text \<open>
  A Prisma model delegate: how to read and replace the rows of its table, its identifier, its
  \<^verbatim>\<open>@updatedAt\<close> column, and which two rows break a unique constraint other than the
  identifier's.
\<close>

record 'r tbl =
  t_rows :: "db \<Rightarrow> 'r list"
  t_put :: "'r list \<Rightarrow> db \<Rightarrow> db"
  t_key :: "'r \<Rightarrow> id"
  t_touch :: "time \<Rightarrow> 'r \<Rightarrow> 'r"
  t_clash :: "'r \<Rightarrow> 'r \<Rightarrow> bool"

definition find_row :: "'r tbl \<Rightarrow> id \<Rightarrow> db \<Rightarrow> 'r option" where
  "find_row T i d = find (\<lambda>r. t_key T r = i) (t_rows T d)"

definition upd_rows :: "'r tbl \<Rightarrow> time \<Rightarrow> ('r \<Rightarrow> bool) \<Rightarrow> ('r \<Rightarrow> 'r) \<Rightarrow> db \<Rightarrow> db" where
  "upd_rows T n P f d = t_put T (map (\<lambda>r. if P r then t_touch T n (f r) else r) (t_rows T d)) d"

text \<open>\<^verbatim>\<open>findUnique\<close>, by the identifier or by another unique column.\<close>

definition findUnique :: "'r tbl \<Rightarrow> id \<Rightarrow> 'r option svc" where
  "findUnique T i = sread (find_row T i)"

definition findBy :: "'r tbl \<Rightarrow> ('r \<Rightarrow> bool) \<Rightarrow> 'r option svc" where
  "findBy T P = sread (\<lambda>d. find P (t_rows T d))"

definition findUniqueOrThrow :: "'r tbl \<Rightarrow> id \<Rightarrow> 'r svc" where
  "findUniqueOrThrow T i = sbind (findUnique T i) (\<lambda>x. sopt x (PrismaError ''P2025''))"

text \<open>\<^verbatim>\<open>const r = await findUnique(...); if (!r) throw e\<close>.\<close>

definition require :: "'r tbl \<Rightarrow> id \<Rightarrow> exn \<Rightarrow> 'r svc" where
  "require T i e = sbind (findUnique T i) (\<lambda>x. sopt x e)"

definition findMany :: "'r tbl \<Rightarrow> ('r \<Rightarrow> bool) \<Rightarrow> 'r list svc" where
  "findMany T P = sread (\<lambda>d. filter P (t_rows T d))"

definition findFirstDesc :: "'r tbl \<Rightarrow> ('r \<Rightarrow> 'k::linorder) \<Rightarrow> ('r \<Rightarrow> bool) \<Rightarrow> 'r option svc" where
  "findFirstDesc T k P = sread (\<lambda>d. first_of (sort_desc k (filter P (t_rows T d))))"

definition countRows :: "'r tbl \<Rightarrow> ('r \<Rightarrow> bool) \<Rightarrow> nat svc" where
  "countRows T P = sread (\<lambda>d. length (filter P (t_rows T d)))"

text \<open>\<^verbatim>\<open>create\<close>: a fresh identifier, refused when a unique constraint breaks.\<close>

definition create :: "env \<Rightarrow> 'r tbl \<Rightarrow> (id \<Rightarrow> 'r) \<Rightarrow> 'r svc" where
  "create E T mk = (\<lambda>w.
     let r = mk (e_cuid E (w_ids w)); w' = w\<lparr>w_ids := Suc (w_ids w)\<rparr> in
     if \<exists>x \<in> set (t_rows T (w_db w)). t_key T x = t_key T r \<or> t_clash T x r
     then (Inl (PrismaError ''P2002''), w')
     else (Inr r, w'\<lparr>w_db := t_put T (t_rows T (w_db w) @ [r]) (w_db w)\<rparr>))"

text \<open>\<^verbatim>\<open>createMany\<close> is one statement: it inserts every row or none.\<close>

primrec createRows :: "env \<Rightarrow> 'r tbl \<Rightarrow> (id \<Rightarrow> 'r) list \<Rightarrow> unit svc" where
  "createRows E T [] = sreturn ()"
| "createRows E T (mk # mks) = sbind (create E T mk) (\<lambda>_. createRows E T mks)"

definition createMany :: "env \<Rightarrow> 'r tbl \<Rightarrow> (id \<Rightarrow> 'r) list \<Rightarrow> unit svc" where
  "createMany E T mks = transact (createRows E T mks)"

text \<open>
  \<^verbatim>\<open>update\<close> by identifier fails when there is no such row; \<^verbatim>\<open>updateMany\<close> returns the number of
  rows it changed.  No update of the modelled services writes a unique column twice.
\<close>

definition update :: "env \<Rightarrow> 'r tbl \<Rightarrow> id \<Rightarrow> ('r \<Rightarrow> 'r) \<Rightarrow> 'r svc" where
  "update E T i f = (\<lambda>w. case find_row T i (w_db w) of
     None \<Rightarrow> (Inl (PrismaError ''P2025''), w)
   | Some r \<Rightarrow> (Inr (t_touch T (e_now E) (f r)),
       w\<lparr>w_db := upd_rows T (e_now E) (\<lambda>r. t_key T r = i) f (w_db w)\<rparr>))"

definition updateMany :: "env \<Rightarrow> 'r tbl \<Rightarrow> ('r \<Rightarrow> bool) \<Rightarrow> ('r \<Rightarrow> 'r) \<Rightarrow> nat svc" where
  "updateMany E T P f = (\<lambda>w. (Inr (length (filter P (t_rows T (w_db w)))),
     w\<lparr>w_db := upd_rows T (e_now E) P f (w_db w)\<rparr>))"

lemma wp_findUnique [wp_simps]: "wp (findUnique T i) Q X w = Q (find_row T i (w_db w)) w"
  by (simp add: findUnique_def wp_sread)

lemma wp_findBy [wp_simps]: "wp (findBy T P) Q X w = Q (find P (t_rows T (w_db w))) w"
  by (simp add: findBy_def wp_sread)

lemma wp_findUniqueOrThrow [wp_simps]: "wp (findUniqueOrThrow T i) Q X w =
    (case find_row T i (w_db w) of Some r \<Rightarrow> Q r w | None \<Rightarrow> X (PrismaError ''P2025'') w)"
  by (simp add: findUniqueOrThrow_def wp_simps)

lemma wp_require [wp_simps]: "wp (require T i e) Q X w =
    (case find_row T i (w_db w) of Some r \<Rightarrow> Q r w | None \<Rightarrow> X e w)"
  by (simp add: require_def wp_simps)

lemma wp_findMany [wp_simps]: "wp (findMany T P) Q X w = Q (filter P (t_rows T (w_db w))) w"
  by (simp add: findMany_def wp_sread)

lemma wp_findFirstDesc [wp_simps]: "wp (findFirstDesc T k P) Q X w =
    Q (first_of (sort_desc k (filter P (t_rows T (w_db w))))) w"
  by (simp add: findFirstDesc_def wp_sread)

lemma wp_countRows [wp_simps]: "wp (countRows T P) Q X w = Q (length (filter P (t_rows T (w_db w)))) w"
  by (simp add: countRows_def wp_sread)

lemma wp_create [wp_simps]: "wp (create E T mk) Q X w =
    (let r = mk (e_cuid E (w_ids w)); w' = w\<lparr>w_ids := Suc (w_ids w)\<rparr> in
     if \<exists>x \<in> set (t_rows T (w_db w)). t_key T x = t_key T r \<or> t_clash T x r
     then X (PrismaError ''P2002'') w'
     else Q r (w'\<lparr>w_db := t_put T (t_rows T (w_db w) @ [r]) (w_db w)\<rparr>))"
  by (simp add: wp_def create_def Let_def)

lemma wp_update [wp_simps]: "wp (update E T i f) Q X w =
    (case find_row T i (w_db w) of
       None \<Rightarrow> X (PrismaError ''P2025'') w
     | Some r \<Rightarrow> Q (t_touch T (e_now E) (f r))
         (w\<lparr>w_db := upd_rows T (e_now E) (\<lambda>r. t_key T r = i) f (w_db w)\<rparr>))"
  by (simp add: wp_def update_def split: option.split)

lemma wp_updateMany [wp_simps]: "wp (updateMany E T P f) Q X w =
    Q (length (filter P (t_rows T (w_db w)))) (w\<lparr>w_db := upd_rows T (e_now E) P f (w_db w)\<rparr>)"
  by (simp add: wp_def updateMany_def)

lemma find_row_SomeD: "find_row T i d = Some r \<Longrightarrow> r \<in> set (t_rows T d) \<and> t_key T r = i"
  by (auto simp: find_row_def find_Some_iff)

subsection \<open>What an invariant needs of a table\<close>

text \<open>\<open>frames J T\<close>: the invariant \<open>J\<close> does not look at the table \<open>T\<close>.\<close>

definition frames :: "(db \<Rightarrow> bool) \<Rightarrow> 'r tbl \<Rightarrow> bool" where
  "frames J T \<longleftrightarrow> (\<forall>d xs. J (t_put T xs d) = J d)"

lemma keeps_findUnique [keeps_rules]: "keeps J (findUnique T i)"
  by (simp add: findUnique_def keeps_sread)

lemma keeps_findBy [keeps_rules]: "keeps J (findBy T P)"
  by (simp add: findBy_def keeps_sread)

lemma keeps_findUniqueOrThrow [keeps_rules]: "keeps J (findUniqueOrThrow T i)"
  by (simp add: findUniqueOrThrow_def keeps_sbind keeps_findUnique keeps_sopt)

lemma keeps_require [keeps_rules]: "keeps J (require T i e)"
  by (simp add: require_def keeps_sbind keeps_findUnique keeps_sopt)

lemma keeps_require_when:
  assumes "\<And>d r. J d \<Longrightarrow> find_row T i d = Some r \<Longrightarrow> P r" "\<And>r. P r \<Longrightarrow> keeps J (f r)"
  shows "keeps J (sbind (require T i e) f)"
  by (rule keeps_sbind_when [where P = P])
    (use assms in \<open>auto simp: keeps_require wp_require split: option.split\<close>)

lemma keeps_findMany [keeps_rules]: "keeps J (findMany T P)"
  by (simp add: findMany_def keeps_sread)

lemma keeps_findFirstDesc [keeps_rules]: "keeps J (findFirstDesc T k P)"
  by (simp add: findFirstDesc_def keeps_sread)

lemma keeps_countRows [keeps_rules]: "keeps J (countRows T P)"
  by (simp add: countRows_def keeps_sread)

lemma keeps_create_frame: "frames J T \<Longrightarrow> keeps J (create E T mk)"
  by (simp add: keeps_wp wp_simps frames_def Let_def)

lemma keeps_createMany_frame: "frames J T \<Longrightarrow> keeps J (createMany E T mks)"
  unfolding createMany_def
  by (rule keeps_transact, induction mks)
    (simp_all add: keeps_sreturn keeps_sbind keeps_create_frame)

lemma keeps_update_frame: "frames J T \<Longrightarrow> keeps J (update E T i f)"
  by (simp add: keeps_wp wp_simps frames_def upd_rows_def split: option.split)

lemma keeps_updateMany_frame: "frames J T \<Longrightarrow> keeps J (updateMany E T P f)"
  by (simp add: keeps_wp wp_simps frames_def upd_rows_def)

lemmas keeps_frame = keeps_create_frame keeps_createMany_frame keeps_update_frame
  keeps_updateMany_frame

text \<open>Only the table itself and the identifier counter change.\<close>

lemma wp_createRows:
  assumes "\<And>xs d. t_rows T (t_put T xs d) = xs" "\<And>xs ys d. t_put T xs (t_put T ys d) = t_put T xs d"
    and "\<And>d. t_put T (t_rows T d) d = d"
    and "\<And>ids w'. \<lbrakk>length ids = length mks;
        w' = w\<lparr>w_ids := w_ids w + length mks,
          w_db := t_put T (t_rows T (w_db w) @ map2 (\<lambda>mk i. mk i) mks ids) (w_db w)\<rparr>\<rbrakk> \<Longrightarrow> Q () w'"
    and "\<And>e w' n d. w' = w\<lparr>w_ids := n, w_db := d\<rparr> \<Longrightarrow> X e w'"
  shows "wp (createRows E T mks) Q X w"
  using assms(4,5)
proof (induction mks arbitrary: w)
  case Nil
  have "Q () w"
    by (rule Nil.prems(1) [of "[]"]) (simp_all add: assms(3))
  then show ?case by (simp add: wp_simps)
next
  case (Cons mk mks)
  let ?i = "e_cuid E (w_ids w)"
  let ?w = "w\<lparr>w_ids := Suc (w_ids w), w_db := t_put T (t_rows T (w_db w) @ [mk ?i]) (w_db w)\<rparr>"
  have "wp (createRows E T mks) Q X ?w"
  proof (rule Cons.IH)
    fix ids w' assume "length ids = length mks"
      and "w' = ?w\<lparr>w_ids := w_ids ?w + length mks,
        w_db := t_put T (t_rows T (w_db ?w) @ map2 (\<lambda>mk i. mk i) mks ids) (w_db ?w)\<rparr>"
    then show "Q () w'"
      by (intro Cons.prems(1) [of "?i # ids"]) (simp_all add: assms(1,2))
  next
    fix e w' n d assume "w' = ?w\<lparr>w_ids := n, w_db := d\<rparr>"
    then show "X e w'" by (intro Cons.prems(2) [where n = n and d = d]) simp
  qed
  moreover have "X e (w\<lparr>w_ids := Suc (w_ids w)\<rparr>)" for e
    by (rule Cons.prems(2) [where n = "Suc (w_ids w)" and d = "w_db w"]) simp
  ultimately show ?case by (simp add: wp_simps Let_def)
qed

lemma wp_createMany:
  assumes "\<And>xs d. t_rows T (t_put T xs d) = xs" "\<And>xs ys d. t_put T xs (t_put T ys d) = t_put T xs d"
    and "\<And>d. t_put T (t_rows T d) d = d"
    and "\<And>ids w'. \<lbrakk>length ids = length mks;
        w' = w\<lparr>w_ids := w_ids w + length mks,
          w_db := t_put T (t_rows T (w_db w) @ map2 (\<lambda>mk i. mk i) mks ids) (w_db w)\<rparr>\<rbrakk> \<Longrightarrow> Q () w'"
    and "\<And>e w' n. w' = w\<lparr>w_ids := n\<rparr> \<Longrightarrow> X e w'"
  shows "wp (createMany E T mks) Q X w"
  unfolding createMany_def wp_transact
  by (rule wp_createRows) (use assms in auto)

text \<open>Steps that do look at the table: the invariant survives the appended or changed rows.\<close>

lemma keeps_create:
  assumes "\<And>d i. J d \<Longrightarrow> (\<forall>x \<in> set (t_rows T d). t_key T x \<noteq> t_key T (mk i) \<and> \<not> t_clash T x (mk i))
      \<Longrightarrow> J (t_put T (t_rows T d @ [mk i]) d)"
  shows "keeps J (create E T mk)"
  using assms by (auto simp: keeps_wp wp_simps Let_def)

lemma keeps_update:
  assumes "\<And>d n. J d \<Longrightarrow> J (upd_rows T n (\<lambda>r. t_key T r = i) f d)"
  shows "keeps J (update E T i f)"
  using assms by (simp add: keeps_wp wp_simps split: option.split)

text \<open>Read a row, then write what was computed from it.\<close>

lemma keeps_read_update:
  assumes "\<And>d r n. J d \<Longrightarrow> find_row T i d = Some r \<Longrightarrow> J (upd_rows T n (\<lambda>x. t_key T x = i) (f r) d)"
    and "\<And>r. keeps J (k r)"
  shows "keeps J (sbind (require T i e) (\<lambda>r. sthen (sbind (update E T i (f r)) (\<lambda>_. sreturn ())) (k r)))"
  using assms by (auto simp: keeps_wp wp_simps split: option.splits)

lemma keeps_first_update:
  assumes "\<And>d r n. J d \<Longrightarrow> r \<in> set (t_rows T d) \<Longrightarrow> J (upd_rows T n (\<lambda>x. t_key T x = g r) (f r) d)"
    and "\<And>r. keeps J (k r)"
  shows "keeps J (sbind (findFirstDesc T ord P) (\<lambda>x. case x of None \<Rightarrow> sreturn v
    | Some r \<Rightarrow> sthen (sbind (update E T (g r) (f r)) (\<lambda>_. sreturn ())) (k r)))"
  using assms
  by (auto simp: keeps_wp wp_simps split: option.splits dest!: first_of_SomeD)

lemma keeps_updateMany:
  assumes "\<And>d n. J d \<Longrightarrow> J (upd_rows T n P f d)"
  shows "keeps J (updateMany E T P f)"
  using assms by (simp add: keeps_wp wp_simps)

end
