(* ===== verification/Tables.thy ===== *)
theory Tables
  imports Svc
begin

text \<open>
  The tables of the schema as Prisma delegates, with their unique constraints, and the
  interface \<open>lawful_table\<close> of a delegate: what a read returns after a create or an update and
  that identifiers stay unique.  Each table interprets it.
\<close>

text \<open>A unique index ignores null.\<close>

definition both_eq :: "'a option \<Rightarrow> 'a option \<Rightarrow> bool" where
  "both_eq x y \<longleftrightarrow> x \<noteq> None \<and> x = y"

lemma both_eq_simps [simp]: "\<not> both_eq None y" "\<not> both_eq x None" "both_eq (Some a) (Some b) = (a = b)"
  by (auto simp: both_eq_def)

subsection \<open>The interface of a table\<close>

definition unique_ids :: "'r tbl \<Rightarrow> db \<Rightarrow> bool" where
  "unique_ids T d \<longleftrightarrow> distinct (map (t_key T) (t_rows T d))"

locale lawful_table =
  fixes T :: "'r tbl"
  assumes rows_put: "t_rows T (t_put T xs d) = xs"
    and put_put: "t_put T xs (t_put T ys d) = t_put T xs d"
    and put_rows: "t_put T (t_rows T d) d = d"
    and key_touch: "t_key T (t_touch T n r) = t_key T r"
begin

lemma rows_upd: "t_rows T (upd_rows T n P f d) = map (\<lambda>r. if P r then t_touch T n (f r) else r) (t_rows T d)"
  by (simp add: upd_rows_def rows_put)

lemma ball_upd:
  "(\<forall>x \<in> set (t_rows T (upd_rows T n P f d)). Q x) \<longleftrightarrow>
    (\<forall>r \<in> set (t_rows T d). if P r then Q (t_touch T n (f r)) else Q r)"
  by (auto simp: rows_upd split: if_splits)

lemma filter_upd:
  assumes "\<And>r. P r \<Longrightarrow> \<not> R r \<and> \<not> R (t_touch T n (f r))"
  shows "filter R (t_rows T (upd_rows T n P f d)) = filter R (t_rows T d)"
proof -
  have "filter R (map (\<lambda>r. if P r then t_touch T n (f r) else r) xs) = filter R xs" for xs
    using assms by (induction xs) auto
  then show ?thesis by (simp add: rows_upd)
qed

text \<open>A column that the update does not write keeps its values, row by row.\<close>

lemma map_upd:
  assumes "\<And>r. g (t_touch T n (f r)) = g r"
  shows "map g (t_rows T (upd_rows T n P f d)) = map g (t_rows T d)"
  by (simp add: rows_upd assms)

lemma find_row_append:
  assumes "\<forall>x \<in> set (t_rows T d). t_key T x \<noteq> t_key T r"
  shows "find_row T i (t_put T (t_rows T d @ [r]) d) =
    (if i = t_key T r then Some r else find_row T i d)"
proof -
  have "find (\<lambda>x. t_key T x = i) (xs @ [r]) =
      (if i = t_key T r then Some r else find (\<lambda>x. t_key T x = i) xs)"
    if "\<forall>x \<in> set xs. t_key T x \<noteq> t_key T r" for xs
    using that by (induction xs) auto
  with assms show ?thesis by (simp add: find_row_def rows_put)
qed

lemma find_row_upd:
  assumes "\<And>r. t_key T (f r) = t_key T r"
  shows "find_row T i (upd_rows T n P f d) =
    map_option (\<lambda>r. if P r then t_touch T n (f r) else r) (find_row T i d)"
proof -
  have "find (\<lambda>r. t_key T r = i) (map (\<lambda>r. if P r then t_touch T n (f r) else r) xs) =
      map_option (\<lambda>r. if P r then t_touch T n (f r) else r) (find (\<lambda>r. t_key T r = i) xs)" for xs
    by (induction xs) (auto simp: key_touch assms)
  then show ?thesis by (simp add: find_row_def rows_upd)
qed

lemma unique_ids_append:
  "unique_ids T d \<Longrightarrow> \<forall>x \<in> set (t_rows T d). t_key T x \<noteq> t_key T r \<Longrightarrow>
    unique_ids T (t_put T (t_rows T d @ [r]) d)"
  by (auto simp: unique_ids_def rows_put)

lemma unique_ids_upd:
  assumes "\<And>r. t_key T (f r) = t_key T r"
  shows "unique_ids T (upd_rows T n P f d) = unique_ids T d"
proof -
  have "t_key T \<circ> (\<lambda>r. if P r then t_touch T n (f r) else r) = t_key T"
    by (rule ext) (simp add: key_touch assms)
  then show ?thesis by (simp add: unique_ids_def rows_upd)
qed

lemma find_row_unique:
  "unique_ids T d \<Longrightarrow> r \<in> set (t_rows T d) \<Longrightarrow> find_row T (t_key T r) d = Some r"
proof -
  have "find (\<lambda>x. t_key T x = t_key T r) xs = Some r"
    if "distinct (map (t_key T) xs)" "r \<in> set xs" for xs
    using that by (induction xs) force+
  then show "unique_ids T d \<Longrightarrow> r \<in> set (t_rows T d) \<Longrightarrow> find_row T (t_key T r) d = Some r"
    by (simp add: unique_ids_def find_row_def)
qed

lemma unique_row: "unique_ids T d \<Longrightarrow> find_row T i d = Some r \<Longrightarrow> x \<in> set (t_rows T d) \<Longrightarrow> t_key T x = i \<Longrightarrow> x = r"
  using find_row_unique by fastforce

text \<open>Updating the one row with an identifier keeps what holds of every row.\<close>

lemma ball_upd_row:
  assumes "unique_ids T d" "find_row T i d = Some r" "\<forall>x \<in> set (t_rows T d). Q x"
    and "Q (t_touch T n (f r))"
  shows "\<forall>x \<in> set (t_rows T (upd_rows T n (\<lambda>x. t_key T x = i) f d)). Q x"
  using assms unique_row [OF assms(1,2)] by (auto simp: ball_upd)

lemma keeps_unique_create: "keeps (unique_ids T) (create E T mk)"
  by (rule keeps_create) (simp add: unique_ids_append)

lemma keeps_unique_update:
  "(\<And>r. t_key T (f r) = t_key T r) \<Longrightarrow> keeps (unique_ids T) (update E T i f)"
  by (rule keeps_update) (simp add: unique_ids_upd)

lemma keeps_unique_updateMany:
  "(\<And>r. t_key T (f r) = t_key T r) \<Longrightarrow> keeps (unique_ids T) (updateMany E T P f)"
  by (rule keeps_updateMany) (simp add: unique_ids_upd)

text \<open>A created row is the one found under the identifier it got.\<close>

lemma create_then_find:
  assumes "create E T mk w = (Inr r, w')"
  shows "find_row T (t_key T r) (w_db w') = Some r"
  using assms find_row_append [of "w_db w" r "t_key T r"]
  by (auto simp: create_def Let_def split: if_splits)

lemma update_then_find:
  assumes "update E T i f w = (Inr r, w')" "\<And>r. t_key T (f r) = t_key T r"
  shows "find_row T i (w_db w') = Some r"
  using assms find_row_SomeD [of T i "w_db w"]
  by (auto simp: update_def find_row_upd split: option.splits)

end

subsection \<open>The tables\<close>

definition users_t :: "user tbl" where
  "users_t = \<lparr>t_rows = users, t_put = (\<lambda>xs d. d\<lparr>users := xs\<rparr>), t_key = us_id,
     t_touch = (\<lambda>n r. r\<lparr>us_updatedAt := n\<rparr>),
     t_clash = (\<lambda>a b. us_email a = us_email b)\<rparr>"

definition categories_t :: "category tbl" where
  "categories_t = \<lparr>t_rows = categories, t_put = (\<lambda>xs d. d\<lparr>categories := xs\<rparr>), t_key = ca_id,
     t_touch = (\<lambda>n r. r\<lparr>ca_updatedAt := n\<rparr>),
     t_clash = (\<lambda>a b. ca_name a = ca_name b \<or> ca_slug a = ca_slug b)\<rparr>"

definition workerProfiles_t :: "workerProfile tbl" where
  "workerProfiles_t = \<lparr>t_rows = workerProfiles, t_put = (\<lambda>xs d. d\<lparr>workerProfiles := xs\<rparr>), t_key = wp_id,
     t_touch = (\<lambda>n r. r\<lparr>wp_updatedAt := n\<rparr>),
     t_clash = (\<lambda>a b. wp_userId a = wp_userId b)\<rparr>"

definition serviceRequests_t :: "serviceRequest tbl" where
  "serviceRequests_t = \<lparr>t_rows = serviceRequests, t_put = (\<lambda>xs d. d\<lparr>serviceRequests := xs\<rparr>), t_key = sr_id,
     t_touch = (\<lambda>n r. r\<lparr>sr_updatedAt := n\<rparr>),
     t_clash = (\<lambda>a b. both_eq (sr_selectedProposalId a) (sr_selectedProposalId b))\<rparr>"

definition invitations_t :: "requestInvitation tbl" where
  "invitations_t = \<lparr>t_rows = invitations, t_put = (\<lambda>xs d. d\<lparr>invitations := xs\<rparr>), t_key = ri_id,
     t_touch = (\<lambda>n r. r\<lparr>ri_updatedAt := n\<rparr>),
     t_clash = (\<lambda>a b. ri_requestId a = ri_requestId b \<and> ri_providerUserId a = ri_providerUserId b)\<rparr>"

definition proposals_t :: "proposal tbl" where
  "proposals_t = \<lparr>t_rows = proposals, t_put = (\<lambda>xs d. d\<lparr>proposals := xs\<rparr>), t_key = pr_id,
     t_touch = (\<lambda>n r. r\<lparr>pr_updatedAt := n\<rparr>),
     t_clash = (\<lambda>a b. pr_requestId a = pr_requestId b \<and> pr_providerId a = pr_providerId b)\<rparr>"

definition jobs_t :: "job tbl" where
  "jobs_t = \<lparr>t_rows = jobs, t_put = (\<lambda>xs d. d\<lparr>jobs := xs\<rparr>), t_key = jb_id,
     t_touch = (\<lambda>n r. r\<lparr>jb_updatedAt := n\<rparr>),
     t_clash = (\<lambda>a b. both_eq (jb_requestId a) (jb_requestId b) \<or> both_eq (jb_proposalId a) (jb_proposalId b))\<rparr>"

definition notifications_t :: "userNotification tbl" where
  "notifications_t = \<lparr>t_rows = notifications, t_put = (\<lambda>xs d. d\<lparr>notifications := xs\<rparr>), t_key = un_id,
     t_touch = (\<lambda>n r. r\<lparr>un_updatedAt := n\<rparr>),
     t_clash = (\<lambda>a b. False)\<rparr>"

definition interventions_t :: "trustSafetyIntervention tbl" where
  "interventions_t = \<lparr>t_rows = interventions, t_put = (\<lambda>xs d. d\<lparr>interventions := xs\<rparr>), t_key = ti_id,
     t_touch = (\<lambda>n r. r\<lparr>ti_updatedAt := n\<rparr>),
     t_clash = (\<lambda>a b. False)\<rparr>"

definition reviews_t :: "review tbl" where
  "reviews_t = \<lparr>t_rows = reviews, t_put = (\<lambda>xs d. d\<lparr>reviews := xs\<rparr>), t_key = rv_id,
     t_touch = (\<lambda>n r. r\<lparr>rv_updatedAt := n\<rparr>),
     t_clash = (\<lambda>a b. rv_jobId a = rv_jobId b)\<rparr>"

definition intents_t :: "paymentIntent tbl" where
  "intents_t = \<lparr>t_rows = intents, t_put = (\<lambda>xs d. d\<lparr>intents := xs\<rparr>), t_key = pi_id,
     t_touch = (\<lambda>n r. r\<lparr>pi_updatedAt := n\<rparr>),
     t_clash = (\<lambda>a b. False)\<rparr>"

definition transactions_t :: "paymentTransaction tbl" where
  "transactions_t = \<lparr>t_rows = transactions, t_put = (\<lambda>xs d. d\<lparr>transactions := xs\<rparr>), t_key = tx_id,
     t_touch = (\<lambda>n r. r\<lparr>tx_updatedAt := n\<rparr>),
     t_clash = (\<lambda>a b. tx_idempotencyKey a = tx_idempotencyKey b \<or>
       tx_provider a = tx_provider b \<and> both_eq (tx_providerReference a) (tx_providerReference b))\<rparr>"

definition ledger_t :: "ledgerEntry tbl" where
  "ledger_t = \<lparr>t_rows = ledger, t_put = (\<lambda>xs d. d\<lparr>ledger := xs\<rparr>), t_key = le_id,
     t_touch = (\<lambda>_ r. r),
     t_clash = (\<lambda>a b. False)\<rparr>"

definition payouts_t :: "payout tbl" where
  "payouts_t = \<lparr>t_rows = payouts, t_put = (\<lambda>xs d. d\<lparr>payouts := xs\<rparr>), t_key = po_id,
     t_touch = (\<lambda>n r. r\<lparr>po_updatedAt := n\<rparr>),
     t_clash = (\<lambda>a b. False)\<rparr>"

definition refunds_t :: "refundRequest tbl" where
  "refunds_t = \<lparr>t_rows = refunds, t_put = (\<lambda>xs d. d\<lparr>refunds := xs\<rparr>), t_key = rf_id,
     t_touch = (\<lambda>n r. r\<lparr>rf_updatedAt := n\<rparr>),
     t_clash = (\<lambda>a b. False)\<rparr>"

definition incidents_t :: "operationalIncident tbl" where
  "incidents_t = \<lparr>t_rows = incidents, t_put = (\<lambda>xs d. d\<lparr>incidents := xs\<rparr>), t_key = oi_id,
     t_touch = (\<lambda>n r. r\<lparr>oi_updatedAt := n\<rparr>),
     t_clash = (\<lambda>a b. False)\<rparr>"

definition incidentEvents_t :: "incidentEvent tbl" where
  "incidentEvents_t = \<lparr>t_rows = incidentEvents, t_put = (\<lambda>xs d. d\<lparr>incidentEvents := xs\<rparr>), t_key = ie_id,
     t_touch = (\<lambda>_ r. r),
     t_clash = (\<lambda>a b. False)\<rparr>"

definition paymentEvents_t :: "paymentEvent tbl" where
  "paymentEvents_t = \<lparr>t_rows = paymentEvents, t_put = (\<lambda>xs d. d\<lparr>paymentEvents := xs\<rparr>), t_key = pe_id,
     t_touch = (\<lambda>n r. r\<lparr>pe_updatedAt := n\<rparr>),
     t_clash = (\<lambda>a b. pe_provider a = pe_provider b \<and> both_eq (pe_externalEventId a) (pe_externalEventId b))\<rparr>"

definition messages_t :: "jobMessage tbl" where
  "messages_t = \<lparr>t_rows = messages, t_put = (\<lambda>xs d. d\<lparr>messages := xs\<rparr>), t_key = jm_id,
     t_touch = (\<lambda>n r. r),
     t_clash = (\<lambda>a b. False)\<rparr>"

definition attachments_t :: "jobMessageAttachment tbl" where
  "attachments_t = \<lparr>t_rows = attachments, t_put = (\<lambda>xs d. d\<lparr>attachments := xs\<rparr>), t_key = ja_id,
     t_touch = (\<lambda>n r. r),
     t_clash = (\<lambda>a b. False)\<rparr>"

definition workerAggregates_t :: "trackingWorkerAggregate tbl" where
  "workerAggregates_t = \<lparr>t_rows = workerAggregates, t_put = (\<lambda>xs d. d\<lparr>workerAggregates := xs\<rparr>), t_key = tw_workerProfileId,
     t_touch = (\<lambda>n r. r\<lparr>tw_updatedAt := n\<rparr>),
     t_clash = (\<lambda>a b. False)\<rparr>"

definition categoryAggregates_t :: "trackingCategoryAggregate tbl" where
  "categoryAggregates_t = \<lparr>t_rows = categoryAggregates, t_put = (\<lambda>xs d. d\<lparr>categoryAggregates := xs\<rparr>), t_key = tc_categorySlug,
     t_touch = (\<lambda>n r. r\<lparr>tc_updatedAt := n\<rparr>),
     t_clash = (\<lambda>a b. False)\<rparr>"

definition sessions_t :: "session tbl" where
  "sessions_t = \<lparr>t_rows = sessions, t_put = (\<lambda>xs d. d\<lparr>sessions := xs\<rparr>), t_key = se_id,
     t_touch = (\<lambda>n r. r),
     t_clash = (\<lambda>a b. se_refreshTokenHash a = se_refreshTokenHash b)\<rparr>"

definition recoveryRequests_t :: "passwordRecoveryRequest tbl" where
  "recoveryRequests_t = \<lparr>t_rows = recoveryRequests, t_put = (\<lambda>xs d. d\<lparr>recoveryRequests := xs\<rparr>), t_key = pq_id,
     t_touch = (\<lambda>n r. r\<lparr>pq_updatedAt := n\<rparr>),
     t_clash = (\<lambda>a b. False)\<rparr>"

definition auditLogs_t :: "auditLog tbl" where
  "auditLogs_t = \<lparr>t_rows = auditLogs, t_put = (\<lambda>xs d. d\<lparr>auditLogs := xs\<rparr>), t_key = al_id,
     t_touch = (\<lambda>n r. r),
     t_clash = (\<lambda>a b. False)\<rparr>"

definition challenges_t :: "reauthChallenge tbl" where
  "challenges_t = \<lparr>t_rows = challenges, t_put = (\<lambda>xs d. d\<lparr>challenges := xs\<rparr>), t_key = rc_id,
     t_touch = (\<lambda>n r. r),
     t_clash = (\<lambda>a b. rc_tokenHash a = rc_tokenHash b)\<rparr>"

definition settings_t :: "platformSetting tbl" where
  "settings_t = \<lparr>t_rows = settings, t_put = (\<lambda>xs d. d\<lparr>settings := xs\<rparr>), t_key = ps_key,
     t_touch = (\<lambda>n r. r\<lparr>ps_updatedAt := n\<rparr>),
     t_clash = (\<lambda>a b. False)\<rparr>"

lemma users_t_simps [simp]:
  "t_rows users_t = users" "t_put users_t xs d = d\<lparr>users := xs\<rparr>" "t_key users_t = us_id"
  "t_touch users_t n r = r\<lparr>us_updatedAt := n\<rparr>"
  "t_clash users_t a b = (us_email a = us_email b)"
  by (simp_all add: users_t_def)

lemma categories_t_simps [simp]:
  "t_rows categories_t = categories" "t_put categories_t xs d = d\<lparr>categories := xs\<rparr>" "t_key categories_t = ca_id"
  "t_touch categories_t n r = r\<lparr>ca_updatedAt := n\<rparr>"
  "t_clash categories_t a b = (ca_name a = ca_name b \<or> ca_slug a = ca_slug b)"
  by (simp_all add: categories_t_def)

lemma workerProfiles_t_simps [simp]:
  "t_rows workerProfiles_t = workerProfiles" "t_put workerProfiles_t xs d = d\<lparr>workerProfiles := xs\<rparr>" "t_key workerProfiles_t = wp_id"
  "t_touch workerProfiles_t n r = r\<lparr>wp_updatedAt := n\<rparr>"
  "t_clash workerProfiles_t a b = (wp_userId a = wp_userId b)"
  by (simp_all add: workerProfiles_t_def)

lemma serviceRequests_t_simps [simp]:
  "t_rows serviceRequests_t = serviceRequests" "t_put serviceRequests_t xs d = d\<lparr>serviceRequests := xs\<rparr>" "t_key serviceRequests_t = sr_id"
  "t_touch serviceRequests_t n r = r\<lparr>sr_updatedAt := n\<rparr>"
  "t_clash serviceRequests_t a b = (both_eq (sr_selectedProposalId a) (sr_selectedProposalId b))"
  by (simp_all add: serviceRequests_t_def)

lemma invitations_t_simps [simp]:
  "t_rows invitations_t = invitations" "t_put invitations_t xs d = d\<lparr>invitations := xs\<rparr>" "t_key invitations_t = ri_id"
  "t_touch invitations_t n r = r\<lparr>ri_updatedAt := n\<rparr>"
  "t_clash invitations_t a b = (ri_requestId a = ri_requestId b \<and> ri_providerUserId a = ri_providerUserId b)"
  by (simp_all add: invitations_t_def)

lemma proposals_t_simps [simp]:
  "t_rows proposals_t = proposals" "t_put proposals_t xs d = d\<lparr>proposals := xs\<rparr>" "t_key proposals_t = pr_id"
  "t_touch proposals_t n r = r\<lparr>pr_updatedAt := n\<rparr>"
  "t_clash proposals_t a b = (pr_requestId a = pr_requestId b \<and> pr_providerId a = pr_providerId b)"
  by (simp_all add: proposals_t_def)

lemma jobs_t_simps [simp]:
  "t_rows jobs_t = jobs" "t_put jobs_t xs d = d\<lparr>jobs := xs\<rparr>" "t_key jobs_t = jb_id"
  "t_touch jobs_t n r = r\<lparr>jb_updatedAt := n\<rparr>"
  "t_clash jobs_t a b = (both_eq (jb_requestId a) (jb_requestId b) \<or> both_eq (jb_proposalId a) (jb_proposalId b))"
  by (simp_all add: jobs_t_def)

lemma notifications_t_simps [simp]:
  "t_rows notifications_t = notifications" "t_put notifications_t xs d = d\<lparr>notifications := xs\<rparr>" "t_key notifications_t = un_id"
  "t_touch notifications_t n r = r\<lparr>un_updatedAt := n\<rparr>"
  "t_clash notifications_t a b = (False)"
  by (simp_all add: notifications_t_def)

lemma interventions_t_simps [simp]:
  "t_rows interventions_t = interventions" "t_put interventions_t xs d = d\<lparr>interventions := xs\<rparr>" "t_key interventions_t = ti_id"
  "t_touch interventions_t n r = r\<lparr>ti_updatedAt := n\<rparr>"
  "t_clash interventions_t a b = (False)"
  by (simp_all add: interventions_t_def)

lemma reviews_t_simps [simp]:
  "t_rows reviews_t = reviews" "t_put reviews_t xs d = d\<lparr>reviews := xs\<rparr>" "t_key reviews_t = rv_id"
  "t_touch reviews_t n r = r\<lparr>rv_updatedAt := n\<rparr>"
  "t_clash reviews_t a b = (rv_jobId a = rv_jobId b)"
  by (simp_all add: reviews_t_def)

lemma intents_t_simps [simp]:
  "t_rows intents_t = intents" "t_put intents_t xs d = d\<lparr>intents := xs\<rparr>" "t_key intents_t = pi_id"
  "t_touch intents_t n r = r\<lparr>pi_updatedAt := n\<rparr>"
  "t_clash intents_t a b = (False)"
  by (simp_all add: intents_t_def)

lemma transactions_t_simps [simp]:
  "t_rows transactions_t = transactions" "t_put transactions_t xs d = d\<lparr>transactions := xs\<rparr>" "t_key transactions_t = tx_id"
  "t_touch transactions_t n r = r\<lparr>tx_updatedAt := n\<rparr>"
  "t_clash transactions_t a b = (tx_idempotencyKey a = tx_idempotencyKey b \<or>
       tx_provider a = tx_provider b \<and> both_eq (tx_providerReference a) (tx_providerReference b))"
  by (simp_all add: transactions_t_def)

lemma ledger_t_simps [simp]:
  "t_rows ledger_t = ledger" "t_put ledger_t xs d = d\<lparr>ledger := xs\<rparr>" "t_key ledger_t = le_id"
  "t_touch ledger_t n r = r"
  "t_clash ledger_t a b = (False)"
  by (simp_all add: ledger_t_def)

lemma payouts_t_simps [simp]:
  "t_rows payouts_t = payouts" "t_put payouts_t xs d = d\<lparr>payouts := xs\<rparr>" "t_key payouts_t = po_id"
  "t_touch payouts_t n r = r\<lparr>po_updatedAt := n\<rparr>"
  "t_clash payouts_t a b = (False)"
  by (simp_all add: payouts_t_def)

lemma refunds_t_simps [simp]:
  "t_rows refunds_t = refunds" "t_put refunds_t xs d = d\<lparr>refunds := xs\<rparr>" "t_key refunds_t = rf_id"
  "t_touch refunds_t n r = r\<lparr>rf_updatedAt := n\<rparr>"
  "t_clash refunds_t a b = (False)"
  by (simp_all add: refunds_t_def)

lemma incidents_t_simps [simp]:
  "t_rows incidents_t = incidents" "t_put incidents_t xs d = d\<lparr>incidents := xs\<rparr>" "t_key incidents_t = oi_id"
  "t_touch incidents_t n r = r\<lparr>oi_updatedAt := n\<rparr>"
  "t_clash incidents_t a b = (False)"
  by (simp_all add: incidents_t_def)

lemma incidentEvents_t_simps [simp]:
  "t_rows incidentEvents_t = incidentEvents" "t_put incidentEvents_t xs d = d\<lparr>incidentEvents := xs\<rparr>" "t_key incidentEvents_t = ie_id"
  "t_touch incidentEvents_t n r = r"
  "t_clash incidentEvents_t a b = (False)"
  by (simp_all add: incidentEvents_t_def)

lemma paymentEvents_t_simps [simp]:
  "t_rows paymentEvents_t = paymentEvents" "t_put paymentEvents_t xs d = d\<lparr>paymentEvents := xs\<rparr>" "t_key paymentEvents_t = pe_id"
  "t_touch paymentEvents_t n r = r\<lparr>pe_updatedAt := n\<rparr>"
  "t_clash paymentEvents_t a b = (pe_provider a = pe_provider b \<and> both_eq (pe_externalEventId a) (pe_externalEventId b))"
  by (simp_all add: paymentEvents_t_def)

lemma messages_t_simps [simp]:
  "t_rows messages_t = messages" "t_put messages_t xs d = d\<lparr>messages := xs\<rparr>" "t_key messages_t = jm_id"
  "t_touch messages_t n r = r"
  "t_clash messages_t a b = (False)"
  by (simp_all add: messages_t_def)

lemma attachments_t_simps [simp]:
  "t_rows attachments_t = attachments" "t_put attachments_t xs d = d\<lparr>attachments := xs\<rparr>" "t_key attachments_t = ja_id"
  "t_touch attachments_t n r = r"
  "t_clash attachments_t a b = (False)"
  by (simp_all add: attachments_t_def)

lemma workerAggregates_t_simps [simp]:
  "t_rows workerAggregates_t = workerAggregates" "t_put workerAggregates_t xs d = d\<lparr>workerAggregates := xs\<rparr>" "t_key workerAggregates_t = tw_workerProfileId"
  "t_touch workerAggregates_t n r = r\<lparr>tw_updatedAt := n\<rparr>"
  "t_clash workerAggregates_t a b = (False)"
  by (simp_all add: workerAggregates_t_def)

lemma categoryAggregates_t_simps [simp]:
  "t_rows categoryAggregates_t = categoryAggregates" "t_put categoryAggregates_t xs d = d\<lparr>categoryAggregates := xs\<rparr>" "t_key categoryAggregates_t = tc_categorySlug"
  "t_touch categoryAggregates_t n r = r\<lparr>tc_updatedAt := n\<rparr>"
  "t_clash categoryAggregates_t a b = (False)"
  by (simp_all add: categoryAggregates_t_def)

lemma sessions_t_simps [simp]:
  "t_rows sessions_t = sessions" "t_put sessions_t xs d = d\<lparr>sessions := xs\<rparr>" "t_key sessions_t = se_id"
  "t_touch sessions_t n r = r"
  "t_clash sessions_t a b = (se_refreshTokenHash a = se_refreshTokenHash b)"
  by (simp_all add: sessions_t_def)

lemma recoveryRequests_t_simps [simp]:
  "t_rows recoveryRequests_t = recoveryRequests" "t_put recoveryRequests_t xs d = d\<lparr>recoveryRequests := xs\<rparr>" "t_key recoveryRequests_t = pq_id"
  "t_touch recoveryRequests_t n r = r\<lparr>pq_updatedAt := n\<rparr>"
  "t_clash recoveryRequests_t a b = (False)"
  by (simp_all add: recoveryRequests_t_def)

lemma auditLogs_t_simps [simp]:
  "t_rows auditLogs_t = auditLogs" "t_put auditLogs_t xs d = d\<lparr>auditLogs := xs\<rparr>" "t_key auditLogs_t = al_id"
  "t_touch auditLogs_t n r = r"
  "t_clash auditLogs_t a b = (False)"
  by (simp_all add: auditLogs_t_def)

lemma challenges_t_simps [simp]:
  "t_rows challenges_t = challenges" "t_put challenges_t xs d = d\<lparr>challenges := xs\<rparr>" "t_key challenges_t = rc_id"
  "t_touch challenges_t n r = r"
  "t_clash challenges_t a b = (rc_tokenHash a = rc_tokenHash b)"
  by (simp_all add: challenges_t_def)

lemma settings_t_simps [simp]:
  "t_rows settings_t = settings" "t_put settings_t xs d = d\<lparr>settings := xs\<rparr>" "t_key settings_t = ps_key"
  "t_touch settings_t n r = r\<lparr>ps_updatedAt := n\<rparr>"
  "t_clash settings_t a b = (False)"
  by (simp_all add: settings_t_def)

interpretation tb_users: lawful_table users_t
  by unfold_locales simp_all

interpretation tb_categories: lawful_table categories_t
  by unfold_locales simp_all

interpretation tb_workerProfiles: lawful_table workerProfiles_t
  by unfold_locales simp_all

interpretation tb_serviceRequests: lawful_table serviceRequests_t
  by unfold_locales simp_all

interpretation tb_invitations: lawful_table invitations_t
  by unfold_locales simp_all

interpretation tb_proposals: lawful_table proposals_t
  by unfold_locales simp_all

interpretation tb_jobs: lawful_table jobs_t
  by unfold_locales simp_all

interpretation tb_notifications: lawful_table notifications_t
  by unfold_locales simp_all

interpretation tb_interventions: lawful_table interventions_t
  by unfold_locales simp_all

interpretation tb_reviews: lawful_table reviews_t
  by unfold_locales simp_all

interpretation tb_intents: lawful_table intents_t
  by unfold_locales simp_all

interpretation tb_transactions: lawful_table transactions_t
  by unfold_locales simp_all

interpretation tb_ledger: lawful_table ledger_t
  by unfold_locales simp_all

interpretation tb_payouts: lawful_table payouts_t
  by unfold_locales simp_all

interpretation tb_refunds: lawful_table refunds_t
  by unfold_locales simp_all

interpretation tb_incidents: lawful_table incidents_t
  by unfold_locales simp_all

interpretation tb_incidentEvents: lawful_table incidentEvents_t
  by unfold_locales simp_all

interpretation tb_paymentEvents: lawful_table paymentEvents_t
  by unfold_locales simp_all

interpretation tb_messages: lawful_table messages_t
  by unfold_locales simp_all

interpretation tb_attachments: lawful_table attachments_t
  by unfold_locales simp_all

interpretation tb_workerAggregates: lawful_table workerAggregates_t
  by unfold_locales simp_all

interpretation tb_categoryAggregates: lawful_table categoryAggregates_t
  by unfold_locales simp_all

interpretation tb_sessions: lawful_table sessions_t
  by unfold_locales simp_all

interpretation tb_recoveryRequests: lawful_table recoveryRequests_t
  by unfold_locales simp_all

interpretation tb_auditLogs: lawful_table auditLogs_t
  by unfold_locales simp_all

interpretation tb_challenges: lawful_table challenges_t
  by unfold_locales simp_all

interpretation tb_settings: lawful_table settings_t
  by unfold_locales simp_all

subsection \<open>Orders of the list queries\<close>

abbreviation us_order :: "user \<Rightarrow> time \<times> id" where
  "us_order r \<equiv> (us_createdAt r, us_id r)"

abbreviation ca_order :: "category \<Rightarrow> time \<times> id" where
  "ca_order r \<equiv> (ca_createdAt r, ca_id r)"

abbreviation wp_order :: "workerProfile \<Rightarrow> time \<times> id" where
  "wp_order r \<equiv> (wp_createdAt r, wp_id r)"

abbreviation sr_order :: "serviceRequest \<Rightarrow> time \<times> id" where
  "sr_order r \<equiv> (sr_createdAt r, sr_id r)"

abbreviation ri_order :: "requestInvitation \<Rightarrow> time \<times> id" where
  "ri_order r \<equiv> (ri_createdAt r, ri_id r)"

abbreviation pr_order :: "proposal \<Rightarrow> time \<times> id" where
  "pr_order r \<equiv> (pr_createdAt r, pr_id r)"

abbreviation jb_order :: "job \<Rightarrow> time \<times> id" where
  "jb_order r \<equiv> (jb_createdAt r, jb_id r)"

abbreviation un_order :: "userNotification \<Rightarrow> time \<times> id" where
  "un_order r \<equiv> (un_createdAt r, un_id r)"

abbreviation ti_order :: "trustSafetyIntervention \<Rightarrow> time \<times> id" where
  "ti_order r \<equiv> (ti_createdAt r, ti_id r)"

abbreviation rv_order :: "review \<Rightarrow> time \<times> id" where
  "rv_order r \<equiv> (rv_createdAt r, rv_id r)"

abbreviation pi_order :: "paymentIntent \<Rightarrow> time \<times> id" where
  "pi_order r \<equiv> (pi_createdAt r, pi_id r)"

abbreviation tx_order :: "paymentTransaction \<Rightarrow> time \<times> id" where
  "tx_order r \<equiv> (tx_createdAt r, tx_id r)"

abbreviation le_order :: "ledgerEntry \<Rightarrow> time \<times> id" where
  "le_order r \<equiv> (le_createdAt r, le_id r)"

abbreviation po_order :: "payout \<Rightarrow> time \<times> id" where
  "po_order r \<equiv> (po_createdAt r, po_id r)"

abbreviation rf_order :: "refundRequest \<Rightarrow> time \<times> id" where
  "rf_order r \<equiv> (rf_createdAt r, rf_id r)"

abbreviation oi_order :: "operationalIncident \<Rightarrow> time \<times> id" where
  "oi_order r \<equiv> (oi_createdAt r, oi_id r)"

abbreviation ie_order :: "incidentEvent \<Rightarrow> time \<times> id" where
  "ie_order r \<equiv> (ie_createdAt r, ie_id r)"

abbreviation pe_order :: "paymentEvent \<Rightarrow> time \<times> id" where
  "pe_order r \<equiv> (pe_createdAt r, pe_id r)"

end
