(* ===== verification/Policy.thy ===== *)
theory Policy
  imports Tables
begin

text \<open>
  \<^verbatim>\<open>payments/payment-policy.service.ts\<close>: the split of a charge between platform and provider,
  the expiry of an intent and the release window after completion, with the settings read from
  the process environment.  The interface \<open>fee_split\<close> states what the intents need of a split;
  the request flow's deposit split satisfies it too.
\<close>

subsection \<open>Settings\<close>

definition resolveFeeBps :: "env \<Rightarrow> int" where
  "resolveFeeBps E = env_clamped 1500 0 9000 (e_feeBps E)"

definition resolveReleaseDelayHours :: "env \<Rightarrow> int" where
  "resolveReleaseDelayHours E =
     (case e_releaseDelayHours E of NotFinite \<Rightarrow> 24 | Fin q \<Rightarrow> max 0 (js_trunc q))"

lemma resolveFeeBps_bounds: "0 \<le> resolveFeeBps E" "resolveFeeBps E \<le> 9000"
  using env_clamped_bounds [of 0 1500 9000 "e_feeBps E"] by (simp_all add: resolveFeeBps_def)

lemma resolveReleaseDelayHours_nonneg: "0 \<le> resolveReleaseDelayHours E"
  by (simp add: resolveReleaseDelayHours_def split: jsnum.split)

subsection \<open>The split of a charge\<close>

record split =
  sp_gross :: int
  sp_platformFee :: int
  sp_providerNet :: int

definition computeSplit :: "env \<Rightarrow> int \<Rightarrow> split" where
  "computeSplit E amount =
     (let normalizedAmount = max 0 amount;
          platformFeeAmount = min normalizedAmount (round_div (normalizedAmount * resolveFeeBps E) 10000)
      in \<lparr>sp_gross = normalizedAmount, sp_platformFee = platformFeeAmount,
          sp_providerNet = max 0 (normalizedAmount - platformFeeAmount)\<rparr>)"

locale fee_split =
  fixes split_of :: "'a \<Rightarrow> split"
  assumes fee_nonneg: "0 \<le> sp_platformFee (split_of a)"
    and net_nonneg: "0 \<le> sp_providerNet (split_of a)"
    and split_sum: "sp_platformFee (split_of a) + sp_providerNet (split_of a) = sp_gross (split_of a)"
begin

lemma gross_nonneg: "0 \<le> sp_gross (split_of a)"
  using fee_nonneg [of a] net_nonneg [of a] split_sum [of a] by linarith

lemma fee_le_gross: "sp_platformFee (split_of a) \<le> sp_gross (split_of a)"
  using net_nonneg [of a] split_sum [of a] by linarith

text \<open>The part of a refund that the platform bears never exceeds the refund.\<close>

lemma refund_share_le:
  assumes "0 \<le> r" "0 < sp_gross (split_of a)"
  shows "round_div (r * sp_platformFee (split_of a)) (sp_gross (split_of a)) \<le> r"
  using assms fee_le_gross [of a] by (intro round_div_le) (simp_all add: mult_left_mono)

end

interpretation policy_split: fee_split "\<lambda>x. computeSplit (fst x) (snd x)"
proof unfold_locales
  fix x :: "env \<times> int"
  let ?n = "max 0 (snd x)" and ?b = "resolveFeeBps (fst x)"
  have "0 \<le> round_div (?n * ?b) 10000"
    using resolveFeeBps_bounds [of "fst x"] by (intro round_div_nonneg) simp_all
  then show "0 \<le> sp_platformFee (computeSplit (fst x) (snd x))"
    by (simp add: computeSplit_def Let_def)
qed (auto simp: computeSplit_def Let_def)

lemma computeSplit_ok: "0 \<le> sp_platformFee (computeSplit E a)" "0 \<le> sp_providerNet (computeSplit E a)"
    "sp_platformFee (computeSplit E a) + sp_providerNet (computeSplit E a) = sp_gross (computeSplit E a)"
  using policy_split.fee_nonneg [of "(E, a)"] policy_split.net_nonneg [of "(E, a)"]
    policy_split.split_sum [of "(E, a)"] by simp_all

lemma computeSplit_gross: "0 \<le> amount \<Longrightarrow> sp_gross (computeSplit E amount) = amount"
  by (simp add: computeSplit_def Let_def)

subsection \<open>Dates\<close>

definition buildIntentExpiryDate :: "env \<Rightarrow> time" where
  "buildIntentExpiryDate E = e_now E + 30 * 60 * 1000"

definition canReleaseFunds :: "env \<Rightarrow> time option \<Rightarrow> bool" where
  "canReleaseFunds E completedAt =
     (case completedAt of None \<Rightarrow> False
      | Some t \<Rightarrow> t + resolveReleaseDelayHours E * 60 * 60 * 1000 \<le> e_now E)"

text \<open>Once open, the release window stays open.\<close>

lemma canReleaseFunds_mono:
  "canReleaseFunds E c \<Longrightarrow> e_now E \<le> e_now E' \<Longrightarrow> e_releaseDelayHours E' = e_releaseDelayHours E \<Longrightarrow>
    canReleaseFunds E' c"
  by (auto simp: canReleaseFunds_def resolveReleaseDelayHours_def split: option.splits)

end
