(* ===== verification/Pagination.thy ===== *)
theory Pagination
  imports Tables
begin

text \<open>
  \<^verbatim>\<open>common/pagination/pagination.ts\<close>: page and limit with their defaults, the offset of a page,
  and the envelope of a page of results.  The list endpoints of every service are
  \<open>page_of\<close>: count the rows that match, sort them, skip and take.
\<close>

record pageInput =
  pg_page :: "int option"
  pg_limit :: "int option"

record resolvedPagination =
  rp_page :: int
  rp_limit :: int
  rp_skip :: int

definition resolvePagination :: "pageInput \<Rightarrow> resolvedPagination" where
  "resolvePagination input =
     (let page = or_else (pg_page input) 1; limit = or_else (pg_limit input) 20 in
      \<lparr>rp_page = page, rp_limit = limit, rp_skip = (page - 1) * limit\<rparr>)"

record 'r paginated =
  pgn_data :: "'r list"
  pgn_total :: int
  pgn_page :: int
  pgn_limit :: int
  pgn_hasNext :: bool

definition buildPaginatedResponse :: "'r list \<Rightarrow> int \<Rightarrow> int \<Rightarrow> int \<Rightarrow> 'r paginated" where
  "buildPaginatedResponse rows tot page limit =
     \<lparr>pgn_data = rows, pgn_total = tot, pgn_page = page, pgn_limit = limit,
      pgn_hasNext = page * limit < tot\<rparr>"

text \<open>
  \<^verbatim>\<open>findMany({ where, orderBy, skip, take })\<close> beside \<^verbatim>\<open>count({ where })\<close>: the sorted matching
  rows from \<open>skip\<close> on, at most \<open>take\<close> of them.  The DTOs make page and limit at least 1, so
  the offset is not negative.
\<close>

definition take_page :: "resolvedPagination \<Rightarrow> 'r list \<Rightarrow> 'r list" where
  "take_page p rs = take (nat (rp_limit p)) (drop (nat (rp_skip p)) rs)"

definition page_of :: "pageInput \<Rightarrow> 'r list \<Rightarrow> 'r paginated" where
  "page_of input rs =
     (let p = resolvePagination input in
      buildPaginatedResponse (take_page p rs) (int (length rs)) (rp_page p) (rp_limit p))"

definition valid_page :: "pageInput \<Rightarrow> bool" where
  "valid_page input \<longleftrightarrow> 1 \<le> or_else (pg_page input) 1 \<and> 1 \<le> or_else (pg_limit input) 20"

lemma page_of_sel:
  "pgn_data (page_of input rs) = take_page (resolvePagination input) rs"
  "pgn_total (page_of input rs) = int (length rs)"
  by (simp_all add: page_of_def buildPaginatedResponse_def Let_def)

lemma take_page_length:
  "length (take_page (resolvePagination input) rs) \<le> nat (or_else (pg_limit input) 20)"
  by (simp add: take_page_def resolvePagination_def Let_def)

text \<open>\<open>hasNext\<close> says exactly whether rows remain after the page.\<close>

lemma page_of_hasNext:
  assumes "valid_page input"
  shows "pgn_hasNext (page_of input rs) \<longleftrightarrow>
    drop (nat (rp_skip (resolvePagination input)) + nat (rp_limit (resolvePagination input))) rs \<noteq> []"
proof -
  let ?p = "or_else (pg_page input) 1" and ?l = "or_else (pg_limit input) 20"
  let ?a = "nat ((?p - 1) * ?l) + nat ?l"
  have "0 \<le> (?p - 1) * ?l" and "0 \<le> ?l"
    using assms by (simp_all add: valid_page_def)
  then have a: "int ?a = ?p * ?l"
    by (simp add: algebra_simps)
  have "pgn_hasNext (page_of input rs) \<longleftrightarrow> int ?a < int (length rs)"
    unfolding a by (simp add: page_of_def buildPaginatedResponse_def resolvePagination_def Let_def)
  also have "\<dots> \<longleftrightarrow> drop ?a rs \<noteq> []"
    by (simp only: of_nat_less_iff drop_eq_Nil not_le)
  finally show ?thesis
    by (simp add: resolvePagination_def Let_def)
qed

text \<open>Walking the pages \<open>1, \<dots>, n\<close> delivers the rows in order, each once.\<close>

definition page_no :: "int \<Rightarrow> int \<Rightarrow> pageInput" where
  "page_no k limit = \<lparr>pg_page = Some k, pg_limit = Some limit\<rparr>"

lemma take_add_drop: "take (m + n) xs = take m xs @ take n (drop m xs)"
  by (rule take_add)

lemma pages_concat:
  assumes "0 < limit"
  shows "concat (map (\<lambda>k. pgn_data (page_of (page_no (int k + 1) limit) rs)) [0..<n]) =
    take (n * nat limit) rs"
proof (induction n)
  case 0
  show ?case by simp
next
  case (Suc n)
  have "nat (int n * limit) = n * nat limit"
    using assms by (simp add: nat_mult_distrib)
  then show ?case
    using Suc take_add_drop [of "n * nat limit" "nat limit" rs]
    by (simp add: page_of_sel take_page_def resolvePagination_def page_no_def Let_def add.commute)
qed

end
