(* ===== verification/Notifications.thy ===== *)
theory Notifications
  imports Pagination
begin

text \<open>
  \<^verbatim>\<open>observability/metrics.service.ts\<close> (the business counters: the world keeps the list of
  their increments) and \<^verbatim>\<open>notifications/notifications.service.ts\<close>: create, list, mark read.
\<close>

subsection \<open>Metrics\<close>

definition label_char :: "char \<Rightarrow> char" where
  "label_char c = (let n = of_char c :: nat in
     if 97 \<le> n \<and> n \<le> 122 \<or> 48 \<le> n \<and> n \<le> 57 \<or> n = 95 then c else CHR ''_'')"

definition sanitizeLabel :: "string \<Rightarrow> string" where
  "sanitizeLabel v = take 64 (map label_char (js_lower v))"

definition recordBusinessEvent :: "string \<Rightarrow> string \<Rightarrow> string \<Rightarrow> unit svc" where
  "recordBusinessEvent area ev res =
     smodify (\<lambda>w. w\<lparr>w_metrics := w_metrics w @ [BusinessEvent area (sanitizeLabel ev) res]\<rparr>)"

definition recordJobStatusTransition :: "jobStatus \<Rightarrow> jobStatus \<Rightarrow> string \<Rightarrow> unit svc" where
  "recordJobStatusTransition cur nxt res =
     smodify (\<lambda>w. w\<lparr>w_metrics := w_metrics w @ [JobTransition cur nxt res]\<rparr>)"

lemma wp_recordBusinessEvent [wp_simps]: "wp (recordBusinessEvent a b c) Q X w =
    Q () (w\<lparr>w_metrics := w_metrics w @ [BusinessEvent a (sanitizeLabel b) c]\<rparr>)"
  by (simp add: recordBusinessEvent_def wp_simps)

lemma wp_recordJobStatusTransition [wp_simps]: "wp (recordJobStatusTransition a b c) Q X w =
    Q () (w\<lparr>w_metrics := w_metrics w @ [JobTransition a b c]\<rparr>)"
  by (simp add: recordJobStatusTransition_def wp_simps)

lemma keeps_recordBusinessEvent [keeps_rules]: "keeps J (recordBusinessEvent a b c)"
  by (simp add: recordBusinessEvent_def keeps_smodify)

lemma keeps_recordJobStatusTransition [keeps_rules]: "keeps J (recordJobStatusTransition a b c)"
  by (simp add: recordJobStatusTransition_def keeps_smodify)

lemma sanitizeLabel_length: "length (sanitizeLabel v) \<le> 64"
  by (simp add: sanitizeLabel_def)

subsection \<open>Notifications\<close>

datatype toneDto = Tone_attention | Tone_success | Tone_muted | Tone_info

fun mapTone :: "notificationTone \<Rightarrow> toneDto" where
  "mapTone NT_ATTENTION = Tone_attention"
| "mapTone NT_SUCCESS = Tone_success"
| "mapTone NT_MUTED = Tone_muted"
| "mapTone NT_INFO = Tone_info"

record notificationDto =
  nd_id :: id
  nd_kind :: notificationKind
  nd_tone :: toneDto
  nd_title :: string
  nd_description :: string
  nd_href :: string
  nd_hrefLabel :: string
  nd_readAt :: "time option"
  nd_unread :: bool
  nd_createdAt :: time
  nd_updatedAt :: time
  nd_metadata :: "json option"

definition toDto :: "userNotification \<Rightarrow> notificationDto" where
  "toDto item = \<lparr>nd_id = un_id item, nd_kind = un_kind item, nd_tone = mapTone (un_tone item),
     nd_title = un_title item, nd_description = un_description item, nd_href = un_href item,
     nd_hrefLabel = or_else (un_hrefLabel item) ''Abrir'', nd_readAt = un_readAt item,
     nd_unread = (un_readAt item = None), nd_createdAt = un_createdAt item,
     nd_updatedAt = un_updatedAt item, nd_metadata = un_metadata item\<rparr>"

record notificationInput =
  ni_userId :: id
  ni_actorUserId :: "id option"
  ni_kind :: notificationKind
  ni_tone :: "notificationTone option"
  ni_title :: string
  ni_description :: string
  ni_href :: string
  ni_hrefLabel :: "string option"
  ni_metadata :: "json option"

definition notify :: "env \<Rightarrow> notificationInput \<Rightarrow> notificationDto svc" where
  "notify E input =
     sbind (create E notifications_t (\<lambda>i.
       \<lparr>un_id = i, un_userId = ni_userId input, un_actorUserId = ni_actorUserId input,
        un_kind = ni_kind input, un_tone = or_else (ni_tone input) NT_INFO,
        un_title = ni_title input, un_description = ni_description input,
        un_href = ni_href input, un_hrefLabel = ni_hrefLabel input, un_readAt = None,
        un_metadata = ni_metadata input, un_createdAt = e_now E, un_updatedAt = e_now E\<rparr>))
     (\<lambda>created. sreturn (toDto created))"

definition notificationsListMine ::
  "id \<Rightarrow> pageInput \<Rightarrow> bool \<Rightarrow> (notificationDto paginated \<times> nat) svc" where
  "notificationsListMine userId query unreadOnly =
     sbind (findMany notifications_t
       (\<lambda>n. un_userId n = userId \<and> (unreadOnly \<longrightarrow> un_readAt n = None))) (\<lambda>matching.
     sbind (countRows notifications_t (\<lambda>n. un_userId n = userId \<and> un_readAt n = None)) (\<lambda>unreadCount.
     sreturn (page_of query (map toDto (sort_desc un_order matching)), unreadCount)))"

definition markRead :: "env \<Rightarrow> id \<Rightarrow> id \<Rightarrow> notificationDto svc" where
  "markRead E notificationId userId =
     sbind (findUnique notifications_t notificationId) (\<lambda>found.
     sbind (sopt found (NotFoundException ''Notification not found'')) (\<lambda>n.
     sthen (sguard (un_userId n = userId)
       (ForbiddenException ''You are not allowed to access this notification''))
     (if un_readAt n \<noteq> None then sreturn (toDto n)
      else sbind (update E notifications_t notificationId (\<lambda>r. r\<lparr>un_readAt := Some (e_now E)\<rparr>))
        (\<lambda>updated. sreturn (toDto updated)))))"

definition markAllRead :: "env \<Rightarrow> id \<Rightarrow> (nat \<times> time) svc" where
  "markAllRead E userId =
     sbind (updateMany E notifications_t (\<lambda>n. un_userId n = userId \<and> un_readAt n = None)
       (\<lambda>r. r\<lparr>un_readAt := Some (e_now E)\<rparr>))
     (\<lambda>cnt. sreturn (cnt, e_now E))"

lemma keeps_notify [keeps_rules]: "frames J notifications_t \<Longrightarrow> keeps J (notify E input)"
  by (simp add: notify_def keeps_sbind keeps_create_frame keeps_sreturn)

text \<open>Notifying changes no other table; it fails only when the identifier is taken.\<close>

lemma wp_notify:
  assumes "\<And>v w'. \<lbrakk>w_db w' = (w_db w)\<lparr>notifications := notifications (w_db w')\<rparr>;
      w_metrics w' = w_metrics w; w_ops w' = w_ops w; w_warned w' = w_warned w\<rbrakk> \<Longrightarrow> Q v w'"
    and "\<And>e w'. \<lbrakk>w_db w' = w_db w; w_metrics w' = w_metrics w; w_ops w' = w_ops w;
      w_warned w' = w_warned w\<rbrakk> \<Longrightarrow> X e w'"
  shows "wp (notify E input) Q X w"
  by (simp add: notify_def wp_simps Let_def assms)

lemma markAllRead_spec:
  "wp (markAllRead E userId)
     (\<lambda>r w'. fst r = length (filter (\<lambda>n. un_userId n = userId \<and> un_readAt n = None) (notifications (w_db w)))
       \<and> (\<forall>n \<in> set (notifications (w_db w')). un_userId n = userId \<longrightarrow> un_readAt n \<noteq> None)
       \<and> filter (\<lambda>n. un_userId n \<noteq> userId) (notifications (w_db w')) =
         filter (\<lambda>n. un_userId n \<noteq> userId) (notifications (w_db w)))
     (\<lambda>_ _. False) w"
  by (simp add: markAllRead_def wp_simps tb_notifications.ball_upd [simplified])
    (rule tb_notifications.filter_upd [unfolded notifications_t_simps]; simp)

end
