(* ===== verification/Ledger.thy ===== *)
theory Ledger
  imports Policy Notifications
begin

text \<open>
  \<^verbatim>\<open>payments/ledger.service.ts\<close>: entries are appended, never changed, and a balance is the sum
  of a bucket's credits less its debits.  The interface \<open>double_entry\<close> states what posting
  does to balances; the ledger of the model interprets it, and the payment operations rest on
  its facts: a balanced posting keeps the total of an intent at zero.
\<close>

definition appendEntries :: "env \<Rightarrow> ledgerEntry list \<Rightarrow> unit svc" where
  "appendEntries E entries =
     (if entries = [] then sreturn ()
      else createMany E ledger_t (map (\<lambda>e i. e\<lparr>le_id := i, le_createdAt := e_now E\<rparr>) entries))"

text \<open>The columns a service passes; \<open>appendEntries\<close> stamps identifier and time.\<close>

definition ledgerInput ::
  "id option \<Rightarrow> id option \<Rightarrow> id option \<Rightarrow> paymentActorType \<Rightarrow> ledgerEntryType \<Rightarrow> int \<Rightarrow> string \<Rightarrow> ledgerDirection \<Rightarrow>
   ledgerBucket \<Rightarrow> string \<Rightarrow> id option \<Rightarrow> ledgerEntry" where
  "ledgerInput jobId intentId transactionId actor entryType amount cur dir bucket descr createdBy =
     \<lparr>le_id = [], le_jobId = jobId, le_paymentIntentId = intentId,
      le_transactionId = transactionId, le_actorType = actor, le_entryType = entryType,
      le_amount = amount, le_currency = cur, le_direction = dir, le_balanceBucket = bucket,
      le_description = Some descr, le_createdByUserId = createdBy, le_createdAt = 0\<rparr>"

text \<open>\<^verbatim>\<open>groupBy({ by: ['direction'], _sum: { amount } })\<close>: one row per direction that occurs.\<close>

definition groupByDirection :: "ledgerEntry list \<Rightarrow> (ledgerDirection \<times> int) list" where
  "groupByDirection es =
     map (\<lambda>dir. (dir, sum_list (map le_amount (filter (\<lambda>e. le_direction e = dir) es))))
       (remdups (map le_direction es))"

definition netOfRows :: "(ledgerDirection \<times> int) list \<Rightarrow> int" where
  "netOfRows grouped =
     foldl (\<lambda>acc row. if fst row = LD_CREDIT then acc + snd row else acc - snd row) 0 grouped"

definition computeBucketNet :: "ledgerBucket \<Rightarrow> (ledgerEntry \<Rightarrow> bool) \<Rightarrow> int svc" where
  "computeBucketNet bucket P =
     sread (\<lambda>d. netOfRows (groupByDirection (filter (\<lambda>e. le_balanceBucket e = bucket \<and> P e) (ledger d))))"

subsection \<open>Balances\<close>

definition signed :: "ledgerEntry \<Rightarrow> int" where
  "signed e = (if le_direction e = LD_CREDIT then le_amount e else - le_amount e)"

definition net_of :: "ledgerEntry list \<Rightarrow> int" where
  "net_of es = sum_list (map signed es)"

lemma net_of_simps [simp]: "net_of [] = 0" "net_of (e # es) = signed e + net_of es"
    "net_of (es @ fs) = net_of es + net_of fs"
  by (simp_all add: net_of_def)

lemma ledgerDirection_cases: "dir = LD_DEBIT \<or> dir = LD_CREDIT"
  by (cases dir) simp_all

lemma net_of_by_direction:
  "net_of es = sum_list (map le_amount (filter (\<lambda>e. le_direction e = LD_CREDIT) es))
    - sum_list (map le_amount (filter (\<lambda>e. le_direction e = LD_DEBIT) es))"
proof (induction es)
  case (Cons e es)
  then show ?case using ledgerDirection_cases [of "le_direction e"] by (auto simp: signed_def)
qed simp

lemma foldl_sub_add:
  "foldl (\<lambda>acc row. if fst row = LD_CREDIT then acc + snd row else acc - snd row) (a::int) rows =
    a + sum_list (map (\<lambda>row. if fst row = LD_CREDIT then snd row else - snd row) rows)"
  by (induction rows arbitrary: a) auto

lemma no_direction_zero:
  "dir \<notin> le_direction ` set es \<Longrightarrow> filter (\<lambda>e. le_direction e = dir) es = []"
  by (auto simp: filter_empty_conv)

text \<open>The grouped reduction computes the signed sum, whatever the order of the groups.\<close>

theorem computeBucketNet_is_net: "netOfRows (groupByDirection es) = net_of es"
proof -
  let ?s = "\<lambda>dir. sum_list (map le_amount (filter (\<lambda>e. le_direction e = dir) es))"
  let ?f = "\<lambda>dir. if dir = LD_CREDIT then ?s dir else - ?s dir"
  have "netOfRows (groupByDirection es) = sum_list (map ?f (remdups (map le_direction es)))"
    by (simp add: netOfRows_def groupByDirection_def foldl_sub_add comp_def if_distrib cong: if_cong)
  also have "\<dots> = (\<Sum>dir \<in> le_direction ` set es. ?f dir)"
    by (simp add: sum_list_distinct_conv_sum_set)
  also have "\<dots> = (\<Sum>dir \<in> {LD_DEBIT, LD_CREDIT}. ?f dir)"
    by (rule sum.mono_neutral_left) (use ledgerDirection_cases in \<open>auto simp: no_direction_zero\<close>)
  also have "\<dots> = net_of es"
    by (simp add: net_of_by_direction)
  finally show ?thesis .
qed

lemma wp_computeBucketNet [wp_simps]: "wp (computeBucketNet b P) Q X w =
    Q (net_of (filter (\<lambda>e. le_balanceBucket e = b \<and> P e) (ledger (w_db w)))) w"
  by (simp add: computeBucketNet_def wp_simps computeBucketNet_is_net)

lemma keeps_computeBucketNet [keeps_rules]: "keeps J (computeBucketNet b P)"
  by (simp add: computeBucketNet_def keeps_sread)

text \<open>
  The balance of a bucket for one intent, with the actor the services ask for in that bucket.
\<close>

fun actor_of :: "ledgerBucket \<Rightarrow> paymentActorType" where
  "actor_of LB_CUSTOMER_EXTERNAL = PA_CUSTOMER"
| "actor_of LB_PLATFORM_RESERVED = PA_PLATFORM"
| "actor_of LB_PLATFORM_AVAILABLE = PA_PLATFORM"
| "actor_of LB_PROVIDER_HELD = PA_PROVIDER"
| "actor_of LB_PROVIDER_AVAILABLE = PA_PROVIDER"
| "actor_of LB_PROVIDER_PAID_OUT = PA_PROVIDER"

definition effect :: "ledgerEntry \<Rightarrow> ledgerBucket \<Rightarrow> id \<Rightarrow> int" where
  "effect e b i = (if le_balanceBucket e = b \<and> le_actorType e = actor_of b \<and> le_paymentIntentId e = Some i
     then signed e else 0)"

definition bal :: "ledgerBucket \<Rightarrow> id \<Rightarrow> ledgerEntry list \<Rightarrow> int" where
  "bal b i es = sum_list (map (\<lambda>e. effect e b i) es)"

lemma bal_simps [simp]: "bal b i [] = 0" "bal b i (e # es) = effect e b i + bal b i es"
    "bal b i (es @ fs) = bal b i es + bal b i fs"
  by (simp_all add: bal_def)

lemma net_of_bal:
  "net_of (filter (\<lambda>e. le_balanceBucket e = b \<and> le_actorType e = actor_of b \<and> le_paymentIntentId e = Some i) es)
    = bal b i es"
  by (induction es) (auto simp: effect_def)

lemmas net_of_buckets [simp] =
  net_of_bal [of LB_PLATFORM_RESERVED, simplified] net_of_bal [of LB_PROVIDER_HELD, simplified]
  net_of_bal [of LB_PROVIDER_AVAILABLE, simplified]

subsection \<open>The interface of a double-entry book\<close>

locale double_entry =
  fixes balance :: "'b::finite \<Rightarrow> 'i \<Rightarrow> 's \<Rightarrow> int"
    and post :: "'e list \<Rightarrow> 's \<Rightarrow> 's"
    and moves :: "'e \<Rightarrow> 'b \<Rightarrow> 'i \<Rightarrow> int"
  assumes balance_post: "balance b i (post es s) = balance b i s + (\<Sum>e \<leftarrow> es. moves e b i)"
begin

lemma total_post:
  "(\<Sum>b \<in> UNIV. balance b i (post es s)) =
    (\<Sum>b \<in> UNIV. balance b i s) + (\<Sum>e \<leftarrow> es. \<Sum>b \<in> UNIV. moves e b i)"
proof -
  have "(\<Sum>b \<in> UNIV. \<Sum>e \<leftarrow> es. moves e b i) = (\<Sum>e \<leftarrow> es. \<Sum>b \<in> UNIV. moves e b i)"
    by (induction es) (simp_all add: sum.distrib)
  then show ?thesis by (simp add: balance_post sum.distrib)
qed

text \<open>A posting whose moves cancel keeps the total.\<close>

lemma balanced_post:
  "(\<Sum>e \<leftarrow> es. \<Sum>b \<in> UNIV. moves e b i) = 0 \<Longrightarrow>
    (\<Sum>b \<in> UNIV. balance b i (post es s)) = (\<Sum>b \<in> UNIV. balance b i s)"
  by (simp add: total_post)

lemma untouched_post:
  "\<forall>e \<in> set es. moves e b i = 0 \<Longrightarrow> balance b i (post es s) = balance b i s"
  by (induction es) (simp_all add: balance_post)

lemma post_append: "balance b i (post fs (post es s)) = balance b i (post (es @ fs) s)"
  by (simp add: balance_post)

end

instantiation ledgerBucket :: finite
begin

instance
proof
  have "(UNIV :: ledgerBucket set) = {LB_CUSTOMER_EXTERNAL, LB_PLATFORM_RESERVED, LB_PLATFORM_AVAILABLE,
      LB_PROVIDER_HELD, LB_PROVIDER_AVAILABLE, LB_PROVIDER_PAID_OUT}"
    using ledgerBucket.exhaust by blast
  then show "finite (UNIV :: ledgerBucket set)" by (metis finite.emptyI finite.insertI)
qed

end

lemma UNIV_ledgerBucket: "(UNIV :: ledgerBucket set) = {LB_CUSTOMER_EXTERNAL, LB_PLATFORM_RESERVED,
    LB_PLATFORM_AVAILABLE, LB_PROVIDER_HELD, LB_PROVIDER_AVAILABLE, LB_PROVIDER_PAID_OUT}"
  using ledgerBucket.exhaust by blast

interpretation book: double_entry bal "\<lambda>es s. s @ es" effect
  by unfold_locales (simp add: bal_def)

text \<open>The total of all buckets of an intent.\<close>

definition total_of :: "id \<Rightarrow> ledgerEntry list \<Rightarrow> int" where
  "total_of i es = (\<Sum>b \<in> UNIV. bal b i es)"

lemma total_of_eq: "total_of i es =
    bal LB_CUSTOMER_EXTERNAL i es + bal LB_PLATFORM_RESERVED i es + bal LB_PLATFORM_AVAILABLE i es
    + bal LB_PROVIDER_HELD i es + bal LB_PROVIDER_AVAILABLE i es + bal LB_PROVIDER_PAID_OUT i es"
  by (simp add: total_of_def UNIV_ledgerBucket)

lemma total_of_append: "total_of i (es @ fs) = total_of i es + total_of i fs"
  by (simp add: total_of_eq)

subsection \<open>Appending\<close>

text \<open>Stamping changes neither amount, bucket, intent nor transaction.\<close>

definition stamped :: "ledgerEntry list \<Rightarrow> ledgerEntry list \<Rightarrow> bool" where
  "stamped es fs \<longleftrightarrow> (\<exists>ids t. length ids = length es \<and>
     fs = map2 (\<lambda>e i. e\<lparr>le_id := i, le_createdAt := t\<rparr>) es ids)"

lemma effect_stamp [simp]: "effect (e\<lparr>le_id := x, le_createdAt := t\<rparr>) b i = effect e b i"
  by (simp add: effect_def signed_def)

lemma stamped_bal:
  assumes "stamped es fs"
  shows "bal b i fs = bal b i es"
proof -
  have "bal b i (map2 (\<lambda>e x. e\<lparr>le_id := x, le_createdAt := t\<rparr>) es ids) = bal b i es"
    if "length ids = length es" for ids t
    using that by (induction ids es rule: list_induct2) simp_all
  with assms show ?thesis by (auto simp: stamped_def)
qed

lemma stamped_total: "stamped es fs \<Longrightarrow> total_of i fs = total_of i es"
  by (simp add: total_of_eq stamped_bal)

lemma stamped_ex:
  assumes "stamped es fs"
  shows "(\<exists>e \<in> set fs. le_transactionId e = t \<and> le_entryType e = k) \<longleftrightarrow>
    (\<exists>e \<in> set es. le_transactionId e = t \<and> le_entryType e = k)"
proof -
  have "(\<exists>e \<in> set (map2 (\<lambda>e x. e\<lparr>le_id := x, le_createdAt := u\<rparr>) es ids). le_transactionId e = t \<and> le_entryType e = k) =
      (\<exists>e \<in> set es. le_transactionId e = t \<and> le_entryType e = k)"
    if "length ids = length es" for ids u
    using that by (induction ids es rule: list_induct2) simp_all
  with assms show ?thesis unfolding stamped_def by blast
qed

lemma wp_appendEntries:
  assumes "\<And>fs n. stamped es fs \<Longrightarrow>
      Q () (w\<lparr>w_ids := n, w_db := (w_db w)\<lparr>ledger := ledger (w_db w) @ fs\<rparr>\<rparr>)"
    and "\<And>e n. X e (w\<lparr>w_ids := n\<rparr>)"
  shows "wp (appendEntries E es) Q X w"
proof (cases "es = []")
  case True
  have "stamped [] []" by (simp add: stamped_def)
  with assms(1) [of "[]" "w_ids w"] True show ?thesis
    by (simp add: appendEntries_def wp_simps)
next
  case False
  let ?mk = "\<lambda>e i. e\<lparr>le_id := i, le_createdAt := e_now E\<rparr>"
  have eq: "map2 (\<lambda>mk i. mk i) (map ?mk es) ids = map2 ?mk es ids" for ids
    by (simp add: zip_map1 split_def comp_def)
  have "wp (createMany E ledger_t (map ?mk es)) Q X w"
  proof (rule wp_createMany)
    fix ids w' assume "length ids = length (map ?mk es)"
      and w': "w' = w\<lparr>w_ids := w_ids w + length (map ?mk es),
          w_db := t_put ledger_t (t_rows ledger_t (w_db w) @ map2 (\<lambda>mk i. mk i) (map ?mk es) ids) (w_db w)\<rparr>"
    then have "stamped es (map2 ?mk es ids)" by (auto simp: stamped_def)
    then show "Q () w'"
      unfolding w' eq by (simp add: assms(1))
  qed (simp_all add: assms(2))
  with False show ?thesis by (simp add: appendEntries_def)
qed

lemma keeps_appendEntries_frame: "frames J ledger_t \<Longrightarrow> keeps J (appendEntries E es)"
  by (simp add: appendEntries_def keeps_sreturn keeps_createMany_frame)

end
