(* ===== verification/Gateway.thy ===== *)
theory Gateway
  imports Ledger
begin

text \<open>
  The payment gateways of \<^verbatim>\<open>payments/gateway\<close> and the registry that picks one.  The internal
  mock settles at once; the simulated external providers keep the operations they were asked
  for and settle a pending one once the settlement delay has passed.  The inputs that no
  adapter reads (customer, job, provider user) are left out.  The interface \<open>gateway_call\<close>
  states what the payment operations need of a call: it answers, changes no row, and its
  answer carries a reason exactly when it failed and no processing time while pending.
\<close>

fun provider_name :: "paymentProvider \<Rightarrow> string" where
  "provider_name PP_INTERNAL = ''INTERNAL''"
| "provider_name PP_MPESA = ''MPESA''"
| "provider_name PP_EMOLA = ''EMOLA''"
| "provider_name PP_MKESH = ''MKESH''"
| "provider_name PP_BANK_TRANSFER = ''BANK_TRANSFER''"
| "provider_name PP_MANUAL = ''MANUAL''"

record gatewayInput =
  gi_idempotencyKey :: string
  gi_amount :: int
  gi_currency :: string
  gi_providerReference :: "string option"
  gi_metadata :: "json option"

record gatewayResult =
  gr_status :: gatewayStatus
  gr_providerReference :: string
  gr_processedAt :: "time option"
  gr_reason :: "string option"
  gr_rawPayload :: json

definition parseDesiredStatus :: "json option \<Rightarrow> gatewayStatus option" where
  "parseDesiredStatus metadata =
     (let simulate = (case metadata of None \<Rightarrow> None | Some m \<Rightarrow> json_get m ''simulate'') in
      if simulate = Some (JStr ''pending'') then Some GW_PENDING
      else if simulate = Some (JStr ''failed'') then Some GW_FAILED
      else if simulate = Some (JStr ''reversed'') then Some GW_REVERSED
      else if simulate = Some (JStr ''success'') then Some GW_SUCCEEDED
      else None)"

definition randomUUID :: "env \<Rightarrow> string svc" where
  "randomUUID E = sbind (sget w_ids) (\<lambda>n.
     sthen (smodify (\<lambda>w. w\<lparr>w_ids := Suc n\<rparr>)) (sreturn (e_uuid E n)))"

text \<open>\<^verbatim>\<open>status === 'PENDING' ? undefined : new Date()\<close> and \<^verbatim>\<open>status === 'FAILED' ? r : null\<close>.\<close>

definition answer :: "env \<Rightarrow> gatewayStatus \<Rightarrow> string \<Rightarrow> string \<Rightarrow> json \<Rightarrow> gatewayResult" where
  "answer E status ref failedReason raw =
     \<lparr>gr_status = status, gr_providerReference = ref,
      gr_processedAt = (if status = GW_PENDING then None else Some (e_now E)),
      gr_reason = (if status = GW_FAILED then Some failedReason else None),
      gr_rawPayload = raw\<rparr>"

subsection \<open>The internal mock\<close>

definition mock_payload :: "string \<Rightarrow> gatewayInput \<Rightarrow> json" where
  "mock_payload kind input = JObj [(''kind'', JStr kind), (''mock'', JBool True),
     (''idempotencyKey'', JStr (gi_idempotencyKey input)),
     (''amount'', JNum (show_int (gi_amount input))), (''currency'', JStr (gi_currency input))]"

definition internal_requestCharge :: "env \<Rightarrow> gatewayInput \<Rightarrow> gatewayResult svc" where
  "internal_requestCharge E input =
     (let status = or_else (parseDesiredStatus (gi_metadata input)) GW_SUCCEEDED in
      sbind (randomUUID E) (\<lambda>u.
      sreturn (answer E status (''internal-charge-'' @ u) ''mock_charge_failed''
        (mock_payload ''charge'' input))))"

definition internal_queryTransactionStatus :: "env \<Rightarrow> string \<Rightarrow> json option \<Rightarrow> gatewayResult svc" where
  "internal_queryTransactionStatus E ref metadata =
     (let status = or_else (parseDesiredStatus metadata) GW_SUCCEEDED in
      sreturn (answer E status ref ''mock_status_failed''
        (JObj [(''kind'', JStr ''status_query''), (''mock'', JBool True),
          (''providerReference'', JStr ref)])))"

definition internal_requestRefund :: "env \<Rightarrow> gatewayInput \<Rightarrow> gatewayResult svc" where
  "internal_requestRefund E input =
     (let status = or_else (parseDesiredStatus (gi_metadata input)) GW_SUCCEEDED in
      sbind (case gi_providerReference input of
               Some r \<Rightarrow> sreturn r
             | None \<Rightarrow> sbind (randomUUID E) (\<lambda>u. sreturn (''internal-refund-'' @ u))) (\<lambda>ref.
      sreturn (answer E status ref ''mock_refund_failed'' (mock_payload ''refund'' input))))"

definition internal_requestPayout :: "env \<Rightarrow> gatewayInput \<Rightarrow> gatewayResult svc" where
  "internal_requestPayout E input =
     (let status = or_else (parseDesiredStatus (gi_metadata input)) GW_SUCCEEDED in
      sbind (randomUUID E) (\<lambda>u.
      sreturn (answer E status (''internal-payout-'' @ u) ''mock_payout_failed''
        (mock_payload ''payout'' input))))"

subsection \<open>The simulated external providers\<close>

definition resolveSettlementDelayMs :: "env \<Rightarrow> paymentProvider \<Rightarrow> int" where
  "resolveSettlementDelayMs E provider =
     env_clamped 30000 3000 900000 (or_else (e_settlementOf E provider) (e_settlement E))"

definition createProviderReference :: "env \<Rightarrow> paymentProvider \<Rightarrow> string \<Rightarrow> string svc" where
  "createProviderReference E provider kind =
     sbind (randomUUID E) (\<lambda>u.
     sreturn (js_lower (provider_name provider) @ ''-'' @ kind @ ''-'' @ u))"

definition setOperation :: "paymentProvider \<Rightarrow> string \<Rightarrow> storedOperation \<Rightarrow> unit svc" where
  "setOperation provider ref operation =
     smodify (\<lambda>w. w\<lparr>w_ops := (w_ops w)((provider, ref) := Some operation)\<rparr>)"

definition external_payload :: "paymentProvider \<Rightarrow> string \<Rightarrow> (string \<times> json) list \<Rightarrow> json" where
  "external_payload provider operation extra = JObj ([(''provider'', JStr (provider_name provider)),
     (''mode'', JStr ''simulated_external''), (''operation'', JStr operation)] @ extra)"

definition operation_fields :: "gatewayInput \<Rightarrow> (string \<times> json) list" where
  "operation_fields input = [(''idempotencyKey'', JStr (gi_idempotencyKey input)),
     (''amount'', JNum (show_int (gi_amount input))), (''currency'', JStr (gi_currency input))]"

definition external_requestCharge :: "env \<Rightarrow> paymentProvider \<Rightarrow> gatewayInput \<Rightarrow> gatewayResult svc" where
  "external_requestCharge E provider input =
     sbind (createProviderReference E provider ''charge'') (\<lambda>ref.
     (let status = or_else (parseDesiredStatus (gi_metadata input)) GW_PENDING in
      sthen (setOperation provider ref \<lparr>so_status = status, so_createdAtMs = e_now E,
        so_reason = (if status = GW_FAILED then Some ''provider_charge_failed'' else None)\<rparr>)
      (sreturn (answer E status ref ''provider_charge_failed''
        (external_payload provider ''charge'' (operation_fields input))))))"

text \<open>A pending operation settles when the delay has passed.\<close>

definition settle :: "env \<Rightarrow> paymentProvider \<Rightarrow> storedOperation \<Rightarrow> storedOperation" where
  "settle E provider operation =
     (if so_status operation = GW_PENDING
         \<and> resolveSettlementDelayMs E provider \<le> e_now E - so_createdAtMs operation
      then operation\<lparr>so_status := GW_SUCCEEDED, so_reason := None\<rparr> else operation)"

definition external_queryTransactionStatus ::
  "env \<Rightarrow> paymentProvider \<Rightarrow> string \<Rightarrow> json option \<Rightarrow> gatewayResult svc" where
  "external_queryTransactionStatus E provider ref metadata =
     (case parseDesiredStatus metadata of
        Some forcedStatus \<Rightarrow> sreturn (answer E forcedStatus ref ''provider_forced_failed''
          (external_payload provider ''status_query'' [(''forced'', JBool True)]))
      | None \<Rightarrow>
        sbind (sget (\<lambda>w. w_ops w (provider, ref))) (\<lambda>found.
        case found of
          None \<Rightarrow> sreturn \<lparr>gr_status = GW_PENDING, gr_providerReference = ref,
            gr_processedAt = None, gr_reason = None,
            gr_rawPayload = external_payload provider ''status_query'' [(''knownReference'', JBool False)]\<rparr>
        | Some stored \<Rightarrow>
          (let operation = settle E provider stored in
           sthen (setOperation provider ref operation)
           (sreturn \<lparr>gr_status = so_status operation, gr_providerReference = ref,
             gr_processedAt = (if so_status operation \<noteq> GW_PENDING then Some (e_now E) else None),
             gr_reason = (if so_status operation = GW_FAILED then so_reason operation else None),
             gr_rawPayload = external_payload provider ''status_query'' [(''knownReference'', JBool True),
               (''settlementDelayMs'', JNum (show_int (resolveSettlementDelayMs E provider)))]\<rparr>))))"

definition external_requestRefund :: "env \<Rightarrow> paymentProvider \<Rightarrow> gatewayInput \<Rightarrow> gatewayResult svc" where
  "external_requestRefund E provider input =
     sbind (case gi_providerReference input of
              Some r \<Rightarrow> sreturn r | None \<Rightarrow> createProviderReference E provider ''refund'') (\<lambda>ref.
     (let status = or_else (parseDesiredStatus (gi_metadata input)) GW_PENDING in
      sthen (setOperation provider ref \<lparr>so_status = status, so_createdAtMs = e_now E,
        so_reason = (if status = GW_FAILED then Some ''provider_refund_failed'' else None)\<rparr>)
      (sreturn (answer E status ref ''provider_refund_failed''
        (external_payload provider ''refund'' (operation_fields input))))))"

definition external_requestPayout :: "env \<Rightarrow> paymentProvider \<Rightarrow> gatewayInput \<Rightarrow> gatewayResult svc" where
  "external_requestPayout E provider input =
     sbind (createProviderReference E provider ''payout'') (\<lambda>ref.
     (let status = or_else (parseDesiredStatus (gi_metadata input)) GW_PENDING in
      sthen (setOperation provider ref \<lparr>so_status = status, so_createdAtMs = e_now E,
        so_reason = (if status = GW_FAILED then Some ''provider_payout_failed'' else None)\<rparr>)
      (sreturn (answer E status ref ''provider_payout_failed''
        (external_payload provider ''payout'' (operation_fields input))))))"

subsection \<open>The registry\<close>

datatype adapter = InternalMock | Mpesa | Emola

definition getAdapter :: "paymentProvider \<Rightarrow> adapter svc" where
  "getAdapter provider =
     (if provider = PP_INTERNAL then sreturn InternalMock
      else if provider = PP_MPESA then sreturn Mpesa
      else if provider = PP_EMOLA then sreturn Emola
      else sbind (sget w_warned) (\<lambda>warnedUnsupported.
        sthen (swhen (provider \<notin> set warnedUnsupported)
          (smodify (\<lambda>w. w\<lparr>w_warned := provider # w_warned w\<rparr>)))
        (sreturn InternalMock)))"

text \<open>\<^verbatim>\<open>adapter.requestCharge(input)\<close> and its siblings: dispatch on the adapter's class.\<close>

fun requestCharge :: "env \<Rightarrow> adapter \<Rightarrow> gatewayInput \<Rightarrow> gatewayResult svc" where
  "requestCharge E InternalMock input = internal_requestCharge E input"
| "requestCharge E Mpesa input = external_requestCharge E PP_MPESA input"
| "requestCharge E Emola input = external_requestCharge E PP_EMOLA input"

fun queryTransactionStatus :: "env \<Rightarrow> adapter \<Rightarrow> string \<times> json option \<Rightarrow> gatewayResult svc" where
  "queryTransactionStatus E InternalMock (ref, md) = internal_queryTransactionStatus E ref md"
| "queryTransactionStatus E Mpesa (ref, md) = external_queryTransactionStatus E PP_MPESA ref md"
| "queryTransactionStatus E Emola (ref, md) = external_queryTransactionStatus E PP_EMOLA ref md"

fun requestRefund :: "env \<Rightarrow> adapter \<Rightarrow> gatewayInput \<Rightarrow> gatewayResult svc" where
  "requestRefund E InternalMock input = internal_requestRefund E input"
| "requestRefund E Mpesa input = external_requestRefund E PP_MPESA input"
| "requestRefund E Emola input = external_requestRefund E PP_EMOLA input"

fun requestPayout :: "env \<Rightarrow> adapter \<Rightarrow> gatewayInput \<Rightarrow> gatewayResult svc" where
  "requestPayout E InternalMock input = internal_requestPayout E input"
| "requestPayout E Mpesa input = external_requestPayout E PP_MPESA input"
| "requestPayout E Emola input = external_requestPayout E PP_EMOLA input"

subsection \<open>What a call promises\<close>

definition honest :: "gatewayResult \<Rightarrow> bool" where
  "honest r \<longleftrightarrow> (gr_processedAt r = None \<longleftrightarrow> gr_status r = GW_PENDING)
     \<and> (gr_reason r \<noteq> None \<longrightarrow> gr_status r = GW_FAILED)"

lemma honest_answer [simp]: "honest (answer E status ref reason raw)"
  by (simp add: honest_def answer_def)

text \<open>A call may use identifiers and the provider's memory, nothing else of the world.\<close>

definition gw_frame :: "world \<Rightarrow> world \<Rightarrow> bool" where
  "gw_frame w w' \<longleftrightarrow> w' = w\<lparr>w_ids := w_ids w', w_ops := w_ops w'\<rparr>"

locale gateway_call =
  fixes call :: "env \<Rightarrow> adapter \<Rightarrow> 'i \<Rightarrow> gatewayResult svc"
  assumes answers: "wp (call E a i) (\<lambda>r w'. honest r \<and> gw_frame w w') (\<lambda>_ _. False) w"
begin

lemma wp_call:
  assumes "\<And>r n ops. honest r \<Longrightarrow> Q r (w\<lparr>w_ids := n, w_ops := ops\<rparr>)"
  shows "wp (call E a i) Q X w"
  using answers by (rule wp_mono) (metis assms gw_frame_def, simp)

lemma keeps_call: "keeps J (call E a i)"
  by (simp add: keeps_wp wp_call)

lemma never_throws: "call E a i w \<noteq> (Inl e, w')"
  using answers [of E a i w] by (auto simp: wp_def)

end

lemmas gateway_defs = randomUUID_def createProviderReference_def setOperation_def gw_frame_def

interpretation gw_charge: gateway_call requestCharge
proof
  fix E a i w
  show "wp (requestCharge E a i) (\<lambda>r w'. honest r \<and> gw_frame w w') (\<lambda>_ _. False) w"
    by (cases a)
      (simp_all add: internal_requestCharge_def external_requestCharge_def gateway_defs wp_simps Let_def)
qed

interpretation gw_refund: gateway_call requestRefund
proof
  fix E a i w
  show "wp (requestRefund E a i) (\<lambda>r w'. honest r \<and> gw_frame w w') (\<lambda>_ _. False) w"
    by (cases a)
      (simp_all add: internal_requestRefund_def external_requestRefund_def gateway_defs wp_simps Let_def
        split: option.split)
qed

interpretation gw_payout: gateway_call requestPayout
proof
  fix E a i w
  show "wp (requestPayout E a i) (\<lambda>r w'. honest r \<and> gw_frame w w') (\<lambda>_ _. False) w"
    by (cases a)
      (simp_all add: internal_requestPayout_def external_requestPayout_def gateway_defs wp_simps Let_def)
qed

lemma wp_external_query:
  "wp (external_queryTransactionStatus E p ref md) (\<lambda>r w'. honest r \<and> gw_frame w w') (\<lambda>_ _. False) w"
  by (simp add: external_queryTransactionStatus_def gateway_defs wp_simps Let_def honest_def answer_def
      split: option.split)

interpretation gw_status: gateway_call queryTransactionStatus
proof
  fix E a w and i :: "string \<times> json option"
  obtain ref md where "i = (ref, md)" by fastforce
  then show "wp (queryTransactionStatus E a i) (\<lambda>r w'. honest r \<and> gw_frame w w') (\<lambda>_ _. False) w"
    using wp_external_query [of E _ ref md w]
    by (cases a) (simp_all add: internal_queryTransactionStatus_def gw_frame_def wp_simps Let_def)
qed

lemma wp_getAdapter:
  assumes "\<And>a ws. Q a (w\<lparr>w_warned := ws\<rparr>)"
  shows "wp (getAdapter p) Q X w"
  using assms [of _ "w_warned w"] assms by (simp add: getAdapter_def wp_simps)

lemma keeps_getAdapter [keeps_rules]: "keeps J (getAdapter p)"
  by (simp add: keeps_wp wp_getAdapter)

lemmas keeps_gateway [keeps_rules] = gw_charge.keeps_call gw_refund.keeps_call
  gw_payout.keeps_call gw_status.keeps_call

subsection \<open>Settlement\<close>

lemma settle_monotone: "so_status o1 \<noteq> GW_PENDING \<Longrightarrow> settle E p o1 = o1"
  by (simp add: settle_def)

lemma settle_once: "settle E' p (settle E p o1) = settle E p o1 \<or> so_status o1 = GW_PENDING"
  by (auto simp: settle_def)

lemma settlement_delay_bounds:
  "3000 \<le> resolveSettlementDelayMs E p" "resolveSettlementDelayMs E p \<le> 900000"
  using env_clamped_bounds [of 3000 30000 900000 "or_else (e_settlementOf E p) (e_settlement E)"]
  by (simp_all add: resolveSettlementDelayMs_def)

text \<open>An unknown provider is warned about once.\<close>

lemma getAdapter_warns_once:
  "distinct (w_warned w) \<Longrightarrow> distinct (w_warned (snd (getAdapter p w)))"
  by (simp add: getAdapter_def sreturn_def sbind_def sthen_def sget_def swhen_def smodify_def)

end
