(* ===== verification/Charges.thy ===== *)
theory Charges
  imports Gateway
begin

text \<open>
  Charging a job (\<^verbatim>\<open>payments/payments.service.ts\<close>): creating an intent, paying it, and applying
  what the gateway says to the transaction, the intent, the ledger and the job.  The invariant
  \<open>money_ok\<close> (every intent splits into fee and net, every intent's buckets sum to zero, and no
  platform, held or available balance is negative) is kept by each of them.
\<close>

subsection \<open>Exceptions\<close>

definition intentNotFound :: exn where
  "intentNotFound = NotFoundException ''Payment intent not found''"

definition noAgreedPrice :: exn where
  "noAgreedPrice = ConflictException ''Jobs created from selected proposals must keep agreedPrice snapshot before payment intent creation''"

definition jobNotFound :: exn where
  "jobNotFound = NotFoundException ''Job not found''"

definition notJobClient :: exn where
  "notJobClient = ForbiddenException ''Only the job client can create payment intent''"

definition legacyJob :: exn where
  "legacyJob = ConflictException ''Legacy direct jobs are not eligible. Payment intents are only supported for jobs created from selected proposals.''"

definition notIntentCustomer :: exn where
  "notIntentCustomer = ForbiddenException ''Only the customer can pay this intent''"

definition intentNotPayable :: exn where
  "intentNotPayable = ConflictException ''Payment intent is not payable in current state''"

subsection \<open>Status mapping\<close>

fun mapGatewayToTransactionStatus :: "gatewayStatus \<Rightarrow> transactionStatus" where
  "mapGatewayToTransactionStatus GW_SUCCEEDED = TX_SUCCEEDED"
| "mapGatewayToTransactionStatus GW_FAILED = TX_FAILED"
| "mapGatewayToTransactionStatus GW_REVERSED = TX_REVERSED"
| "mapGatewayToTransactionStatus GW_PENDING = TX_PROCESSING"

definition isDepositIntent :: "json option \<Rightarrow> bool" where
  "isDepositIntent metadata =
     (case metadata of Some m \<Rightarrow> json_get m ''kind'' = Some (JStr ''deposit'') | None \<Rightarrow> False)"

definition mapGatewayToIntentStatus :: "gatewayStatus \<Rightarrow> json option \<Rightarrow> intentStatus" where
  "mapGatewayToIntentStatus status metadata =
     (if status = GW_SUCCEEDED then (if isDepositIntent metadata then PI_PAID_PARTIAL else PI_SUCCEEDED)
      else if status = GW_FAILED then PI_FAILED
      else PI_PENDING_CONFIRMATION)"

definition parseGatewayStatus :: "string \<Rightarrow> gatewayStatus" where
  "parseGatewayStatus status =
     (let normalized = js_upper (js_trim status) in
      if normalized = ''SUCCEEDED'' \<or> normalized = ''SUCCESS'' then GW_SUCCEEDED
      else if normalized = ''FAILED'' \<or> normalized = ''FAILURE'' then GW_FAILED
      else if normalized = ''REVERSED'' then GW_REVERSED
      else GW_PENDING)"

lemma mapGatewayToTransactionStatus_eq [simp]:
  "mapGatewayToTransactionStatus g = TX_SUCCEEDED \<longleftrightarrow> g = GW_SUCCEEDED"
  "mapGatewayToTransactionStatus g = TX_FAILED \<longleftrightarrow> g = GW_FAILED"
  "mapGatewayToTransactionStatus g = TX_REVERSED \<longleftrightarrow> g = GW_REVERSED"
  "mapGatewayToTransactionStatus g = TX_PROCESSING \<longleftrightarrow> g = GW_PENDING"
  by (cases g; simp)+

subsection \<open>Applying a gateway status\<close>

definition charge_entries :: "paymentIntent \<Rightarrow> id \<Rightarrow> ledgerEntry list" where
  "charge_entries intent transactionId =
     [ledgerInput (Some (pi_jobId intent)) (Some (pi_id intent)) (Some transactionId) PA_CUSTOMER LE_CUSTOMER_CHARGE
        (pi_amount intent) ''MZN'' LD_DEBIT LB_CUSTOMER_EXTERNAL ''Customer charge confirmed'' None,
      ledgerInput (Some (pi_jobId intent)) (Some (pi_id intent)) (Some transactionId) PA_PLATFORM LE_PLATFORM_FEE_RESERVED
        (pi_platformFeeAmount intent) ''MZN'' LD_CREDIT LB_PLATFORM_RESERVED
        ''Platform fee reserved from customer charge'' None,
      ledgerInput (Some (pi_jobId intent)) (Some (pi_id intent)) (Some transactionId) PA_PROVIDER LE_PROVIDER_BALANCE_HELD
        (pi_providerNetAmount intent) ''MZN'' LD_CREDIT LB_PROVIDER_HELD
        ''Provider net amount moved to held balance'' None]"

definition ensureChargeLedgerEntries :: "env \<Rightarrow> paymentIntent \<Rightarrow> id \<Rightarrow> unit svc" where
  "ensureChargeLedgerEntries E intent transactionId =
     sbind (findBy ledger_t
       (\<lambda>e. le_transactionId e = Some transactionId \<and> le_entryType e = LE_CUSTOMER_CHARGE)) (\<lambda>existing.
     if existing \<noteq> None then sreturn ()
     else appendEntries E (charge_entries intent transactionId))"

record statusInput =
  si_transaction :: paymentTransaction
  si_gatewayStatus :: gatewayStatus
  si_rawPayload :: "json option"
  si_reason :: "string option"

definition status_update :: "env \<Rightarrow> statusInput \<Rightarrow> paymentTransaction \<Rightarrow> paymentTransaction" where
  "status_update E input r =
     (let transactionStatus = mapGatewayToTransactionStatus (si_gatewayStatus input) in
      r\<lparr>tx_status := transactionStatus,
        tx_confirmedAmount := (if transactionStatus = TX_SUCCEEDED
          then Some (tx_requestedAmount (si_transaction input))
          else tx_confirmedAmount (si_transaction input)),
        tx_providerPayload := or_opt (si_rawPayload input) (tx_providerPayload r),
        tx_failureReason := (if transactionStatus = TX_FAILED
          then Some (or_else (si_reason input) ''provider_reported_failure'') else None),
        tx_processedAt := Some (e_now E)\<rparr>)"

text \<open>The block under \<^verbatim>\<open>if (updatedTransaction.status === 'SUCCEEDED')\<close>.\<close>

definition settleCharge :: "env \<Rightarrow> paymentIntent \<Rightarrow> id \<Rightarrow> unit svc" where
  "settleCharge E intent transactionId =
     sthen (ensureChargeLedgerEntries E intent transactionId)
     (sthen (update E jobs_t (pi_jobId intent) (\<lambda>r. r\<lparr>jb_contactUnlockedAt := Some (e_now E)\<rparr>))
      (sreturn ()))"

lemma status_update_sel [simp]:
  "tx_id (status_update E input r) = tx_id r"
  "tx_paymentIntentId (status_update E input r) = tx_paymentIntentId r"
  "tx_type (status_update E input r) = tx_type r"
  "tx_status (status_update E input r) = mapGatewayToTransactionStatus (si_gatewayStatus input)"
  by (simp_all add: status_update_def Let_def)

definition applyToIntent :: "env \<Rightarrow> gatewayStatus \<Rightarrow> paymentTransaction \<Rightarrow> id \<Rightarrow> unit svc" where
  "applyToIntent E gatewayStatus updatedTransaction intentId =
     sbind (require intents_t intentId intentNotFound) (\<lambda>intent.
     sthen (swhen (mapGatewayToIntentStatus gatewayStatus (pi_metadata intent)
           \<in> set [PI_PAID_PARTIAL, PI_SUCCEEDED, PI_FAILED, PI_PENDING_CONFIRMATION]
         \<and> pi_status intent \<noteq> mapGatewayToIntentStatus gatewayStatus (pi_metadata intent))
       (sthen (update E intents_t (pi_id intent)
         (\<lambda>r. r\<lparr>pi_status := mapGatewayToIntentStatus gatewayStatus (pi_metadata intent)\<rparr>)) (sreturn ())))
     (swhen (tx_status updatedTransaction = TX_SUCCEEDED)
       (settleCharge E intent (tx_id updatedTransaction))))"

definition applyGatewayStatus :: "env \<Rightarrow> statusInput \<Rightarrow> paymentTransaction svc" where
  "applyGatewayStatus E input =
     sbind (update E transactions_t (tx_id (si_transaction input)) (status_update E input)) (\<lambda>updatedTransaction.
     sthen (case tx_paymentIntentId updatedTransaction of
              None \<Rightarrow> sreturn ()
            | Some intentId \<Rightarrow> applyToIntent E (si_gatewayStatus input) updatedTransaction intentId)
     (sreturn updatedTransaction))"

subsection \<open>Creating an intent\<close>

type_synonym intentView = "paymentIntent \<times> paymentTransaction list"

text \<open>\<^verbatim>\<open>include: { transactions: { orderBy: ... } }\<close>.\<close>

definition with_transactions :: "db \<Rightarrow> paymentIntent \<Rightarrow> intentView" where
  "with_transactions d i =
     (i, sort_desc tx_order (filter (\<lambda>t. tx_paymentIntentId t = Some (pi_id i)) (transactions d)))"

definition chargeAmountOf :: "job \<Rightarrow> int option" where
  "chargeAmountOf job =
     (case jb_agreedPrice job of
        Some p \<Rightarrow> if 0 < p then Some p else (case jb_budget job of Some b \<Rightarrow> if 0 < b then Some b else None | None \<Rightarrow> None)
      | None \<Rightarrow> (case jb_budget job of Some b \<Rightarrow> if 0 < b then Some b else None | None \<Rightarrow> None))"

definition resolveChargeAmount :: "job \<Rightarrow> int svc" where
  "resolveChargeAmount job = sopt (chargeAmountOf job)
     noAgreedPrice"

lemma chargeAmountOf_pos: "chargeAmountOf job = Some a \<Longrightarrow> 0 < a"
  by (auto simp: chargeAmountOf_def split: option.splits if_splits)

fun pricingMode_name :: "jobPricingMode \<Rightarrow> string" where
  "pricingMode_name JPM_FIXED_PRICE = ''FIXED_PRICE''"
| "pricingMode_name JPM_QUOTE_REQUEST = ''QUOTE_REQUEST''"

text \<open>The user behind a job's worker profile; the foreign key makes the row exist.\<close>

definition worker_user :: "db \<Rightarrow> job \<Rightarrow> id option" where
  "worker_user d j = map_option wp_userId (find_row workerProfiles_t (jb_workerProfileId j) d)"

definition open_intent :: "intentStatus \<Rightarrow> bool" where
  "open_intent s \<longleftrightarrow> s \<in> set [PI_AWAITING_PAYMENT, PI_PENDING_CONFIRMATION, PI_PAID_PARTIAL, PI_SUCCEEDED]"

text \<open>The checks of \<open>createIntent\<close> on the job, and the amount it is charged.\<close>

definition payableJob :: "id \<Rightarrow> id \<Rightarrow> (job \<times> int) svc" where
  "payableJob actorUserId jobId =
     sbind (require jobs_t jobId jobNotFound) (\<lambda>job.
     sthen (sguard (jb_clientId job = actorUserId)
       notJobClient)
     (sthen (sguard (truthy (jb_requestId job) \<noteq> None \<and> truthy (jb_proposalId job) \<noteq> None)
       legacyJob)
     (sbind (resolveChargeAmount job) (\<lambda>chargeAmount. sreturn (job, chargeAmount)))))"

definition newIntent :: "env \<Rightarrow> id \<Rightarrow> job \<Rightarrow> int \<Rightarrow> id option \<Rightarrow> paymentProvider option \<Rightarrow> id \<Rightarrow> paymentIntent" where
  "newIntent E actorUserId job chargeAmount workerUserId provider i =
     (let s = computeSplit E chargeAmount in
      \<lparr>pi_id = i, pi_jobId = jb_id job, pi_customerId = actorUserId,
       pi_providerUserId = or_opt (jb_providerId job) workerUserId,
       pi_amount = sp_gross s, pi_currency = ''MZN'', pi_platformFeeAmount = sp_platformFee s,
       pi_providerNetAmount = sp_providerNet s, pi_status = PI_AWAITING_PAYMENT,
       pi_provider = or_else provider PP_INTERNAL, pi_expiresAt = Some (buildIntentExpiryDate E),
       pi_acceptedQuoteSnapshot = jb_agreedPrice job,
       pi_metadata = Some (JObj [(''pricingMode'', JStr (pricingMode_name (jb_pricingMode job))),
         (''flow'', JStr ''service_request'')]),
       pi_createdAt = e_now E, pi_updatedAt = e_now E\<rparr>)"

definition createIntent :: "env \<Rightarrow> id \<Rightarrow> id \<Rightarrow> paymentProvider option \<Rightarrow> intentView svc" where
  "createIntent E actorUserId jobId provider =
     sbind (payableJob actorUserId jobId) (\<lambda>(job, chargeAmount).
     sbind (findFirstDesc intents_t pi_order
       (\<lambda>i. pi_jobId i = jb_id job \<and> open_intent (pi_status i))) (\<lambda>existingIntent.
     case existingIntent of
       Some i \<Rightarrow> sread (\<lambda>d. with_transactions d i)
     | None \<Rightarrow>
       sbind (sread (\<lambda>d. worker_user d job)) (\<lambda>workerUserId.
       sbind (create E intents_t (newIntent E actorUserId job chargeAmount workerUserId provider)) (\<lambda>intent.
       sthen (recordBusinessEvent ''payments'' ''payment_intent_created'' ''success'')
       (sread (\<lambda>d. with_transactions d intent))))))"

subsection \<open>Paying an intent\<close>

record payInput =
  py_idempotencyKey :: "string option"
  py_simulate :: "string option"

definition charge_key :: "env \<Rightarrow> paymentIntent \<Rightarrow> payInput \<Rightarrow> string" where
  "charge_key E intent dto = or_else (trim_or_null (py_idempotencyKey dto))
     (''charge-'' @ pi_id intent @ ''-'' @ show_int (e_now E))"

definition findIntentOrThrow :: "id \<Rightarrow> intentView svc" where
  "findIntentOrThrow intentId =
     sbind (findUniqueOrThrow intents_t intentId) (\<lambda>i. sread (\<lambda>d. with_transactions d i))"

definition chargeIntent :: "env \<Rightarrow> paymentIntent \<Rightarrow> payInput \<Rightarrow> string \<Rightarrow> intentView svc" where
  "chargeIntent E intent dto idempotencyKey =
     sbind (getAdapter (pi_provider intent)) (\<lambda>gateway.
     sbind (requestCharge E gateway \<lparr>gi_idempotencyKey = idempotencyKey, gi_amount = pi_amount intent,
       gi_currency = pi_currency intent, gi_providerReference = None,
       gi_metadata = Some (JObj ((''paymentIntentId'', JStr (pi_id intent)) #
         (case truthy (py_simulate dto) of Some s \<Rightarrow> [(''simulate'', JStr s)] | None \<Rightarrow> [])))\<rparr>) (\<lambda>result.
     sthen (transact (
       sbind (create E transactions_t (\<lambda>i.
         \<lparr>tx_id = i, tx_paymentIntentId = Some (pi_id intent), tx_type = TT_CHARGE,
          tx_status = mapGatewayToTransactionStatus (gr_status result), tx_provider = pi_provider intent,
          tx_providerReference = Some (gr_providerReference result),
          tx_idempotencyKey = idempotencyKey, tx_requestedAmount = pi_amount intent,
          tx_confirmedAmount = (if mapGatewayToTransactionStatus (gr_status result) = TX_SUCCEEDED
            then Some (pi_amount intent) else None),
          tx_currency = pi_currency intent, tx_providerPayload = Some (gr_rawPayload result),
          tx_failureReason = gr_reason result, tx_processedAt = gr_processedAt result,
          tx_createdAt = e_now E, tx_updatedAt = e_now E\<rparr>)) (\<lambda>transaction.
       applyGatewayStatus E \<lparr>si_transaction = transaction, si_gatewayStatus = gr_status result,
         si_rawPayload = Some (gr_rawPayload result), si_reason = gr_reason result\<rparr>)))
     (findIntentOrThrow (pi_id intent))))"

definition payIntent :: "env \<Rightarrow> id \<Rightarrow> id \<Rightarrow> payInput \<Rightarrow> intentView svc" where
  "payIntent E intentId actorUserId dto =
     sbind (require intents_t intentId intentNotFound) (\<lambda>intent.
     sthen (sguard (pi_customerId intent = actorUserId)
       notIntentCustomer)
     (if pi_status intent = PI_PAID_PARTIAL \<or> pi_status intent = PI_SUCCEEDED
      then sread (\<lambda>d. with_transactions d intent)
      else
      sthen (sguard (pi_status intent \<in> set [PI_AWAITING_PAYMENT, PI_PENDING_CONFIRMATION, PI_FAILED])
        intentNotPayable)
      (sbind (if truthy (py_idempotencyKey dto) \<noteq> None
              then findBy transactions_t (\<lambda>t. tx_idempotencyKey t = charge_key E intent dto)
              else sreturn None) (\<lambda>existingTransaction.
       case existingTransaction of
         Some t \<Rightarrow> if tx_paymentIntentId t = Some (pi_id intent) then findIntentOrThrow (pi_id intent)
           else chargeIntent E intent dto (charge_key E intent dto)
       | None \<Rightarrow> chargeIntent E intent dto (charge_key E intent dto)))))"

subsection \<open>The money invariant\<close>

definition split_ok :: "paymentIntent \<Rightarrow> bool" where
  "split_ok i \<longleftrightarrow> 0 \<le> pi_platformFeeAmount i \<and> 0 \<le> pi_providerNetAmount i
     \<and> pi_platformFeeAmount i + pi_providerNetAmount i = pi_amount i"

definition book_ok :: "ledgerEntry list \<Rightarrow> bool" where
  "book_ok es \<longleftrightarrow> (\<forall>i. total_of i es = 0 \<and> (\<forall>b. b \<noteq> LB_CUSTOMER_EXTERNAL \<longrightarrow> 0 \<le> bal b i es))"

definition money_ok :: "db \<Rightarrow> bool" where
  "money_ok d \<longleftrightarrow> (\<forall>i \<in> set (intents d). split_ok i) \<and> book_ok (ledger d)"

lemma money_frames [keeps_rules]:
  "frames money_ok users_t" "frames money_ok serviceRequests_t" "frames money_ok invitations_t"
  "frames money_ok proposals_t" "frames money_ok jobs_t" "frames money_ok notifications_t"
  "frames money_ok transactions_t" "frames money_ok payouts_t" "frames money_ok refunds_t"
  "frames money_ok incidents_t" "frames money_ok incidentEvents_t" "frames money_ok paymentEvents_t"
  "frames money_ok interventions_t" "frames money_ok reviews_t" "frames money_ok workerProfiles_t"
  by (simp_all add: frames_def money_ok_def)

lemmas money_rules = keeps_rules keeps_frame money_frames

lemma money_ok_intent: "money_ok d \<Longrightarrow> find_row intents_t i d = Some r \<Longrightarrow> split_ok r"
  by (auto simp: money_ok_def dest: find_row_SomeD)

lemma keeps_money_update_intent:
  assumes "\<And>r. split_ok (f r) = split_ok r"
  shows "keeps money_ok (update E intents_t i f)"
proof (rule keeps_update)
  fix d n assume "money_ok d"
  moreover have "split_ok (r\<lparr>pi_updatedAt := n\<rparr>) = split_ok r" for r
    by (simp add: split_ok_def)
  ultimately show "money_ok (upd_rows intents_t n (\<lambda>r. t_key intents_t r = i) f d)"
    using tb_intents.ball_upd [of n _ f d split_ok] assms
    by (simp add: money_ok_def upd_rows_def)
qed

lemma keeps_money_create_intent:
  "(\<And>i. split_ok (mk i)) \<Longrightarrow> keeps money_ok (create E intents_t mk)"
  by (rule keeps_create) (simp add: money_ok_def)

lemma split_ok_set [simp]: "split_ok (r\<lparr>pi_status := s\<rparr>) = split_ok r"
    "split_ok (r\<lparr>pi_updatedAt := n\<rparr>) = split_ok r"
  by (simp_all add: split_ok_def)

lemma book_ok_bal: "book_ok es \<Longrightarrow> b \<noteq> LB_CUSTOMER_EXTERNAL \<Longrightarrow> 0 \<le> bal b i es"
  by (simp add: book_ok_def)

text \<open>The customer never gets back more than was charged.\<close>

lemma book_ok_customer:
  assumes "book_ok es"
  shows "bal LB_CUSTOMER_EXTERNAL i es \<le> 0"
proof -
  have "total_of i es = 0" using assms by (simp add: book_ok_def)
  then show ?thesis
    using book_ok_bal [OF assms, of LB_PLATFORM_RESERVED i] book_ok_bal [OF assms, of LB_PLATFORM_AVAILABLE i]
      book_ok_bal [OF assms, of LB_PROVIDER_HELD i] book_ok_bal [OF assms, of LB_PROVIDER_AVAILABLE i]
      book_ok_bal [OF assms, of LB_PROVIDER_PAID_OUT i]
    by (simp add: total_of_eq)
qed

lemma money_ok_bal: "money_ok d \<Longrightarrow> b \<noteq> LB_CUSTOMER_EXTERNAL \<Longrightarrow> 0 \<le> bal b i (ledger d)"
  by (simp add: money_ok_def book_ok_bal)

text \<open>Posting a balanced batch that overdraws no bucket keeps the invariant.\<close>

lemma wp_post_money:
  assumes "money_ok (w_db w)" "\<And>i. total_of i fs = 0"
    and "\<And>i b. b \<noteq> LB_CUSTOMER_EXTERNAL \<Longrightarrow> 0 \<le> bal b i (ledger (w_db w)) + bal b i fs"
  shows "wp (appendEntries E fs) (\<lambda>_ w'. money_ok (w_db w')) (\<lambda>_ w'. money_ok (w_db w')) w"
proof (rule wp_appendEntries)
  fix gs n assume "stamped fs gs"
  with assms have "book_ok (ledger (w_db w) @ gs)"
    by (simp add: money_ok_def book_ok_def total_of_append stamped_bal stamped_total)
  with assms(1) show "money_ok (w_db (w\<lparr>w_ids := n, w_db := (w_db w)\<lparr>ledger := ledger (w_db w) @ gs\<rparr>\<rparr>))"
    by (simp add: money_ok_def)
qed (simp add: assms(1))

lemma effect_input [simp]: "effect (ledgerInput jobId intentId t actor ty n c dir bucket s u) b i =
    (if bucket = b \<and> actor = actor_of b \<and> intentId = Some i then (if dir = LD_CREDIT then n else - n) else 0)"
  by (simp add: effect_def ledgerInput_def signed_def)

lemma total_charge: "split_ok intent \<Longrightarrow> total_of i (charge_entries intent t) = 0"
  by (simp add: total_of_eq charge_entries_def split_ok_def)

lemma keeps_ensureCharge:
  assumes "split_ok intent"
  shows "keeps money_ok (ensureChargeLedgerEntries E intent t)"
proof -
  have "keeps money_ok (appendEntries E (charge_entries intent t))"
    unfolding keeps_wp
  proof (intro allI impI wp_post_money)
    fix w :: world and i b assume "money_ok (w_db w)" "b \<noteq> LB_CUSTOMER_EXTERNAL"
    then show "0 \<le> bal b i (ledger (w_db w)) + bal b i (charge_entries intent t)"
      using assms money_ok_bal [of "w_db w" b i] by (cases b) (simp_all add: split_ok_def charge_entries_def)
  qed (simp_all add: assms total_charge)
  then show ?thesis
    by (simp add: ensureChargeLedgerEntries_def keeps_rules)
qed

lemma keeps_applyToIntent: "keeps money_ok (applyToIntent E g t i)"
  unfolding applyToIntent_def
  by (rule keeps_require_when [where P = split_ok])
    (simp_all add: money_rules money_ok_intent settleCharge_def keeps_ensureCharge keeps_money_update_intent)

lemma keeps_applyGatewayStatus: "keeps money_ok (applyGatewayStatus E input)"
  by (simp add: applyGatewayStatus_def money_rules keeps_applyToIntent)

lemma keeps_payIntent: "keeps money_ok (payIntent E i u dto)"
  by (simp add: payIntent_def chargeIntent_def findIntentOrThrow_def money_rules keeps_applyGatewayStatus)

lemma split_ok_newIntent: "split_ok (newIntent E u j a wu p i)"
  by (simp add: split_ok_def newIntent_def Let_def computeSplit_ok)

lemma keeps_createIntent: "keeps money_ok (createIntent E u j p)"
  by (simp add: createIntent_def payableJob_def resolveChargeAmount_def money_rules
      keeps_money_create_intent split_ok_newIntent split_beta)

subsection \<open>Creating an intent, again\<close>

lemma wp_payableJob: "wp (payableJob u j) Q X w =
  (case find_row jobs_t j (w_db w) of
     None \<Rightarrow> X jobNotFound w
   | Some job \<Rightarrow>
     if jb_clientId job \<noteq> u then X notJobClient w
     else if truthy (jb_requestId job) = None \<or> truthy (jb_proposalId job) = None then X legacyJob w
     else case chargeAmountOf job of None \<Rightarrow> X noAgreedPrice w | Some a \<Rightarrow> Q (job, a) w)"
  by (auto simp: payableJob_def resolveChargeAmount_def wp_simps split: option.splits)

lemma payableJob_run: "payableJob u j w = (Inr v, w1) \<longleftrightarrow> w1 = w \<and>
    find_row jobs_t j (w_db w) = Some (fst v) \<and> jb_clientId (fst v) = u
    \<and> truthy (jb_requestId (fst v)) \<noteq> None \<and> truthy (jb_proposalId (fst v)) \<noteq> None
    \<and> chargeAmountOf (fst v) = Some (snd v)"
  unfolding run_wp wp_payableJob by (cases v) (auto split: option.splits)

lemma latest_appended:
  assumes "filter P xs = []" "P x"
  shows "first_of (sort_desc k (filter P (xs @ [x]))) = Some x"
  using assms by simp

text \<open>What a successful call leaves: the view of an open intent of the job, old or new.\<close>

lemma createIntent_result:
  assumes "createIntent E u j p w = (Inr r, w1)"
  obtains job a i where "payableJob u j w = (Inr (job, a), w)" "payableJob u j w1 = (Inr (job, a), w1)"
    "r = with_transactions (w_db w1) i"
    "first_of (sort_desc pi_order (filter (\<lambda>i. pi_jobId i = jb_id job \<and> open_intent (pi_status i)) (intents (w_db w1)))) = Some i"
    "w1 = w \<or> (\<exists>n. intents (w_db w1) = intents (w_db w) @ [i] \<and>
      i = newIntent E u job a (worker_user (w_db w) job) p n)"
proof -
  obtain job a where pj: "payableJob u j w = (Inr (job, a), w)"
    using assms by (auto simp: createIntent_def sbind_returned payableJob_run)
  let ?P = "\<lambda>i. pi_jobId i = jb_id job \<and> open_intent (pi_status i)"
  show thesis
  proof (cases "first_of (sort_desc pi_order (filter ?P (intents (w_db w))))")
    case (Some i)
    then have eq: "r = with_transactions (w_db w) i" "w1 = w"
      using assms pj by (auto simp: createIntent_def sbind_returned findFirstDesc_def sread_def)
    show thesis
      by (rule that [of job a i]) (use Some pj in \<open>simp_all add: eq\<close>)
  next
    case None
    let ?i = "newIntent E u job a (worker_user (w_db w) job) p (e_cuid E (w_ids w))"
    have none: "filter ?P (intents (w_db w)) = []"
      using None by (simp add: first_of_None_iff)
    have w1: "w_db w1 = (w_db w)\<lparr>intents := intents (w_db w) @ [?i]\<rparr> \<and> r = with_transactions (w_db w1) ?i"
      using assms None pj unfolding createIntent_def sbind_returned
      by (auto simp: findFirstDesc_def sread_def create_def Let_def sthen_def sbind_returned
          recordBusinessEvent_def smodify_def split: if_splits)
    have "?P ?i" by (simp add: newIntent_def Let_def open_intent_def)
    then have "first_of (sort_desc pi_order (filter ?P (intents (w_db w1)))) = Some ?i"
      using w1 none by simp
    moreover have "payableJob u j w1 = (Inr (job, a), w1)"
      using pj w1 by (simp add: payableJob_run find_row_def)
    moreover have "intents (w_db w1) = intents (w_db w) @ [?i]" using w1 by simp
    ultimately show thesis
      using w1 by (intro that [of job a ?i] disjI2 exI [of _ "e_cuid E (w_ids w)"] conjI pj refl) blast+
  qed
qed

lemma createIntent_again:
  assumes "createIntent E u j p w = (Inr r, w1)"
  shows "createIntent E' u j p' w1 = (Inr r, w1)"
  using assms
  by (rule createIntent_result)
    (simp add: createIntent_def sbind_returned findFirstDesc_def sread_def)

subsection \<open>What a gateway status does to the balances\<close>

text \<open>Whether a transaction's charge is in the book.\<close>

definition charged :: "id \<Rightarrow> ledgerEntry list \<Rightarrow> bool" where
  "charged t es \<longleftrightarrow> (\<exists>e \<in> set es. le_transactionId e = Some t \<and> le_entryType e = LE_CUSTOMER_CHARGE)"

lemma find_charged: "find (\<lambda>e. le_transactionId e = Some t \<and> le_entryType e = LE_CUSTOMER_CHARGE) es = None
    \<longleftrightarrow> \<not> charged t es"
  by (auto simp: charged_def find_None_iff)

lemma wp_ensureCharge:
  assumes "charged t (ledger (w_db w)) \<Longrightarrow> Q () w"
    and "\<And>fs n. \<not> charged t (ledger (w_db w)) \<Longrightarrow> stamped (charge_entries intent t) fs \<Longrightarrow>
      Q () (w\<lparr>w_ids := n, w_db := (w_db w)\<lparr>ledger := ledger (w_db w) @ fs\<rparr>\<rparr>)"
    and "\<And>e n. X e (w\<lparr>w_ids := n\<rparr>)"
  shows "wp (ensureChargeLedgerEntries E intent t) Q X w"
  unfolding ensureChargeLedgerEntries_def
  by (cases "charged t (ledger (w_db w))")
    (simp_all add: wp_simps find_charged assms wp_appendEntries flip: not_None_eq)

definition post_charge :: "gatewayStatus \<Rightarrow> paymentIntent \<Rightarrow> id \<Rightarrow> ledgerEntry list \<Rightarrow> ledgerBucket \<Rightarrow> id \<Rightarrow> int" where
  "post_charge g intent t es b k =
     (if g = GW_SUCCEEDED \<and> \<not> charged t es then bal b k (charge_entries intent t) else 0)"


lemma settleCharge_bal:
  assumes "\<And>b k. B b k = bal b k (ledger (w_db w)) +
      (if charged t (ledger (w_db w)) then 0 else bal b k (charge_entries intent t))"
  shows "wp (settleCharge E intent t) (\<lambda>_ w'. \<forall>b k. bal b k (ledger (w_db w')) = B b k) (\<lambda>_ _. True) w"
  unfolding settleCharge_def wp_sthen
proof (rule wp_ensureCharge)
  assume "charged t (ledger (w_db w))"
  then show "wp (update E jobs_t (pi_jobId intent) (\<lambda>r. r\<lparr>jb_contactUnlockedAt := Some (e_now E)\<rparr>))
     (\<lambda>_. wp (sreturn ()) (\<lambda>_ w'. \<forall>b k. bal b k (ledger (w_db w')) = B b k) (\<lambda>_ _. True)) (\<lambda>_ _. True) w"
    by (simp add: assms wp_simps upd_rows_def split: option.split)
next
  fix fs n assume "\<not> charged t (ledger (w_db w))" "stamped (charge_entries intent t) fs"
  then show "wp (update E jobs_t (pi_jobId intent) (\<lambda>r. r\<lparr>jb_contactUnlockedAt := Some (e_now E)\<rparr>))
     (\<lambda>_. wp (sreturn ()) (\<lambda>_ w'. \<forall>b k. bal b k (ledger (w_db w')) = B b k) (\<lambda>_ _. True)) (\<lambda>_ _. True)
     (w\<lparr>w_ids := n, w_db := (w_db w)\<lparr>ledger := ledger (w_db w) @ fs\<rparr>\<rparr>)"
    by (simp add: assms wp_simps upd_rows_def stamped_bal split: option.split)
qed simp

lemma apply_balances:
  assumes "find_row transactions_t (tx_id (si_transaction input)) (w_db w) = Some r"
    and "tx_paymentIntentId r = Some i" "find_row intents_t i (w_db w) = Some intent"
  shows "wp (applyGatewayStatus E input)
    (\<lambda>t w'. \<forall>b k. bal b k (ledger (w_db w')) = bal b k (ledger (w_db w)) +
        post_charge (si_gatewayStatus input) intent (tx_id r) (ledger (w_db w)) b k)
    (\<lambda>_ _. True) w"
proof -
  have id: "tx_id (si_transaction input) = tx_id r"
    using assms(1) by (auto dest: find_row_SomeD)
  define B where "B b k = bal b k (ledger (w_db w)) +
    post_charge (si_gatewayStatus input) intent (tx_id r) (ledger (w_db w)) b k" for b k
  have settle: "wp (settleCharge E intent (tx_id r)) (\<lambda>_ w'. \<forall>b k. bal b k (ledger (w_db w')) = B b k) (\<lambda>_ _. True) w3"
    if "ledger (w_db w3) = ledger (w_db w)" "si_gatewayStatus input = GW_SUCCEEDED" for w3
    by (rule settleCharge_bal) (simp add: that B_def post_charge_def)
  have none: "bal b k (ledger (w_db w)) = B b k" if "si_gatewayStatus input \<noteq> GW_SUCCEEDED" for b k
    using that by (simp add: B_def post_charge_def)
  have "wp (applyToIntent E (si_gatewayStatus input) t i)
      (\<lambda>_ w'. \<forall>b k. bal b k (ledger (w_db w')) = B b k) (\<lambda>_ _. True) w2"
    if "ledger (w_db w2) = ledger (w_db w)" "intents (w_db w2) = intents (w_db w)" "tx_id t = tx_id r"
      "tx_status t = mapGatewayToTransactionStatus (si_gatewayStatus input)" for t w2
    using assms(3) that
    by (simp add: applyToIntent_def wp_simps find_row_def upd_rows_def settle none split: option.split)
  then show ?thesis
    using assms id unfolding B_def
    by (simp add: applyGatewayStatus_def wp_simps find_row_def upd_rows_def)
qed

subsection \<open>A transaction is charged at most once\<close>

definition charges_of :: "id \<Rightarrow> ledgerEntry list \<Rightarrow> nat" where
  "charges_of t es = length (filter (\<lambda>e. le_transactionId e = Some t \<and> le_entryType e = LE_CUSTOMER_CHARGE) es)"

lemma charges_of_simps [simp]: "charges_of t [] = 0"
  "charges_of t (e # es) = (if le_transactionId e = Some t \<and> le_entryType e = LE_CUSTOMER_CHARGE then 1 else 0) + charges_of t es"
  "charges_of t (es @ fs) = charges_of t es + charges_of t fs"
  by (simp_all add: charges_of_def)

lemma stamped_charges: "stamped es fs \<Longrightarrow> charges_of t fs = charges_of t es"
proof -
  have "charges_of t (map2 (\<lambda>e x. e\<lparr>le_id := x, le_createdAt := u\<rparr>) es ids) = charges_of t es"
    if "length ids = length es" for ids u
    using that by (induction ids es rule: list_induct2) simp_all
  then show "stamped es fs \<Longrightarrow> charges_of t fs = charges_of t es" by (auto simp: stamped_def)
qed

definition once_ok :: "db \<Rightarrow> bool" where
  "once_ok d \<longleftrightarrow> (\<forall>t. charges_of t (ledger d) \<le> 1)"

lemma once_frames [keeps_rules]:
  "frames once_ok users_t" "frames once_ok serviceRequests_t" "frames once_ok invitations_t"
  "frames once_ok proposals_t" "frames once_ok jobs_t" "frames once_ok notifications_t"
  "frames once_ok transactions_t" "frames once_ok payouts_t" "frames once_ok refunds_t"
  "frames once_ok incidents_t" "frames once_ok incidentEvents_t" "frames once_ok paymentEvents_t"
  "frames once_ok interventions_t" "frames once_ok reviews_t" "frames once_ok workerProfiles_t" "frames once_ok intents_t"
  by (simp_all add: frames_def once_ok_def)

lemma keeps_once_append:
  assumes "\<And>t. charges_of t es = 0"
  shows "keeps once_ok (appendEntries E es)"
  unfolding keeps_wp
  by (intro allI impI wp_appendEntries) (simp_all add: once_ok_def stamped_charges assms)

lemma not_charged: "\<not> charged t es \<longleftrightarrow> charges_of t es = 0"
  by (auto simp: charged_def charges_of_def filter_empty_conv)

lemma charges_of_input [simp]:
  "charges_of t [ledgerInput j i x a ty n c dr b s u] =
    (if x = Some t \<and> ty = LE_CUSTOMER_CHARGE then 1 else 0)"
  by (simp add: ledgerInput_def)

lemma charges_of_charge: "charges_of t (charge_entries intent t') = (if t = t' then 1 else 0)"
  by (auto simp: charge_entries_def ledgerInput_def)

lemma keeps_once_ensureCharge: "keeps once_ok (ensureChargeLedgerEntries E intent t)"
  unfolding keeps_wp
  by (intro allI impI wp_ensureCharge) (auto simp: once_ok_def stamped_charges charges_of_charge not_charged)

lemma keeps_once_applyGatewayStatus: "keeps once_ok (applyGatewayStatus E input)"
  by (simp add: applyGatewayStatus_def applyToIntent_def settleCharge_def keeps_rules keeps_frame
      keeps_once_ensureCharge)

lemma keeps_once_payIntent: "keeps once_ok (payIntent E i u dto)"
  by (simp add: payIntent_def chargeIntent_def findIntentOrThrow_def keeps_rules keeps_frame
      keeps_once_applyGatewayStatus)

lemma keeps_once_createIntent: "keeps once_ok (createIntent E u j p)"
  by (simp add: createIntent_def payableJob_def resolveChargeAmount_def split_beta keeps_rules keeps_frame)

subsection \<open>Paying again\<close>

lemma payIntent_paid:
  assumes "find_row intents_t i (w_db w) = Some r" "pi_customerId r = u"
    and "pi_status r = PI_PAID_PARTIAL \<or> pi_status r = PI_SUCCEEDED"
  shows "payIntent E i u dto w = (Inr (with_transactions (w_db w) r), w)"
  using assms by (simp add: run_wp payIntent_def wp_simps)

lemma payIntent_replay:
  assumes "find_row intents_t i (w_db w) = Some r" "pi_customerId r = u"
    and "truthy (py_idempotencyKey dto) \<noteq> None"
    and "find (\<lambda>t. tx_idempotencyKey t = charge_key E r dto) (transactions (w_db w)) = Some t"
    and "tx_paymentIntentId t = Some i"
    and "pi_status r \<notin> set [PI_CREATED, PI_EXPIRED, PI_CANCELED]"
  shows "payIntent E i u dto w = (Inr (with_transactions (w_db w) r), w)"
proof -
  have "pi_id r = i" using assms(1) by (auto dest: find_row_SomeD)
  then show ?thesis
    using assms by (cases "pi_status r") (simp_all add: run_wp payIntent_def findIntentOrThrow_def wp_simps)
qed

text \<open>An operation that settles a transaction of another type posts a second charge: only the
  transaction's own charge is looked for.\<close>

lemma apply_recredits:
  assumes "find_row transactions_t (tx_id (si_transaction input)) (w_db w) = Some r"
    and "tx_paymentIntentId r = Some i" "find_row intents_t i (w_db w) = Some intent"
    and "si_gatewayStatus input = GW_SUCCEEDED" "\<not> charged (tx_id r) (ledger (w_db w))"
  shows "wp (applyGatewayStatus E input)
    (\<lambda>t w'. bal LB_PROVIDER_HELD i (ledger (w_db w')) =
       bal LB_PROVIDER_HELD i (ledger (w_db w)) + pi_providerNetAmount intent)
    (\<lambda>_ _. True) w"
proof -
  have "pi_id intent = i" using assms(3) by (auto dest: find_row_SomeD)
  then show ?thesis
    by (rule_tac wp_mono [OF apply_balances [OF assms(1-3)]])
      (simp_all add: post_charge_def assms charge_entries_def)
qed

end
