(* ===== verification/Webhook.thy ===== *)
theory Webhook
  imports Charges
begin

text \<open>
  How a pending charge settles (\<^verbatim>\<open>payments/payments.service.ts\<close>): the provider's webhook with its
  signature, timestamp and deduplication, the reconciliation of one transaction and of the
  batch of stale ones, and the runner of \<^verbatim>\<open>payments/payments-reconciliation.runner.ts\<close>.
\<close>

subsection \<open>Signature\<close>

record webhookDto =
  wh_externalEventId :: "string option"
  wh_providerReference :: "string option"
  wh_transactionId :: "string option"
  wh_status :: "string option"
  wh_payload :: "json option"

definition resolveWebhookToleranceSeconds :: "env \<Rightarrow> int" where
  "resolveWebhookToleranceSeconds E = env_clamped 300 30 3600 (e_webhookTolerance E)"

definition resolveWebhookFutureSkewSeconds :: "env \<Rightarrow> int" where
  "resolveWebhookFutureSkewSeconds E = env_clamped 60 0 600 (e_webhookSkew E)"

definition is_digit :: "char \<Rightarrow> bool" where
  "is_digit c \<longleftrightarrow> 48 \<le> (of_char c :: nat) \<and> (of_char c :: nat) \<le> 57"

definition digits_value :: "string \<Rightarrow> int" where
  "digits_value s = foldl (\<lambda>acc c. acc * 10 + (int (of_char c) - 48)) 0 s"

text \<open>
  A string of digits is read exactly; the double loses digits only above \<open>2 ^ 53\<close>, where the
  instant is rejected as future either way.
\<close>

definition parseWebhookTimestampMs :: "env \<Rightarrow> string \<Rightarrow> jsnum" where
  "parseWebhookTimestampMs E timestamp =
     (let normalized = js_trim timestamp in
      if normalized \<noteq> [] \<and> list_all is_digit normalized
      then (if length normalized \<le> 10 then Fin (of_int (digits_value normalized * 1000))
            else Fin (of_int (digits_value normalized)))
      else e_dateParse E normalized)"

definition isWebhookTimestampFresh :: "env \<Rightarrow> string \<Rightarrow> bool" where
  "isWebhookTimestampFresh E timestamp =
     (case parseWebhookTimestampMs E timestamp of
        NotFinite \<Rightarrow> False
      | Fin parsedMs \<Rightarrow>
          (let ageMs = of_int (e_now E) - parsedMs in
           ageMs \<le> of_int (resolveWebhookToleranceSeconds E * 1000)
           \<and> - of_int (resolveWebhookFutureSkewSeconds E * 1000) \<le> ageMs))"

definition resolveWebhookSecret :: "env \<Rightarrow> paymentProvider \<Rightarrow> string option" where
  "resolveWebhookSecret E provider =
     (case trim_or_null (e_webhookSecretOf E provider) of
        Some s \<Rightarrow> Some s
      | None \<Rightarrow> trim_or_null (e_webhookSecret E))"

definition buildWebhookSignaturePayload :: "paymentProvider \<Rightarrow> webhookDto \<Rightarrow> string \<Rightarrow> string" where
  "buildWebhookSignaturePayload provider dto timestamp =
     timestamp @ ''.'' @ json_stringify (JObj
       [(''provider'', JStr (provider_name provider)),
        (''externalEventId'', json_of_opt (wh_externalEventId dto)),
        (''providerReference'', json_of_opt (wh_providerReference dto)),
        (''status'', json_of_opt (wh_status dto)),
        (''payload'', or_else (wh_payload dto) (JObj []))])"

text \<open>Equal length and \<^verbatim>\<open>timingSafeEqual\<close>: the two texts are equal.\<close>

definition verifyWebhookSignature ::
  "env \<Rightarrow> paymentProvider \<Rightarrow> webhookDto \<Rightarrow> string option \<Rightarrow> string option \<Rightarrow> bool" where
  "verifyWebhookSignature E provider dto signature timestamp =
     (if provider = PP_INTERNAL then True
      else case resolveWebhookSecret E provider of None \<Rightarrow> False | Some secret \<Rightarrow>
       (case trim_or_null signature of None \<Rightarrow> False | Some provided \<Rightarrow>
        (case trim_or_null timestamp of None \<Rightarrow> False | Some ts \<Rightarrow>
           isWebhookTimestampFresh E ts
           \<and> (if js_starts_with provided ''sha256='' then drop 7 provided else provided)
             = e_hmac E secret (buildWebhookSignaturePayload provider dto ts))))"

subsection \<open>The webhook\<close>

datatype webhookResult = Deduplicated id | Recorded id | Processed id id

definition missingEventId :: exn where
  "missingEventId = BadRequestException ''externalEventId is required for external payment providers''"

definition badSignature :: exn where
  "badSignature = ForbiddenException ''Invalid webhook signature''"

definition transactionNotFound :: exn where
  "transactionNotFound = NotFoundException ''Payment transaction not found''"

definition newEvent ::
  "env \<Rightarrow> paymentProvider \<Rightarrow> webhookDto \<Rightarrow> string option \<Rightarrow> bool \<Rightarrow> id \<Rightarrow> paymentEvent" where
  "newEvent E provider dto externalEventId signatureValid i =
     \<lparr>pe_id = i, pe_provider = provider, pe_eventType = or_else (wh_status dto) ''provider.webhook'',
      pe_externalEventId = externalEventId, pe_providerReference = wh_providerReference dto,
      pe_paymentIntentId = None, pe_transactionId = None,
      pe_payload = or_else (wh_payload dto) (JObj []), pe_signatureValid = signatureValid,
      pe_processed = False, pe_processedAt = None, pe_createdAt = e_now E, pe_updatedAt = e_now E\<rparr>"

definition webhookTarget :: "paymentProvider \<Rightarrow> webhookDto \<Rightarrow> paymentTransaction option svc" where
  "webhookTarget provider dto =
     sbind (case truthy (wh_transactionId dto) of
              Some t \<Rightarrow> findUnique transactions_t t | None \<Rightarrow> sreturn None) (\<lambda>byId.
     if byId = None \<and> truthy (wh_providerReference dto) \<noteq> None
     then findFirstDesc transactions_t tx_order
       (\<lambda>t. tx_provider t = provider \<and> tx_providerReference t = wh_providerReference dto)
     else sreturn byId)"

definition storeAndApply ::
  "env \<Rightarrow> paymentProvider \<Rightarrow> webhookDto \<Rightarrow> string option \<Rightarrow> bool \<Rightarrow> webhookResult svc" where
  "storeAndApply E provider dto externalEventId signatureValid =
     sbind (create E paymentEvents_t (newEvent E provider dto externalEventId signatureValid)) (\<lambda>event.
     sbind (webhookTarget provider dto) (\<lambda>target.
     case (target, truthy (wh_status dto)) of
       (Some transaction, Some status) \<Rightarrow>
         sbind (transact (
           sbind (require transactions_t (tx_id transaction) transactionNotFound) (\<lambda>transactionRecord.
           applyGatewayStatus E \<lparr>si_transaction = transactionRecord,
             si_gatewayStatus = parseGatewayStatus status, si_rawPayload = wh_payload dto,
             si_reason = None\<rparr>))) (\<lambda>updated.
         sthen (update E paymentEvents_t (pe_id event)
           (\<lambda>r. r\<lparr>pe_processed := True, pe_processedAt := Some (e_now E),
             pe_transactionId := Some (tx_id updated), pe_paymentIntentId := tx_paymentIntentId updated\<rparr>))
         (sreturn (Processed (pe_id event) (tx_id updated))))
     | _ \<Rightarrow>
         sthen (update E paymentEvents_t (pe_id event)
           (\<lambda>r. r\<lparr>pe_processed := False, pe_processedAt := Some (e_now E),
             pe_transactionId := or_opt (map_option tx_id target) (pe_transactionId r),
             pe_paymentIntentId := (case target of None \<Rightarrow> pe_paymentIntentId r
               | Some t \<Rightarrow> tx_paymentIntentId t)\<rparr>))
         (sreturn (Recorded (pe_id event)))))"

definition handleWebhook ::
  "env \<Rightarrow> paymentProvider \<Rightarrow> webhookDto \<Rightarrow> string option \<Rightarrow> string option \<Rightarrow> webhookResult svc" where
  "handleWebhook E provider dto signature timestamp =
     (let externalEventId = map_option js_trim (wh_externalEventId dto);
          signatureValid = verifyWebhookSignature E provider dto signature timestamp in
      sthen (if provider \<noteq> PP_INTERNAL
             then sthen (sguard (truthy externalEventId \<noteq> None) missingEventId)
                    (sguard signatureValid badSignature)
             else sreturn ())
      (sbind (if truthy externalEventId \<noteq> None
              then findBy paymentEvents_t
                (\<lambda>e. pe_provider e = provider \<and> pe_externalEventId e = externalEventId)
              else sreturn None) (\<lambda>existing.
       case existing of
         Some e \<Rightarrow> sreturn (Deduplicated (pe_id e))
       | None \<Rightarrow> storeAndApply E provider dto externalEventId signatureValid)))"

subsection \<open>Reconciliation\<close>

definition reconcileTransaction :: "env \<Rightarrow> id \<Rightarrow> string option \<Rightarrow> paymentTransaction svc" where
  "reconcileTransaction E transactionId simulate =
     sbind (require transactions_t transactionId transactionNotFound) (\<lambda>transaction.
     sbind (getAdapter (tx_provider transaction)) (\<lambda>gateway.
     sbind (queryTransactionStatus E gateway
       (or_else (tx_providerReference transaction) (tx_id transaction),
        Some (JObj (case simulate of Some s \<Rightarrow> [(''simulate'', JStr s)] | None \<Rightarrow> [])))) (\<lambda>result.
     transact (applyGatewayStatus E \<lparr>si_transaction = transaction, si_gatewayStatus = gr_status result,
       si_rawPayload = Some (gr_rawPayload result), si_reason = gr_reason result\<rparr>))))"

definition resolvePendingReconciliationLimit :: "env \<Rightarrow> rat option \<Rightarrow> int" where
  "resolvePendingReconciliationLimit E override =
     (case override of Some q \<Rightarrow> min 500 (max 1 (js_trunc q))
      | None \<Rightarrow> env_clamped 50 1 500 (e_reconcileBatch E))"

definition resolvePendingReconciliationMinAgeMinutes :: "env \<Rightarrow> rat option \<Rightarrow> int" where
  "resolvePendingReconciliationMinAgeMinutes E override =
     (case override of Some q \<Rightarrow> min (24 * 60) (max 0 (js_trunc q))
      | None \<Rightarrow> env_clamped 1 0 (24 * 60) (e_reconcileMinAge E))"

definition all_providers :: "paymentProvider list" where
  "all_providers = [PP_INTERNAL, PP_MPESA, PP_EMOLA, PP_MKESH, PP_BANK_TRANSFER, PP_MANUAL]"

definition provider_of_name :: "string \<Rightarrow> paymentProvider option" where
  "provider_of_name s = find (\<lambda>p. provider_name p = s) all_providers"

definition resolvePendingReconciliationProviders :: "env \<Rightarrow> paymentProvider list" where
  "resolvePendingReconciliationProviders E =
     (let raw = or_else (map_option js_trim (e_reconcileProviders E)) ''MPESA,EMOLA'';
          candidates = filter (\<lambda>item. item \<noteq> []) (map (\<lambda>item. js_upper (js_trim item)) (js_split (CHR '','') raw))
      in if candidates = [] then [PP_MPESA, PP_EMOLA]
         else let resolved = filter (\<lambda>p. p \<noteq> PP_INTERNAL) (List.map_filter provider_of_name candidates)
              in if resolved \<noteq> [] then resolved else [PP_MPESA, PP_EMOLA])"

datatype reconcileSource = Automatic | Manual

record reconcileSummary =
  rs_source :: reconcileSource
  rs_scanned :: nat
  rs_reconciled :: nat
  rs_succeeded :: nat
  rs_failed :: nat
  rs_reversed :: nat
  rs_stillPending :: nat
  rs_errors :: "(id \<times> string) list"

fun exn_message :: "exn \<Rightarrow> string" where
  "exn_message (BadRequestException s) = s"
| "exn_message (ConflictException s) = s"
| "exn_message (ForbiddenException s) = s"
| "exn_message (NotFoundException s) = s"
| "exn_message (GoneException s) = s"
| "exn_message (UnauthorizedException s) = s"
| "exn_message (PrismaError s) = s"
| "exn_message (PlainError s) = s"

definition countStatus :: "transactionStatus \<Rightarrow> reconcileSummary \<Rightarrow> reconcileSummary" where
  "countStatus st s =
     (let s' = s\<lparr>rs_reconciled := rs_reconciled s + 1\<rparr> in
      if st = TX_SUCCEEDED then s'\<lparr>rs_succeeded := rs_succeeded s + 1\<rparr>
      else if st = TX_FAILED then s'\<lparr>rs_failed := rs_failed s + 1\<rparr>
      else if st = TX_REVERSED then s'\<lparr>rs_reversed := rs_reversed s + 1\<rparr>
      else s'\<lparr>rs_stillPending := rs_stillPending s + 1\<rparr>)"

definition reconcileStep :: "env \<Rightarrow> reconcileSummary \<Rightarrow> paymentTransaction \<Rightarrow> reconcileSummary svc" where
  "reconcileStep E summary transaction =
     stry (sbind (reconcileTransaction E (tx_id transaction) None) (\<lambda>updated.
           sreturn (countStatus (tx_status updated) summary)))
       (\<lambda>e. sreturn (summary\<lparr>rs_errors := rs_errors summary @ [(tx_id transaction, exn_message e)]\<rparr>))"

definition staleCharge :: "env \<Rightarrow> int \<Rightarrow> paymentTransaction \<Rightarrow> bool" where
  "staleCharge E minAgeMinutes t \<longleftrightarrow> tx_type t = TT_CHARGE
     \<and> tx_provider t \<in> set (resolvePendingReconciliationProviders E)
     \<and> tx_status t \<in> set [TX_PENDING, TX_PROCESSING]
     \<and> tx_updatedAt t \<le> e_now E - minAgeMinutes * 60000"

definition pendingBatch :: "env \<Rightarrow> int \<Rightarrow> int \<Rightarrow> db \<Rightarrow> paymentTransaction list" where
  "pendingBatch E limit minAgeMinutes d =
     take (nat limit) (sort_key (\<lambda>t. (tx_updatedAt t, tx_id t)) (filter (staleCharge E minAgeMinutes) (transactions d)))"

definition reconcilePendingChargeTransactions ::
  "env \<Rightarrow> reconcileSource option \<Rightarrow> rat option \<Rightarrow> rat option \<Rightarrow> reconcileSummary svc" where
  "reconcilePendingChargeTransactions E source limit minAge =
     sbind (sread (pendingBatch E (resolvePendingReconciliationLimit E limit)
       (resolvePendingReconciliationMinAgeMinutes E minAge))) (\<lambda>batch.
     sbind (sfold batch (reconcileStep E)
       \<lparr>rs_source = or_else source Manual, rs_scanned = length batch, rs_reconciled = 0, rs_succeeded = 0,
        rs_failed = 0, rs_reversed = 0, rs_stillPending = 0, rs_errors = []\<rparr>) (\<lambda>summary.
     sthen (recordBusinessEvent ''payments'' ''pending_reconciliation_run''
       (if rs_errors summary = [] then ''success'' else ''failed''))
     (sreturn summary)))"

subsection \<open>The runner\<close>

record runner =
  rn_interval :: "int option"
  rn_running :: bool

definition runnerEnabled :: "env \<Rightarrow> bool" where
  "runnerEnabled E =
     (case trim_or_null (e_reconcileEnabled E) of
        None \<Rightarrow> e_nodeEnv E \<noteq> Some ''test''
      | Some raw \<Rightarrow> js_lower raw \<in> set [''1'', ''true'', ''yes'', ''on''])"

definition resolveIntervalMs :: "env \<Rightarrow> int" where
  "resolveIntervalMs E = env_clamped 60000 5000 3600000 (e_reconcileIntervalMs E)"

text \<open>The \<^verbatim>\<open>finally\<close> resets the flag; the error is logged and swallowed.\<close>

definition runCycle :: "env \<Rightarrow> runner \<Rightarrow> runner svc" where
  "runCycle E rn =
     (if rn_running rn then sreturn rn
      else stry (sbind (reconcilePendingChargeTransactions E (Some Automatic) None None)
                   (\<lambda>_. sreturn (rn\<lparr>rn_running := False\<rparr>)))
             (\<lambda>_. sreturn (rn\<lparr>rn_running := False\<rparr>)))"

definition onModuleInit :: "env \<Rightarrow> runner \<Rightarrow> runner svc" where
  "onModuleInit E rn =
     (if \<not> runnerEnabled E then sreturn rn
      else runCycle E (rn\<lparr>rn_interval := Some (resolveIntervalMs E)\<rparr>))"

definition onModuleDestroy :: "runner \<Rightarrow> runner" where
  "onModuleDestroy rn = (case rn_interval rn of None \<Rightarrow> rn | Some _ \<Rightarrow> rn\<lparr>rn_interval := None\<rparr>)"

subsection \<open>Invariants through settlement\<close>

text \<open>Whatever invariant applying a status keeps, the webhook and the reconciliation keep.\<close>

lemma keeps_storeAndApply:
  assumes "\<And>input. keeps J (applyGatewayStatus E input)" "frames J paymentEvents_t"
  shows "keeps J (storeAndApply E p dto x v)"
  unfolding storeAndApply_def webhookTarget_def
  by (simp add: keeps_rules keeps_frame assms split: option.split)

lemma keeps_handleWebhook:
  assumes "\<And>input. keeps J (applyGatewayStatus E input)" "frames J paymentEvents_t"
  shows "keeps J (handleWebhook E p dto s t)"
  by (simp add: handleWebhook_def keeps_rules keeps_storeAndApply assms)

lemma keeps_reconcileTransaction:
  assumes "\<And>input. keeps J (applyGatewayStatus E input)"
  shows "keeps J (reconcileTransaction E t s)"
  by (simp add: reconcileTransaction_def keeps_rules assms)

lemma keeps_reconcilePending:
  assumes "\<And>input. keeps J (applyGatewayStatus E input)"
  shows "keeps J (reconcilePendingChargeTransactions E src l a)"
  by (simp add: reconcilePendingChargeTransactions_def reconcileStep_def keeps_rules
      keeps_reconcileTransaction assms)

lemma keeps_runCycle:
  assumes "\<And>input. keeps J (applyGatewayStatus E input)"
  shows "keeps J (runCycle E rn)"
  by (simp add: runCycle_def keeps_rules keeps_reconcilePending assms)

lemmas money_settlement = keeps_handleWebhook [OF keeps_applyGatewayStatus money_frames(12)]
  keeps_reconcileTransaction [OF keeps_applyGatewayStatus] keeps_reconcilePending [OF keeps_applyGatewayStatus]
  keeps_runCycle [OF keeps_applyGatewayStatus]

lemmas once_settlement = keeps_handleWebhook [OF keeps_once_applyGatewayStatus once_frames(12)]
  keeps_reconcileTransaction [OF keeps_once_applyGatewayStatus]
  keeps_reconcilePending [OF keeps_once_applyGatewayStatus] keeps_runCycle [OF keeps_once_applyGatewayStatus]

subsection \<open>What the webhook accepts\<close>

lemma webhook_rejects:
  assumes "p \<noteq> PP_INTERNAL"
    and "trim_or_null (wh_externalEventId dto) = None \<or> \<not> verifyWebhookSignature E p dto s t"
  shows "\<exists>e. handleWebhook E p dto s t w = (Inl e, w) \<and> e \<in> {missingEventId, badSignature}"
  using assms by (auto simp: run_wp_exn handleWebhook_def wp_simps Let_def trim_or_null_def)

definition accepts :: "env \<Rightarrow> paymentProvider \<Rightarrow> webhookDto \<Rightarrow> string option \<Rightarrow> string option \<Rightarrow> bool" where
  "accepts E p dto s t \<longleftrightarrow> trim_or_null (wh_externalEventId dto) \<noteq> None
     \<and> (p = PP_INTERNAL \<or> verifyWebhookSignature E p dto s t)"

lemma webhook_duplicate:
  assumes "accepts E p dto s t"
    and "find (\<lambda>e. pe_provider e = p \<and> pe_externalEventId e = map_option js_trim (wh_externalEventId dto))
      (paymentEvents (w_db w)) = Some ev"
  shows "handleWebhook E p dto s t w = (Inr (Deduplicated (pe_id ev)), w)"
  using assms by (auto simp: run_wp handleWebhook_def wp_simps Let_def accepts_def trim_or_null_def)

text \<open>The signature does not cover which transaction the event is for.\<close>

lemma signature_ignores_transactionId:
  "verifyWebhookSignature E p (dto\<lparr>wh_transactionId := x\<rparr>) s t = verifyWebhookSignature E p dto s t"
proof -
  have "buildWebhookSignaturePayload p (dto\<lparr>wh_transactionId := x\<rparr>) = buildWebhookSignaturePayload p dto"
    by (rule ext) (simp add: buildWebhookSignaturePayload_def)
  then show ?thesis by (simp only: verifyWebhookSignature_def)
qed

lemma signature_internal: "verifyWebhookSignature E PP_INTERNAL dto s t"
  by (simp add: verifyWebhookSignature_def)

lemma fresh_bounds:
  assumes "isWebhookTimestampFresh E ts" "parseWebhookTimestampMs E ts = Fin ms"
  shows "of_int (e_now E - 3600000) \<le> ms \<and> ms \<le> of_int (e_now E + 600000)"
proof -
  have "resolveWebhookToleranceSeconds E \<le> 3600" "resolveWebhookFutureSkewSeconds E \<le> 600"
    using env_clamped_bounds [of 30 300 3600 "e_webhookTolerance E"]
      env_clamped_bounds [of 0 60 600 "e_webhookSkew E"]
    by (simp_all add: resolveWebhookToleranceSeconds_def resolveWebhookFutureSkewSeconds_def)
  then have "(of_int (resolveWebhookToleranceSeconds E) :: rat) \<le> of_int 3600"
    "(of_int (resolveWebhookFutureSkewSeconds E) :: rat) \<le> of_int 600"
    by (simp_all only: of_int_le_iff)
  with assms show ?thesis
    by (simp add: isWebhookTimestampFresh_def Let_def)
qed

subsection \<open>Accounting of a reconciliation run\<close>

definition accounted :: "nat \<Rightarrow> reconcileSummary \<Rightarrow> bool" where
  "accounted n s \<longleftrightarrow> rs_reconciled s + length (rs_errors s) = n
     \<and> rs_succeeded s + rs_failed s + rs_reversed s + rs_stillPending s = rs_reconciled s"

lemma accounted_countStatus: "accounted n s \<Longrightarrow> accounted (Suc n) (countStatus st s)"
  by (simp add: accounted_def countStatus_def Let_def)

lemma countStatus_scanned [simp]: "rs_scanned (countStatus st s) = rs_scanned s"
  by (simp add: countStatus_def Let_def)

lemma sfold_reconcile:
  assumes "accounted n s"
  shows "wp (sfold ts (reconcileStep E) s)
    (\<lambda>s' _. accounted (n + length ts) s' \<and> rs_scanned s' = rs_scanned s) (\<lambda>_ _. False) w"
  using assms
proof (induction ts arbitrary: n s w)
  case (Cons t ts n s x)
  have "wp (reconcileStep E s t) (\<lambda>s' _. accounted (Suc n) s' \<and> rs_scanned s' = rs_scanned s) (\<lambda>_ _. False) x"
    unfolding reconcileStep_def wp_simps
    using Cons.prems
    by (intro wpI_run) (simp_all add: accounted_countStatus, simp add: accounted_def)
  then show ?case
    unfolding sfold.simps wp_sbind
  proof (rule wp_mono)
    fix v w' assume "accounted (Suc n) v \<and> rs_scanned v = rs_scanned s"
    then show "wp (sfold ts (reconcileStep E) v)
        (\<lambda>s' _. accounted (n + length (t # ts)) s' \<and> rs_scanned s' = rs_scanned s) (\<lambda>_ _. False) w'"
      using Cons.IH [of "Suc n" v w'] by simp
  qed simp
qed (simp add: wp_simps)

lemma reconcile_accounts:
  "wp (reconcilePendingChargeTransactions E src l a)
     (\<lambda>s _. accounted (rs_scanned s) s \<and> int (rs_scanned s) \<le> 500) (\<lambda>_ _. False) w"
proof -
  let ?lim = "resolvePendingReconciliationLimit E l"
    and ?b = "pendingBatch E (resolvePendingReconciliationLimit E l)
       (resolvePendingReconciliationMinAgeMinutes E a) (w_db w)"
  have "?lim \<le> 500"
    using env_clamped_bounds [of 1 50 500 "e_reconcileBatch E"]
    by (auto simp: resolvePendingReconciliationLimit_def split: option.split)
  then have len: "int (length ?b) \<le> 500" by (simp add: pendingBatch_def)
  show ?thesis
    unfolding reconcilePendingChargeTransactions_def wp_sbind wp_sread wp_sthen wp_recordBusinessEvent
    by (rule wp_mono [OF sfold_reconcile [where n = 0]])
      (use len in \<open>auto simp: accounted_def wp_simps\<close>)
qed

lemma pendingBatch_only_charges:
  "t \<in> set (pendingBatch E l a d) \<Longrightarrow> t \<in> set (transactions d) \<and> staleCharge E a t"
  unfolding pendingBatch_def by (auto dest: in_set_takeD)

lemma reconcile_never_internal: "PP_INTERNAL \<notin> set (resolvePendingReconciliationProviders E)"
  by (simp add: resolvePendingReconciliationProviders_def Let_def)

end
