(* ===== verification/SupportOps.thy ===== *)
theory SupportOps
  imports Ledger
begin

text \<open>
  \<^verbatim>\<open>support-ops/support-ops.service.ts\<close>: the operational cases of the support team with their
  timeline of events, and the case that follows a refund dispute.  The invariant \<open>case_ok\<close>
  ties a case's status to its resolution time, its deadline to its SLA and its owner to the
  time it was taken on.  The related rows that an answer includes (job, refund, users) are not
  part of the answers here; the events are.
\<close>

subsection \<open>Helpers\<close>

definition normalizeEvidenceItems :: "string list option \<Rightarrow> string list" where
  "normalizeEvidenceItems items =
     (case items of None \<Rightarrow> []
      | Some xs \<Rightarrow> take 12 (filter (\<lambda>item. item \<noteq> []) (first_occurrences [] (map js_trim xs))))"

definition normalizeBaseSlaHours :: "int \<Rightarrow> int" where
  "normalizeBaseSlaHours v = max 1 (min 168 v)"

definition buildSlaTargetAt :: "time \<Rightarrow> int \<Rightarrow> time" where
  "buildSlaTargetAt detectedAt baseSlaHours = detectedAt + baseSlaHours * 60 * 60 * 1000"

definition resolveDefaultSlaHours :: "incidentSource \<Rightarrow> incidentSeverity \<Rightarrow> int option \<Rightarrow> int" where
  "resolveDefaultSlaHours source severity override =
     (case override of Some n \<Rightarrow> normalizeBaseSlaHours n
      | None \<Rightarrow>
        if source = IS_PLATFORM \<and> (severity = IV_HIGH \<or> severity = IV_CRITICAL) then 8
        else if source = IS_TRUST_SAFETY \<and> severity = IV_HIGH then 12
        else 24)"

fun closed_status :: "incidentStatus \<Rightarrow> bool" where
  "closed_status OI_RESOLVED = True"
| "closed_status OI_CANCELED = True"
| "closed_status _ = False"

fun statusLabel :: "incidentStatus \<Rightarrow> string" where
  "statusLabel OI_INVESTIGATING = (''investiga'' @ [CHR 0xE7] @ [CHR 0xE3] @ ''o'')"
| "statusLabel OI_MITIGATING = (''mitiga'' @ [CHR 0xE7] @ [CHR 0xE3] @ ''o'')"
| "statusLabel OI_MONITORING = (''monitoriza'' @ [CHR 0xE7] @ [CHR 0xE3] @ ''o'')"
| "statusLabel OI_RESOLVED = (''resolu'' @ [CHR 0xE7] @ [CHR 0xE3] @ ''o'')"
| "statusLabel OI_CANCELED = ''cancelamento''"
| "statusLabel OI_OPEN = ''abertura''"

definition supportTeam :: string where
  "supportTeam = ''Equipa de suporte''"

subsection \<open>Order of statuses and severities\<close>

text \<open>The database orders an enum by its declaration.\<close>

fun status_rank :: "incidentStatus \<Rightarrow> nat" where
  "status_rank OI_OPEN = 0"
| "status_rank OI_INVESTIGATING = 1"
| "status_rank OI_MITIGATING = 2"
| "status_rank OI_MONITORING = 3"
| "status_rank OI_RESOLVED = 4"
| "status_rank OI_CANCELED = 5"

fun severity_rank :: "incidentSeverity \<Rightarrow> nat" where
  "severity_rank IV_LOW = 0"
| "severity_rank IV_MEDIUM = 1"
| "severity_rank IV_HIGH = 2"
| "severity_rank IV_CRITICAL = 3"

lemma status_rank_inj: "status_rank a = status_rank b \<Longrightarrow> a = b"
  by (cases a; cases b) simp_all

lemma severity_rank_inj: "severity_rank a = severity_rank b \<Longrightarrow> a = b"
  by (cases a; cases b) simp_all

instantiation incidentStatus :: linorder
begin

definition less_eq_incidentStatus :: "incidentStatus \<Rightarrow> incidentStatus \<Rightarrow> bool" where
  "less_eq_incidentStatus a b \<longleftrightarrow> status_rank a \<le> status_rank b"

definition less_incidentStatus :: "incidentStatus \<Rightarrow> incidentStatus \<Rightarrow> bool" where
  "less_incidentStatus a b \<longleftrightarrow> status_rank a < status_rank b"

instance
  by standard (auto simp: less_eq_incidentStatus_def less_incidentStatus_def intro: status_rank_inj)

end

instantiation incidentSeverity :: linorder
begin

definition less_eq_incidentSeverity :: "incidentSeverity \<Rightarrow> incidentSeverity \<Rightarrow> bool" where
  "less_eq_incidentSeverity a b \<longleftrightarrow> severity_rank a \<le> severity_rank b"

definition less_incidentSeverity :: "incidentSeverity \<Rightarrow> incidentSeverity \<Rightarrow> bool" where
  "less_incidentSeverity a b \<longleftrightarrow> severity_rank a < severity_rank b"

instance
  by standard (auto simp: less_eq_incidentSeverity_def less_incidentSeverity_def intro: severity_rank_inj)

end

subsection \<open>Events\<close>

definition mkEvent :: "id \<Rightarrow> incidentEventType \<Rightarrow> eventVisibility \<Rightarrow> string \<Rightarrow> string \<Rightarrow> id option \<Rightarrow> string \<Rightarrow> incidentEvent" where
  "mkEvent incidentId eventType vis title descr actorUserId actorName =
     \<lparr>ie_id = [], ie_incidentId = incidentId, ie_eventType = eventType, ie_visibility = vis,
      ie_title = title, ie_description = descr, ie_actorUserId = actorUserId,
      ie_actorName = Some actorName, ie_createdAt = 0\<rparr>"

definition createEvents :: "env \<Rightarrow> incidentEvent list \<Rightarrow> unit svc" where
  "createEvents E events =
     (if events = [] then sreturn ()
      else createMany E incidentEvents_t (map (\<lambda>e i. e\<lparr>ie_id := i, ie_createdAt := e_now E\<rparr>) events))"

definition buildInternalStatusEvent :: "id \<Rightarrow> id \<Rightarrow> string \<Rightarrow> incidentStatus \<Rightarrow> string option \<Rightarrow> incidentEvent" where
  "buildInternalStatusEvent incidentId actorUserId actorName nextStatus resolutionNote =
     (if closed_status nextStatus
      then mkEvent incidentId IE_CASE_CLOSED EV_INTERNAL
        (if nextStatus = OI_RESOLVED then ''Caso resolvido'' else ''Caso cancelado'')
        (or_else (trim_or_null resolutionNote)
          (if nextStatus = OI_RESOLVED then ''Caso encerrado com sucesso.''
           else (''Caso encerrado sem a'' @ [CHR 0xE7] @ [CHR 0xE3] @ ''o adicional.'')))
        (Some actorUserId) actorName
      else mkEvent incidentId IE_STATUS_CHANGED EV_INTERNAL ''Estado atualizado''
        (''Caso movido para '' @ statusLabel nextStatus @ ''.'') (Some actorUserId) actorName)"

definition buildParticipantStatusEvent :: "id \<Rightarrow> id \<Rightarrow> incidentStatus \<Rightarrow> string option \<Rightarrow> incidentEvent" where
  "buildParticipantStatusEvent incidentId actorUserId nextStatus resolutionNote =
     (if nextStatus = OI_INVESTIGATING
      then mkEvent incidentId IE_STATUS_CHANGED EV_PARTICIPANTS (''Caso em investiga'' @ [CHR 0xE7] @ [CHR 0xE3] @ ''o'')
        (''A equipa de suporte est'' @ [CHR 0xE1] @ '' a rever as evid'' @ [CHR 0xEA] @ ''ncias e o hist'' @ [CHR 0xF3] @ ''rico do job.'')
        (Some actorUserId) supportTeam
      else if nextStatus = OI_MITIGATING
      then mkEvent incidentId IE_STATUS_CHANGED EV_PARTICIPANTS (''Decis'' @ [CHR 0xE3] @ ''o em prepara'' @ [CHR 0xE7] @ [CHR 0xE3] @ ''o'')
        (''O caso entrou na fase final de an'' @ [CHR 0xE1] @ ''lise para defini'' @ [CHR 0xE7] @ [CHR 0xE3] @ ''o da decis'' @ [CHR 0xE3] @ ''o.'')
        (Some actorUserId) supportTeam
      else if nextStatus = OI_MONITORING
      then mkEvent incidentId IE_STATUS_CHANGED EV_PARTICIPANTS ''Caso em acompanhamento''
        (''A equipa j'' @ [CHR 0xE1] @ '' atuou no caso e est'' @ [CHR 0xE1] @ '' a acompanhar os pr'' @ [CHR 0xF3] @ ''ximos passos.'')
        (Some actorUserId) supportTeam
      else mkEvent incidentId IE_CASE_CLOSED EV_PARTICIPANTS
        (if nextStatus = OI_RESOLVED then ''Caso encerrado'' else ''Caso cancelado'')
        (or_else (trim_or_null resolutionNote)
          (if nextStatus = OI_RESOLVED then (''A equipa encerrou o caso ap'' @ [CHR 0xF3] @ ''s concluir a an'' @ [CHR 0xE1] @ ''lise.'')
           else (''O caso foi encerrado sem a'' @ [CHR 0xE7] @ [CHR 0xE3] @ ''o adicional.'')))
        (Some actorUserId) supportTeam)"

definition buildParticipantDecisionTitle :: "refundStatus \<Rightarrow> string" where
  "buildParticipantDecisionTitle refundStatus =
     (if refundStatus = RF_SUCCEEDED \<or> refundStatus = RF_PROCESSING then ''Pedido aprovado''
      else if refundStatus = RF_CANCELED then ''Pedido cancelado''
      else (''Decis'' @ [CHR 0xE3] @ ''o registada''))"

definition buildRefundDecisionFallback :: "refundStatus \<Rightarrow> string" where
  "buildRefundDecisionFallback refundStatus =
     (if refundStatus = RF_SUCCEEDED then (''Pedido aprovado e reembolso conclu'' @ [CHR 0xED] @ ''do.'')
      else if refundStatus = RF_PROCESSING then ''Pedido aprovado e reembolso em processamento.''
      else if refundStatus = RF_CANCELED then (''O pedido foi cancelado antes da decis'' @ [CHR 0xE3] @ ''o final.'')
      else (''A decis'' @ [CHR 0xE3] @ ''o foi registada, mas houve falha no processamento financeiro.''))"

definition resolveActorName :: "id \<Rightarrow> string svc" where
  "resolveActorName userId =
     sbind (findUnique users_t userId) (\<lambda>actor.
     sreturn (case trim_or_null (case actor of Some u \<Rightarrow> us_name u | None \<Rightarrow> None) of
         Some n \<Rightarrow> n
       | None \<Rightarrow> or_else (truthy (map_option us_email actor)) (''user:'' @ take 8 userId)))"

subsection \<open>Reading\<close>

type_synonym incidentView = "operationalIncident \<times> incidentEvent list"

definition with_events :: "db \<Rightarrow> operationalIncident \<Rightarrow> incidentView" where
  "with_events d i = (i, sort_key ie_order (filter (\<lambda>e. ie_incidentId e = oi_id i) (incidentEvents d)))"

definition findIncidentOrThrow :: "id \<Rightarrow> incidentView svc" where
  "findIncidentOrThrow i =
     sbind (findUniqueOrThrow incidents_t i) (\<lambda>r. sread (\<lambda>d. with_events d r))"

record incidentSummary =
  is_unresolved :: nat
  is_critical :: nat
  is_resolved :: nat
  is_overdue :: nat

text \<open>\<^verbatim>\<open>orderBy: [{status:'asc'}, {severity:'desc'}, {detectedAt:'desc'}, {id:'desc'}]\<close>, sorting stably
  by the status last.\<close>

definition incident_order :: "operationalIncident list \<Rightarrow> operationalIncident list" where
  "incident_order rs = sort_key oi_status (sort_desc (\<lambda>r. (oi_severity r, oi_detectedAt r, oi_id r)) rs)"

definition listIncidents ::
  "env \<Rightarrow> pageInput \<Rightarrow> incidentStatus option \<Rightarrow> incidentSource option \<Rightarrow> (incidentView paginated \<times> incidentSummary) svc" where
  "listIncidents E query status source =
     sbind (findMany incidents_t (\<lambda>i. (status = None \<or> status = Some (oi_status i))
       \<and> (source = None \<or> source = Some (oi_source i)))) (\<lambda>matching.
     sread (\<lambda>d. (page_of query (map (with_events d) (incident_order matching)),
       \<lparr>is_unresolved = length (filter (\<lambda>i. \<not> closed_status (oi_status i)) (incidents d)),
        is_critical = length (filter (\<lambda>i. \<not> closed_status (oi_status i)
          \<and> oi_severity i \<in> set [IV_HIGH, IV_CRITICAL]) (incidents d)),
        is_resolved = length (filter (\<lambda>i. oi_status i = OI_RESOLVED) (incidents d)),
        is_overdue = length (filter (\<lambda>i. \<not> closed_status (oi_status i)
          \<and> oi_slaTargetAt i < e_now E) (incidents d))\<rparr>)))"

subsection \<open>Creating a case\<close>

record createIncidentDto =
  ci_title :: string
  ci_summary :: string
  ci_source :: "incidentSource option"
  ci_severity :: "incidentSeverity option"
  ci_impactedArea :: "string option"
  ci_customerImpact :: "string option"
  ci_baseSlaHours :: "int option"
  ci_evidenceItems :: "string list option"
  ci_relatedJobId :: "string option"
  ci_relatedRefundRequestId :: "string option"
  ci_relatedInterventionId :: "string option"

definition requireRelated :: "'r tbl \<Rightarrow> string option \<Rightarrow> exn \<Rightarrow> unit svc" where
  "requireRelated T related e =
     (case truthy related of None \<Rightarrow> sreturn ()
      | Some i \<Rightarrow> sbind (findUnique T (js_trim i)) (\<lambda>found. sguard (found \<noteq> None) e))"

definition relatedJobNotFound :: exn where
  "relatedJobNotFound = NotFoundException ''Related job not found''"

definition relatedRefundNotFound :: exn where
  "relatedRefundNotFound = NotFoundException ''Related refund request not found''"

definition relatedCaseNotFound :: exn where
  "relatedCaseNotFound = NotFoundException ''Related trust & safety case not found''"

definition incidentNotFound :: exn where
  "incidentNotFound = NotFoundException ''Operational incident not found''"

definition assertRelatedEntitiesExist :: "createIncidentDto \<Rightarrow> unit svc" where
  "assertRelatedEntitiesExist dto =
     sthen (requireRelated jobs_t (ci_relatedJobId dto) relatedJobNotFound)
     (sthen (requireRelated refunds_t (ci_relatedRefundRequestId dto) relatedRefundNotFound)
      (requireRelated interventions_t (ci_relatedInterventionId dto) relatedCaseNotFound))"

definition newIncident :: "env \<Rightarrow> id \<Rightarrow> createIncidentDto \<Rightarrow> id \<Rightarrow> operationalIncident" where
  "newIncident E actorUserId dto i =
     (let source = or_else (ci_source dto) IS_SUPPORT;
          severity = or_else (ci_severity dto) IV_MEDIUM;
          baseSlaHours = resolveDefaultSlaHours source severity (ci_baseSlaHours dto) in
      \<lparr>oi_id = i, oi_title = js_trim (ci_title dto), oi_summary = js_trim (ci_summary dto),
       oi_source = source, oi_severity = severity, oi_status = OI_OPEN, oi_baseSlaHours = baseSlaHours,
       oi_slaTargetAt = buildSlaTargetAt (e_now E) baseSlaHours,
       oi_impactedArea = trim_or_null (ci_impactedArea dto),
       oi_customerImpact = trim_or_null (ci_customerImpact dto),
       oi_evidenceItems = normalizeEvidenceItems (ci_evidenceItems dto), oi_resolutionNote = None,
       oi_createdByUserId = actorUserId, oi_ownerAdminUserId = Some actorUserId,
       oi_relatedJobId = trim_or_null (ci_relatedJobId dto),
       oi_relatedRefundRequestId = trim_or_null (ci_relatedRefundRequestId dto),
       oi_relatedTrustSafetyInterventionId = trim_or_null (ci_relatedInterventionId dto),
       oi_detectedAt = e_now E, oi_assumedAt = Some (e_now E), oi_resolvedAt = None,
       oi_createdAt = e_now E, oi_updatedAt = e_now E\<rparr>)"

definition newIncidentEvents :: "id \<Rightarrow> string \<Rightarrow> createIncidentDto \<Rightarrow> operationalIncident \<Rightarrow> incidentEvent list" where
  "newIncidentEvents actorUserId actorName dto created =
     [mkEvent (oi_id created) IE_CASE_OPENED EV_INTERNAL ''Caso criado''
        (''Caso operacional aberto com SLA base de '' @ show_int (oi_baseSlaHours created) @ ''h.'')
        (Some actorUserId) actorName,
      mkEvent (oi_id created) IE_OWNER_ASSIGNED EV_INTERNAL ''Owner definido''
        (actorName @ ('' ficou respons'' @ [CHR 0xE1] @ ''vel pelo caso.'')) (Some actorUserId) actorName]
     @ (if oi_evidenceItems created \<noteq> []
        then [mkEvent (oi_id created) IE_EVIDENCE_ADDED EV_INTERNAL (''Evid'' @ [CHR 0xEA] @ ''ncias registadas'')
          (show_nat (length (oi_evidenceItems created)) @ ('' evid'' @ [CHR 0xEA] @ ''ncia(s) anexada(s) ao caso.''))
          (Some actorUserId) actorName]
        else [])
     @ (if oi_source created = IS_REFUND_DISPUTE \<and> truthy (ci_relatedRefundRequestId dto) \<noteq> None
        then [mkEvent (oi_id created) IE_CASE_OPENED EV_PARTICIPANTS ''Caso aberto''
          ''A equipa de suporte abriu um caso para acompanhar a disputa.'' (Some actorUserId) supportTeam]
        else [])"

definition createIncident :: "env \<Rightarrow> id \<Rightarrow> createIncidentDto \<Rightarrow> incidentView svc" where
  "createIncident E actorUserId dto =
     sthen (assertRelatedEntitiesExist dto)
     (sbind (resolveActorName actorUserId) (\<lambda>actorName.
      transact (
        sbind (create E incidents_t (newIncident E actorUserId dto)) (\<lambda>created.
        sthen (createEvents E (newIncidentEvents actorUserId actorName dto created))
        (findIncidentOrThrow (oi_id created))))))"

subsection \<open>Updating a case\<close>

record updateIncidentDto =
  ui_title :: "string option"
  ui_summary :: "string option"
  ui_source :: "incidentSource option"
  ui_severity :: "incidentSeverity option"
  ui_status :: "incidentStatus option"
  ui_impactedArea :: "string option"
  ui_customerImpact :: "string option"
  ui_baseSlaHours :: "int option"
  ui_assignToMe :: bool
  ui_evidenceItems :: "string list option"
  ui_resolutionNote :: "string option"

text \<open>The values after the update, computed from the row that was read.\<close>

definition nextOwner :: "id \<Rightarrow> updateIncidentDto \<Rightarrow> operationalIncident \<Rightarrow> id option" where
  "nextOwner actorUserId dto existing =
     (if ui_assignToMe dto then Some actorUserId else oi_ownerAdminUserId existing)"

definition nextNote :: "updateIncidentDto \<Rightarrow> operationalIncident \<Rightarrow> string option" where
  "nextNote dto existing =
     (case ui_resolutionNote dto of Some n \<Rightarrow> trim_or_null (Some n) | None \<Rightarrow> oi_resolutionNote existing)"

definition incident_update ::
  "env \<Rightarrow> id \<Rightarrow> updateIncidentDto \<Rightarrow> operationalIncident \<Rightarrow> operationalIncident \<Rightarrow> operationalIncident" where
  "incident_update E actorUserId dto existing r =
     (let nextStatus = or_else (ui_status dto) (oi_status existing);
          owner = nextOwner actorUserId dto existing in
      r\<lparr>oi_title := or_else (map_option js_trim (ui_title dto)) (oi_title r),
        oi_summary := or_else (map_option js_trim (ui_summary dto)) (oi_summary r),
        oi_source := or_else (ui_source dto) (oi_source r),
        oi_severity := or_else (ui_severity dto) (oi_severity r),
        oi_status := nextStatus,
        oi_baseSlaHours := or_else (map_option normalizeBaseSlaHours (ui_baseSlaHours dto)) (oi_baseSlaHours r),
        oi_slaTargetAt := (case ui_baseSlaHours dto of
            Some n \<Rightarrow> buildSlaTargetAt (oi_detectedAt existing) (normalizeBaseSlaHours n)
          | None \<Rightarrow> oi_slaTargetAt r),
        oi_impactedArea := (case ui_impactedArea dto of Some a \<Rightarrow> trim_or_null (Some a) | None \<Rightarrow> oi_impactedArea r),
        oi_customerImpact := (case ui_customerImpact dto of Some a \<Rightarrow> trim_or_null (Some a) | None \<Rightarrow> oi_customerImpact r),
        oi_evidenceItems := (case ui_evidenceItems dto of
            Some xs \<Rightarrow> normalizeEvidenceItems (Some xs) | None \<Rightarrow> oi_evidenceItems r),
        oi_resolutionNote := (case ui_resolutionNote dto of
            Some n \<Rightarrow> trim_or_null (Some n) | None \<Rightarrow> oi_resolutionNote r),
        oi_resolvedAt := (if closed_status nextStatus then Some (or_else (oi_resolvedAt existing) (e_now E))
          else if nextStatus = oi_status existing then oi_resolvedAt existing else None),
        oi_ownerAdminUserId := owner,
        oi_assumedAt := (if truthy owner \<noteq> None then Some (or_else (oi_assumedAt existing) (e_now E))
          else oi_assumedAt existing)\<rparr>)"

definition ownerEvents :: "id \<Rightarrow> string \<Rightarrow> updateIncidentDto \<Rightarrow> operationalIncident \<Rightarrow> incidentEvent list" where
  "ownerEvents actorUserId actorName dto existing =
     (let owner = nextOwner actorUserId dto existing in
      if truthy owner \<noteq> None \<and> owner \<noteq> oi_ownerAdminUserId existing
      then mkEvent (oi_id existing) IE_OWNER_ASSIGNED EV_INTERNAL ''Owner atualizado''
             (actorName @ '' assumiu o caso.'') (Some actorUserId) actorName
        # (if truthy (oi_relatedRefundRequestId existing) \<noteq> None
           then [mkEvent (oi_id existing) IE_OWNER_ASSIGNED EV_PARTICIPANTS ''Caso assumido''
             ''A equipa de suporte assumiu o caso e iniciou o tratamento.'' (Some actorUserId) supportTeam]
           else [])
      else [])"

definition statusEvents :: "id \<Rightarrow> string \<Rightarrow> updateIncidentDto \<Rightarrow> operationalIncident \<Rightarrow> incidentEvent list" where
  "statusEvents actorUserId actorName dto existing =
     (let nextStatus = or_else (ui_status dto) (oi_status existing) in
      if nextStatus \<noteq> oi_status existing
      then buildInternalStatusEvent (oi_id existing) actorUserId actorName nextStatus (nextNote dto existing)
        # (if truthy (oi_relatedRefundRequestId existing) \<noteq> None
           then [buildParticipantStatusEvent (oi_id existing) actorUserId nextStatus (nextNote dto existing)]
           else [])
      else [])"

definition slaEvents :: "id \<Rightarrow> string \<Rightarrow> updateIncidentDto \<Rightarrow> operationalIncident \<Rightarrow> incidentEvent list" where
  "slaEvents actorUserId actorName dto existing =
     (case ui_baseSlaHours dto of None \<Rightarrow> []
      | Some n \<Rightarrow>
        if normalizeBaseSlaHours n \<noteq> oi_baseSlaHours existing
        then [mkEvent (oi_id existing) IE_SLA_UPDATED EV_INTERNAL ''SLA base atualizado''
          (''SLA base ajustado de '' @ show_int (oi_baseSlaHours existing) @ ''h para ''
            @ show_int (normalizeBaseSlaHours n) @ ''h.'') (Some actorUserId) actorName]
        else [])"

definition evidenceEvents :: "id \<Rightarrow> string \<Rightarrow> updateIncidentDto \<Rightarrow> operationalIncident \<Rightarrow> incidentEvent list" where
  "evidenceEvents actorUserId actorName dto existing =
     (case ui_evidenceItems dto of None \<Rightarrow> []
      | Some xs \<Rightarrow>
        if oi_evidenceItems existing \<noteq> normalizeEvidenceItems (Some xs)
        then [mkEvent (oi_id existing) IE_EVIDENCE_ADDED EV_INTERNAL (''Evid'' @ [CHR 0xEA] @ ''ncias atualizadas'')
          (show_nat (length (normalizeEvidenceItems (Some xs))) @ ('' evid'' @ [CHR 0xEA] @ ''ncia(s) registada(s) no caso.''))
          (Some actorUserId) actorName]
        else [])"

definition updateIncident :: "env \<Rightarrow> id \<Rightarrow> id \<Rightarrow> updateIncidentDto \<Rightarrow> incidentView svc" where
  "updateIncident E incidentId actorUserId dto =
     sbind (resolveActorName actorUserId) (\<lambda>actorName.
     transact (
       sbind (require incidents_t incidentId incidentNotFound) (\<lambda>existing.
       sthen (sbind (update E incidents_t incidentId (incident_update E actorUserId dto existing)) (\<lambda>_. sreturn ()))
       (sthen (createEvents E (ownerEvents actorUserId actorName dto existing
           @ statusEvents actorUserId actorName dto existing
           @ slaEvents actorUserId actorName dto existing
           @ evidenceEvents actorUserId actorName dto existing))
        (findIncidentOrThrow incidentId)))))"

subsection \<open>The case of a refund dispute\<close>

record disputeInput =
  di_refundRequestId :: id
  di_jobId :: id
  di_createdByUserId :: id
  di_actorName :: string
  di_amount :: int
  di_currency :: string
  di_reason :: string
  di_evidenceItems :: "string list option"
  di_severity :: "incidentSeverity option"

definition disputeIncident :: "env \<Rightarrow> disputeInput \<Rightarrow> id \<Rightarrow> operationalIncident" where
  "disputeIncident E input i =
     (let evidenceItems = normalizeEvidenceItems (di_evidenceItems input) in
      \<lparr>oi_id = i, oi_title = ''Disputa financeira '' @ take 8 (di_refundRequestId input),
       oi_summary = js_trim (di_reason input) @ ([CHR 0x0A] @ [CHR 0x0A] @ ''Valor pedido: '') @ show_int (di_amount input)
         @ '' '' @ di_currency input @ ''.'',
       oi_source = IS_REFUND_DISPUTE,
       oi_severity = or_else (di_severity input) (if evidenceItems \<noteq> [] then IV_HIGH else IV_MEDIUM),
       oi_status = OI_OPEN, oi_baseSlaHours = 24, oi_slaTargetAt = buildSlaTargetAt (e_now E) 24,
       oi_impactedArea = Some ''Pagamentos e suporte'',
       oi_customerImpact = Some (''A decis'' @ [CHR 0xE3] @ ''o fica vis'' @ [CHR 0xED] @ ''vel no hist'' @ [CHR 0xF3] @ ''rico do job assim que a an'' @ [CHR 0xE1] @ ''lise terminar.''),
       oi_evidenceItems = evidenceItems, oi_resolutionNote = None,
       oi_createdByUserId = di_createdByUserId input, oi_ownerAdminUserId = None,
       oi_relatedJobId = Some (di_jobId input),
       oi_relatedRefundRequestId = Some (di_refundRequestId input),
       oi_relatedTrustSafetyInterventionId = None, oi_detectedAt = e_now E, oi_assumedAt = None,
       oi_resolvedAt = None, oi_createdAt = e_now E, oi_updatedAt = e_now E\<rparr>)"

definition disputeEvents :: "disputeInput \<Rightarrow> operationalIncident \<Rightarrow> incidentEvent list" where
  "disputeEvents input created =
     (let i = oi_id created; by_user = Some (di_createdByUserId input); n = length (oi_evidenceItems created) in
      [mkEvent i IE_CASE_OPENED EV_INTERNAL ''Disputa criada''
         (di_actorName input @ '' abriu uma disputa de '' @ show_int (di_amount input) @ '' ''
           @ di_currency input @ ''.'') by_user (di_actorName input),
       mkEvent i IE_CASE_OPENED EV_PARTICIPANTS ''Caso aberto''
         (di_actorName input @ '' abriu o caso e a equipa vai analisar a disputa.'') by_user (di_actorName input)]
      @ (if n > 0
         then [mkEvent i IE_EVIDENCE_ADDED EV_INTERNAL (''Evid'' @ [CHR 0xEA] @ ''ncias anexadas'')
             (show_nat n @ ('' evid'' @ [CHR 0xEA] @ ''ncia(s) enviada(s) na abertura do caso.'')) by_user (di_actorName input),
           mkEvent i IE_EVIDENCE_ADDED EV_PARTICIPANTS (''Evid'' @ [CHR 0xEA] @ ''ncias anexadas'')
             (show_nat n @ ('' evid'' @ [CHR 0xEA] @ ''ncia(s) ficaram registadas no caso.'')) by_user (di_actorName input)]
         else []))"

definition ensureRefundDisputeCase :: "env \<Rightarrow> disputeInput \<Rightarrow> incidentView svc" where
  "ensureRefundDisputeCase E input =
     sbind (findFirstDesc incidents_t oi_order
       (\<lambda>i. oi_relatedRefundRequestId i = Some (di_refundRequestId input) \<and> \<not> closed_status (oi_status i)))
     (\<lambda>existing. case existing of
        Some i \<Rightarrow> sread (\<lambda>d. with_events d i)
      | None \<Rightarrow>
        sbind (create E incidents_t (disputeIncident E input)) (\<lambda>created.
        sthen (createEvents E (disputeEvents input created))
        (findIncidentOrThrow (oi_id created))))"

record decisionInput =
  dc_refundRequestId :: id
  dc_refundStatus :: refundStatus
  dc_actorUserId :: "id option"
  dc_actorName :: "string option"
  dc_decisionNote :: "string option"
  dc_decisionTitle :: "string option"
  dc_closeTitle :: "string option"

definition decisionStatus :: "decisionInput \<Rightarrow> incidentStatus" where
  "decisionStatus input = (if dc_refundStatus input = RF_CANCELED then OI_CANCELED else OI_RESOLVED)"

definition decisionNoteOf :: "decisionInput \<Rightarrow> string" where
  "decisionNoteOf input =
     or_else (trim_or_null (dc_decisionNote input)) (buildRefundDecisionFallback (dc_refundStatus input))"

definition decisionEvents :: "decisionInput \<Rightarrow> id \<Rightarrow> incidentEvent list" where
  "decisionEvents input i =
     (let note = decisionNoteOf input;
          actorName = or_else (trim_or_null (dc_actorName input)) supportTeam;
          publicName = (if dc_refundStatus input = RF_CANCELED then actorName else supportTeam);
          closeTitle = or_else (dc_closeTitle input)
            (if decisionStatus input = OI_CANCELED then ''Caso cancelado'' else ''Caso encerrado'') in
      [mkEvent i IE_DECISION_RECORDED EV_INTERNAL (''Decis'' @ [CHR 0xE3] @ ''o registada'') note (dc_actorUserId input) actorName,
       mkEvent i IE_DECISION_RECORDED EV_PARTICIPANTS
         (or_else (dc_decisionTitle input) (buildParticipantDecisionTitle (dc_refundStatus input)))
         note (dc_actorUserId input) publicName,
       mkEvent i IE_CASE_CLOSED EV_INTERNAL closeTitle note (dc_actorUserId input) actorName,
       mkEvent i IE_CASE_CLOSED EV_PARTICIPANTS closeTitle note (dc_actorUserId input) publicName])"

definition close_update :: "env \<Rightarrow> decisionInput \<Rightarrow> operationalIncident \<Rightarrow> operationalIncident \<Rightarrow> operationalIncident" where
  "close_update E input incident r =
     r\<lparr>oi_status := decisionStatus input, oi_resolutionNote := Some (decisionNoteOf input),
       oi_resolvedAt := Some (or_else (oi_resolvedAt incident) (e_now E))\<rparr>"

definition syncRefundCaseDecision :: "env \<Rightarrow> decisionInput \<Rightarrow> incidentView option svc" where
  "syncRefundCaseDecision E input =
     sbind (findFirstDesc incidents_t oi_order
       (\<lambda>i. oi_relatedRefundRequestId i = Some (dc_refundRequestId input))) (\<lambda>found.
     case found of None \<Rightarrow> sreturn None
     | Some incident \<Rightarrow>
       sthen (sbind (update E incidents_t (oi_id incident) (close_update E input incident)) (\<lambda>_. sreturn ()))
       (sthen (createEvents E (decisionEvents input (oi_id incident)))
        (sbind (findIncidentOrThrow (oi_id incident)) (\<lambda>v. sreturn (Some v)))))"

subsection \<open>Evidence\<close>

definition evidence_ok :: "string list \<Rightarrow> bool" where
  "evidence_ok xs \<longleftrightarrow> length xs \<le> 12 \<and> distinct xs \<and> [] \<notin> set xs"

lemma evidence_ok_normalize: "evidence_ok (normalizeEvidenceItems items)"
  by (auto simp: evidence_ok_def normalizeEvidenceItems_def distinct_first_occurrences dest: in_set_takeD
      split: option.split)

text \<open>Normalising keeps a list that is normal already.\<close>

lemma first_occurrences_distinct:
  "distinct xs \<Longrightarrow> set seen \<inter> set xs = {} \<Longrightarrow> first_occurrences seen xs = xs"
  by (induction seen xs rule: first_occurrences.induct) auto

lemma normalize_idem:
  assumes "evidence_ok xs" "\<forall>x \<in> set xs. js_trim x = x"
  shows "normalizeEvidenceItems (Some xs) = xs"
proof -
  have "map js_trim xs = xs" using assms(2) by (simp add: map_idI)
  moreover have "filter (\<lambda>x. x \<noteq> []) xs = xs" using assms(1) by (auto simp: evidence_ok_def filter_id_conv)
  ultimately show ?thesis
    using assms(1) by (simp add: normalizeEvidenceItems_def evidence_ok_def first_occurrences_distinct)
qed

subsection \<open>The invariant of a case\<close>

definition case_ok :: "operationalIncident \<Rightarrow> bool" where
  "case_ok i \<longleftrightarrow> (closed_status (oi_status i) \<longleftrightarrow> oi_resolvedAt i \<noteq> None)
     \<and> oi_slaTargetAt i = buildSlaTargetAt (oi_detectedAt i) (oi_baseSlaHours i)
     \<and> 1 \<le> oi_baseSlaHours i \<and> oi_baseSlaHours i \<le> 168 \<and> evidence_ok (oi_evidenceItems i)
     \<and> (truthy (oi_ownerAdminUserId i) \<noteq> None \<longrightarrow> oi_assumedAt i \<noteq> None)"

definition cases_ok :: "db \<Rightarrow> bool" where
  "cases_ok d \<longleftrightarrow> unique_ids incidents_t d \<and> (\<forall>i \<in> set (incidents d). case_ok i)"

lemma normalizeBaseSlaHours_bounds: "1 \<le> normalizeBaseSlaHours n" "normalizeBaseSlaHours n \<le> 168"
  by (simp_all add: normalizeBaseSlaHours_def)

lemma resolveDefaultSlaHours_bounds: "1 \<le> resolveDefaultSlaHours s v h" "resolveDefaultSlaHours s v h \<le> 168"
  by (auto simp: resolveDefaultSlaHours_def normalizeBaseSlaHours_bounds split: option.split)

lemma case_ok_new: "case_ok (newIncident E u dto i)"
  by (simp add: case_ok_def newIncident_def Let_def resolveDefaultSlaHours_bounds evidence_ok_normalize)

lemma case_ok_dispute: "case_ok (disputeIncident E input i)"
  by (simp add: case_ok_def disputeIncident_def Let_def evidence_ok_normalize)

lemma case_ok_update:
  assumes "case_ok r"
  shows "case_ok ((incident_update E u dto r r)\<lparr>oi_updatedAt := n\<rparr>)"
  using assms
  by (auto simp: case_ok_def incident_update_def Let_def normalizeBaseSlaHours_bounds evidence_ok_normalize
      split: option.splits)

lemma case_ok_close: "case_ok r \<Longrightarrow> case_ok ((close_update E input r r)\<lparr>oi_updatedAt := n\<rparr>)"
  by (simp add: case_ok_def close_update_def decisionStatus_def)

lemma cases_frames [keeps_rules]: "frames cases_ok incidentEvents_t"
  by (simp add: frames_def cases_ok_def unique_ids_def)

lemma keeps_createEvents [keeps_rules]: "frames J incidentEvents_t \<Longrightarrow> keeps J (createEvents E es)"
  by (simp add: createEvents_def keeps_rules keeps_frame)

lemma keeps_cases_create:
  "(\<And>i. case_ok (mk i)) \<Longrightarrow> keeps cases_ok (create E incidents_t mk)"
  by (rule keeps_create) (auto simp: cases_ok_def unique_ids_def)

lemma cases_ok_row:
  assumes "cases_ok d" "find_row incidents_t i d = Some r" "case_ok ((f r)\<lparr>oi_updatedAt := n\<rparr>)"
    and "\<And>r. oi_id (f r) = oi_id r"
  shows "cases_ok (upd_rows incidents_t n (\<lambda>x. oi_id x = i) f d)"
  using assms tb_incidents.ball_upd_row [of d i r case_ok n f] tb_incidents.unique_ids_upd [of f n _ d]
  by (simp add: cases_ok_def)

lemma cases_ok_find: "cases_ok d \<Longrightarrow> find_row incidents_t i d = Some r \<Longrightarrow> case_ok r"
  by (auto simp: cases_ok_def dest: find_row_SomeD)

lemma update_ids [simp]: "oi_id (incident_update E u dto e r) = oi_id r"
    "oi_id (close_update E input e r) = oi_id r"
  by (simp_all add: incident_update_def close_update_def Let_def)

lemma keeps_findIncident [keeps_rules]: "keeps J (findIncidentOrThrow i)"
  by (simp add: findIncidentOrThrow_def keeps_rules)

lemma keeps_resolveActorName [keeps_rules]: "keeps J (resolveActorName u)"
  by (simp add: resolveActorName_def keeps_rules)

lemma keeps_cases_createIncident: "keeps cases_ok (createIncident E u dto)"
  by (simp add: createIncident_def assertRelatedEntitiesExist_def requireRelated_def keeps_rules
      keeps_cases_create case_ok_new)

lemma keeps_cases_updateIncident: "keeps cases_ok (updateIncident E i u dto)"
  unfolding updateIncident_def
  by (rule keeps_sbind [OF keeps_resolveActorName], rule keeps_transact, rule keeps_read_update)
    (simp_all add: cases_ok_row cases_ok_find case_ok_update keeps_rules)

lemma keeps_cases_ensure: "keeps cases_ok (ensureRefundDisputeCase E input)"
  by (simp add: ensureRefundDisputeCase_def keeps_rules keeps_cases_create case_ok_dispute)

lemma keeps_cases_sync: "keeps cases_ok (syncRefundCaseDecision E input)"
proof -
  have upd: "cases_ok (upd_rows incidents_t n (\<lambda>x. oi_id x = oi_id r) (close_update E input r) d)"
    if "cases_ok d" "r \<in> set (incidents d)" for d r n
    using that tb_incidents.find_row_unique [of d r]
    by (intro cases_ok_row [where r = r]) (auto simp: cases_ok_def intro: case_ok_close)
  show ?thesis
    unfolding syncRefundCaseDecision_def
    by (rule keeps_first_update) (use upd in \<open>simp_all add: keeps_rules\<close>)
qed

subsection \<open>What the dispute operations do\<close>

lemma wp_createEvents:
  assumes "\<And>n es'. Q () (w\<lparr>w_ids := n, w_db := (w_db w)\<lparr>incidentEvents := es'\<rparr>\<rparr>)"
    and "\<And>e n. X e (w\<lparr>w_ids := n\<rparr>)"
  shows "wp (createEvents E es) Q X w"
proof (cases "es = []")
  case True
  with assms(1) [where n = "w_ids w" and es' = "incidentEvents (w_db w)"] show ?thesis
    by (simp add: createEvents_def wp_simps)
next
  case False
  have "wp (createMany E incidentEvents_t mks) Q X w" for mks
    by (rule wp_createMany) (simp_all add: assms)
  with False show ?thesis by (simp add: createEvents_def)
qed

lemma find_appended: "\<forall>x \<in> set xs. \<not> P x \<Longrightarrow> P r \<Longrightarrow> find P (xs @ [r]) = Some r"
  by (induction xs) auto

text \<open>Asking again for the case of a refund finds the one that is open.\<close>

lemma ensureRefundDisputeCase_again:
  "wp (ensureRefundDisputeCase E input)
     (\<lambda>v w1. ensureRefundDisputeCase E' input w1 = (Inr v, w1)) (\<lambda>_ _. True) w"
proof -
  let ?P = "\<lambda>i. oi_relatedRefundRequestId i = Some (di_refundRequestId input) \<and> \<not> closed_status (oi_status i)"
  let ?found = "\<lambda>w. first_of (sort_desc oi_order (filter ?P (incidents (w_db w))))"
  have again: "ensureRefundDisputeCase E' input w1 = (Inr (with_events (w_db w1) i), w1)"
    if "?found w1 = Some i" for w1 i
    using that by (simp add: run_wp ensureRefundDisputeCase_def wp_simps)
  show ?thesis
  proof (cases "?found w")
    case (Some i)
    then show ?thesis
      using again [OF Some] by (simp add: ensureRefundDisputeCase_def wp_simps)
  next
    case None
    let ?new = "disputeIncident E input (e_cuid E (w_ids w))"
    have new: "?P ?new" by (simp add: disputeIncident_def Let_def)
    have none: "filter ?P (incidents (w_db w)) = []"
      using None by (simp add: first_of_None_iff)
    show ?thesis
    proof (cases "\<exists>x \<in> set (incidents (w_db w)). oi_id x = oi_id ?new")
      case True
      then show ?thesis
        using None by (simp add: ensureRefundDisputeCase_def wp_simps Let_def)
    next
      case False
      have "wp (sthen (createEvents E es) (findIncidentOrThrow (oi_id ?new)))
          (\<lambda>v w1. ensureRefundDisputeCase E' input w1 = (Inr v, w1)) (\<lambda>_ _. True) w2"
        if "incidents (w_db w2) = incidents (w_db w) @ [?new]" for w2 es
        unfolding wp_sthen
      proof (rule wp_createEvents)
        fix n es'
        let ?w = "w2\<lparr>w_ids := n, w_db := (w_db w2)\<lparr>incidentEvents := es'\<rparr>\<rparr>"
        have "?found ?w = Some ?new" using none new that by simp
        moreover have "find_row incidents_t (oi_id ?new) (w_db ?w) = Some ?new"
          using False that by (simp add: find_row_def find_appended)
        ultimately show "wp (findIncidentOrThrow (oi_id ?new))
            (\<lambda>v w1. ensureRefundDisputeCase E' input w1 = (Inr v, w1)) (\<lambda>_ _. True) ?w"
          by (simp add: findIncidentOrThrow_def wp_simps again)
      qed simp
      then show ?thesis
        using None False by (simp add: ensureRefundDisputeCase_def wp_simps Let_def)
    qed
  qed
qed

text \<open>A decision closes the latest case of the refund and records why.\<close>

lemma syncRefundCaseDecision_closes:
  assumes "unique_ids incidents_t (w_db w)"
  shows "wp (syncRefundCaseDecision E input)
    (\<lambda>v _. \<forall>i es. v = Some (i, es) \<longrightarrow> oi_status i = decisionStatus input
       \<and> oi_resolutionNote i = Some (decisionNoteOf input) \<and> oi_resolvedAt i \<noteq> None) (\<lambda>_ _. True) w"
proof (cases "first_of (sort_desc oi_order (filter
    (\<lambda>i. oi_relatedRefundRequestId i = Some (dc_refundRequestId input)) (incidents (w_db w))))")
  case None
  then show ?thesis by (simp add: syncRefundCaseDecision_def wp_simps)
next
  case (Some r)
  then have "r \<in> set (incidents (w_db w))" by (auto dest!: first_of_SomeD)
  then have r: "find_row incidents_t (oi_id r) (w_db w) = Some r"
    using tb_incidents.find_row_unique [OF assms] by simp
  let ?r' = "(close_update E input r r)\<lparr>oi_updatedAt := e_now E\<rparr>"
  let ?d = "upd_rows incidents_t (e_now E) (\<lambda>x. oi_id x = oi_id r) (close_update E input r) (w_db w)"
  have "find_row incidents_t (oi_id r) ?d = Some ?r'"
    using r tb_incidents.find_row_upd [of "close_update E input r" "oi_id r" "e_now E" _ "w_db w"] by simp
  then have "wp (sthen (createEvents E es) (sbind (findIncidentOrThrow (oi_id r)) (\<lambda>v. sreturn (Some v))))
      (\<lambda>v _. \<forall>i es. v = Some (i, es) \<longrightarrow> oi_status i = decisionStatus input
       \<and> oi_resolutionNote i = Some (decisionNoteOf input) \<and> oi_resolvedAt i \<noteq> None) (\<lambda>_ _. True) (w\<lparr>w_db := ?d\<rparr>)" for es
    unfolding wp_sthen
    by (intro wp_createEvents)
      (simp_all add: findIncidentOrThrow_def wp_simps find_row_def with_events_def close_update_def)
  then show ?thesis
    using Some r by (simp add: syncRefundCaseDecision_def wp_simps)
qed

end
