(* ===== verification/Refunds.thy ===== *)
theory Refunds
  imports Webhook SupportOps
begin

text \<open>
  Refunds of a paid job (\<^verbatim>\<open>payments/payments.service.ts\<close>): who may see a job's money, the
  summary of what can still be refunded, requesting, cancelling, approving and rejecting a
  refund, the settlement of an approved one in the ledger, and what of the support case each
  reader sees.  \<open>funds_ok\<close> extends the money invariant by positive refund and payout amounts.

  A row that a required relation includes exists by its foreign key; reading it is
  \<open>findUniqueOrThrow\<close>.  The names of the users in an answer are not part of the answers here.
\<close>

subsection \<open>Exceptions\<close>

definition refundNotFound :: exn where
  "refundNotFound = NotFoundException ''Refund request not found''"

definition participantsMissing :: exn where
  "participantsMissing = ConflictException ''Conversation participants are not available''"

definition jobForbidden :: exn where
  "jobForbidden = ForbiddenException ''You are not allowed to access this job''"

definition paymentForbidden :: exn where
  "paymentForbidden = ForbiddenException ''You are not allowed to access this payment''"

definition onlyPaidJobs :: exn where
  "onlyPaidJobs = ConflictException ''Only paid jobs can create refund requests''"

definition activeRefundExists :: exn where
  "activeRefundExists = ConflictException ''There is already an active refund request for this job''"

definition noRefundableBalance :: exn where
  "noRefundableBalance = ConflictException ''This payment has no refundable balance left''"

definition refundExceeds :: exn where
  "refundExceeds = BadRequestException ''Refund amount exceeds refundable balance''"

definition cancelForbidden :: exn where
  "cancelForbidden = ForbiddenException ''You are not allowed to cancel this refund request''"

definition onlyPendingCancel :: exn where
  "onlyPendingCancel = ConflictException ''Only pending refund requests can be canceled''"

definition onlyPendingApprove :: exn where
  "onlyPendingApprove = ConflictException ''Only pending refund requests can be approved''"

definition onlyPendingReject :: exn where
  "onlyPendingReject = ConflictException ''Only pending refund requests can be rejected''"

definition onlyPaidIntents :: exn where
  "onlyPaidIntents = ConflictException ''Only paid payment intents can be refunded''"

definition platformShort :: exn where
  "platformShort = ConflictException ''Insufficient platform reserved balance for refund settlement''"

definition providerShort :: exn where
  "providerShort = ConflictException ''Insufficient provider balance for refund''"

subsection \<open>Access\<close>

datatype appRole = AR_GUEST | AR_CUSTOMER | AR_PROVIDER | AR_ADMIN | AR_SUPPORT_ADMIN | AR_OPS_ADMIN | AR_SUPER_ADMIN

definition adminRoles :: "appRole list" where
  "adminRoles = [AR_ADMIN, AR_SUPPORT_ADMIN, AR_OPS_ADMIN, AR_SUPER_ADMIN]"

record intentActor =
  ia_userId :: id
  ia_role :: "appRole option"

definition is_admin :: "intentActor \<Rightarrow> bool" where
  "is_admin actor \<longleftrightarrow> or_else (ia_role actor) AR_CUSTOMER \<in> set adminRoles"

record jobAccess =
  ja_job :: job
  ja_customer :: user
  ja_provider :: user
  ja_isAdmin :: bool
  ja_isCustomer :: bool
  ja_isProvider :: bool

definition find_user :: "db \<Rightarrow> id option \<Rightarrow> user option" where
  "find_user d i = (case i of None \<Rightarrow> None | Some u \<Rightarrow> find_row users_t u d)"

definition job_provider :: "db \<Rightarrow> job \<Rightarrow> user option" where
  "job_provider d j = or_opt (find_user d (jb_providerId j)) (find_user d (worker_user d j))"

definition job_customer :: "db \<Rightarrow> job \<Rightarrow> user option" where
  "job_customer d j = or_opt (find_user d (jb_customerId j)) (find_user d (Some (jb_clientId j)))"

definition resolveJobAccess :: "job \<Rightarrow> intentActor \<Rightarrow> jobAccess svc" where
  "resolveJobAccess job actor =
     sbind (sread (\<lambda>d. job_provider d job)) (\<lambda>p.
     sbind (sread (\<lambda>d. job_customer d job)) (\<lambda>c.
     sbind (sopt p participantsMissing) (\<lambda>provider.
     sbind (sopt c participantsMissing) (\<lambda>customer.
     (let isCustomer = (jb_clientId job = ia_userId actor \<or> jb_customerId job = Some (ia_userId actor));
          isProvider = (us_id provider = ia_userId actor) in
      sthen (sguard (is_admin actor \<or> isCustomer \<or> isProvider) jobForbidden)
      (sreturn \<lparr>ja_job = job, ja_customer = customer, ja_provider = provider,
         ja_isAdmin = is_admin actor, ja_isCustomer = isCustomer, ja_isProvider = isProvider\<rparr>))))))"

definition getAccessibleJobOrThrow :: "id \<Rightarrow> intentActor \<Rightarrow> jobAccess svc" where
  "getAccessibleJobOrThrow jobId actor =
     sbind (require jobs_t jobId jobNotFound) (\<lambda>job. resolveJobAccess job actor)"

definition assertIntentAccess :: "paymentIntent \<Rightarrow> intentActor \<Rightarrow> unit svc" where
  "assertIntentAccess intent actor =
     sguard (is_admin actor \<or> pi_customerId intent = ia_userId actor
       \<or> pi_providerUserId intent = Some (ia_userId actor)) paymentForbidden"

definition getIntentById :: "id \<Rightarrow> intentActor \<Rightarrow> intentView svc" where
  "getIntentById intentId actor =
     sbind (require intents_t intentId intentNotFound) (\<lambda>intent.
     sthen (assertIntentAccess intent actor)
     (sread (\<lambda>d. with_transactions d intent)))"

definition user_label :: "user \<Rightarrow> string \<Rightarrow> string" where
  "user_label u d = or_else (trim_or_null (us_name u)) d"

definition resolveParticipantActorName :: "jobAccess \<Rightarrow> id \<Rightarrow> string" where
  "resolveParticipantActorName access actorUserId =
     (if actorUserId = us_id (ja_customer access) then user_label (ja_customer access) ''Cliente''
      else user_label (ja_provider access) ''Prestador'')"

definition resolveCustomerHref :: "job \<Rightarrow> string" where
  "resolveCustomerHref job =
     (case truthy (jb_requestId job) of Some r \<Rightarrow> ''/app/pedidos/'' @ r
      | None \<Rightarrow> ''/app/mensagens?job='' @ jb_id job)"

definition resolveProviderHref :: "job \<Rightarrow> string" where
  "resolveProviderHref job = ''/pro/mensagens?job='' @ jb_id job"

subsection \<open>What can still be refunded\<close>

definition paid_status :: "intentStatus \<Rightarrow> bool" where
  "paid_status s \<longleftrightarrow> s \<in> set [PI_PAID_PARTIAL, PI_SUCCEEDED]"

definition active_refund :: "refundStatus \<Rightarrow> bool" where
  "active_refund s \<longleftrightarrow> s \<in> set [RF_PENDING, RF_APPROVED, RF_PROCESSING]"

definition getLatestPaidIntent :: "id \<Rightarrow> paymentIntent option svc" where
  "getLatestPaidIntent jobId =
     findFirstDesc intents_t pi_order (\<lambda>i. pi_jobId i = jobId \<and> paid_status (pi_status i))"

definition refunded_of :: "id \<Rightarrow> refundRequest list \<Rightarrow> int" where
  "refunded_of intentId rs =
     sum_list (map rf_amount (filter (\<lambda>r. rf_paymentIntentId r = intentId \<and> rf_status r = RF_SUCCEEDED) rs))"

definition getRemainingRefundableAmount :: "id \<Rightarrow> int svc" where
  "getRemainingRefundableAmount paymentIntentId =
     sbind (require intents_t paymentIntentId intentNotFound) (\<lambda>intent.
     sread (\<lambda>d. max 0 (pi_amount intent - refunded_of paymentIntentId (refunds d))))"

datatype refundStage = BEFORE_PAYMENT | PRE_START | IN_PROGRESS_STAGE | POST_COMPLETION

definition resolveRefundStage :: "job \<Rightarrow> bool \<Rightarrow> refundStage" where
  "resolveRefundStage job hasPaidIntent =
     (if \<not> hasPaidIntent then BEFORE_PAYMENT
      else if jb_status job = JOB_COMPLETED then POST_COMPLETION
      else if jb_startedAt job \<noteq> None \<or> jb_status job = JOB_IN_PROGRESS then IN_PROGRESS_STAGE
      else PRE_START)"

definition resolveSuggestedRefundAmount :: "job \<Rightarrow> int \<Rightarrow> int option" where
  "resolveSuggestedRefundAmount job remaining =
     (if remaining \<le> 0 then None
      else if jb_status job = JOB_COMPLETED then None
      else if jb_startedAt job \<noteq> None \<or> jb_status job = JOB_IN_PROGRESS
      then Some (max 1 (round_div remaining 2))
      else Some remaining)"

record refundSummary =
  rsu_stage :: refundStage
  rsu_stageLabel :: string
  rsu_hasPaidDeposit :: bool
  rsu_paidAmount :: int
  rsu_refundedAmount :: int
  rsu_remaining :: int
  rsu_hasActiveRefund :: bool
  rsu_canRequestRefund :: bool
  rsu_canCancelJob :: bool
  rsu_suggested :: "int option"
  rsu_suggestedLabel :: string
  rsu_disputeWindowEndsAt :: "time option"
  rsu_withinDisputeWindow :: bool
  rsu_myPendingRefundRequestId :: "id option"

fun stageLabel :: "refundStage \<Rightarrow> string" where
  "stageLabel BEFORE_PAYMENT = ''Antes do pagamento''"
| "stageLabel PRE_START = (''Antes do in'' @ [CHR 0xED] @ ''cio'')"
| "stageLabel IN_PROGRESS_STAGE = (''Durante a execu'' @ [CHR 0xE7] @ [CHR 0xE3] @ ''o'')"
| "stageLabel POST_COMPLETION = (''Ap'' @ [CHR 0xF3] @ ''s conclus'' @ [CHR 0xE3] @ ''o'')"

definition suggestedLabel :: "refundStage \<Rightarrow> int option \<Rightarrow> string" where
  "suggestedLabel stage suggested =
     (if suggested = None
      then (if stage = POST_COMPLETION then (''O caso segue para an'' @ [CHR 0xE1] @ ''lise como disputa.'')
            else (''Ainda n'' @ [CHR 0xE3] @ ''o existe valor sugerido para reembolso.''))
      else if stage = PRE_START then ''Estimativa base: refund integral do sinal.''
      else (''Estimativa base: refund parcial sujeito a decis'' @ [CHR 0xE3] @ ''o da equipa.''))"

text \<open>The intents and refunds come newest first.\<close>

definition buildRefundSummary ::
  "env \<Rightarrow> job \<Rightarrow> id option \<Rightarrow> paymentIntent list \<Rightarrow> refundRequest list \<Rightarrow> intentActor \<Rightarrow> refundSummary" where
  "buildRefundSummary E job workerUserId ints refs actor =
     (let latestPaidIntent = find (\<lambda>i. paid_status (pi_status i)) ints;
          refundedAmount = sum_list (map rf_amount (filter (\<lambda>r. rf_status r = RF_SUCCEEDED) refs));
          remaining = (case latestPaidIntent of Some i \<Rightarrow> max 0 (pi_amount i - refundedAmount) | None \<Rightarrow> 0);
          hasActiveRefund = list_ex (\<lambda>r. active_refund (rf_status r)) refs;
          stage = resolveRefundStage job (latestPaidIntent \<noteq> None);
          suggested = (case latestPaidIntent of
            Some _ \<Rightarrow> resolveSuggestedRefundAmount job remaining | None \<Rightarrow> None);
          windowEnd = map_option (\<lambda>t. t + 24 * 60 * 60 * 1000) (jb_completedAt job) in
      \<lparr>rsu_stage = stage, rsu_stageLabel = stageLabel stage, rsu_hasPaidDeposit = (latestPaidIntent \<noteq> None),
       rsu_paidAmount = (case latestPaidIntent of Some i \<Rightarrow> pi_amount i | None \<Rightarrow> 0),
       rsu_refundedAmount = refundedAmount, rsu_remaining = remaining,
       rsu_hasActiveRefund = hasActiveRefund,
       rsu_canRequestRefund = (latestPaidIntent \<noteq> None \<and> 0 < remaining \<and> \<not> hasActiveRefund),
       rsu_canCancelJob = ((is_admin actor \<or> jb_clientId job = ia_userId actor
           \<or> workerUserId = Some (ia_userId actor)) \<and> jb_status job \<notin> set [JOB_COMPLETED, JOB_CANCELED]),
       rsu_suggested = suggested, rsu_suggestedLabel = suggestedLabel stage suggested,
       rsu_disputeWindowEndsAt = windowEnd,
       rsu_withinDisputeWindow = (case windowEnd of Some t \<Rightarrow> e_now E \<le> t | None \<Rightarrow> False),
       rsu_myPendingRefundRequestId =
         map_option rf_id (find (\<lambda>r. rf_status r = RF_PENDING \<and> rf_requestedByUserId r = ia_userId actor) refs)\<rparr>)"

subsection \<open>What a reader sees of the support case\<close>

record timelineItem =
  tl_id :: id
  tl_eventType :: incidentEventType
  tl_visibility :: eventVisibility
  tl_title :: string
  tl_description :: string
  tl_actorName :: "string option"
  tl_createdAt :: time

record supportCaseDto =
  sc_id :: id
  sc_source :: incidentSource
  sc_severity :: incidentSeverity
  sc_status :: incidentStatus
  sc_baseSlaHours :: int
  sc_slaTargetAt :: time
  sc_isOverdue :: bool
  sc_detectedAt :: time
  sc_assumedAt :: "time option"
  sc_resolvedAt :: "time option"
  sc_customerImpact :: "string option"
  sc_ownerAssigned :: bool
  sc_ownerAdminUser :: "id option"
  sc_resolutionNote :: "string option"
  sc_timeline :: "timelineItem list"

record refundDto =
  rd_refund :: refundRequest
  rd_supportCase :: "supportCaseDto option"

definition refund_cases :: "db \<Rightarrow> id \<Rightarrow> incidentView list" where
  "refund_cases d refundId = map (with_events d)
     (sort_desc oi_order (filter (\<lambda>i. oi_relatedRefundRequestId i = Some refundId) (incidents d)))"

definition pickRefundSupportCase :: "incidentView list \<Rightarrow> incidentView option" where
  "pickRefundSupportCase cases =
     or_opt (find (\<lambda>c. \<not> closed_status (oi_status (fst c))) cases) (first_of cases)"

definition timeline_of :: "incidentEvent \<Rightarrow> timelineItem" where
  "timeline_of e = \<lparr>tl_id = ie_id e, tl_eventType = ie_eventType e, tl_visibility = ie_visibility e,
     tl_title = ie_title e, tl_description = ie_description e, tl_actorName = ie_actorName e,
     tl_createdAt = ie_createdAt e\<rparr>"

definition mapRefundSupportCase :: "env \<Rightarrow> bool \<Rightarrow> incidentView \<Rightarrow> supportCaseDto" where
  "mapRefundSupportCase E includeInternal c =
     (let i = fst c in
      \<lparr>sc_id = oi_id i, sc_source = oi_source i, sc_severity = oi_severity i, sc_status = oi_status i,
       sc_baseSlaHours = oi_baseSlaHours i, sc_slaTargetAt = oi_slaTargetAt i,
       sc_isOverdue = (\<not> closed_status (oi_status i) \<and> oi_slaTargetAt i < e_now E),
       sc_detectedAt = oi_detectedAt i, sc_assumedAt = oi_assumedAt i, sc_resolvedAt = oi_resolvedAt i,
       sc_customerImpact = oi_customerImpact i,
       sc_ownerAssigned = (truthy (oi_ownerAdminUserId i) \<noteq> None),
       sc_ownerAdminUser = (if includeInternal then oi_ownerAdminUserId i else None),
       sc_resolutionNote = (if includeInternal then oi_resolutionNote i else None),
       sc_timeline = map timeline_of
         (filter (\<lambda>e. includeInternal \<or> ie_visibility e = EV_PARTICIPANTS) (snd c))\<rparr>)"

definition serializeRefundRequest :: "env \<Rightarrow> db \<Rightarrow> bool \<Rightarrow> refundRequest \<Rightarrow> refundDto" where
  "serializeRefundRequest E d includeInternal refund =
     \<lparr>rd_refund = refund,
      rd_supportCase = map_option (mapRefundSupportCase E includeInternal)
        (pickRefundSupportCase (refund_cases d (rf_id refund)))\<rparr>"

record financialState =
  fs_jobId :: id
  fs_jobStatus :: jobStatus
  fs_paymentState :: "intentStatus option"
  fs_intents :: "intentView list"
  fs_refunds :: "refundDto list"
  fs_canceledAt :: "time option"
  fs_canceledBy :: "id option"
  fs_cancelReason :: "string option"
  fs_refundSummary :: refundSummary

definition getJobFinancialState :: "env \<Rightarrow> id \<Rightarrow> intentActor \<Rightarrow> financialState svc" where
  "getJobFinancialState E jobId actor =
     sbind (getAccessibleJobOrThrow jobId actor) (\<lambda>access.
     sbind (findMany intents_t (\<lambda>i. pi_jobId i = jobId)) (\<lambda>ints.
     sbind (findMany refunds_t (\<lambda>r. rf_jobId r = jobId)) (\<lambda>refs.
     sread (\<lambda>d. (let intentList = sort_desc pi_order ints; refundList = sort_desc rf_order refs;
        job = ja_job access in
        \<lparr>fs_jobId = jobId, fs_jobStatus = jb_status job,
         fs_paymentState = map_option pi_status (first_of intentList),
         fs_intents = map (with_transactions d) intentList,
         fs_refunds = map (serializeRefundRequest E d (ja_isAdmin access)) refundList,
         fs_canceledAt = jb_canceledAt job, fs_canceledBy = jb_canceledBy job,
         fs_cancelReason = jb_cancelReason job,
         fs_refundSummary = buildRefundSummary E job (worker_user d job) intentList refundList actor\<rparr>)))))"

subsection \<open>Notifications\<close>

definition q_mark :: string where
  "q_mark = [CHR 0x22]"

definition notifyRefundRequested :: "env \<Rightarrow> jobAccess \<Rightarrow> refundRequest \<Rightarrow> id \<Rightarrow> unit svc" where
  "notifyRefundRequested E access refund actorUserId =
     (let target = (if ja_isCustomer access then ja_provider access else ja_customer access) in
      sbind (notify E \<lparr>ni_userId = us_id target, ni_actorUserId = Some actorUserId,
        ni_kind = NK_REFUND_REQUESTED, ni_tone = Some NT_ATTENTION,
        ni_title = ''Novo pedido de reembolso em '' @ q_mark @ jb_title (ja_job access) @ q_mark,
        ni_description = resolveParticipantActorName access actorUserId
          @ '' abriu um pedido de reembolso/disputa no valor de '' @ show_int (rf_amount refund) @ '' MZN.'',
        ni_href = (if us_id target = us_id (ja_customer access) then resolveCustomerHref (ja_job access)
          else resolveProviderHref (ja_job access)),
        ni_hrefLabel = Some ''Abrir estado'',
        ni_metadata = Some (JObj [(''jobId'', JStr (jb_id (ja_job access))),
          (''refundRequestId'', JStr (rf_id refund))])\<rparr>) (\<lambda>_. sreturn ()))"

fun refundStatus_name :: "refundStatus \<Rightarrow> string" where
  "refundStatus_name RF_PENDING = ''PENDING''"
| "refundStatus_name RF_APPROVED = ''APPROVED''"
| "refundStatus_name RF_PROCESSING = ''PROCESSING''"
| "refundStatus_name RF_SUCCEEDED = ''SUCCEEDED''"
| "refundStatus_name RF_FAILED = ''FAILED''"
| "refundStatus_name RF_CANCELED = ''CANCELED''"

datatype audience = All_parties | Counterparty

definition notifyRefundStatusUpdate ::
  "env \<Rightarrow> jobAccess \<Rightarrow> refundRequest \<Rightarrow> id \<Rightarrow> string \<Rightarrow> string \<Rightarrow> notificationTone \<Rightarrow> audience \<Rightarrow> unit svc" where
  "notifyRefundStatusUpdate E access refund actorUserId title descr tone aud =
     sfor (if aud = Counterparty
           then [if actorUserId = us_id (ja_customer access) then ja_provider access else ja_customer access]
           else [ja_customer access, ja_provider access]) (\<lambda>recipient.
       sbind (notify E \<lparr>ni_userId = us_id recipient, ni_actorUserId = Some actorUserId,
         ni_kind = NK_REFUND_STATUS_UPDATED, ni_tone = Some tone, ni_title = title, ni_description = descr,
         ni_href = (if us_id recipient = us_id (ja_customer access) then resolveCustomerHref (ja_job access)
           else resolveProviderHref (ja_job access)),
         ni_hrefLabel = Some ''Ver estado'',
         ni_metadata = Some (JObj [(''jobId'', JStr (jb_id (ja_job access))),
           (''refundRequestId'', JStr (rf_id refund)),
           (''refundStatus'', JStr (refundStatus_name (rf_status refund)))])\<rparr>) (\<lambda>_. sreturn ()))"

subsection \<open>Requesting and cancelling\<close>

definition newRefund ::
  "env \<Rightarrow> id \<Rightarrow> paymentIntent \<Rightarrow> id \<Rightarrow> int \<Rightarrow> string \<Rightarrow> string list \<Rightarrow> id \<Rightarrow> refundRequest" where
  "newRefund E jobId intent requestedBy amount reason evidence i =
     \<lparr>rf_id = i, rf_jobId = jobId, rf_paymentIntentId = pi_id intent, rf_transactionId = None,
      rf_requestedByUserId = requestedBy, rf_approvedByUserId = None, rf_amount = amount,
      rf_currency = pi_currency intent, rf_reason = js_trim reason, rf_evidenceItems = evidence,
      rf_decisionNote = None, rf_status = RF_PENDING, rf_provider = pi_provider intent,
      rf_providerReference = None, rf_processedAt = None, rf_failureReason = None,
      rf_createdAt = e_now E, rf_updatedAt = e_now E\<rparr>"

record refundRequestDto =
  rr_amount :: "int option"
  rr_reason :: string
  rr_evidenceItems :: "string list option"

definition requestedRefund :: "job \<Rightarrow> refundRequestDto \<Rightarrow> int \<Rightarrow> int" where
  "requestedRefund job dto remaining =
     or_else (rr_amount dto) (or_else (resolveSuggestedRefundAmount job remaining) remaining)"

definition createJobRefundRequest :: "env \<Rightarrow> id \<Rightarrow> intentActor \<Rightarrow> refundRequestDto \<Rightarrow> refundDto svc" where
  "createJobRefundRequest E jobId actor dto =
     sbind (getAccessibleJobOrThrow jobId actor) (\<lambda>access.
     sbind (getLatestPaidIntent jobId) (\<lambda>latest.
     sbind (sopt latest onlyPaidJobs) (\<lambda>intent.
     sbind (findBy refunds_t (\<lambda>r. rf_paymentIntentId r = pi_id intent \<and> active_refund (rf_status r))) (\<lambda>active.
     sthen (sguard (active = None) activeRefundExists)
     (sbind (getRemainingRefundableAmount (pi_id intent)) (\<lambda>remaining.
      sthen (sguard (0 < remaining) noRefundableBalance)
      (sthen (sguard (requestedRefund (ja_job access) dto remaining \<le> remaining) refundExceeds)
      (sbind (transact (
         sbind (create E refunds_t (newRefund E (jb_id (ja_job access)) intent (ia_userId actor)
           (requestedRefund (ja_job access) dto remaining) (rr_reason dto)
           (normalizeEvidenceItems (rr_evidenceItems dto)))) (\<lambda>createdRefund.
         sthen (sbind (ensureRefundDisputeCase E \<lparr>di_refundRequestId = rf_id createdRefund,
           di_jobId = jb_id (ja_job access), di_createdByUserId = ia_userId actor,
           di_actorName = resolveParticipantActorName access (ia_userId actor),
           di_amount = requestedRefund (ja_job access) dto remaining, di_currency = pi_currency intent,
           di_reason = js_trim (rr_reason dto),
           di_evidenceItems = Some (normalizeEvidenceItems (rr_evidenceItems dto)), di_severity = None\<rparr>)
           (\<lambda>_. sreturn ()))
         (findUniqueOrThrow refunds_t (rf_id createdRefund))))) (\<lambda>created.
      sthen (notifyRefundRequested E access created (ia_userId actor))
      (sread (\<lambda>d. serializeRefundRequest E d (ja_isAdmin access) created)))))))))))"

definition closeRefund ::
  "env \<Rightarrow> id \<Rightarrow> (refundRequest \<Rightarrow> refundRequest) \<Rightarrow> decisionInput \<Rightarrow> refundRequest svc" where
  "closeRefund E refundId change decision =
     transact (
       sthen (sbind (update E refunds_t refundId change) (\<lambda>_. sreturn ()))
       (sthen (sbind (syncRefundCaseDecision E decision) (\<lambda>_. sreturn ()))
        (findUniqueOrThrow refunds_t refundId)))"

definition cancelRefundRequest :: "env \<Rightarrow> id \<Rightarrow> intentActor \<Rightarrow> refundDto svc" where
  "cancelRefundRequest E refundRequestId actor =
     sbind (require refunds_t refundRequestId refundNotFound) (\<lambda>refund.
     sbind (findUniqueOrThrow jobs_t (rf_jobId refund)) (\<lambda>job.
     sbind (resolveJobAccess job actor) (\<lambda>access.
     sthen (sguard (ja_isAdmin access \<or> rf_requestedByUserId refund = ia_userId actor) cancelForbidden)
     (sthen (sguard (rf_status refund = RF_PENDING) onlyPendingCancel)
      (sbind (closeRefund E (rf_id refund)
         (\<lambda>r. r\<lparr>rf_status := RF_CANCELED, rf_processedAt := Some (e_now E),
            rf_failureReason := Some ''Pedido cancelado pelo utilizador.''\<rparr>)
         \<lparr>dc_refundRequestId = rf_id refund, dc_refundStatus = RF_CANCELED,
          dc_actorUserId = Some (ia_userId actor),
          dc_actorName = Some (resolveParticipantActorName access (ia_userId actor)),
          dc_decisionNote = Some (''O pedido foi cancelado antes da decis'' @ [CHR 0xE3] @ ''o final da equipa.''),
          dc_decisionTitle = Some ''Pedido cancelado'', dc_closeTitle = Some ''Caso cancelado''\<rparr>) (\<lambda>updated.
       sthen (notifyRefundStatusUpdate E access updated (ia_userId actor) ''Pedido de reembolso cancelado''
         (''O pedido de reembolso/disputa foi cancelado e j'' @ [CHR 0xE1] @ '' n'' @ [CHR 0xE3] @ ''o ser'' @ [CHR 0xE1] @ '' analisado.'') NT_MUTED Counterparty)
       (sread (\<lambda>d. serializeRefundRequest E d (ja_isAdmin access) updated))))))))"

subsection \<open>Settlement of an approved refund\<close>

definition refund_entries :: "paymentIntent \<Rightarrow> id \<Rightarrow> int \<Rightarrow> int \<Rightarrow> int \<Rightarrow> int \<Rightarrow> id \<Rightarrow> ledgerEntry list" where
  "refund_entries intent transactionId amount platformPart heldDebit availableDebit actorUserId =
     (if 0 < platformPart
      then [ledgerInput (Some (pi_jobId intent)) (Some (pi_id intent)) (Some transactionId) PA_PLATFORM LE_REVERSAL
        platformPart (pi_currency intent) LD_DEBIT LB_PLATFORM_RESERVED
        ''Refund reversal on platform reserved fee'' (Some actorUserId)] else [])
     @ (if 0 < heldDebit
        then [ledgerInput (Some (pi_jobId intent)) (Some (pi_id intent)) (Some transactionId) PA_PROVIDER LE_REVERSAL
          heldDebit (pi_currency intent) LD_DEBIT LB_PROVIDER_HELD
          ''Refund reversal debited from provider held balance'' (Some actorUserId)] else [])
     @ (if 0 < availableDebit
        then [ledgerInput (Some (pi_jobId intent)) (Some (pi_id intent)) (Some transactionId) PA_PROVIDER LE_REVERSAL
          availableDebit (pi_currency intent) LD_DEBIT LB_PROVIDER_AVAILABLE
          ''Refund reversal debited from provider available balance'' (Some actorUserId)] else [])
     @ [ledgerInput (Some (pi_jobId intent)) (Some (pi_id intent)) (Some transactionId) PA_CUSTOMER LE_CUSTOMER_REFUND
          amount (pi_currency intent) LD_CREDIT LB_CUSTOMER_EXTERNAL ''Customer refund settled'' (Some actorUserId)]"

definition appendRefundLedgerEntries :: "env \<Rightarrow> paymentIntent \<Rightarrow> id \<Rightarrow> int \<Rightarrow> int \<Rightarrow> int \<Rightarrow> id \<Rightarrow> unit svc" where
  "appendRefundLedgerEntries E intent transactionId amount platformPart providerPart actorUserId =
     sbind (computeBucketNet LB_PLATFORM_RESERVED
       (\<lambda>e. le_actorType e = PA_PLATFORM \<and> le_paymentIntentId e = Some (pi_id intent))) (\<lambda>platformReserved.
     sthen (sguard (platformPart \<le> platformReserved) platformShort)
     (sbind (computeBucketNet LB_PROVIDER_HELD
       (\<lambda>e. le_actorType e = PA_PROVIDER \<and> le_paymentIntentId e = Some (pi_id intent))) (\<lambda>providerHeld.
     sbind (computeBucketNet LB_PROVIDER_AVAILABLE
       (\<lambda>e. le_actorType e = PA_PROVIDER \<and> le_paymentIntentId e = Some (pi_id intent))) (\<lambda>providerAvailable.
     sthen (sguard (providerPart \<le> providerHeld + providerAvailable) providerShort)
     (appendEntries E (refund_entries intent transactionId amount platformPart
       (min providerHeld providerPart) (providerPart - min providerHeld providerPart) actorUserId))))))"

definition platform_part :: "paymentIntent \<Rightarrow> int \<Rightarrow> int" where
  "platform_part intent amount =
     (if pi_amount intent = 0 then 0 else round_div (amount * pi_platformFeeAmount intent) (pi_amount intent))"

fun next_refund_status :: "transactionStatus \<Rightarrow> refundStatus" where
  "next_refund_status TX_SUCCEEDED = RF_SUCCEEDED"
| "next_refund_status TX_FAILED = RF_FAILED"
| "next_refund_status _ = RF_PROCESSING"

definition refund_transaction :: "env \<Rightarrow> refundRequest \<Rightarrow> gatewayResult \<Rightarrow> id \<Rightarrow> paymentTransaction" where
  "refund_transaction E refundRec result i =
     (let transactionStatus = mapGatewayToTransactionStatus (gr_status result) in
      \<lparr>tx_id = i, tx_paymentIntentId = Some (rf_paymentIntentId refundRec), tx_type = TT_REFUND,
       tx_status = transactionStatus, tx_provider = rf_provider refundRec,
       tx_providerReference = Some (gr_providerReference result),
       tx_idempotencyKey = ''refund-'' @ rf_id refundRec, tx_requestedAmount = rf_amount refundRec,
       tx_confirmedAmount = (if transactionStatus = TX_SUCCEEDED then Some (rf_amount refundRec) else None),
       tx_currency = rf_currency refundRec, tx_providerPayload = Some (gr_rawPayload result),
       tx_failureReason = gr_reason result, tx_processedAt = gr_processedAt result,
       tx_createdAt = e_now E, tx_updatedAt = e_now E\<rparr>)"

definition approval_decision :: "refundRequest \<Rightarrow> refundStatus \<Rightarrow> id \<Rightarrow> string option \<Rightarrow> string option \<Rightarrow> decisionInput" where
  "approval_decision refundRec nextStatus actorUserId decisionNote failureReason =
     \<lparr>dc_refundRequestId = rf_id refundRec, dc_refundStatus = nextStatus, dc_actorUserId = Some actorUserId,
      dc_actorName = Some supportTeam,
      dc_decisionNote = or_opt (trim_or_null decisionNote)
        (or_opt (trim_or_null failureReason) (truthy (rf_decisionNote refundRec))),
      dc_decisionTitle = Some (if nextStatus = RF_SUCCEEDED then ''Pedido aprovado''
        else if nextStatus = RF_PROCESSING then ''Pedido aprovado e em processamento''
        else (''Aprova'' @ [CHR 0xE7] @ [CHR 0xE3] @ ''o com falha'')),
      dc_closeTitle = Some ''Caso encerrado''\<rparr>"

definition settleRefund ::
  "env \<Rightarrow> refundRequest \<Rightarrow> paymentIntent \<Rightarrow> id \<Rightarrow> string option \<Rightarrow> gatewayResult \<Rightarrow> refundRequest svc" where
  "settleRefund E refundRec intent actorUserId decisionNote result =
     sbind (create E transactions_t (refund_transaction E refundRec result)) (\<lambda>transaction.
     (let nextRefundStatus = next_refund_status (tx_status transaction) in
      sthen (sbind (update E refunds_t (rf_id refundRec)
        (\<lambda>r. r\<lparr>rf_status := nextRefundStatus, rf_transactionId := Some (tx_id transaction),
          rf_providerReference := tx_providerReference transaction,
          rf_processedAt := tx_processedAt transaction,
          rf_failureReason := tx_failureReason transaction\<rparr>)) (\<lambda>_. sreturn ()))
      (sthen (sbind (syncRefundCaseDecision E (approval_decision refundRec nextRefundStatus actorUserId
           decisionNote (tx_failureReason transaction))) (\<lambda>_. sreturn ()))
      (sthen (swhen (tx_status transaction = TX_SUCCEEDED)
         (appendRefundLedgerEntries E intent (tx_id transaction) (rf_amount refundRec)
           (platform_part intent (rf_amount refundRec))
           (rf_amount refundRec - platform_part intent (rf_amount refundRec)) actorUserId))
       (findUniqueOrThrow refunds_t (rf_id refundRec))))))"

definition processRefundRequest :: "env \<Rightarrow> id \<Rightarrow> id \<Rightarrow> string option \<Rightarrow> refundRequest svc" where
  "processRefundRequest E refundRequestId actorUserId decisionNote =
     sbind (require refunds_t refundRequestId refundNotFound) (\<lambda>refund.
     sthen (sguard (rf_status refund = RF_PENDING) onlyPendingApprove)
     (sbind (findUniqueOrThrow intents_t (rf_paymentIntentId refund)) (\<lambda>intent.
      sthen (sguard (paid_status (pi_status intent)) onlyPaidIntents)
      (sbind (getRemainingRefundableAmount (pi_id intent)) (\<lambda>remaining.
       sthen (sguard (rf_amount refund \<le> remaining) refundExceeds)
       (transact (
         sbind (require refunds_t (rf_id refund) refundNotFound) (\<lambda>refundRec.
         sthen (sguard (rf_status refundRec = RF_PENDING) onlyPendingApprove)
         (sthen (sbind (update E refunds_t (rf_id refundRec)
            (\<lambda>r. r\<lparr>rf_status := RF_APPROVED, rf_approvedByUserId := Some actorUserId,
              rf_decisionNote := or_opt (trim_or_null decisionNote) (rf_decisionNote refundRec)\<rparr>)) (\<lambda>_. sreturn ()))
          (sbind (getAdapter (rf_provider refundRec)) (\<lambda>gateway.
           sbind (requestRefund E gateway \<lparr>gi_idempotencyKey = ''refund-'' @ rf_id refundRec,
             gi_amount = rf_amount refundRec, gi_currency = rf_currency refundRec,
             gi_providerReference = None, gi_metadata = None\<rparr>) (\<lambda>result.
           settleRefund E refundRec intent actorUserId decisionNote result))))))))))))"

subsection \<open>Decisions of the administrators\<close>

definition admin_actor :: "id \<Rightarrow> intentActor" where
  "admin_actor u = \<lparr>ia_userId = u, ia_role = Some AR_ADMIN\<rparr>"

definition adminApproveRefund :: "env \<Rightarrow> id \<Rightarrow> id \<Rightarrow> string option \<Rightarrow> refundDto svc" where
  "adminApproveRefund E actorUserId refundRequestId decisionNote =
     sbind (require refunds_t refundRequestId refundNotFound) (\<lambda>refund.
     sbind (findUniqueOrThrow jobs_t (rf_jobId refund)) (\<lambda>job.
     sthen (sguard (rf_status refund = RF_PENDING) onlyPendingApprove)
     (sbind (processRefundRequest E (rf_id refund) actorUserId (trim_or_null decisionNote)) (\<lambda>processed.
      sbind (resolveJobAccess job (admin_actor actorUserId)) (\<lambda>access.
      sthen (notifyRefundStatusUpdate E access processed actorUserId
        (if rf_status processed = RF_SUCCEEDED then ''Reembolso aprovado e processado''
         else if rf_status processed = RF_PROCESSING then ''Reembolso aprovado e em processamento''
         else ''Reembolso aprovado com falha de processamento'')
        (if rf_status processed = RF_SUCCEEDED
         then or_else (trim_or_null (rf_decisionNote processed))
           (''A decis'' @ [CHR 0xE3] @ ''o foi registada e o reembolso foi iniciado com sucesso.'')
         else if rf_status processed = RF_PROCESSING
         then or_else (trim_or_null (rf_decisionNote processed))
           (''A decis'' @ [CHR 0xE3] @ ''o foi registada e o reembolso ficou em processamento.'')
         else or_else (trim_or_null (rf_failureReason processed))
           (''A decis'' @ [CHR 0xE3] @ ''o foi registada, mas houve falha ao processar o reembolso.''))
        (if rf_status processed = RF_SUCCEEDED then NT_SUCCESS
         else if rf_status processed = RF_PROCESSING then NT_INFO else NT_ATTENTION) All_parties)
      (sread (\<lambda>d. serializeRefundRequest E d True processed)))))))"

definition adminRejectRefund :: "env \<Rightarrow> id \<Rightarrow> id \<Rightarrow> string \<Rightarrow> string option \<Rightarrow> refundDto svc" where
  "adminRejectRefund E actorUserId refundRequestId reason decisionNote =
     (let note = or_else (trim_or_null decisionNote) (js_trim reason) in
      sbind (require refunds_t refundRequestId refundNotFound) (\<lambda>refund.
      sbind (findUniqueOrThrow jobs_t (rf_jobId refund)) (\<lambda>job.
      sthen (sguard (rf_status refund = RF_PENDING) onlyPendingReject)
      (sbind (closeRefund E (rf_id refund)
         (\<lambda>r. r\<lparr>rf_status := RF_FAILED, rf_approvedByUserId := Some actorUserId,
            rf_processedAt := Some (e_now E), rf_failureReason := Some (js_trim reason),
            rf_decisionNote := Some note\<rparr>)
         \<lparr>dc_refundRequestId = rf_id refund, dc_refundStatus = RF_FAILED, dc_actorUserId = Some actorUserId,
          dc_actorName = Some supportTeam, dc_decisionNote = Some note,
          dc_decisionTitle = Some ''Pedido recusado'', dc_closeTitle = Some ''Caso encerrado''\<rparr>) (\<lambda>updated.
       sbind (resolveJobAccess job (admin_actor actorUserId)) (\<lambda>access.
       sthen (notifyRefundStatusUpdate E access updated actorUserId ''Pedido de reembolso recusado'' note
         NT_ATTENTION All_parties)
       (sread (\<lambda>d. serializeRefundRequest E d True updated))))))))"

definition adminCreateRefund :: "env \<Rightarrow> id \<Rightarrow> id \<Rightarrow> refundRequestDto \<Rightarrow> refundDto svc" where
  "adminCreateRefund E actorUserId paymentIntentId dto =
     sbind (require intents_t paymentIntentId intentNotFound) (\<lambda>intent.
     sthen (sguard (paid_status (pi_status intent)) onlyPaidIntents)
     (sbind (getRemainingRefundableAmount (pi_id intent)) (\<lambda>remaining.
      sthen (sguard (0 < remaining) noRefundableBalance)
      (sthen (sguard (or_else (rr_amount dto) remaining \<le> remaining) refundExceeds)
       (sbind (create E refunds_t (newRefund E (pi_jobId intent) intent actorUserId
          (or_else (rr_amount dto) remaining) (rr_reason dto)
          (normalizeEvidenceItems (rr_evidenceItems dto)))) (\<lambda>created.
        sbind (processRefundRequest E (rf_id created) actorUserId None) (\<lambda>processed.
        sbind (getAccessibleJobOrThrow (pi_jobId intent) (admin_actor actorUserId)) (\<lambda>access.
        sthen (notifyRefundStatusUpdate E access processed actorUserId
          (if rf_status processed = RF_SUCCEEDED then ''Reembolso registado e processado''
           else if rf_status processed = RF_PROCESSING then ''Reembolso registado e em processamento''
           else ''Reembolso registado com falha'')
          (if rf_status processed = RF_FAILED
           then or_else (trim_or_null (rf_failureReason processed)) ''O reembolso falhou no processamento.''
           else or_else (trim_or_null (rf_decisionNote processed))
             ''O estado financeiro deste job foi atualizado pela equipa Tchuno.'')
          (if rf_status processed = RF_FAILED then NT_ATTENTION
           else if rf_status processed = RF_PROCESSING then NT_INFO else NT_SUCCESS) All_parties)
        (sread (\<lambda>d. serializeRefundRequest E d True processed))))))))))"

subsection \<open>The funds invariant\<close>

definition amounts_ok :: "db \<Rightarrow> bool" where
  "amounts_ok d \<longleftrightarrow> (\<forall>r \<in> set (refunds d). 0 < rf_amount r) \<and> (\<forall>p \<in> set (payouts d). 0 < po_amount p)"

definition funds_ok :: "db \<Rightarrow> bool" where
  "funds_ok d \<longleftrightarrow> money_ok d \<and> amounts_ok d"

lemma keeps_funds: "keeps money_ok m \<Longrightarrow> keeps amounts_ok m \<Longrightarrow> keeps funds_ok m"
  by (simp add: keeps_def funds_ok_def)

lemma amounts_frames [keeps_rules]:
  "frames amounts_ok users_t" "frames amounts_ok serviceRequests_t" "frames amounts_ok invitations_t"
  "frames amounts_ok proposals_t" "frames amounts_ok jobs_t" "frames amounts_ok notifications_t"
  "frames amounts_ok transactions_t" "frames amounts_ok incidents_t" "frames amounts_ok incidentEvents_t"
  "frames amounts_ok paymentEvents_t" "frames amounts_ok interventions_t" "frames amounts_ok reviews_t"
  "frames amounts_ok workerProfiles_t" "frames amounts_ok intents_t" "frames amounts_ok ledger_t"
  by (simp_all add: frames_def amounts_ok_def)

lemma funds_frames [keeps_rules]:
  "frames funds_ok users_t" "frames funds_ok jobs_t" "frames funds_ok notifications_t"
  "frames funds_ok transactions_t" "frames funds_ok incidents_t" "frames funds_ok incidentEvents_t"
  "frames funds_ok paymentEvents_t"
  by (simp_all add: frames_def funds_ok_def money_ok_def amounts_ok_def)

lemma keeps_amounts_applyGatewayStatus: "keeps amounts_ok (applyGatewayStatus E input)"
  by (simp add: applyGatewayStatus_def applyToIntent_def settleCharge_def ensureChargeLedgerEntries_def
      keeps_rules keeps_frame keeps_appendEntries_frame)

lemma keeps_funds_applyGatewayStatus: "keeps funds_ok (applyGatewayStatus E input)"
  by (rule keeps_funds [OF keeps_applyGatewayStatus keeps_amounts_applyGatewayStatus])

lemma keeps_funds_payIntent: "keeps funds_ok (payIntent E i u dto)"
  by (rule keeps_funds [OF keeps_payIntent])
    (simp add: payIntent_def chargeIntent_def findIntentOrThrow_def keeps_rules keeps_frame
      keeps_amounts_applyGatewayStatus)

lemma keeps_funds_createIntent: "keeps funds_ok (createIntent E u j p)"
  by (rule keeps_funds [OF keeps_createIntent])
    (simp add: createIntent_def payableJob_def resolveChargeAmount_def split_beta keeps_rules keeps_frame)

lemmas funds_settlement =
  keeps_handleWebhook [OF keeps_funds_applyGatewayStatus funds_frames(7)]
  keeps_reconcileTransaction [OF keeps_funds_applyGatewayStatus]
  keeps_reconcilePending [OF keeps_funds_applyGatewayStatus] keeps_runCycle [OF keeps_funds_applyGatewayStatus]

lemma keeps_funds_update_refund:
  assumes "\<And>r. rf_amount (f r) = rf_amount r"
  shows "keeps funds_ok (update E refunds_t i f)"
proof (rule keeps_update)
  fix d n assume "funds_ok d"
  then show "funds_ok (upd_rows refunds_t n (\<lambda>r. t_key refunds_t r = i) f d)"
    using tb_refunds.ball_upd [of n "\<lambda>r. rf_id r = i" f d "\<lambda>r. 0 < rf_amount r"] assms
    by (simp add: funds_ok_def money_ok_def amounts_ok_def upd_rows_def)
qed

lemma keeps_funds_create_refund:
  "(\<And>i. 0 < rf_amount (mk i)) \<Longrightarrow> keeps funds_ok (create E refunds_t mk)"
  by (rule keeps_create) (auto simp: funds_ok_def money_ok_def amounts_ok_def)

lemma funds_ok_refund: "funds_ok d \<Longrightarrow> find_row refunds_t i d = Some r \<Longrightarrow> 0 < rf_amount r"
  by (auto simp: funds_ok_def amounts_ok_def dest: find_row_SomeD)

lemma funds_ok_intent: "funds_ok d \<Longrightarrow> find_row intents_t i d = Some r \<Longrightarrow> split_ok r"
  by (auto simp: funds_ok_def money_ok_intent)

subsection \<open>The settlement of a refund\<close>

lemma platform_part_bounds:
  assumes "split_ok intent" "0 \<le> amount"
  shows "0 \<le> platform_part intent amount" "platform_part intent amount \<le> amount"
proof -
  have "0 \<le> pi_amount intent" "pi_platformFeeAmount intent \<le> pi_amount intent"
    and fee: "0 \<le> pi_platformFeeAmount intent"
    using assms(1) by (auto simp: split_ok_def)
  then have "pi_amount intent \<noteq> 0 \<Longrightarrow> 0 < pi_amount intent"
    and "amount * pi_platformFeeAmount intent \<le> amount * pi_amount intent"
    using assms(2) by (simp_all add: mult_left_mono)
  then show "0 \<le> platform_part intent amount" "platform_part intent amount \<le> amount"
    using assms(2) fee by (auto simp: platform_part_def intro: round_div_nonneg round_div_le)
qed

lemma total_refund:
  assumes "0 \<le> platformPart" "0 \<le> heldDebit" "0 \<le> availableDebit"
    and "platformPart + heldDebit + availableDebit = amount"
  shows "total_of i (refund_entries intent t amount platformPart heldDebit availableDebit u) = 0"
  using assms by (auto simp: total_of_eq refund_entries_def)

lemma keeps_money_refund:
  assumes "split_ok intent" "0 \<le> amount"
  shows "keeps money_ok (appendRefundLedgerEntries E intent t amount (platform_part intent amount)
    (amount - platform_part intent amount) u)"
  unfolding keeps_wp
proof (intro allI impI)
  fix w :: world assume ok: "money_ok (w_db w)"
  let ?i = "pi_id intent" and ?es = "ledger (w_db w)" and ?p = "platform_part intent amount"
  let ?held = "bal LB_PROVIDER_HELD ?i ?es" and ?avail = "bal LB_PROVIDER_AVAILABLE ?i ?es"
  let ?h = "min ?held (amount - ?p)"
  note p = platform_part_bounds [OF assms]
  have nonneg: "0 \<le> bal LB_PLATFORM_RESERVED i ?es" "0 \<le> bal LB_PROVIDER_HELD i ?es"
    "0 \<le> bal LB_PROVIDER_AVAILABLE i ?es" for i
    using money_ok_bal [OF ok] by simp_all
  have "wp (appendEntries E (refund_entries intent t amount ?p ?h (amount - ?p - ?h) u))
      (\<lambda>_ w'. money_ok (w_db w')) (\<lambda>_ w'. money_ok (w_db w')) w"
    if "?p \<le> bal LB_PLATFORM_RESERVED ?i ?es" "amount - ?p \<le> ?held + ?avail"
  proof (rule wp_post_money [OF ok])
    fix i
    show "total_of i (refund_entries intent t amount ?p ?h (amount - ?p - ?h) u) = 0"
      using p nonneg by (intro total_refund) auto
    fix b assume "b \<noteq> LB_CUSTOMER_EXTERNAL"
    then show "0 \<le> bal b i ?es + bal b i (refund_entries intent t amount ?p ?h (amount - ?p - ?h) u)"
      using that p money_ok_bal [OF ok, of b i] nonneg(2) by (cases b) (auto simp: refund_entries_def)
  qed
  then show "wp (appendRefundLedgerEntries E intent t amount ?p (amount - ?p) u)
      (\<lambda>_ w'. money_ok (w_db w')) (\<lambda>_ w'. money_ok (w_db w')) w"
    using ok by (simp add: appendRefundLedgerEntries_def wp_simps)
qed

lemma keeps_funds_refund_entries:
  assumes "split_ok intent" "0 \<le> amount"
  shows "keeps funds_ok (appendRefundLedgerEntries E intent t amount (platform_part intent amount)
    (amount - platform_part intent amount) u)"
  by (rule keeps_funds [OF keeps_money_refund [OF assms]])
    (simp add: appendRefundLedgerEntries_def keeps_rules keeps_appendEntries_frame)

lemma keeps_sync_frame: "frames J incidents_t \<Longrightarrow> frames J incidentEvents_t \<Longrightarrow> keeps J (syncRefundCaseDecision E input)"
  by (simp add: syncRefundCaseDecision_def keeps_rules keeps_frame)

lemma keeps_ensure_frame: "frames J incidents_t \<Longrightarrow> frames J incidentEvents_t \<Longrightarrow> keeps J (ensureRefundDisputeCase E input)"
  by (simp add: ensureRefundDisputeCase_def keeps_rules keeps_frame)

lemmas funds_rules = keeps_rules keeps_frame funds_frames keeps_sync_frame keeps_ensure_frame
  keeps_funds_update_refund

lemma keeps_funds_settleRefund:
  assumes "split_ok intent" "0 < rf_amount refundRec"
  shows "keeps funds_ok (settleRefund E refundRec intent u note result)"
  using assms by (simp add: settleRefund_def funds_rules keeps_funds_refund_entries)

lemma keeps_find_when:
  assumes "\<And>d r. J d \<Longrightarrow> find_row T i d = Some r \<Longrightarrow> P r" "\<And>r. P r \<Longrightarrow> keeps J (f r)"
  shows "keeps J (sbind (findUniqueOrThrow T i) f)"
  by (rule keeps_sbind_when [where P = P])
    (use assms in \<open>auto simp: keeps_findUniqueOrThrow wp_findUniqueOrThrow split: option.split\<close>)

lemma keeps_funds_processRefund: "keeps funds_ok (processRefundRequest E r u note)"
proof -
  have inner: "keeps funds_ok (sbind (require refunds_t i refundNotFound) (\<lambda>refundRec.
      sthen (sguard (rf_status refundRec = RF_PENDING) onlyPendingApprove)
      (sthen (sbind (update E refunds_t (rf_id refundRec)
            (\<lambda>r. r\<lparr>rf_status := RF_APPROVED, rf_approvedByUserId := Some u,
              rf_decisionNote := or_opt (trim_or_null note) (rf_decisionNote refundRec)\<rparr>)) (\<lambda>_. sreturn ()))
      (sbind (getAdapter (rf_provider refundRec)) (\<lambda>gateway.
       sbind (requestRefund E gateway \<lparr>gi_idempotencyKey = ''refund-'' @ rf_id refundRec,
             gi_amount = rf_amount refundRec, gi_currency = rf_currency refundRec,
             gi_providerReference = None, gi_metadata = None\<rparr>) (\<lambda>result.
       settleRefund E refundRec intent u note result))))))"
    if "split_ok intent" for i intent
    by (rule keeps_require_when [where P = "\<lambda>r. 0 < rf_amount r"])
      (simp_all add: funds_ok_refund funds_rules keeps_funds_settleRefund that)
  have outer: "keeps funds_ok (sbind (findUniqueOrThrow intents_t (rf_paymentIntentId refund)) (\<lambda>intent.
      sthen (sguard (paid_status (pi_status intent)) onlyPaidIntents)
      (sbind (getRemainingRefundableAmount (pi_id intent)) (\<lambda>remaining.
       sthen (sguard (rf_amount refund \<le> remaining) refundExceeds) (transact (m intent))))))"
    if "\<And>intent. split_ok intent \<Longrightarrow> keeps funds_ok (m intent)"
    for refund and m :: "paymentIntent \<Rightarrow> refundRequest svc"
    by (rule keeps_find_when [where P = split_ok])
      (simp_all add: funds_ok_intent funds_rules getRemainingRefundableAmount_def that)
  show ?thesis
    unfolding processRefundRequest_def
    by (intro keeps_sbind keeps_require keeps_sthen keeps_sguard outer inner)
qed

text \<open>The validation of the request bodies makes an amount that is given at least 1.\<close>

definition valid_refund_dto :: "refundRequestDto \<Rightarrow> bool" where
  "valid_refund_dto dto \<longleftrightarrow> (\<forall>a. rr_amount dto = Some a \<longrightarrow> 1 \<le> a)"

lemma requestedRefund_pos: "valid_refund_dto dto \<Longrightarrow> 0 < remaining \<Longrightarrow> 0 < requestedRefund job dto remaining"
  by (cases "rr_amount dto")
    (auto simp: valid_refund_dto_def requestedRefund_def resolveSuggestedRefundAmount_def)

lemma keeps_notifyRefund [keeps_rules]:
  "frames J notifications_t \<Longrightarrow> keeps J (notifyRefundRequested E a r u)"
  "frames J notifications_t \<Longrightarrow> keeps J (notifyRefundStatusUpdate E a r u t s n aud)"
  by (simp_all add: notifyRefundRequested_def notifyRefundStatusUpdate_def Let_def keeps_rules)

lemma keeps_access [keeps_rules]: "keeps J (resolveJobAccess j a)" "keeps J (getAccessibleJobOrThrow i a)"
  by (simp_all add: resolveJobAccess_def getAccessibleJobOrThrow_def Let_def keeps_rules)

lemma keeps_remaining [keeps_rules]: "keeps J (getRemainingRefundableAmount i)" "keeps J (getLatestPaidIntent i)"
  by (simp_all add: getRemainingRefundableAmount_def getLatestPaidIntent_def keeps_rules)

lemma keeps_funds_closeRefund:
  "(\<And>r. rf_amount (f r) = rf_amount r) \<Longrightarrow> keeps funds_ok (closeRefund E i f d)"
  by (simp add: closeRefund_def funds_rules)

lemma keeps_sguard_sthen: "(c \<Longrightarrow> keeps J m) \<Longrightarrow> keeps J (sthen (sguard c e) m)"
  by (simp add: keeps_wp wp_simps)

lemma keeps_funds_createJobRefundRequest:
  assumes "valid_refund_dto dto"
  shows "keeps funds_ok (createJobRefundRequest E j a dto)"
  unfolding createJobRefundRequest_def
  by (intro keeps_sbind keeps_sguard_sthen keeps_access keeps_remaining keeps_sopt keeps_findBy keeps_transact
      keeps_funds_create_refund)
    (simp_all add: funds_rules keeps_rules newRefund_def requestedRefund_pos assms)

lemma keeps_funds_adminCreateRefund:
  assumes "valid_refund_dto dto"
  shows "keeps funds_ok (adminCreateRefund E u i dto)"
proof -
  have pos: "0 < rem \<Longrightarrow> 0 < or_else (rr_amount dto) rem" for rem
    using assms by (cases "rr_amount dto") (auto simp: valid_refund_dto_def)
  show ?thesis
    unfolding adminCreateRefund_def
    by (intro keeps_sbind keeps_sguard_sthen keeps_access keeps_remaining keeps_require
        keeps_funds_processRefund keeps_funds_create_refund)
      (simp_all add: funds_rules keeps_rules newRefund_def pos)
qed

lemma keeps_funds_decisions:
  "keeps funds_ok (cancelRefundRequest E r a)"
  "keeps funds_ok (adminApproveRefund E u r n)"
  "keeps funds_ok (adminRejectRefund E u r s n)"
  by (simp_all add: cancelRefundRequest_def adminApproveRefund_def adminRejectRefund_def Let_def
      funds_rules keeps_rules keeps_funds_closeRefund keeps_funds_processRefund)

subsection \<open>What is asked, and what is shown\<close>

lemma resolveSuggested_le: "0 < remaining \<Longrightarrow> resolveSuggestedRefundAmount j remaining = Some a \<Longrightarrow> 1 \<le> a \<and> a \<le> remaining"
  by (auto simp: resolveSuggestedRefundAmount_def round_div_def split: if_splits)

text \<open>Participants see neither internal events nor the resolution note nor the owner.\<close>

lemma serialize_hides_internal:
  assumes "rd_supportCase (serializeRefundRequest E d False r) = Some c"
  shows "sc_ownerAdminUser c = None \<and> sc_resolutionNote c = None \<and>
    (\<forall>t \<in> set (sc_timeline c). tl_visibility t = EV_PARTICIPANTS)"
  using assms
  by (auto simp: serializeRefundRequest_def mapRefundSupportCase_def Let_def timeline_of_def)

text \<open>Administrators see every event of the case.\<close>

lemma serialize_admin_timeline:
  assumes "pickRefundSupportCase (refund_cases d (rf_id r)) = Some c"
  shows "map_option (\<lambda>s. length (sc_timeline s)) (rd_supportCase (serializeRefundRequest E d True r)) =
    Some (length (snd c))"
  using assms by (simp add: serializeRefundRequest_def mapRefundSupportCase_def Let_def)

text \<open>An open case is shown before a closed one.\<close>

lemma pick_open_first:
  "\<exists>c \<in> set cs. \<not> closed_status (oi_status (fst c)) \<Longrightarrow> pickRefundSupportCase cs = Some c \<Longrightarrow>
    \<not> closed_status (oi_status (fst c))"
  by (cases "find (\<lambda>c. \<not> closed_status (oi_status (fst c))) cs")
    (auto simp: pickRefundSupportCase_def find_None_iff find_Some_iff)

text \<open>Who is refused: neither administrator nor participant.\<close>

lemma access_refused:
  assumes "find_row jobs_t j (w_db w) = Some job" "job_provider (w_db w) job = Some p"
    and "job_customer (w_db w) job = Some c"
    and "\<not> is_admin a" "jb_clientId job \<noteq> ia_userId a" "jb_customerId job \<noteq> Some (ia_userId a)"
    and "us_id p \<noteq> ia_userId a"
  shows "getAccessibleJobOrThrow j a w = (Inl jobForbidden, w)"
  using assms by (simp add: run_wp_exn getAccessibleJobOrThrow_def resolveJobAccess_def wp_simps)

lemma find_in_set: "find P xs = Some x \<Longrightarrow> x \<in> set xs"
  by (induction xs) (auto split: if_splits)

text \<open>The summary announces a refundable remainder only within what was paid.\<close>

lemma summary_bounds:
  assumes "\<forall>r \<in> set refs. 0 < rf_amount r" "\<forall>i \<in> set ints. 0 \<le> pi_amount i"
  shows "0 \<le> rsu_remaining (buildRefundSummary E job wu ints refs a)
    \<and> rsu_remaining (buildRefundSummary E job wu ints refs a) \<le> rsu_paidAmount (buildRefundSummary E job wu ints refs a)"
proof -
  have "0 \<le> sum_list (map rf_amount (filter (\<lambda>r. rf_status r = RF_SUCCEEDED) refs))"
    using assms(1) by (intro sum_list_nonneg_int) (auto simp: less_imp_le)
  then show ?thesis
    using assms(2) find_in_set [of "\<lambda>i. paid_status (pi_status i)" ints]
    by (cases "find (\<lambda>i. paid_status (pi_status i)) ints") (auto simp: buildRefundSummary_def Let_def)
qed

end
