(* ===== verification/Payouts.thy ===== *)
theory Payouts
  imports Refunds
begin

text \<open>
  Payouts to providers and the release of held funds (\<^verbatim>\<open>payments/payments.service.ts\<close>), with the
  readings of the money: the lists, the administrators' overview, the provider's summary.
\<close>

definition intentIdRequired :: exn where
  "intentIdRequired = BadRequestException ''paymentIntentId is required for payout''"

definition payoutOwner :: exn where
  "payoutOwner = BadRequestException ''providerUserId does not match payment intent owner''"

definition payoutExceeds :: exn where
  "payoutExceeds = ConflictException ''Payout amount exceeds available balance''"

definition payoutShort :: exn where
  "payoutShort = ConflictException ''Payout amount exceeds currently available provider balance''"

definition payoutNotFound :: exn where
  "payoutNotFound = NotFoundException ''Payout not found''"

definition onlyPendingPayout :: exn where
  "onlyPendingPayout = ConflictException ''Only pending payouts can be approved''"

definition onlyApprovedPayout :: exn where
  "onlyApprovedPayout = ConflictException ''Only approved payouts can be processed''"

definition onlyCompletedRelease :: exn where
  "onlyCompletedRelease = ConflictException ''Only completed jobs can release provider funds''"

definition releaseTooEarly :: "env \<Rightarrow> exn" where
  "releaseTooEarly E = ConflictException
     (''Release window not reached yet ('' @ show_int (resolveReleaseDelayHours E) @ ''h)'')"

definition noPaidIntent :: exn where
  "noPaidIntent = NotFoundException ''No successful payment intent found for this job''"

definition nothingHeld :: exn where
  "nothingHeld = ConflictException ''No held provider balance available to release''"

subsection \<open>Payouts\<close>

record payoutDto =
  pd_providerUserId :: id
  pd_amount :: int
  pd_currency :: "string option"
  pd_provider :: "paymentProvider option"
  pd_paymentIntentId :: "id option"
  pd_jobId :: "id option"

definition active_payout :: "payoutStatus \<Rightarrow> bool" where
  "active_payout s \<longleftrightarrow> s \<in> set [PO_PENDING, PO_APPROVED, PO_PROCESSING]"

definition reserved_by_payouts :: "id \<Rightarrow> payout list \<Rightarrow> int" where
  "reserved_by_payouts intentId ps =
     sum_list (map po_amount (filter (\<lambda>p. po_paymentIntentId p = Some intentId \<and> active_payout (po_status p)) ps))"

definition newPayout :: "env \<Rightarrow> id \<Rightarrow> payoutDto \<Rightarrow> paymentIntent \<Rightarrow> id \<Rightarrow> payout" where
  "newPayout E actorUserId dto intent i =
     \<lparr>po_id = i, po_providerUserId = pd_providerUserId dto,
      po_jobId = Some (or_else (pd_jobId dto) (pi_jobId intent)),
      po_paymentIntentId = Some (pi_id intent), po_amount = pd_amount dto,
      po_currency = or_else (trim_or_null (pd_currency dto)) (pi_currency intent),
      po_status = PO_PENDING, po_provider = or_else (pd_provider dto) (pi_provider intent),
      po_providerReference = None, po_requestedByUserId = Some actorUserId, po_approvedByUserId = None,
      po_processedAt = None, po_failureReason = None, po_createdAt = e_now E, po_updatedAt = e_now E\<rparr>"

definition adminCreatePayout :: "env \<Rightarrow> id \<Rightarrow> payoutDto \<Rightarrow> payout svc" where
  "adminCreatePayout E actorUserId dto =
     sbind (sopt (truthy (pd_paymentIntentId dto)) intentIdRequired) (\<lambda>intentId.
     sbind (require intents_t intentId intentNotFound) (\<lambda>intent.
     sthen (sguard (pi_providerUserId intent = Some (pd_providerUserId dto)) payoutOwner)
     (sbind (computeBucketNet LB_PROVIDER_AVAILABLE
        (\<lambda>e. le_actorType e = PA_PROVIDER \<and> le_paymentIntentId e = Some (pi_id intent))) (\<lambda>availableForIntent.
      sbind (sread (\<lambda>d. reserved_by_payouts (pi_id intent) (payouts d))) (\<lambda>reservedByPendingPayout.
      sthen (sguard (pd_amount dto \<le> availableForIntent - reservedByPendingPayout) payoutExceeds)
      (create E payouts_t (newPayout E actorUserId dto intent)))))))"

definition adminApprovePayout :: "env \<Rightarrow> id \<Rightarrow> id \<Rightarrow> payout svc" where
  "adminApprovePayout E actorUserId payoutId =
     sbind (require payouts_t payoutId payoutNotFound) (\<lambda>payoutRec.
     sthen (sguard (po_status payoutRec = PO_PENDING) onlyPendingPayout)
     (update E payouts_t (po_id payoutRec)
       (\<lambda>r. r\<lparr>po_status := PO_APPROVED, po_approvedByUserId := Some actorUserId\<rparr>)))"

record processPayoutDto =
  pp_simulate :: "string option"
  pp_providerReference :: "string option"

fun next_payout_status :: "transactionStatus \<Rightarrow> payoutStatus" where
  "next_payout_status TX_SUCCEEDED = PO_PAID"
| "next_payout_status TX_FAILED = PO_FAILED"
| "next_payout_status _ = PO_PROCESSING"

definition payout_transaction :: "env \<Rightarrow> payout \<Rightarrow> processPayoutDto \<Rightarrow> gatewayResult \<Rightarrow> id \<Rightarrow> paymentTransaction" where
  "payout_transaction E payoutRec dto result i =
     (let transactionStatus = mapGatewayToTransactionStatus (gr_status result) in
      \<lparr>tx_id = i, tx_paymentIntentId = po_paymentIntentId payoutRec, tx_type = TT_PAYOUT,
       tx_status = transactionStatus, tx_provider = po_provider payoutRec,
       tx_providerReference = Some (or_else (trim_or_null (pp_providerReference dto)) (gr_providerReference result)),
       tx_idempotencyKey = ''payout-'' @ po_id payoutRec, tx_requestedAmount = po_amount payoutRec,
       tx_confirmedAmount = (if transactionStatus = TX_SUCCEEDED then Some (po_amount payoutRec) else None),
       tx_currency = po_currency payoutRec, tx_providerPayload = Some (gr_rawPayload result),
       tx_failureReason = gr_reason result, tx_processedAt = gr_processedAt result,
       tx_createdAt = e_now E, tx_updatedAt = e_now E\<rparr>)"

definition payout_entries :: "payout \<Rightarrow> id \<Rightarrow> id \<Rightarrow> ledgerEntry list" where
  "payout_entries p transactionId actorUserId =
     [ledgerInput (po_jobId p) (po_paymentIntentId p) (Some transactionId) PA_PROVIDER LE_PROVIDER_PAYOUT
        (po_amount p) (po_currency p) LD_DEBIT LB_PROVIDER_AVAILABLE ''Provider payout settled'' (Some actorUserId),
      ledgerInput (po_jobId p) (po_paymentIntentId p) (Some transactionId) PA_PROVIDER LE_PROVIDER_PAYOUT
        (po_amount p) (po_currency p) LD_CREDIT LB_PROVIDER_PAID_OUT
        ''Provider payout accounted as paid out'' (Some actorUserId)]"

definition settlePayout :: "env \<Rightarrow> payout \<Rightarrow> id \<Rightarrow> id \<Rightarrow> unit svc" where
  "settlePayout E updatedPayout transactionId actorUserId =
     sbind (computeBucketNet LB_PROVIDER_AVAILABLE
       (\<lambda>e. le_actorType e = PA_PROVIDER \<and> le_paymentIntentId e = po_paymentIntentId updatedPayout)) (\<lambda>availableBalance.
     sthen (sguard (po_amount updatedPayout \<le> availableBalance) payoutShort)
     (appendEntries E (payout_entries updatedPayout transactionId actorUserId)))"

definition recordPayout :: "env \<Rightarrow> payout \<Rightarrow> id \<Rightarrow> processPayoutDto \<Rightarrow> gatewayResult \<Rightarrow> payout svc" where
  "recordPayout E payoutRec actorUserId dto result =
     sbind (create E transactions_t (payout_transaction E payoutRec dto result)) (\<lambda>transaction.
     sbind (update E payouts_t (po_id payoutRec)
       (\<lambda>r. r\<lparr>po_status := next_payout_status (tx_status transaction),
         po_approvedByUserId := Some (or_else (po_approvedByUserId payoutRec) actorUserId),
         po_processedAt := tx_processedAt transaction,
         po_providerReference := tx_providerReference transaction,
         po_failureReason := tx_failureReason transaction\<rparr>)) (\<lambda>updatedPayout.
     sthen (swhen (next_payout_status (tx_status transaction) = PO_PAID)
        (settlePayout E updatedPayout (tx_id transaction) actorUserId))
     (sreturn updatedPayout)))"

definition adminProcessPayout :: "env \<Rightarrow> id \<Rightarrow> id \<Rightarrow> processPayoutDto \<Rightarrow> payout svc" where
  "adminProcessPayout E actorUserId payoutId dto =
     sbind (require payouts_t payoutId payoutNotFound) (\<lambda>found.
     sthen (sguard (po_status found = PO_APPROVED) onlyApprovedPayout)
     (sbind (findBy transactions_t (\<lambda>t. tx_idempotencyKey t = ''payout-'' @ po_id found)) (\<lambda>existing.
      if existing \<noteq> None then findUniqueOrThrow payouts_t (po_id found)
      else
      sbind (getAdapter (po_provider found)) (\<lambda>gateway.
      sbind (requestPayout E gateway \<lparr>gi_idempotencyKey = ''payout-'' @ po_id found, gi_amount = po_amount found,
        gi_currency = po_currency found, gi_providerReference = None,
        gi_metadata = Some (JObj (case pp_simulate dto of Some s \<Rightarrow> [(''simulate'', JStr s)] | None \<Rightarrow> []))\<rparr>) (\<lambda>result.
      transact (
        sbind (require payouts_t (po_id found) payoutNotFound) (\<lambda>payoutRec.
        sthen (sguard (po_status payoutRec = PO_APPROVED) onlyApprovedPayout)
        (sbind (findBy transactions_t (\<lambda>t. tx_idempotencyKey t = ''payout-'' @ po_id found)) (\<lambda>duplicate.
         if duplicate \<noteq> None then findUniqueOrThrow payouts_t (po_id payoutRec)
         else recordPayout E payoutRec actorUserId dto result)))))))))"

subsection \<open>Release\<close>

record releaseResult =
  rl_jobId :: id
  rl_paymentIntentId :: id
  rl_releasedAmount :: int
  rl_currency :: string

definition release_entries :: "paymentIntent \<Rightarrow> int \<Rightarrow> id \<Rightarrow> ledgerEntry list" where
  "release_entries intent held actorUserId =
     [ledgerInput (Some (pi_jobId intent)) (Some (pi_id intent)) None PA_PROVIDER LE_PROVIDER_BALANCE_RELEASED
        held (pi_currency intent) LD_DEBIT LB_PROVIDER_HELD
        ''Provider held balance released after completion window'' (Some actorUserId),
      ledgerInput (Some (pi_jobId intent)) (Some (pi_id intent)) None PA_PROVIDER LE_PROVIDER_BALANCE_RELEASED
        held (pi_currency intent) LD_CREDIT LB_PROVIDER_AVAILABLE
        ''Provider funds now available for payout'' (Some actorUserId)]"

definition releaseHeld :: "env \<Rightarrow> paymentIntent \<Rightarrow> id \<Rightarrow> releaseResult svc" where
  "releaseHeld E intent actorUserId =
     sbind (computeBucketNet LB_PROVIDER_HELD
       (\<lambda>e. le_actorType e = PA_PROVIDER \<and> le_paymentIntentId e = Some (pi_id intent))) (\<lambda>heldBalance.
     sthen (sguard (0 < heldBalance) nothingHeld)
     (sthen (appendEntries E (release_entries intent heldBalance actorUserId))
      (sreturn \<lparr>rl_jobId = pi_jobId intent, rl_paymentIntentId = pi_id intent,
        rl_releasedAmount = heldBalance, rl_currency = pi_currency intent\<rparr>)))"

definition adminReleaseProviderFunds :: "env \<Rightarrow> id \<Rightarrow> id \<Rightarrow> releaseResult svc" where
  "adminReleaseProviderFunds E actorUserId jobId =
     sbind (require jobs_t jobId jobNotFound) (\<lambda>job.
     sthen (sguard (jb_status job = JOB_COMPLETED) onlyCompletedRelease)
     (sthen (sguard (canReleaseFunds E (jb_completedAt job)) (releaseTooEarly E))
     (sbind (getLatestPaidIntent (jb_id job)) (\<lambda>latest.
      sbind (sopt latest noPaidIntent) (\<lambda>intent.
      transact (releaseHeld E intent actorUserId))))))"

subsection \<open>Lists and summaries\<close>

definition has_status :: "'s option \<Rightarrow> 's \<Rightarrow> bool" where
  "has_status query s \<longleftrightarrow> query = None \<or> query = Some s"

definition listMyCustomerIntents :: "id \<Rightarrow> pageInput \<Rightarrow> intentStatus option \<Rightarrow> intentView paginated svc" where
  "listMyCustomerIntents actorUserId query status =
     sread (\<lambda>d. page_of query (map (with_transactions d) (sort_desc pi_order
       (filter (\<lambda>i. pi_customerId i = actorUserId \<and> has_status status (pi_status i)) (intents d)))))"

definition adminListIntents :: "pageInput \<Rightarrow> intentStatus option \<Rightarrow> intentView paginated svc" where
  "adminListIntents query status =
     sread (\<lambda>d. page_of query (map (with_transactions d) (sort_desc pi_order
       (filter (\<lambda>i. has_status status (pi_status i)) (intents d)))))"

definition adminListTransactions :: "pageInput \<Rightarrow> transactionStatus option \<Rightarrow> paymentTransaction paginated svc" where
  "adminListTransactions query status =
     sread (\<lambda>d. page_of query (sort_desc tx_order
       (filter (\<lambda>t. has_status status (tx_status t)) (transactions d))))"

definition adminListRefunds :: "env \<Rightarrow> pageInput \<Rightarrow> refundStatus option \<Rightarrow> refundDto paginated svc" where
  "adminListRefunds E query status =
     sread (\<lambda>d. page_of query (map (serializeRefundRequest E d True) (sort_desc rf_order
       (filter (\<lambda>r. has_status status (rf_status r)) (refunds d)))))"

definition adminListPayouts :: "pageInput \<Rightarrow> payoutStatus option \<Rightarrow> payout paginated svc" where
  "adminListPayouts query status =
     sread (\<lambda>d. page_of query (sort_desc po_order
       (filter (\<lambda>p. has_status status (po_status p)) (payouts d))))"

record overview =
  ov_totalIntents :: nat
  ov_intentsAwaitingPayment :: nat
  ov_intentsSucceeded :: nat
  ov_intentsFailed :: nat
  ov_totalTransactions :: nat
  ov_failedTransactions :: nat
  ov_pendingRefunds :: nat
  ov_pendingPayouts :: nat
  ov_platformReserved :: int
  ov_providerHeld :: int
  ov_providerAvailable :: int
  ov_releaseDelayHours :: int

definition adminOverview :: "env \<Rightarrow> overview svc" where
  "adminOverview E =
     sbind (computeBucketNet LB_PLATFORM_RESERVED (\<lambda>e. le_actorType e = PA_PLATFORM)) (\<lambda>platformReserved.
     sbind (computeBucketNet LB_PROVIDER_HELD (\<lambda>e. le_actorType e = PA_PROVIDER)) (\<lambda>providerHeld.
     sbind (computeBucketNet LB_PROVIDER_AVAILABLE (\<lambda>e. le_actorType e = PA_PROVIDER)) (\<lambda>providerAvailable.
     sread (\<lambda>d.
       \<lparr>ov_totalIntents = length (intents d),
        ov_intentsAwaitingPayment = length (filter (\<lambda>i. pi_status i
          \<in> set [PI_CREATED, PI_AWAITING_PAYMENT, PI_PENDING_CONFIRMATION]) (intents d)),
        ov_intentsSucceeded = length (filter (\<lambda>i. paid_status (pi_status i)) (intents d)),
        ov_intentsFailed = length (filter (\<lambda>i. pi_status i = PI_FAILED) (intents d)),
        ov_totalTransactions = length (transactions d),
        ov_failedTransactions = length (filter (\<lambda>t. tx_status t = TX_FAILED) (transactions d)),
        ov_pendingRefunds = length (filter (\<lambda>r. active_refund (rf_status r)) (refunds d)),
        ov_pendingPayouts = length (filter (\<lambda>p. active_payout (po_status p)) (payouts d)),
        ov_platformReserved = platformReserved, ov_providerHeld = providerHeld,
        ov_providerAvailable = providerAvailable,
        ov_releaseDelayHours = resolveReleaseDelayHours E\<rparr>))))"

text \<open>\<^verbatim>\<open>where: { paymentIntent: { providerUserId } }\<close>.\<close>

definition of_provider :: "db \<Rightarrow> id \<Rightarrow> ledgerEntry \<Rightarrow> bool" where
  "of_provider d u e = (case le_paymentIntentId e of None \<Rightarrow> False
     | Some i \<Rightarrow> (case find_row intents_t i d of None \<Rightarrow> False
       | Some intent \<Rightarrow> pi_providerUserId intent = Some u))"

record providerSummary =
  ps_held :: int
  ps_available :: int
  ps_paidOut :: int
  ps_entries :: "ledgerEntry list"
  ps_payouts :: "payout list"

definition getProviderSummary :: "id \<Rightarrow> providerSummary svc" where
  "getProviderSummary actorUserId =
     sbind (sread (\<lambda>d e. le_actorType e = PA_PROVIDER \<and> of_provider d actorUserId e)) (\<lambda>mine.
     sbind (computeBucketNet LB_PROVIDER_HELD mine) (\<lambda>held.
     sbind (computeBucketNet LB_PROVIDER_AVAILABLE mine) (\<lambda>available.
     sbind (computeBucketNet LB_PROVIDER_PAID_OUT mine) (\<lambda>paidOut.
     sread (\<lambda>d. \<lparr>ps_held = held, ps_available = available, ps_paidOut = paidOut,
       ps_entries = take 20 (sort_desc le_order (filter mine (ledger d))),
       ps_payouts = take 20 (sort_desc po_order
         (filter (\<lambda>p. po_providerUserId p = actorUserId) (payouts d)))\<rparr>)))))"

subsection \<open>The funds invariant\<close>

lemma keeps_funds_update_payout:
  assumes "\<And>r. po_amount (f r) = po_amount r"
  shows "keeps funds_ok (update E payouts_t i f)"
proof (rule keeps_update)
  fix d n assume "funds_ok d"
  then show "funds_ok (upd_rows payouts_t n (\<lambda>r. t_key payouts_t r = i) f d)"
    using tb_payouts.ball_upd [of n "\<lambda>r. po_id r = i" f d "\<lambda>r. 0 < po_amount r"] assms
    by (simp add: funds_ok_def money_ok_def amounts_ok_def upd_rows_def)
qed

lemma keeps_funds_create_payout:
  "(\<And>i. 0 < po_amount (mk i)) \<Longrightarrow> keeps funds_ok (create E payouts_t mk)"
  by (rule keeps_create) (auto simp: funds_ok_def money_ok_def amounts_ok_def)

lemma keeps_funds_adminCreatePayout:
  "1 \<le> pd_amount dto \<Longrightarrow> keeps funds_ok (adminCreatePayout E u dto)"
  by (simp add: adminCreatePayout_def newPayout_def keeps_rules keeps_funds_create_payout)

lemma keeps_funds_adminApprovePayout: "keeps funds_ok (adminApprovePayout E u p)"
  by (simp add: adminApprovePayout_def keeps_rules keeps_funds_update_payout)

lemma keeps_funds_settlePayout:
  assumes "0 \<le> po_amount p"
  shows "keeps funds_ok (settlePayout E p t u)"
proof (rule keeps_funds)
  show "keeps amounts_ok (settlePayout E p t u)"
    by (simp add: settlePayout_def keeps_rules keeps_appendEntries_frame)
  have post: "wp (appendEntries E (payout_entries p t u)) (\<lambda>_ w'. money_ok (w_db w')) (\<lambda>_ w'. money_ok (w_db w')) w"
    if ok: "money_ok (w_db w)"
      and le: "\<And>i. po_paymentIntentId p = Some i \<Longrightarrow> po_amount p \<le> bal LB_PROVIDER_AVAILABLE i (ledger (w_db w))"
    for w :: world
  proof (rule wp_post_money [OF ok])
    fix i b assume "b \<noteq> LB_CUSTOMER_EXTERNAL"
    then show "0 \<le> bal b i (ledger (w_db w)) + bal b i (payout_entries p t u)"
      using money_ok_bal [OF ok, of b i] le [of i] assms by (cases b) (auto simp: payout_entries_def)
  qed (simp add: total_of_eq payout_entries_def)
  show "keeps money_ok (settlePayout E p t u)"
    unfolding keeps_wp
  proof (intro allI impI)
    fix w :: world assume ok: "money_ok (w_db w)"
    show "wp (settlePayout E p t u) (\<lambda>_ w'. money_ok (w_db w')) (\<lambda>_ w'. money_ok (w_db w')) w"
      by (cases "po_paymentIntentId p") (auto simp: settlePayout_def wp_simps ok intro!: post)
  qed
qed

lemma keeps_funds_recordPayout:
  assumes "0 < po_amount p"
  shows "keeps funds_ok (recordPayout E p u dto result)"
  unfolding recordPayout_def
proof (rule keeps_sbind)
  fix t
  let ?f = "\<lambda>r. r\<lparr>po_status := next_payout_status (tx_status t),
      po_approvedByUserId := Some (or_else (po_approvedByUserId p) u), po_processedAt := tx_processedAt t,
      po_providerReference := tx_providerReference t, po_failureReason := tx_failureReason t\<rparr>"
  show "keeps funds_ok (sbind (update E payouts_t (po_id p) ?f) (\<lambda>q.
      sthen (swhen (next_payout_status (tx_status t) = PO_PAID) (settlePayout E q (tx_id t) u)) (sreturn q)))"
  proof (rule keeps_sbind_when [where P = "\<lambda>q. 0 < po_amount q"])
    fix w :: world assume "funds_ok (w_db w)"
    then show "wp (update E payouts_t (po_id p) ?f) (\<lambda>v _. 0 < po_amount v) (\<lambda>_ _. True) w"
      by (auto simp: wp_simps funds_ok_def amounts_ok_def split: option.split dest: find_row_SomeD)
  qed (simp_all add: keeps_rules keeps_funds_update_payout keeps_funds_settlePayout)
qed (simp add: keeps_rules keeps_frame)

lemma funds_ok_payout: "funds_ok d \<Longrightarrow> find_row payouts_t i d = Some p \<Longrightarrow> 0 < po_amount p"
  by (auto simp: funds_ok_def amounts_ok_def dest: find_row_SomeD)

lemma keeps_funds_adminProcessPayout: "keeps funds_ok (adminProcessPayout E u p dto)"
proof -
  have "keeps funds_ok (sbind (require payouts_t i payoutNotFound) (\<lambda>payoutRec.
      sthen (sguard (po_status payoutRec = PO_APPROVED) onlyApprovedPayout)
      (sbind (findBy transactions_t P) (\<lambda>duplicate.
       if duplicate \<noteq> None then findUniqueOrThrow payouts_t (po_id payoutRec)
       else recordPayout E payoutRec u dto result))))" for i P result
    by (rule keeps_require_when [where P = "\<lambda>p. 0 < po_amount p"])
      (simp_all add: funds_ok_payout keeps_rules keeps_funds_recordPayout)
  then show ?thesis
    by (simp add: adminProcessPayout_def keeps_rules)
qed

lemma keeps_funds_releaseHeld: "keeps funds_ok (releaseHeld E intent u)"
proof (rule keeps_funds)
  show "keeps amounts_ok (releaseHeld E intent u)"
    by (simp add: releaseHeld_def keeps_rules keeps_appendEntries_frame)
  show "keeps money_ok (releaseHeld E intent u)"
    unfolding keeps_wp
  proof (intro allI impI)
    fix w :: world assume ok: "money_ok (w_db w)"
    let ?h = "bal LB_PROVIDER_HELD (pi_id intent) (ledger (w_db w))"
    have "wp (appendEntries E (release_entries intent ?h u)) (\<lambda>_ w'. money_ok (w_db w')) (\<lambda>_ w'. money_ok (w_db w')) w"
    proof (rule wp_post_money [OF ok])
      fix i b assume "b \<noteq> LB_CUSTOMER_EXTERNAL"
      then show "0 \<le> bal b i (ledger (w_db w)) + bal b i (release_entries intent ?h u)"
        using money_ok_bal [OF ok, of b i] money_ok_bal [OF ok, of LB_PROVIDER_HELD "pi_id intent"]
        by (cases b) (auto simp: release_entries_def)
    qed (simp add: total_of_eq release_entries_def)
    then show "wp (releaseHeld E intent u) (\<lambda>_ w'. money_ok (w_db w')) (\<lambda>_ w'. money_ok (w_db w')) w"
      using ok by (simp add: releaseHeld_def wp_simps)
  qed
qed

lemma keeps_funds_adminRelease: "keeps funds_ok (adminReleaseProviderFunds E u j)"
  by (simp add: adminReleaseProviderFunds_def keeps_rules keeps_funds_releaseHeld)

subsection \<open>What the operations do\<close>

text \<open>A payout that is accepted keeps the active payouts within the available balance.\<close>

lemma adminCreatePayout_bound:
  "wp (adminCreatePayout E u dto)
     (\<lambda>p w'. po_amount p = pd_amount dto \<and> po_status p = PO_PENDING \<and>
       (\<exists>i. po_paymentIntentId p = Some i \<and>
         reserved_by_payouts i (payouts (w_db w')) \<le> bal LB_PROVIDER_AVAILABLE i (ledger (w_db w'))))
     (\<lambda>_ w'. w_db w' = w_db w) w"
  by (auto simp: adminCreatePayout_def newPayout_def wp_simps Let_def reserved_by_payouts_def active_payout_def
      split: option.split)

text \<open>Release empties the held balance of the intent into the available one.\<close>

lemma releaseHeld_moves:
  "wp (releaseHeld E intent u)
     (\<lambda>r w'. rl_releasedAmount r = bal LB_PROVIDER_HELD (pi_id intent) (ledger (w_db w))
       \<and> 0 < rl_releasedAmount r
       \<and> bal LB_PROVIDER_HELD (pi_id intent) (ledger (w_db w')) = 0
       \<and> bal LB_PROVIDER_AVAILABLE (pi_id intent) (ledger (w_db w')) =
         bal LB_PROVIDER_AVAILABLE (pi_id intent) (ledger (w_db w)) + rl_releasedAmount r)
     (\<lambda>_ w'. w_db w' = w_db w) w"
proof -
  show ?thesis
    unfolding releaseHeld_def wp_sbind wp_computeBucketNet wp_sthen wp_sguard wp_sreturn
    by (auto simp: stamped_bal release_entries_def intro!: wp_appendEntries)
qed

text \<open>Before completion or before the window no funds move.\<close>

lemma release_refused:
  assumes "find_row jobs_t j (w_db w) = Some job"
    and "jb_status job \<noteq> JOB_COMPLETED \<or> \<not> canReleaseFunds E (jb_completedAt job)"
  shows "\<exists>e. adminReleaseProviderFunds E u j w = (Inl e, w)"
  using assms by (auto simp: run_wp_exn adminReleaseProviderFunds_def wp_simps)

text \<open>A payout is paid once: afterwards it is no longer approved.\<close>

lemma processPayout_only_approved:
  assumes "find_row payouts_t p (w_db w) = Some r" "po_status r \<noteq> PO_APPROVED"
  shows "adminProcessPayout E u p dto w = (Inl onlyApprovedPayout, w)"
  using assms by (simp add: run_wp_exn adminProcessPayout_def wp_simps)

text \<open>What a provider sees as held is the sum over the intents' balances.\<close>

lemma net_of_filter_partition:
  assumes "distinct is" "\<And>e. e \<in> set es \<Longrightarrow> P e \<Longrightarrow> \<exists>i \<in> set is. le_paymentIntentId e = Some i"
  shows "net_of (filter P es) = (\<Sum>i \<leftarrow> is. net_of (filter (\<lambda>e. P e \<and> le_paymentIntentId e = Some i) es))"
  using assms(2)
proof (induction es)
  case Nil
  show ?case by (simp add: sum_list_0)
next
  case (Cons e es)
  have IH: "net_of (filter P es) = (\<Sum>i \<leftarrow> is. net_of (filter (\<lambda>e. P e \<and> le_paymentIntentId e = Some i) es))"
    using Cons.prems by (intro Cons.IH) simp
  show ?case
  proof (cases "P e")
    case False
    then show ?thesis using IH by simp
  next
    case True
    then obtain k where k: "k \<in> set is" "le_paymentIntentId e = Some k"
      using Cons.prems [of e] by auto
    have "(\<Sum>i \<leftarrow> js. net_of (filter (\<lambda>e. P e \<and> le_paymentIntentId e = Some i) (e # es))) =
        (if k \<in> set js then signed e else 0) + (\<Sum>i \<leftarrow> js. net_of (filter (\<lambda>e. P e \<and> le_paymentIntentId e = Some i) es))"
      if "distinct js" for js
      using that True k(2) by (induction js) auto
    from this [OF assms(1)] show ?thesis using True k(1) IH by simp
  qed
qed

end
