(* ===== verification/Lifecycle.thy ===== *)
theory Lifecycle
  imports Main
begin

text \<open>
  The interface of a status column that only moves forward: every step raises a rank, and a
  terminal status has no step.  Job, request, refund and payout statuses interpret it.
\<close>

locale lifecycle =
  fixes step :: "'s \<Rightarrow> 's \<Rightarrow> bool" and rank :: "'s \<Rightarrow> nat" and terminal :: "'s \<Rightarrow> bool"
  assumes step_rank: "step a b \<Longrightarrow> rank a < rank b"
    and terminal_step: "terminal a \<Longrightarrow> \<not> step a b"
begin

lemma steps_rank: "step\<^sup>*\<^sup>* a b \<Longrightarrow> rank a \<le> rank b"
  by (induction rule: rtranclp_induct) (auto dest: step_rank)

lemma steps_same_rank: "step\<^sup>*\<^sup>* a b \<Longrightarrow> rank b \<le> rank a \<Longrightarrow> b = a"
  by (induction rule: rtranclp_induct) (auto dest: step_rank steps_rank)

text \<open>A status that was left is never reached again.\<close>

lemma no_return: "step a b \<Longrightarrow> \<not> step\<^sup>*\<^sup>* b a"
  using step_rank [of a b] steps_rank [of b a] by auto

lemma steps_antisym: "step\<^sup>*\<^sup>* a b \<Longrightarrow> step\<^sup>*\<^sup>* b a \<Longrightarrow> a = b"
  using steps_rank [of a b] steps_rank [of b a] steps_same_rank [of a b] by auto

lemma terminal_steps: "terminal a \<Longrightarrow> step\<^sup>*\<^sup>* a b \<Longrightarrow> b = a"
  by (erule converse_rtranclpE) (auto dest: terminal_step)

text \<open>A history of \<open>n\<close> steps has climbed at least \<open>n\<close> ranks.\<close>

lemma relpow_rank: "(step ^^ n) a b \<Longrightarrow> rank a + n \<le> rank b"
proof (induction n arbitrary: b)
  case (Suc n)
  then obtain c where "(step ^^ n) a c" and "step c b" by auto
  then show ?case using Suc.IH [of c] step_rank [of c b] by simp
qed simp

end

text \<open>A lifecycle whose ranks are bounded: histories have bounded length.\<close>

locale finite_lifecycle = lifecycle +
  fixes top :: nat
  assumes rank_top: "rank a \<le> top"
begin

lemma history_bound: "(step ^^ n) a b \<Longrightarrow> n \<le> top"
  using relpow_rank [of n a b] rank_top [of b] by simp

end

end
