(* ===== verification/Jobs.thy ===== *)
theory Jobs
  imports Payouts Lifecycle
begin

text \<open>
  \<^verbatim>\<open>jobs/jobs.service.ts\<close>: reading a job with the provider's contact behind payment, the lists,
  and the status machine of a job with its guards, its timestamps and what cancelling does to
  the intents.
\<close>

subsection \<open>Exceptions\<close>

definition directCreationGone :: exn where
  "directCreationGone = GoneException ''Direct job creation was removed. Use ServiceRequest -> Proposal -> Selection flow.''"

definition directQuoteGone :: exn where
  "directQuoteGone = GoneException ''Direct quote on job was removed. Providers must submit proposals on service requests.''"

definition depositRequired :: exn where
  "depositRequired = ConflictException ''Deposit payment is required before provider execution workflow''"

definition profileNotFound :: exn where
  "profileNotFound = NotFoundException ''Worker profile not found''"

definition updateForbidden :: exn where
  "updateForbidden = ForbiddenException ''You are not allowed to update this job''"

definition legacyProgress :: exn where
  "legacyProgress = ConflictException ''Legacy direct jobs cannot progress. Use ServiceRequest -> Proposal -> Selection flow.''"

definition reasonOnlyCancel :: exn where
  "reasonOnlyCancel = BadRequestException ''cancelReason can only be provided when status=CANCELED''"

definition reasonRequired :: exn where
  "reasonRequired = BadRequestException ''cancelReason is required when status=CANCELED''"

fun jobStatus_name :: "jobStatus \<Rightarrow> string" where
  "jobStatus_name JOB_REQUESTED = ''REQUESTED''"
| "jobStatus_name JOB_ACCEPTED = ''ACCEPTED''"
| "jobStatus_name JOB_IN_PROGRESS = ''IN_PROGRESS''"
| "jobStatus_name JOB_COMPLETED = ''COMPLETED''"
| "jobStatus_name JOB_CANCELED = ''CANCELED''"

definition invalidTransition :: "jobStatus \<Rightarrow> jobStatus \<Rightarrow> exn" where
  "invalidTransition cur nxt = ConflictException
     (''Invalid transition from '' @ jobStatus_name cur @ '' to '' @ jobStatus_name nxt)"

definition audit :: "string \<Rightarrow> unit svc" where
  "audit ev = recordBusinessEvent ''jobs'' ev ''success''"

definition auditWarn :: "string \<Rightarrow> unit svc" where
  "auditWarn ev = recordBusinessEvent ''jobs'' ev ''blocked''"

definition createDeprecated :: "unit svc" where
  "createDeprecated = sthen (auditWarn ''job_create_deprecated_endpoint_blocked'') (sthrow directCreationGone)"

definition proposeQuoteDeprecated :: "unit svc" where
  "proposeQuoteDeprecated = sthen (auditWarn ''job_quote_deprecated_endpoint_blocked'') (sthrow directQuoteGone)"

subsection \<open>Reading\<close>

record providerContact =
  pc_email :: "string option"
  pc_name :: "string option"

record jobView =
  jv_job :: job
  jv_contactUnlocked :: bool
  jv_providerContact :: "providerContact option"
  jv_paymentRequired :: bool
  jv_paymentStatus :: intentStatus

definition getById :: "id \<Rightarrow> id \<Rightarrow> jobView svc" where
  "getById jobId requesterId =
     sbind (require jobs_t jobId jobNotFound) (\<lambda>access.
     sbind (sread (\<lambda>d. worker_user d access)) (\<lambda>workerUser.
     sthen (sguard (jb_clientId access = requesterId
         \<or> or_opt (jb_providerId access) workerUser = Some requesterId) jobForbidden)
     (sbind (findUniqueOrThrow jobs_t jobId) (\<lambda>job.
      sbind (getLatestPaidIntent jobId) (\<lambda>paidIntent.
      sread (\<lambda>d. (let contactUnlocked = (jb_contactUnlockedAt job \<noteq> None \<or> paidIntent \<noteq> None);
          provider = find_user d (jb_providerId access); worker = find_user d workerUser in
        \<lparr>jv_job = job, jv_contactUnlocked = contactUnlocked,
         jv_providerContact = (if contactUnlocked
           then Some \<lparr>pc_email = or_opt (map_option us_email provider) (map_option us_email worker),
             pc_name = or_opt (Option.bind provider us_name) (Option.bind worker us_name)\<rparr>
           else None),
         jv_paymentRequired = (\<not> contactUnlocked),
         jv_paymentStatus = (if paidIntent \<noteq> None then PI_PAID_PARTIAL else PI_AWAITING_PAYMENT)\<rparr>)))))))"

definition assertExecutionPaymentReady :: "id \<Rightarrow> unit svc" where
  "assertExecutionPaymentReady jobId =
     sbind (getLatestPaidIntent jobId) (\<lambda>intent. sguard (intent \<noteq> None) depositRequired)"

subsection \<open>Lists\<close>

text \<open>\<^verbatim>\<open>{ contains: s, mode: 'insensitive' }\<close>.\<close>

fun has_infix :: "string \<Rightarrow> string \<Rightarrow> bool" where
  "has_infix p [] = (p = [])"
| "has_infix p (c # cs) = (take (length p) (c # cs) = p \<or> has_infix p cs)"

definition contains_ci :: "string \<Rightarrow> string \<Rightarrow> bool" where
  "contains_ci haystack needle = has_infix (js_lower needle) (js_lower haystack)"

datatype sortField = Sort_createdAt | Sort_budget
datatype sortDirection = Sort_asc | Sort_desc

record listJobsQuery =
  lj_page :: pageInput
  lj_status :: "jobStatus option"
  lj_search :: "string option"
  lj_sort :: "(sortField \<times> sortDirection) option"

definition buildListWhere :: "(job \<Rightarrow> bool) \<Rightarrow> listJobsQuery \<Rightarrow> job \<Rightarrow> bool" where
  "buildListWhere baseWhere query j \<longleftrightarrow> baseWhere j \<and> has_status (lj_status query) (jb_status j)
     \<and> (case trim_or_null (lj_search query) of None \<Rightarrow> True
        | Some s \<Rightarrow> contains_ci (jb_title j) s \<or> contains_ci (jb_description j) s)"

text \<open>PostgreSQL puts nulls last when ascending and first when descending.\<close>

fun budget_key :: "sortDirection \<Rightarrow> int option \<Rightarrow> int \<times> int" where
  "budget_key Sort_asc None = (1, 0)"
| "budget_key Sort_asc (Some b) = (0, b)"
| "budget_key Sort_desc None = (0, 0)"
| "budget_key Sort_desc (Some b) = (1, - b)"

definition buildOrderBy :: "sortField \<times> sortDirection \<Rightarrow> job list \<Rightarrow> job list" where
  "buildOrderBy s js =
     (case s of
        (Sort_budget, dir) \<Rightarrow> sort_key (\<lambda>j. budget_key dir (jb_budget j)) (sort_desc jb_order js)
      | (Sort_createdAt, dir) \<Rightarrow> sort_key (\<lambda>j. if dir = Sort_desc then - jb_createdAt j else jb_createdAt j)
          (sort_desc jb_id js))"

definition listJobs :: "(job \<Rightarrow> bool) \<Rightarrow> listJobsQuery \<Rightarrow> job paginated svc" where
  "listJobs baseWhere query =
     sread (\<lambda>d. page_of (lj_page query)
       (buildOrderBy (or_else (lj_sort query) (Sort_createdAt, Sort_desc))
         (filter (buildListWhere baseWhere query) (jobs d))))"

definition listMyClientJobs :: "id \<Rightarrow> listJobsQuery \<Rightarrow> job paginated svc" where
  "listMyClientJobs clientId query = listJobs (\<lambda>j. jb_clientId j = clientId) query"

definition listMyWorkerJobs :: "id \<Rightarrow> listJobsQuery \<Rightarrow> job paginated svc" where
  "listMyWorkerJobs userId query =
     sbind (findBy workerProfiles_t (\<lambda>p. wp_userId p = userId)) (\<lambda>found.
     sbind (sopt found profileNotFound) (\<lambda>profile.
     listJobs (\<lambda>j. jb_workerProfileId j = wp_id profile) query))"

subsection \<open>The status machine\<close>

definition isTransitionAllowed :: "jobStatus \<Rightarrow> jobStatus \<Rightarrow> bool \<Rightarrow> bool \<Rightarrow> bool" where
  "isTransitionAllowed cur nxt isClient isWorker =
     (if cur = nxt then False
      else if cur = JOB_COMPLETED \<or> cur = JOB_CANCELED then False
      else if cur = JOB_REQUESTED \<and> nxt = JOB_ACCEPTED then isWorker
      else if isWorker \<and> cur = JOB_ACCEPTED \<and> nxt = JOB_IN_PROGRESS then True
      else if isWorker \<and> cur = JOB_IN_PROGRESS \<and> nxt = JOB_COMPLETED then True
      else if (isClient \<or> isWorker) \<and> nxt = JOB_CANCELED then True
      else False)"

definition job_step :: "jobStatus \<Rightarrow> jobStatus \<Rightarrow> bool" where
  "job_step cur nxt \<longleftrightarrow> isTransitionAllowed cur nxt True True"

definition executing :: "jobStatus \<Rightarrow> bool" where
  "executing s \<longleftrightarrow> s \<in> set [JOB_ACCEPTED, JOB_IN_PROGRESS, JOB_COMPLETED]"

definition statusChecks :: "id \<Rightarrow> jobStatus \<Rightarrow> string option \<Rightarrow> job \<Rightarrow> id option \<Rightarrow> unit svc" where
  "statusChecks requesterId nxt cancelReason job workerUser =
     (let isClient = (jb_clientId job = requesterId); isWorker = (workerUser = Some requesterId) in
      sthen (sguard (isClient \<or> isWorker) updateForbidden)
      (sthen (swhen (executing nxt)
         (sthen (sguard (truthy (jb_requestId job) \<noteq> None \<and> truthy (jb_proposalId job) \<noteq> None) legacyProgress)
          (assertExecutionPaymentReady (jb_id job))))
      (sthen (swhen (\<not> isTransitionAllowed (jb_status job) nxt isClient isWorker)
         (sthen (auditWarn ''job_status_transition_rejected'')
         (sthen (recordJobStatusTransition (jb_status job) nxt ''failed'')
          (sthrow (invalidTransition (jb_status job) nxt)))))
      (sthen (sguard (nxt = JOB_CANCELED \<or> truthy cancelReason = None) reasonOnlyCancel)
       (sguard (nxt = JOB_CANCELED \<longrightarrow> trim_or_null cancelReason \<noteq> None) reasonRequired)))))"

definition first_time :: "bool \<Rightarrow> time option \<Rightarrow> time \<Rightarrow> time option \<Rightarrow> time option" where
  "first_time c old t keep = (if c \<and> old = None then Some t else keep)"

definition status_data :: "env \<Rightarrow> id \<Rightarrow> jobStatus \<Rightarrow> string option \<Rightarrow> job \<Rightarrow> job \<Rightarrow> job" where
  "status_data E requesterId nxt cancelReason job r =
     r\<lparr>jb_status := nxt,
       jb_acceptedAt := first_time (nxt = JOB_ACCEPTED) (jb_acceptedAt job) (e_now E) (jb_acceptedAt r),
       jb_startedAt := first_time (nxt = JOB_IN_PROGRESS) (jb_startedAt job) (e_now E) (jb_startedAt r),
       jb_completedAt := first_time (nxt = JOB_COMPLETED) (jb_completedAt job) (e_now E) (jb_completedAt r),
       jb_canceledAt := first_time (nxt = JOB_CANCELED) (jb_canceledAt job) (e_now E) (jb_canceledAt r),
       jb_canceledBy := (if nxt = JOB_CANCELED then Some requesterId else jb_canceledBy r),
       jb_cancelReason := (if nxt = JOB_CANCELED then trim_or_null cancelReason else jb_cancelReason r)\<rparr>"

definition cancelable_intent :: "intentStatus \<Rightarrow> bool" where
  "cancelable_intent s \<longleftrightarrow> s \<in> set [PI_CREATED, PI_AWAITING_PAYMENT, PI_PENDING_CONFIRMATION]"

definition writeStatus :: "env \<Rightarrow> id \<Rightarrow> id \<Rightarrow> jobStatus \<Rightarrow> string option \<Rightarrow> job \<Rightarrow> job svc" where
  "writeStatus E jobId requesterId nxt cancelReason job =
     transact (
       sbind (update E jobs_t jobId (status_data E requesterId nxt cancelReason job)) (\<lambda>nextJob.
       sthen (swhen (nxt = JOB_CANCELED)
         (sbind (updateMany E intents_t (\<lambda>i. pi_jobId i = jobId \<and> cancelable_intent (pi_status i))
           (\<lambda>i. i\<lparr>pi_status := PI_CANCELED\<rparr>)) (\<lambda>_. sreturn ())))
       (sreturn nextJob)))"

definition notifyCanceled :: "env \<Rightarrow> id \<Rightarrow> string option \<Rightarrow> job \<Rightarrow> unit svc" where
  "notifyCanceled E requesterId cancelReason job =
     sbind (sread (\<lambda>d. job_provider d job)) (\<lambda>p.
     sbind (sread (\<lambda>d. job_customer d job)) (\<lambda>c.
     sbind (sopt p (PrismaError ''relation'')) (\<lambda>providerUser.
     sbind (sopt c (PrismaError ''relation'')) (\<lambda>customerUser.
     (let isRequesterCustomer = (us_id customerUser = requesterId);
          targetUser = (if isRequesterCustomer then providerUser else customerUser);
          actorName = (if isRequesterCustomer then user_label customerUser ''Cliente''
            else user_label providerUser ''Prestador'') in
      sbind (notify E \<lparr>ni_userId = us_id targetUser, ni_actorUserId = Some requesterId,
        ni_kind = NK_JOB_CANCELED, ni_tone = Some NT_ATTENTION,
        ni_title = ''Job cancelado: '' @ q_mark @ jb_title job @ q_mark,
        ni_description = actorName @ '' cancelou o job. Motivo: ''
          @ or_else (trim_or_null cancelReason) ''Sem motivo indicado.'',
        ni_href = (if isRequesterCustomer then resolveProviderHref job else resolveCustomerHref job),
        ni_hrefLabel = Some ''Ver estado do job'',
        ni_metadata = Some (JObj [(''jobId'', JStr (jb_id job)), (''status'', JStr ''CANCELED'')])\<rparr>)
      (\<lambda>_. sreturn ()))))))"

definition updateStatus :: "env \<Rightarrow> id \<Rightarrow> id \<Rightarrow> jobStatus \<Rightarrow> string option \<Rightarrow> job svc" where
  "updateStatus E jobId requesterId nxt cancelReason =
     sbind (require jobs_t jobId jobNotFound) (\<lambda>job.
     sbind (sread (\<lambda>d. worker_user d job)) (\<lambda>workerUser.
     sthen (statusChecks requesterId nxt cancelReason job workerUser)
     (sbind (writeStatus E jobId requesterId nxt cancelReason job) (\<lambda>updatedJob.
      sthen (recordJobStatusTransition (jb_status job) nxt ''success'')
      (sthen (audit ''job_status_transition_success'')
      (sthen (swhen (nxt = JOB_CANCELED) (notifyCanceled E requesterId cancelReason job))
       (sreturn updatedJob)))))))"

subsection \<open>The status machine moves forward\<close>

fun job_rank :: "jobStatus \<Rightarrow> nat" where
  "job_rank JOB_REQUESTED = 0"
| "job_rank JOB_ACCEPTED = 1"
| "job_rank JOB_IN_PROGRESS = 2"
| "job_rank JOB_COMPLETED = 3"
| "job_rank JOB_CANCELED = 4"

fun job_terminal :: "jobStatus \<Rightarrow> bool" where
  "job_terminal JOB_COMPLETED = True"
| "job_terminal JOB_CANCELED = True"
| "job_terminal _ = False"

interpretation job_life: finite_lifecycle job_step job_rank job_terminal 4
proof unfold_locales
  fix a b
  show "job_step a b \<Longrightarrow> job_rank a < job_rank b"
    by (cases a; cases b) (simp_all add: job_step_def isTransitionAllowed_def)
  show "job_terminal a \<Longrightarrow> \<not> job_step a b"
    by (cases a) (simp_all add: job_step_def isTransitionAllowed_def)
  show "job_rank a \<le> 4" by (cases a) simp_all
qed

lemma allowed_job_step: "isTransitionAllowed a b c v \<Longrightarrow> job_step a b"
  by (auto simp: job_step_def isTransitionAllowed_def split: if_splits)

lemma allowed_actor: "isTransitionAllowed a b c v \<Longrightarrow> c \<or> v"
  by (auto simp: isTransitionAllowed_def split: if_splits)

lemma allowed_client: "isTransitionAllowed a b c False \<Longrightarrow> b = JOB_CANCELED"
  by (auto simp: isTransitionAllowed_def split: if_splits)

subsection \<open>The checks\<close>

definition status_checked :: "db \<Rightarrow> id \<Rightarrow> jobStatus \<Rightarrow> string option \<Rightarrow> job \<Rightarrow> id option \<Rightarrow> bool" where
  "status_checked d requesterId nxt cancelReason job workerUser \<longleftrightarrow>
     isTransitionAllowed (jb_status job) nxt (jb_clientId job = requesterId) (workerUser = Some requesterId)
     \<and> (executing nxt \<longrightarrow> truthy (jb_requestId job) \<noteq> None \<and> truthy (jb_proposalId job) \<noteq> None
        \<and> (\<exists>i \<in> set (intents d). pi_jobId i = jb_id job \<and> paid_status (pi_status i)))
     \<and> (nxt = JOB_CANCELED \<longleftrightarrow> trim_or_null cancelReason \<noteq> None)"

lemma trim_or_null_truthy: "truthy x = None \<Longrightarrow> trim_or_null x = None"
  by (cases x rule: option.exhaust [case_product list.exhaust [of "the x"]])
    (auto simp: trim_or_null_def truthy_def js_trim_def split: list.splits)

lemma paid_first: "first_of (sort_desc pi_order (filter (\<lambda>i. pi_jobId i = j \<and> paid_status (pi_status i)) is)) \<noteq> None
    \<longleftrightarrow> (\<exists>i \<in> set is. pi_jobId i = j \<and> paid_status (pi_status i))"
  by (simp add: first_of_None_iff filter_empty_conv)

lemma wp_auditWarn [wp_simps]:
  "wp (auditWarn ev) Q X w = Q () (w\<lparr>w_metrics := w_metrics w @ [BusinessEvent ''jobs'' (sanitizeLabel ev) ''blocked'']\<rparr>)"
  by (simp add: auditWarn_def wp_recordBusinessEvent)

lemma wp_assertReady [wp_simps]: "wp (assertExecutionPaymentReady j) Q X w =
    (if \<exists>i \<in> set (intents (w_db w)). pi_jobId i = j \<and> paid_status (pi_status i) then Q () w else X depositRequired w)"
  by (simp add: assertExecutionPaymentReady_def getLatestPaidIntent_def wp_simps paid_first del: not_None_eq)

lemma wp_statusChecks:
  assumes "status_checked (w_db w) u nxt reason job wu \<Longrightarrow> Q () w"
    and "\<And>e w'. w_db w' = w_db w \<Longrightarrow> X e w'"
  shows "wp (statusChecks u nxt reason job wu) Q X w"
proof -
  have not: "truthy reason = None \<Longrightarrow> trim_or_null reason = None" by (rule trim_or_null_truthy)
  show ?thesis
    using assms(1) not unfolding statusChecks_def Let_def status_checked_def
    by (simp add: wp_sthen wp_sguard wp_swhen wp_sthrow wp_assertReady wp_auditWarn wp_recordJobStatusTransition assms(2))
qed

subsection \<open>What a job's timestamps record\<close>

definition job_ok :: "job \<Rightarrow> bool" where
  "job_ok j \<longleftrightarrow>
     (jb_status j = JOB_ACCEPTED \<longrightarrow> jb_acceptedAt j \<noteq> None)
     \<and> (jb_status j = JOB_IN_PROGRESS \<longrightarrow> jb_acceptedAt j \<noteq> None \<and> jb_startedAt j \<noteq> None)
     \<and> (jb_status j = JOB_COMPLETED \<longrightarrow> jb_acceptedAt j \<noteq> None \<and> jb_startedAt j \<noteq> None \<and> jb_completedAt j \<noteq> None)
     \<and> (jb_status j = JOB_CANCELED \<longleftrightarrow> jb_canceledAt j \<noteq> None)
     \<and> (jb_canceledAt j \<noteq> None \<longleftrightarrow> jb_canceledBy j \<noteq> None)
     \<and> (jb_canceledAt j \<noteq> None \<longleftrightarrow> jb_cancelReason j \<noteq> None)
     \<and> (jb_completedAt j \<noteq> None \<longleftrightarrow> jb_status j = JOB_COMPLETED)"

definition jobs_ok :: "db \<Rightarrow> bool" where
  "jobs_ok d \<longleftrightarrow> unique_ids jobs_t d \<and> (\<forall>j \<in> set (jobs d). job_ok j)"

lemma status_data_sel [simp]:
  "jb_id (status_data E u nxt reason job r) = jb_id r"
  "jb_status (status_data E u nxt reason job r) = nxt"
  "jb_acceptedAt (status_data E u nxt reason job r) =
     first_time (nxt = JOB_ACCEPTED) (jb_acceptedAt job) (e_now E) (jb_acceptedAt r)"
  "jb_startedAt (status_data E u nxt reason job r) =
     first_time (nxt = JOB_IN_PROGRESS) (jb_startedAt job) (e_now E) (jb_startedAt r)"
  "jb_completedAt (status_data E u nxt reason job r) =
     first_time (nxt = JOB_COMPLETED) (jb_completedAt job) (e_now E) (jb_completedAt r)"
  "jb_canceledAt (status_data E u nxt reason job r) =
     first_time (nxt = JOB_CANCELED) (jb_canceledAt job) (e_now E) (jb_canceledAt r)"
  "jb_canceledBy (status_data E u nxt reason job r) = (if nxt = JOB_CANCELED then Some u else jb_canceledBy r)"
  "jb_cancelReason (status_data E u nxt reason job r) =
     (if nxt = JOB_CANCELED then trim_or_null reason else jb_cancelReason r)"
  by (simp_all add: status_data_def)

lemma first_time_None [simp]:
  "first_time c old t keep = None \<longleftrightarrow> (if c \<and> old = None then False else keep = None)"
  by (simp add: first_time_def)

lemma job_ok_touch [simp]: "job_ok (j\<lparr>jb_updatedAt := n\<rparr>) = job_ok j"
  "job_ok (j\<lparr>jb_contactUnlockedAt := t\<rparr>) = job_ok j"
  by (simp_all add: job_ok_def)

lemma job_ok_status_data:
  assumes "job_ok job" "status_checked d u nxt reason job wu"
  shows "job_ok (status_data E u nxt reason job job)"
proof -
  have "isTransitionAllowed (jb_status job) nxt (jb_clientId job = u) (wu = Some u)"
    "(nxt = JOB_CANCELED) = (trim_or_null reason \<noteq> None)"
    using assms(2) by (simp_all add: status_checked_def)
  with assms(1) show ?thesis
    by (cases "jb_status job"; cases nxt) (auto simp: job_ok_def isTransitionAllowed_def)
qed

subsection \<open>The whole operation\<close>

text \<open>What a call does to the database apart from the notification.\<close>

definition status_written :: "env \<Rightarrow> id \<Rightarrow> id \<Rightarrow> jobStatus \<Rightarrow> string option \<Rightarrow> job \<Rightarrow> db \<Rightarrow> db" where
  "status_written E jobId u nxt reason job d =
     (let d' = upd_rows jobs_t (e_now E) (\<lambda>r. jb_id r = jobId) (status_data E u nxt reason job) d in
      if nxt = JOB_CANCELED then upd_rows intents_t (e_now E)
        (\<lambda>i. pi_jobId i = jobId \<and> cancelable_intent (pi_status i)) (\<lambda>i. i\<lparr>pi_status := PI_CANCELED\<rparr>) d'
      else d')"

lemma wp_writeStatus: "wp (writeStatus E jobId u nxt reason job) Q X w =
    (case find_row jobs_t jobId (w_db w) of
       None \<Rightarrow> X (PrismaError ''P2025'') w
     | Some r \<Rightarrow> Q ((status_data E u nxt reason job r)\<lparr>jb_updatedAt := e_now E\<rparr>)
         (w\<lparr>w_db := status_written E jobId u nxt reason job (w_db w)\<rparr>))"
  by (simp add: writeStatus_def wp_simps status_written_def Let_def split: option.split)

lemma wp_notifyCanceled:
  assumes "\<And>w'. w_db w' = (w_db w)\<lparr>notifications := notifications (w_db w')\<rparr> \<Longrightarrow> Q () w'"
    and "\<And>e w'. w_db w' = w_db w \<Longrightarrow> X e w'"
  shows "wp (notifyCanceled E u reason job) Q X w"
  unfolding notifyCanceled_def Let_def
  by (auto simp: wp_sbind wp_sread wp_sopt wp_sreturn assms split: option.split intro!: wp_notify)

text \<open>A call either fails its checks and writes nothing, or checks pass and the job is written
  (the notification of a cancellation may still fail afterwards).\<close>

lemma wp_updateStatus:
  assumes "\<And>e w'. w_db w' = w_db w \<Longrightarrow> X e w'"
    and "\<And>job w'. \<lbrakk>find_row jobs_t jobId (w_db w) = Some job;
        status_checked (w_db w) u nxt reason job (worker_user (w_db w) job);
        w_db w' = (status_written E jobId u nxt reason job (w_db w))\<lparr>notifications := notifications (w_db w')\<rparr>\<rbrakk>
      \<Longrightarrow> Q ((status_data E u nxt reason job job)\<lparr>jb_updatedAt := e_now E\<rparr>) w' \<and> (\<forall>e. nxt = JOB_CANCELED \<longrightarrow> X e w')"
  shows "wp (updateStatus E jobId u nxt reason) Q X w"
proof (cases "find_row jobs_t jobId (w_db w)")
  case None
  then show ?thesis by (simp add: updateStatus_def wp_simps assms(1))
next
  case (Some job)
  let ?wu = "worker_user (w_db w) job" and ?d = "status_written E jobId u nxt reason job (w_db w)"
  let ?r = "(status_data E u nxt reason job job)\<lparr>jb_updatedAt := e_now E\<rparr>"
  have Q: "status_checked (w_db w) u nxt reason job ?wu \<Longrightarrow>
      w_db w' = ?d\<lparr>notifications := notifications (w_db w')\<rparr> \<Longrightarrow> Q ?r w'" for w'
    using assms(2) [OF Some] by blast
  have X: "status_checked (w_db w) u nxt reason job ?wu \<Longrightarrow> nxt = JOB_CANCELED \<Longrightarrow>
      w_db w' = ?d\<lparr>notifications := notifications (w_db w')\<rparr> \<Longrightarrow> X e w'" for w' e
    using assms(2) [OF Some] by blast
  have "wp (statusChecks u nxt reason job ?wu)
     (\<lambda>_. wp (sbind (writeStatus E jobId u nxt reason job) (\<lambda>updatedJob.
      sthen (recordJobStatusTransition (jb_status job) nxt ''success'')
      (sthen (audit ''job_status_transition_success'')
      (sthen (swhen (nxt = JOB_CANCELED) (notifyCanceled E u reason job))
       (sreturn updatedJob))))) Q X) X w"
  proof (rule wp_statusChecks)
    assume c: "status_checked (w_db w) u nxt reason job ?wu"
    have self: "?d = ?d\<lparr>notifications := notifications ?d\<rparr>" by simp
    show "wp (sbind (writeStatus E jobId u nxt reason job) (\<lambda>updatedJob.
      sthen (recordJobStatusTransition (jb_status job) nxt ''success'')
      (sthen (audit ''job_status_transition_success'')
      (sthen (swhen (nxt = JOB_CANCELED) (notifyCanceled E u reason job))
       (sreturn updatedJob))))) Q X w"
      unfolding wp_sbind wp_writeStatus Some option.case wp_sthen wp_recordJobStatusTransition audit_def
        wp_recordBusinessEvent wp_swhen wp_sreturn
      using Q [OF c] X [OF c] by (auto intro!: wp_notifyCanceled)
  qed (simp add: assms(1))
  then show ?thesis
    by (simp add: updateStatus_def wp_sbind wp_sthen wp_require wp_sread Some)
qed

text \<open>The invariants.\<close>

lemma more_funds_frames [keeps_rules]:
  "frames funds_ok serviceRequests_t" "frames funds_ok invitations_t" "frames funds_ok proposals_t"
  "frames funds_ok reviews_t" "frames funds_ok workerProfiles_t" "frames funds_ok interventions_t"
  by (simp_all add: frames_def funds_ok_def money_ok_def amounts_ok_def)

lemma funds_ok_intent_status:
  "funds_ok d \<Longrightarrow> funds_ok (upd_rows intents_t n P (\<lambda>i. i\<lparr>pi_status := s\<rparr>) d)"
  using tb_intents.ball_upd [of n P "\<lambda>i. i\<lparr>pi_status := s\<rparr>" d split_ok]
  by (simp add: funds_ok_def money_ok_def amounts_ok_def upd_rows_def)

lemma funds_ok_jobs: "funds_ok (upd_rows jobs_t n P f d) = funds_ok d"
  by (simp add: upd_rows_def funds_ok_def money_ok_def amounts_ok_def)

lemma funds_ok_notifications: "funds_ok (d\<lparr>notifications := x\<rparr>) = funds_ok d"
  by (simp add: funds_ok_def money_ok_def amounts_ok_def)

lemma funds_ok_written: "funds_ok d \<Longrightarrow> funds_ok (status_written E j u nxt reason job d)"
  by (simp add: status_written_def Let_def funds_ok_intent_status funds_ok_jobs)

lemma keeps_funds_updateStatus: "keeps funds_ok (updateStatus E j u nxt reason)"
  unfolding keeps_wp
  by (auto intro!: wp_updateStatus) (metis funds_ok_notifications funds_ok_written)+

lemma jobs_written: "jobs (status_written E j u nxt reason job d) =
    jobs (upd_rows jobs_t (e_now E) (\<lambda>r. jb_id r = j) (status_data E u nxt reason job) d)"
  by (simp add: status_written_def Let_def upd_rows_def)

lemma jobs_ok_cong: "jobs d = jobs d' \<Longrightarrow> jobs_ok d = jobs_ok d'"
  by (simp add: jobs_ok_def unique_ids_def)

lemma jobs_ok_notifications: "jobs_ok (d\<lparr>notifications := x\<rparr>) = jobs_ok d"
  by (simp add: jobs_ok_def unique_ids_def)

lemma jobs_ok_written:
  assumes "jobs_ok d" "find_row jobs_t j d = Some job" "status_checked d u nxt reason job wu"
  shows "jobs_ok (status_written E j u nxt reason job d)"
proof -
  have J: "unique_ids jobs_t d" "\<forall>x \<in> set (t_rows jobs_t d). job_ok x"
    using assms(1) by (simp_all add: jobs_ok_def)
  have "job_ok job" using assms(1,2) by (auto simp: jobs_ok_def dest: find_row_SomeD)
  then have "job_ok (status_data E u nxt reason job job)" using assms(3) by (rule job_ok_status_data)
  then have "jobs_ok (upd_rows jobs_t (e_now E) (\<lambda>r. jb_id r = j) (status_data E u nxt reason job) d)"
    using tb_jobs.ball_upd_row [OF J(1) assms(2) J(2), of "e_now E" "status_data E u nxt reason job"] J(1)
    by (simp add: jobs_ok_def tb_jobs.unique_ids_upd)
  then show ?thesis by (simp add: jobs_ok_cong [OF jobs_written])
qed

lemma keeps_jobs_updateStatus: "keeps jobs_ok (updateStatus E j u nxt reason)"
  unfolding keeps_wp
proof (intro allI impI)
  fix w :: world assume J: "jobs_ok (w_db w)"
  show "wp (updateStatus E j u nxt reason) (\<lambda>_ w'. jobs_ok (w_db w')) (\<lambda>_ w'. jobs_ok (w_db w')) w"
  proof (rule wp_updateStatus)
    fix job w'
    assume "find_row jobs_t j (w_db w) = Some job"
      "status_checked (w_db w) u nxt reason job (worker_user (w_db w) job)"
      and w': "w_db w' = (status_written E j u nxt reason job (w_db w))\<lparr>notifications := notifications (w_db w')\<rparr>"
    then have "jobs_ok (status_written E j u nxt reason job (w_db w))" using J by (intro jobs_ok_written)
    then have "jobs_ok (w_db w')" by (subst w') (simp add: jobs_ok_notifications)
    then show "jobs_ok (w_db w') \<and> (\<forall>e. nxt = JOB_CANCELED \<longrightarrow> jobs_ok (w_db w'))" by simp
  qed (simp add: J)
qed

text \<open>After a cancellation no intent of the job can still be paid.\<close>

lemma canceled_intents:
  "\<forall>i \<in> set (intents (status_written E j u JOB_CANCELED reason job d)).
     pi_jobId i = j \<longrightarrow> \<not> cancelable_intent (pi_status i)"
proof -
  have "\<forall>i \<in> set (t_rows intents_t (upd_rows intents_t (e_now E)
      (\<lambda>i. pi_jobId i = j \<and> cancelable_intent (pi_status i)) (\<lambda>i. i\<lparr>pi_status := PI_CANCELED\<rparr>) d')).
      pi_jobId i = j \<longrightarrow> \<not> cancelable_intent (pi_status i)" for d'
    unfolding tb_intents.ball_upd by (simp add: cancelable_intent_def)
  then show ?thesis by (simp add: status_written_def Let_def)
qed

end
