(* ===== verification/Requests.thy ===== *)
theory Requests
  imports Jobs
begin

text \<open>
  \<^verbatim>\<open>service-requests/service-requests.service.ts\<close> up to the selection: creating, recreating and
  adjusting a request, its expiry, the invitations and the proposals.
\<close>

subsection \<open>Exceptions\<close>

definition requestNotFound :: exn where
  "requestNotFound = NotFoundException ''Service request not found''"

definition categoryNotFound :: exn where
  "categoryNotFound = NotFoundException ''Category not found''"

definition invitationNotFound :: exn where
  "invitationNotFound = NotFoundException ''Request invitation not found''"

definition recreateForbidden :: exn where
  "recreateForbidden = ForbiddenException ''Only request owner can recreate this request''"

definition recreateNotExpired :: exn where
  "recreateNotExpired = ConflictException ''Only expired requests without selected proposal can be recreated''"

definition adjustForbidden :: exn where
  "adjustForbidden = ForbiddenException ''Only request owner can adjust this request''"

definition adjustNotOpen :: exn where
  "adjustNotOpen = ConflictException ''Only open requests without selected proposal can be adjusted''"

definition readForbidden :: exn where
  "readForbidden = ForbiddenException ''Only request owner can read this request''"

definition readInvitationsForbidden :: exn where
  "readInvitationsForbidden = ForbiddenException ''Only request owner can read invitations''"

definition selfInvite :: exn where
  "selfInvite = ConflictException ''You cannot invite yourself to your own service request''"

definition inviteForbidden :: exn where
  "inviteForbidden = ForbiddenException ''Only request owner can invite providers to this request''"

definition inviteNotOpen :: exn where
  "inviteNotOpen = ConflictException ''Service request is no longer open for invitations''"

definition inviteUnavailable :: exn where
  "inviteUnavailable = ConflictException ''Only available providers can be invited to send proposals''"

definition alreadyProposed :: exn where
  "alreadyProposed = ConflictException ''This provider already submitted a proposal for the request''"

definition declineForbidden :: exn where
  "declineForbidden = ForbiddenException ''Only invited provider can decline invite''"

definition alreadyAccepted :: exn where
  "alreadyAccepted = ConflictException ''Invitation already accepted through submitted proposal''"

definition proposeUnavailable :: exn where
  "proposeUnavailable = ConflictException ''Only available providers can send proposals''"

definition selfPropose :: exn where
  "selfPropose = ConflictException ''You cannot propose to your own service request''"

definition proposeNotOpen :: exn where
  "proposeNotOpen = ConflictException ''Service request is no longer open for proposals''"

definition priceNotPositive :: exn where
  "priceNotPositive = BadRequestException ''price must be greater than zero''"

definition proposalsForbidden :: exn where
  "proposalsForbidden = ForbiddenException ''Not allowed to view these proposals''"

definition describeDuplicateInvitationStatus :: "invitationStatus \<Rightarrow> string" where
  "describeDuplicateInvitationStatus s =
     (if s = RI_ACCEPTED then ''This provider already accepted the invitation through a proposal''
      else if s = RI_DECLINED then ''This provider already declined the invitation''
      else if s = RI_EXPIRED then ''This invitation already expired for the provider''
      else ''This provider was already invited to the request'')"

definition duplicateInvitation :: "requestInvitation \<Rightarrow> exn" where
  "duplicateInvitation i = ConflictException (describeDuplicateInvitationStatus (ri_status i))"

subsection \<open>Settings\<close>

definition resolveRequestExpiryHoursFromEnv :: "env \<Rightarrow> int" where
  "resolveRequestExpiryHoursFromEnv E = env_clamped 72 1 168 (e_requestExpiryHours E)"

definition resolveRequestExpirySweepIntervalMs :: "env \<Rightarrow> int" where
  "resolveRequestExpirySweepIntervalMs E =
     (case e_requestSweepMs E of NotFinite \<Rightarrow> 60000 | Fin q \<Rightarrow> max 5000 (js_trunc q))"

definition buildRequestExpiryDate :: "env \<Rightarrow> time" where
  "buildRequestExpiryDate E = e_now E + resolveRequestExpiryHoursFromEnv E * 60 * 60 * 1000"

subsection \<open>Expiry\<close>

definition isRequestPastExpiry :: "env \<Rightarrow> serviceRequest \<Rightarrow> bool" where
  "isRequestPastExpiry E r \<longleftrightarrow>
     sr_status r = SR_OPEN \<and> truthy (sr_selectedProposalId r) = None \<and> sr_expiresAt r \<le> e_now E"

text \<open>The three columns that an expiring invitation gets.\<close>

definition expire_invitation :: "env \<Rightarrow> requestInvitation \<Rightarrow> requestInvitation" where
  "expire_invitation E i =
     i\<lparr>ri_status := RI_EXPIRED, ri_respondedAt := Some (e_now E), ri_expiresAt := Some (e_now E)\<rparr>"

definition expireRequestsByIds :: "env \<Rightarrow> id list \<Rightarrow> unit svc" where
  "expireRequestsByIds E requestIds =
     (if requestIds = [] then sreturn ()
      else sthen (transact (
        sbind (updateMany E serviceRequests_t
          (\<lambda>r. sr_id r \<in> set requestIds \<and> sr_status r = SR_OPEN) (\<lambda>r. r\<lparr>sr_status := SR_EXPIRED\<rparr>)) (\<lambda>_.
        sbind (updateMany E invitations_t
          (\<lambda>i. ri_requestId i \<in> set requestIds \<and> ri_status i = RI_SENT) (expire_invitation E)) (\<lambda>_.
        sreturn ()))))
      (sfor requestIds (\<lambda>_. audit ''service_request_expired'')))"

definition staleRequest :: "env \<Rightarrow> serviceRequest \<Rightarrow> bool" where
  "staleRequest E r \<longleftrightarrow>
     sr_status r = SR_OPEN \<and> sr_selectedProposalId r = None \<and> sr_expiresAt r \<le> e_now E"

definition expireStaleOpenRequests :: "env \<Rightarrow> nat svc" where
  "expireStaleOpenRequests E =
     sbind (findMany serviceRequests_t (staleRequest E)) (\<lambda>staleRequests.
     if staleRequests = [] then sreturn 0
     else sthen (expireRequestsByIds E (map sr_id staleRequests)) (sreturn (length staleRequests)))"

definition refreshRequestStatusIfExpired :: "env \<Rightarrow> serviceRequest \<Rightarrow> serviceRequestStatus svc" where
  "refreshRequestStatusIfExpired E request =
     (if \<not> isRequestPastExpiry E request then sreturn (sr_status request)
      else sthen (expireRequestsByIds E [sr_id request]) (sreturn SR_EXPIRED))"

definition expirePendingInvitationsForRequest :: "env \<Rightarrow> id \<Rightarrow> serviceRequestStatus option \<Rightarrow> unit svc" where
  "expirePendingInvitationsForRequest E requestId requestStatus =
     (if requestStatus = Some SR_OPEN then sreturn ()
      else sbind (findMany invitations_t (\<lambda>i. ri_requestId i = requestId \<and> ri_status i = RI_SENT)) (\<lambda>staleInvitations.
        if staleInvitations = [] then sreturn ()
        else sbind (updateMany E invitations_t (\<lambda>i. ri_id i \<in> set (map ri_id staleInvitations)) (expire_invitation E))
          (\<lambda>_. sreturn ())))"

definition request_of :: "db \<Rightarrow> requestInvitation \<Rightarrow> serviceRequest option" where
  "request_of d i = find_row serviceRequests_t (ri_requestId i) d"

definition expirePendingInvitationsForProvider :: "env \<Rightarrow> id \<Rightarrow> unit svc" where
  "expirePendingInvitationsForProvider E actorUserId =
     sbind (sread (\<lambda>d. filter (\<lambda>i. ri_providerUserId i = actorUserId \<and> ri_status i = RI_SENT
       \<and> (case request_of d i of None \<Rightarrow> False | Some r \<Rightarrow> sr_status r \<noteq> SR_OPEN)) (invitations d))) (\<lambda>staleInvitations.
     if staleInvitations = [] then sreturn ()
     else sbind (updateMany E invitations_t (\<lambda>i. ri_id i \<in> set (map ri_id staleInvitations)) (expire_invitation E))
       (\<lambda>_. sreturn ()))"

text \<open>The sweep timer: the startup sweep, each tick (errors are logged) and its removal.\<close>

definition sweepTick :: "env \<Rightarrow> nat svc" where
  "sweepTick E = stry (expireStaleOpenRequests E) (\<lambda>_. sreturn 0)"

definition sweepInit :: "env \<Rightarrow> int option \<Rightarrow> int option svc" where
  "sweepInit E expirySweepTimer =
     sthen (sbind (sweepTick E) (\<lambda>_. sreturn ()))
     (let sweepIntervalMs = resolveRequestExpirySweepIntervalMs E in
      sreturn (if sweepIntervalMs \<le> 0 then expirySweepTimer else Some sweepIntervalMs))"

definition sweepDestroy :: "int option \<Rightarrow> int option" where
  "sweepDestroy expirySweepTimer = (case expirySweepTimer of None \<Rightarrow> None | Some _ \<Rightarrow> None)"

subsection \<open>Creating and adjusting a request\<close>

record createRequestDto =
  cd_categoryId :: id
  cd_title :: string
  cd_description :: string
  cd_location :: "string option"

definition newRequest ::
  "env \<Rightarrow> id \<Rightarrow> id \<Rightarrow> string \<Rightarrow> string \<Rightarrow> string option \<Rightarrow> id \<Rightarrow> serviceRequest" where
  "newRequest E customerId categoryId title description location i =
     \<lparr>sr_id = i, sr_customerId = customerId, sr_categoryId = categoryId, sr_title = title,
      sr_description = description, sr_location = location, sr_lastCustomerEditAt = None,
      sr_status = SR_OPEN, sr_selectedProposalId = None, sr_expiresAt = buildRequestExpiryDate E,
      sr_createdAt = e_now E, sr_updatedAt = e_now E\<rparr>"

definition activeCategory :: "id \<Rightarrow> category svc" where
  "activeCategory categoryId =
     sbind (require categories_t categoryId categoryNotFound) (\<lambda>c.
     sthen (sguard (ca_isActive c) categoryNotFound) (sreturn c))"

definition createRequest :: "env \<Rightarrow> id \<Rightarrow> createRequestDto \<Rightarrow> serviceRequest svc" where
  "createRequest E actorUserId dto =
     sthen (sbind (activeCategory (cd_categoryId dto)) (\<lambda>_. sreturn ()))
     (sbind (create E serviceRequests_t (newRequest E actorUserId (cd_categoryId dto) (js_trim (cd_title dto))
         (js_trim (cd_description dto)) (trim_or_null (cd_location dto)))) (\<lambda>created.
      sthen (audit ''service_request_created'') (sreturn created)))"

definition request_job :: "db \<Rightarrow> id \<Rightarrow> job option" where
  "request_job d requestId = find (\<lambda>j. jb_requestId j = Some requestId) (jobs d)"

record recreateDto =
  rc_title :: "string option"
  rc_description :: "string option"
  rc_location :: "string option"

definition recreateRequest :: "env \<Rightarrow> id \<Rightarrow> id \<Rightarrow> recreateDto \<Rightarrow> serviceRequest svc" where
  "recreateRequest E actorUserId requestId dto =
     sbind (require serviceRequests_t requestId requestNotFound) (\<lambda>request.
     sbind (sread (\<lambda>d. request_job d requestId)) (\<lambda>job.
     sthen (sguard (sr_customerId request = actorUserId) recreateForbidden)
     (sbind (refreshRequestStatusIfExpired E request) (\<lambda>currentStatus.
      sthen (sguard (currentStatus = SR_EXPIRED \<and> truthy (sr_selectedProposalId request) = None \<and> job = None)
        recreateNotExpired)
      (sthen (sbind (activeCategory (sr_categoryId request)) (\<lambda>_. sreturn ()))
      (sbind (create E serviceRequests_t (newRequest E actorUserId (sr_categoryId request)
          (or_else (trim_or_null (rc_title dto)) (sr_title request))
          (or_else (trim_or_null (rc_description dto)) (sr_description request))
          (if rc_location dto \<noteq> None then trim_or_null (rc_location dto) else sr_location request))) (\<lambda>recreated.
       sthen (audit ''service_request_recreated'') (sreturn recreated))))))))"

subsection \<open>What a customer sees of a request\<close>

record providerView =
  pv_id :: id
  pv_name :: "string option"
  pv_profile :: "(int \<times> nat \<times> string option) option"

record intentSummary =
  in_id :: id
  in_amount :: int
  in_status :: intentStatus
  in_provider :: paymentProvider
  in_createdAt :: time
  in_updatedAt :: time

record jobSummary =
  js_id :: id
  js_status :: jobStatus
  js_requestId :: "id option"
  js_proposalId :: "id option"
  js_agreedPrice :: "int option"
  js_contactUnlockedAt :: "time option"
  js_createdAt :: time
  js_paymentIntents :: "intentSummary list"
  js_review :: "review option"

record requestDetail =
  rq_request :: serviceRequest
  rq_category :: "(id \<times> string \<times> string) option"
  rq_proposals :: "(proposal \<times> providerView option) list"
  rq_invitations :: "(requestInvitation \<times> providerView option) list"
  rq_job :: "jobSummary option"

definition provider_view :: "db \<Rightarrow> id \<Rightarrow> providerView option" where
  "provider_view d u = map_option (\<lambda>user.
     \<lparr>pv_id = us_id user, pv_name = us_name user,
      pv_profile = map_option (\<lambda>p. (wp_ratingAvg p, wp_ratingCount p, wp_location p))
        (find (\<lambda>p. wp_userId p = u) (workerProfiles d))\<rparr>) (find_row users_t u d)"

definition category_view :: "db \<Rightarrow> id \<Rightarrow> (id \<times> string \<times> string) option" where
  "category_view d c = map_option (\<lambda>k. (ca_id k, ca_name k, ca_slug k)) (find_row categories_t c d)"

definition intent_summary :: "paymentIntent \<Rightarrow> intentSummary" where
  "intent_summary i = \<lparr>in_id = pi_id i, in_amount = pi_amount i, in_status = pi_status i,
     in_provider = pi_provider i, in_createdAt = pi_createdAt i, in_updatedAt = pi_updatedAt i\<rparr>"

definition job_intents :: "db \<Rightarrow> id \<Rightarrow> paymentIntent list" where
  "job_intents d jobId = sort_desc pi_order (filter (\<lambda>i. pi_jobId i = jobId) (intents d))"

definition job_summary :: "db \<Rightarrow> job \<Rightarrow> jobSummary" where
  "job_summary d j = \<lparr>js_id = jb_id j, js_status = jb_status j, js_requestId = jb_requestId j,
     js_proposalId = jb_proposalId j, js_agreedPrice = jb_agreedPrice j,
     js_contactUnlockedAt = jb_contactUnlockedAt j, js_createdAt = jb_createdAt j,
     js_paymentIntents = map intent_summary (job_intents d (jb_id j)),
     js_review = find (\<lambda>r. rv_jobId r = jb_id j) (reviews d)\<rparr>"

definition with_provider :: "db \<Rightarrow> proposal \<Rightarrow> proposal \<times> providerView option" where
  "with_provider d p = (p, provider_view d (pr_providerId p))"

definition with_invited :: "db \<Rightarrow> requestInvitation \<Rightarrow> requestInvitation \<times> providerView option" where
  "with_invited d i = (i, provider_view d (ri_providerUserId i))"

definition request_proposals :: "db \<Rightarrow> id \<Rightarrow> (proposal \<times> providerView option) list" where
  "request_proposals d requestId =
     map (with_provider d) (sort_key pr_order (filter (\<lambda>p. pr_requestId p = requestId) (proposals d)))"

definition request_invitations :: "db \<Rightarrow> id \<Rightarrow> (requestInvitation \<times> providerView option) list" where
  "request_invitations d requestId =
     map (with_invited d) (sort_desc ri_order (filter (\<lambda>i. ri_requestId i = requestId) (invitations d)))"

definition request_detail :: "db \<Rightarrow> serviceRequest \<Rightarrow> requestDetail" where
  "request_detail d r = \<lparr>rq_request = r, rq_category = category_view d (sr_categoryId r),
     rq_proposals = request_proposals d (sr_id r), rq_invitations = request_invitations d (sr_id r),
     rq_job = map_option (job_summary d) (request_job d (sr_id r))\<rparr>"

subsection \<open>Adjusting\<close>

record updateDto =
  ud_title :: "string option"
  ud_description :: "string option"
  ud_location :: "string option"
  ud_extendExpiryHours :: "int option"

definition changed_text :: "string option \<Rightarrow> string \<Rightarrow> bool" where
  "changed_text new old = (case new of None \<Rightarrow> False | Some s \<Rightarrow> js_trim s \<noteq> old)"

definition changed_location :: "string option \<Rightarrow> string option \<Rightarrow> bool" where
  "changed_location new old = (new \<noteq> None \<and> trim_or_null new \<noteq> old)"

definition request_changed :: "updateDto \<Rightarrow> serviceRequest \<Rightarrow> bool" where
  "request_changed dto request \<longleftrightarrow> changed_text (ud_title dto) (sr_title request)
     \<or> changed_text (ud_description dto) (sr_description request)
     \<or> changed_location (ud_location dto) (sr_location request) \<or> ud_extendExpiryHours dto \<noteq> None"

definition request_data :: "env \<Rightarrow> updateDto \<Rightarrow> serviceRequest \<Rightarrow> serviceRequest \<Rightarrow> serviceRequest" where
  "request_data E dto request r =
     r\<lparr>sr_title := (if changed_text (ud_title dto) (sr_title request)
         then js_trim (or_else (ud_title dto) []) else sr_title r),
       sr_description := (if changed_text (ud_description dto) (sr_description request)
         then js_trim (or_else (ud_description dto) []) else sr_description r),
       sr_location := (if changed_location (ud_location dto) (sr_location request)
         then trim_or_null (ud_location dto) else sr_location r),
       sr_expiresAt := (case ud_extendExpiryHours dto of None \<Rightarrow> sr_expiresAt r
         | Some h \<Rightarrow> sr_expiresAt request + h * 60 * 60 * 1000),
       sr_lastCustomerEditAt := Some (e_now E)\<rparr>"

definition updateRequest :: "env \<Rightarrow> id \<Rightarrow> id \<Rightarrow> updateDto \<Rightarrow> requestDetail svc" where
  "updateRequest E actorUserId requestId dto =
     sbind (require serviceRequests_t requestId requestNotFound) (\<lambda>request.
     sbind (sread (\<lambda>d. request_detail d request)) (\<lambda>detail.
     sthen (sguard (sr_customerId request = actorUserId) adjustForbidden)
     (sbind (refreshRequestStatusIfExpired E request) (\<lambda>currentStatus.
      sthen (sguard (currentStatus = SR_OPEN \<and> truthy (sr_selectedProposalId request) = None \<and> rq_job detail = None)
        adjustNotOpen)
      (if \<not> request_changed dto request then sreturn detail
       else sbind (update E serviceRequests_t requestId (request_data E dto request)) (\<lambda>updated.
         sbind (sread (\<lambda>d. request_detail d updated)) (\<lambda>view.
         sthen (audit ''service_request_updated'') (sreturn view))))))))"

definition getMineById :: "env \<Rightarrow> id \<Rightarrow> id \<Rightarrow> requestDetail svc" where
  "getMineById E actorUserId requestId =
     sbind (require serviceRequests_t requestId requestNotFound) (\<lambda>request.
     sbind (sread (\<lambda>d. request_detail d request)) (\<lambda>detail.
     sthen (sguard (sr_customerId request = actorUserId) readForbidden)
     (sbind (refreshRequestStatusIfExpired E request) (\<lambda>currentStatus.
      if currentStatus = SR_EXPIRED
      then sbind (findUniqueOrThrow serviceRequests_t requestId) (\<lambda>r. sread (\<lambda>d. request_detail d r))
      else sreturn detail))))"

subsection \<open>Lists\<close>

record requestsQuery =
  rl_page :: pageInput
  rl_status :: "serviceRequestStatus option"
  rl_search :: "string option"

definition searched :: "requestsQuery \<Rightarrow> serviceRequest \<Rightarrow> bool" where
  "searched query r = (case truthy (rl_search query) of None \<Rightarrow> True
     | Some s \<Rightarrow> contains_ci (sr_title r) s \<or> contains_ci (sr_description r) s)"

record mineView =
  mv_request :: serviceRequest
  mv_proposals :: "(id \<times> id \<times> int \<times> proposalStatus \<times> time) list"
  mv_job :: "(id \<times> jobStatus \<times> time option \<times> int option \<times> review option) option"

definition mine_view :: "db \<Rightarrow> serviceRequest \<Rightarrow> mineView" where
  "mine_view d r = \<lparr>mv_request = r,
     mv_proposals = map (\<lambda>p. (pr_id p, pr_providerId p, pr_price p, pr_status p, pr_createdAt p))
       (sort_desc pr_order (filter (\<lambda>p. pr_requestId p = sr_id r) (proposals d))),
     mv_job = map_option (\<lambda>j. (jb_id j, jb_status j, jb_contactUnlockedAt j, jb_agreedPrice j,
       find (\<lambda>v. rv_jobId v = jb_id j) (reviews d))) (request_job d (sr_id r))\<rparr>"

definition listMineRequests :: "env \<Rightarrow> id \<Rightarrow> requestsQuery \<Rightarrow> mineView paginated svc" where
  "listMineRequests E actorUserId query =
     sbind (expireStaleOpenRequests E) (\<lambda>_.
     sread (\<lambda>d. page_of (rl_page query) (map (mine_view d) (sort_desc sr_order
       (filter (\<lambda>r. sr_customerId r = actorUserId \<and> has_status (rl_status query) (sr_status r) \<and> searched query r)
         (serviceRequests d))))))"

record openView =
  ov_request :: serviceRequest
  ov_category :: "(id \<times> string \<times> string) option"
  ov_proposals :: "(id \<times> proposalStatus \<times> int \<times> time) list"

definition own_proposal :: "db \<Rightarrow> id \<Rightarrow> id \<Rightarrow> proposal list" where
  "own_proposal d requestId providerId =
     take 1 (sort_desc pr_order (filter (\<lambda>p. pr_requestId p = requestId \<and> pr_providerId p = providerId) (proposals d)))"

definition open_view :: "db \<Rightarrow> id \<Rightarrow> serviceRequest \<Rightarrow> openView" where
  "open_view d actorUserId r = \<lparr>ov_request = r, ov_category = category_view d (sr_categoryId r),
     ov_proposals = map (\<lambda>p. (pr_id p, pr_status p, pr_price p, pr_createdAt p)) (own_proposal d (sr_id r) actorUserId)\<rparr>"

definition listOpenForProvider :: "env \<Rightarrow> id \<Rightarrow> requestsQuery \<Rightarrow> openView paginated svc" where
  "listOpenForProvider E actorUserId query =
     sbind (expireStaleOpenRequests E) (\<lambda>_.
     sbind (findBy workerProfiles_t (\<lambda>p. wp_userId p = actorUserId)) (\<lambda>found.
     sbind (sopt found profileNotFound) (\<lambda>profile.
     sread (\<lambda>d. page_of (rl_page query) (map (open_view d actorUserId) (sort_desc sr_order
       (filter (\<lambda>r. sr_status r = or_else (rl_status query) SR_OPEN \<and> searched query r) (serviceRequests d))))))))"

definition listRequestInvitations ::
  "env \<Rightarrow> id \<Rightarrow> id \<Rightarrow> (requestInvitation \<times> providerView option) list svc" where
  "listRequestInvitations E requestId actorUserId =
     sbind (require serviceRequests_t requestId requestNotFound) (\<lambda>request.
     sthen (sguard (sr_customerId request = actorUserId) readInvitationsForbidden)
     (sbind (refreshRequestStatusIfExpired E request) (\<lambda>currentStatus.
      sthen (expirePendingInvitationsForRequest E (sr_id request) (Some currentStatus))
      (sread (\<lambda>d. request_invitations d requestId)))))"

record invitedView =
  iv_invitation :: requestInvitation
  iv_request :: "serviceRequest option"
  iv_category :: "(id \<times> string \<times> string) option"
  iv_proposals :: "proposal list"

definition invited_view :: "db \<Rightarrow> id \<Rightarrow> requestInvitation \<Rightarrow> invitedView" where
  "invited_view d actorUserId i = \<lparr>iv_invitation = i, iv_request = request_of d i,
     iv_category = Option.bind (request_of d i) (\<lambda>r. category_view d (sr_categoryId r)),
     iv_proposals = own_proposal d (ri_requestId i) actorUserId\<rparr>"

definition markOpened :: "env \<Rightarrow> id \<Rightarrow> unit svc" where
  "markOpened E actorUserId =
     sbind (sread (\<lambda>d i. ri_providerUserId i = actorUserId \<and> ri_status i = RI_SENT \<and> ri_openedAt i = None
       \<and> (case request_of d i of None \<Rightarrow> False
          | Some r \<Rightarrow> sr_status r = SR_OPEN \<and> sr_selectedProposalId r = None))) (\<lambda>unread.
     sbind (updateMany E invitations_t unread (\<lambda>i. i\<lparr>ri_openedAt := Some (e_now E)\<rparr>)) (\<lambda>_. sreturn ()))"

definition listMineInvitations :: "env \<Rightarrow> id \<Rightarrow> invitedView list svc" where
  "listMineInvitations E actorUserId =
     sbind (expireStaleOpenRequests E) (\<lambda>_.
     sthen (expirePendingInvitationsForProvider E actorUserId)
     (sthen (markOpened E actorUserId)
     (sread (\<lambda>d. map (invited_view d actorUserId)
       (sort_desc ri_order (filter (\<lambda>i. ri_providerUserId i = actorUserId) (invitations d)))))))"

record proposalView =
  ow_proposal :: proposal
  ow_request :: "serviceRequest option"
  ow_category :: "(id \<times> string \<times> string) option"
  ow_invitation :: "requestInvitation option"

definition proposal_view :: "db \<Rightarrow> id \<Rightarrow> proposal \<Rightarrow> proposalView" where
  "proposal_view d actorUserId p =
     (let request = find_row serviceRequests_t (pr_requestId p) d in
      \<lparr>ow_proposal = p, ow_request = request,
       ow_category = Option.bind request (\<lambda>r. category_view d (sr_categoryId r)),
       ow_invitation = first_of (sort_desc ri_order (filter (\<lambda>i. ri_requestId i = pr_requestId p
         \<and> ri_providerUserId i = actorUserId) (invitations d)))\<rparr>)"

definition listMineProposals :: "env \<Rightarrow> id \<Rightarrow> proposalView list svc" where
  "listMineProposals E actorUserId =
     sbind (expireStaleOpenRequests E) (\<lambda>_.
     sbind (findBy workerProfiles_t (\<lambda>p. wp_userId p = actorUserId)) (\<lambda>found.
     sbind (sopt found profileNotFound) (\<lambda>profile.
     sread (\<lambda>d. map (proposal_view d actorUserId) (sort_desc (\<lambda>p. (pr_updatedAt p, pr_id p))
       (filter (\<lambda>p. pr_providerId p = actorUserId) (proposals d)))))))"

definition listRequestProposals ::
  "env \<Rightarrow> id \<Rightarrow> intentActor \<Rightarrow> (proposal \<times> providerView option) list svc" where
  "listRequestProposals E requestId actor =
     sbind (require serviceRequests_t requestId requestNotFound) (\<lambda>request.
     sthen (sbind (refreshRequestStatusIfExpired E request) (\<lambda>_. sreturn ()))
     (sthen (swhen (\<not> is_admin actor \<and> sr_customerId request \<noteq> ia_userId actor)
       (sbind (findBy proposals_t (\<lambda>p. pr_requestId p = requestId \<and> pr_providerId p = ia_userId actor))
         (\<lambda>hasOwnProposal. sguard (hasOwnProposal \<noteq> None) proposalsForbidden)))
     (sread (\<lambda>d. request_proposals d requestId))))"

subsection \<open>Invitations\<close>

text \<open>\<^verbatim>\<open>currentStatus !== 'OPEN' || request.selectedProposalId\<close>, after the expiry check.\<close>

definition requireOpen :: "env \<Rightarrow> serviceRequest \<Rightarrow> exn \<Rightarrow> unit svc" where
  "requireOpen E request e =
     sbind (refreshRequestStatusIfExpired E request) (\<lambda>currentStatus.
     sguard (currentStatus = SR_OPEN \<and> truthy (sr_selectedProposalId request) = None) e)"

definition newInvitation :: "env \<Rightarrow> id \<Rightarrow> id \<Rightarrow> id \<Rightarrow> requestInvitation" where
  "newInvitation E requestId providerUserId i =
     \<lparr>ri_id = i, ri_requestId = requestId, ri_providerUserId = providerUserId, ri_status = RI_SENT,
      ri_openedAt = None, ri_respondedAt = None, ri_expiresAt = None,
      ri_createdAt = e_now E, ri_updatedAt = e_now E\<rparr>"

definition notifyInvited :: "env \<Rightarrow> id \<Rightarrow> serviceRequest \<Rightarrow> requestInvitation \<Rightarrow> unit svc" where
  "notifyInvited E actorUserId request invitation =
     sbind (notify E \<lparr>ni_userId = ri_providerUserId invitation, ni_actorUserId = Some actorUserId,
       ni_kind = NK_REQUEST_INVITATION_RECEIVED, ni_tone = Some NT_ATTENTION,
       ni_title = ''Novo convite para proposta'',
       ni_description = ''Recebeste um convite para responder ao pedido '' @ q_mark @ sr_title request @ q_mark @ ''.'',
       ni_href = ''/pro/pedidos#convites'', ni_hrefLabel = Some ''Ver convites'',
       ni_metadata = Some (JObj [(''requestId'', JStr (sr_id request)), (''invitationId'', JStr (ri_id invitation))])\<rparr>)
     (\<lambda>_. sreturn ())"

definition createInvitation ::
  "env \<Rightarrow> id \<Rightarrow> id \<Rightarrow> id \<Rightarrow> (requestInvitation \<times> providerView option) svc" where
  "createInvitation E requestId actorUserId providerUserId =
     sthen (sguard (providerUserId \<noteq> actorUserId) selfInvite)
     (sbind (findUnique serviceRequests_t requestId) (\<lambda>found.
      sbind (findBy workerProfiles_t (\<lambda>p. wp_userId p = providerUserId)) (\<lambda>providerProfile.
      sbind (findBy proposals_t (\<lambda>p. pr_requestId p = requestId \<and> pr_providerId p = providerUserId)) (\<lambda>existingProposal.
      sbind (findBy invitations_t (\<lambda>i. ri_requestId i = requestId \<and> ri_providerUserId i = providerUserId)) (\<lambda>existingInvitation.
      sbind (sopt found requestNotFound) (\<lambda>request.
      sthen (sguard (sr_customerId request = actorUserId) inviteForbidden)
      (sthen (requireOpen E request inviteNotOpen)
      (sbind (sopt providerProfile profileNotFound) (\<lambda>profile.
       sthen (sguard (wp_isAvailable profile) inviteUnavailable)
       (sthen (sguard (existingProposal = None) alreadyProposed)
       (sthen (case existingInvitation of None \<Rightarrow> sreturn () | Some i \<Rightarrow> sthrow (duplicateInvitation i))
       (sbind (create E invitations_t (newInvitation E requestId providerUserId)) (\<lambda>invitation.
        sbind (sread (\<lambda>d. with_invited d invitation)) (\<lambda>view.
        sthen (audit ''service_request_invitation_created'')
        (sthen (notifyInvited E actorUserId request invitation)
        (sreturn view))))))))))))))))"

definition notifyDeclined :: "env \<Rightarrow> id \<Rightarrow> serviceRequest \<Rightarrow> requestInvitation \<Rightarrow> unit svc" where
  "notifyDeclined E actorUserId request invitation =
     sbind (notify E \<lparr>ni_userId = sr_customerId request, ni_actorUserId = Some actorUserId,
       ni_kind = NK_REQUEST_INVITATION_DECLINED, ni_tone = Some NT_MUTED, ni_title = ''Convite recusado'',
       ni_description = ''Um prestador recusou o convite do pedido '' @ q_mark @ sr_title request @ q_mark @ ''.'',
       ni_href = ''/app/pedidos/'' @ sr_id request, ni_hrefLabel = Some ''Ver pedido'',
       ni_metadata = Some (JObj [(''requestId'', JStr (sr_id request)), (''invitationId'', JStr (ri_id invitation))])\<rparr>)
     (\<lambda>_. sreturn ())"

definition some_or :: "'a option \<Rightarrow> 'a \<Rightarrow> 'a option" where
  "some_or x d = Some (or_else x d)"

definition declineInvitation :: "env \<Rightarrow> id \<Rightarrow> id \<Rightarrow> requestInvitation svc" where
  "declineInvitation E invitationId actorUserId =
     sbind (require invitations_t invitationId invitationNotFound) (\<lambda>invitation.
     sbind (sread (\<lambda>d. request_of d invitation)) (\<lambda>found.
     sbind (sopt found (PrismaError ''relation'')) (\<lambda>request.
     sthen (sguard (ri_providerUserId invitation = actorUserId) declineForbidden)
     (sthen (sguard (ri_status invitation \<noteq> RI_ACCEPTED) alreadyAccepted)
     (if ri_status invitation = RI_DECLINED then sreturn invitation
      else sbind (refreshRequestStatusIfExpired E request) (\<lambda>currentRequestStatus.
        if ri_status invitation = RI_EXPIRED then sreturn invitation
        else if currentRequestStatus \<noteq> SR_OPEN \<or> truthy (sr_selectedProposalId request) \<noteq> None
        then update E invitations_t (ri_id invitation) (\<lambda>i. i\<lparr>ri_status := RI_EXPIRED,
          ri_openedAt := some_or (ri_openedAt invitation) (e_now E),
          ri_respondedAt := some_or (ri_respondedAt invitation) (e_now E),
          ri_expiresAt := some_or (ri_expiresAt invitation) (e_now E)\<rparr>)
        else sbind (update E invitations_t (ri_id invitation) (\<lambda>i. i\<lparr>ri_status := RI_DECLINED,
            ri_openedAt := some_or (ri_openedAt invitation) (e_now E), ri_respondedAt := Some (e_now E)\<rparr>))
          (\<lambda>declinedInvitation.
           sthen (audit ''service_request_invitation_declined'')
           (sthen (notifyDeclined E actorUserId request invitation)
           (sreturn declinedInvitation)))))))))"

subsection \<open>Proposals\<close>

record proposalDto =
  sp_price :: int
  sp_comment :: "string option"

definition markInvitationAccepted :: "env \<Rightarrow> id \<Rightarrow> id \<Rightarrow> unit svc" where
  "markInvitationAccepted E requestId providerUserId =
     sbind (updateMany E invitations_t (\<lambda>i. ri_requestId i = requestId \<and> ri_providerUserId i = providerUserId
         \<and> ri_openedAt i = None) (\<lambda>i. i\<lparr>ri_openedAt := Some (e_now E)\<rparr>)) (\<lambda>_.
     sbind (updateMany E invitations_t (\<lambda>i. ri_requestId i = requestId \<and> ri_providerUserId i = providerUserId
         \<and> ri_status i \<in> set [RI_SENT, RI_DECLINED, RI_EXPIRED])
       (\<lambda>i. i\<lparr>ri_status := RI_ACCEPTED, ri_respondedAt := Some (e_now E), ri_expiresAt := None\<rparr>)) (\<lambda>cnt.
     swhen (0 < cnt) (audit ''service_request_invitation_accepted'')))"

definition notifyProposed :: "env \<Rightarrow> id \<Rightarrow> serviceRequest \<Rightarrow> proposal \<Rightarrow> unit svc" where
  "notifyProposed E actorUserId request proposal =
     sbind (notify E \<lparr>ni_userId = sr_customerId request, ni_actorUserId = Some actorUserId,
       ni_kind = NK_PROPOSAL_SUBMITTED, ni_tone = Some NT_INFO, ni_title = ''Nova proposta recebida'',
       ni_description = ''Recebeste uma nova proposta para o pedido '' @ q_mark @ sr_title request @ q_mark @ ''.'',
       ni_href = ''/app/pedidos/'' @ sr_id request, ni_hrefLabel = Some ''Ver propostas'',
       ni_metadata = Some (JObj [(''requestId'', JStr (sr_id request)), (''proposalId'', JStr (pr_id proposal))])\<rparr>)
     (\<lambda>_. sreturn ())"

definition newProposal :: "env \<Rightarrow> id \<Rightarrow> id \<Rightarrow> proposalDto \<Rightarrow> id \<Rightarrow> proposal" where
  "newProposal E requestId providerId dto i =
     \<lparr>pr_id = i, pr_requestId = requestId, pr_providerId = providerId, pr_price = sp_price dto,
      pr_comment = trim_or_null (sp_comment dto), pr_status = PR_SUBMITTED,
      pr_createdAt = e_now E, pr_updatedAt = e_now E\<rparr>"

definition saveProposal :: "env \<Rightarrow> id \<Rightarrow> id \<Rightarrow> proposalDto \<Rightarrow> proposal svc" where
  "saveProposal E requestId providerId dto =
     sbind (findBy proposals_t (\<lambda>p. pr_requestId p = requestId \<and> pr_providerId p = providerId)) (\<lambda>existing.
     case existing of
       Some p \<Rightarrow> update E proposals_t (pr_id p) (\<lambda>r. r\<lparr>pr_price := sp_price dto,
         pr_comment := trim_or_null (sp_comment dto), pr_status := PR_SUBMITTED\<rparr>)
     | None \<Rightarrow> create E proposals_t (newProposal E requestId providerId dto))"

definition submitProposal :: "env \<Rightarrow> id \<Rightarrow> id \<Rightarrow> proposalDto \<Rightarrow> proposal svc" where
  "submitProposal E requestId actorUserId dto =
     sbind (findUnique serviceRequests_t requestId) (\<lambda>foundRequest.
     sbind (findBy workerProfiles_t (\<lambda>p. wp_userId p = actorUserId)) (\<lambda>foundProfile.
     sbind (sopt foundRequest requestNotFound) (\<lambda>request.
     sbind (sopt foundProfile profileNotFound) (\<lambda>profile.
     sthen (sguard (wp_isAvailable profile) proposeUnavailable)
     (sthen (sguard (sr_customerId request \<noteq> actorUserId) selfPropose)
     (sthen (requireOpen E request proposeNotOpen)
     (sthen (sguard (0 < sp_price dto) priceNotPositive)
     (sbind (saveProposal E requestId actorUserId dto) (\<lambda>proposal.
      sthen (markInvitationAccepted E requestId actorUserId)
      (sthen (notifyProposed E actorUserId request proposal)
      (sreturn proposal)))))))))))"

subsection \<open>What expiry does\<close>

definition expired_db :: "env \<Rightarrow> id list \<Rightarrow> db \<Rightarrow> db" where
  "expired_db E requestIds d = upd_rows invitations_t (e_now E)
     (\<lambda>i. ri_requestId i \<in> set requestIds \<and> ri_status i = RI_SENT) (expire_invitation E)
     (upd_rows serviceRequests_t (e_now E) (\<lambda>r. sr_id r \<in> set requestIds \<and> sr_status r = SR_OPEN)
       (\<lambda>r. r\<lparr>sr_status := SR_EXPIRED\<rparr>) d)"

lemma wp_audit [wp_simps]:
  "wp (audit ev) Q X w = Q () (w\<lparr>w_metrics := w_metrics w @ [BusinessEvent ''jobs'' (sanitizeLabel ev) ''success'']\<rparr>)"
  by (simp add: audit_def wp_recordBusinessEvent)

lemma wp_auditEach:
  assumes "\<And>w'. w_db w' = w_db w \<Longrightarrow> Q () w'"
  shows "wp (sfor xs (\<lambda>_. audit ev)) Q X w"
  using assms by (induction xs arbitrary: w) (simp_all add: wp_sreturn wp_sbind wp_audit)

lemma expired_db_Nil [simp]: "expired_db E [] d = d"
  by (simp add: expired_db_def upd_rows_def)

lemma wp_expireRequestsByIds:
  assumes "\<And>w'. w_db w' = expired_db E ids (w_db w) \<Longrightarrow> Q () w'"
  shows "wp (expireRequestsByIds E ids) Q X w"
proof (cases "ids = []")
  case True
  then show ?thesis by (simp add: expireRequestsByIds_def wp_sreturn assms)
next
  case False
  then show ?thesis
    by (auto simp: expireRequestsByIds_def wp_sthen wp_transact wp_sbind wp_updateMany wp_sreturn
        intro!: wp_auditEach assms) (simp add: expired_db_def)
qed

lemma wp_refresh:
  assumes "\<not> isRequestPastExpiry E r \<Longrightarrow> Q (sr_status r) w"
    and "\<And>w'. isRequestPastExpiry E r \<Longrightarrow> w_db w' = expired_db E [sr_id r] (w_db w) \<Longrightarrow> Q SR_EXPIRED w'"
  shows "wp (refreshRequestStatusIfExpired E r) Q X w"
  using assms by (auto simp: refreshRequestStatusIfExpired_def wp_sthen wp_sreturn intro!: wp_expireRequestsByIds)

text \<open>A request that is accepted as open is open, unselected and not past its date.\<close>

definition acceptable :: "env \<Rightarrow> serviceRequest \<Rightarrow> bool" where
  "acceptable E r \<longleftrightarrow> sr_status r = SR_OPEN \<and> truthy (sr_selectedProposalId r) = None \<and> \<not> isRequestPastExpiry E r"

lemma wp_requireOpen:
  assumes "acceptable E r \<Longrightarrow> Q () w"
    and "\<And>w'. w_db w' = w_db w \<or> w_db w' = expired_db E [sr_id r] (w_db w) \<Longrightarrow> X e w'"
  shows "wp (requireOpen E r e) Q X w"
  unfolding requireOpen_def wp_sbind
  by (rule wp_refresh) (auto simp: wp_sguard acceptable_def intro: assms)

lemma wp_expireStale:
  assumes "\<And>w'. w_db w' = expired_db E (map sr_id (filter (staleRequest E) (serviceRequests (w_db w)))) (w_db w)
      \<Longrightarrow> Q (length (filter (staleRequest E) (serviceRequests (w_db w)))) w'"
  shows "wp (expireStaleOpenRequests E) Q X w"
proof (cases "filter (staleRequest E) (serviceRequests (w_db w)) = []")
  case True
  then show ?thesis using assms [of w]
    by (simp add: expireStaleOpenRequests_def wp_sbind wp_findMany wp_sreturn)
next
  case False
  then show ?thesis
    by (simp add: expireStaleOpenRequests_def wp_sbind wp_findMany wp_sthen wp_sreturn)
      (auto intro!: wp_expireRequestsByIds assms)
qed

text \<open>After a sweep no request is stale.\<close>

lemma request_rows_expired: "serviceRequests (expired_db E ids d) =
    map (\<lambda>r. if sr_id r \<in> set ids \<and> sr_status r = SR_OPEN
      then r\<lparr>sr_status := SR_EXPIRED, sr_updatedAt := e_now E\<rparr> else r) (serviceRequests d)"
  by (simp add: expired_db_def upd_rows_def)

lemma sweep_clears: "\<forall>r \<in> set (serviceRequests (expired_db E
    (map sr_id (filter (staleRequest E) (serviceRequests d))) d)). \<not> staleRequest E r"
  unfolding request_rows_expired by (auto simp: staleRequest_def)

subsection \<open>The selection invariant\<close>

text \<open>The proposal that a request has selected, and the links of the jobs.\<close>

definition sel :: "db \<Rightarrow> id \<Rightarrow> id option" where
  "sel d i = Option.bind (find_row serviceRequests_t i d) sr_selectedProposalId"

definition job_links :: "db \<Rightarrow> (id option \<times> id option) list" where
  "job_links d = map (\<lambda>j. (jb_requestId j, jb_proposalId j)) (jobs d)"

definition request_ok :: "serviceRequest \<Rightarrow> bool" where
  "request_ok r \<longleftrightarrow> (sr_status r = SR_CLOSED \<longleftrightarrow> sr_selectedProposalId r \<noteq> None)"

definition proposal_ok :: "db \<Rightarrow> proposal \<Rightarrow> bool" where
  "proposal_ok d p \<longleftrightarrow> (pr_status p = PR_SELECTED \<longleftrightarrow> sel d (pr_requestId p) = Some (pr_id p))
     \<and> (sel d (pr_requestId p) \<noteq> None \<longrightarrow> pr_status p \<noteq> PR_SUBMITTED)"

definition requests_ok :: "db \<Rightarrow> bool" where
  "requests_ok d \<longleftrightarrow> unique_ids serviceRequests_t d \<and> unique_ids proposals_t d
     \<and> (\<forall>i r. find_row serviceRequests_t i d = Some r \<longrightarrow> request_ok r)
     \<and> (\<forall>i p. find_row proposals_t i d = Some p \<longrightarrow> proposal_ok d p)
     \<and> (\<forall>i k. sel d i = Some k \<longrightarrow> (\<exists>p. find_row proposals_t k d = Some p \<and> pr_requestId p = i))
     \<and> (\<forall>i k. (Some i, k) \<in> set (job_links d) \<longrightarrow> k \<noteq> None \<and> sel d i = k)
     \<and> (\<forall>i. sel d i \<noteq> None \<longrightarrow> (\<exists>k. (Some i, k) \<in> set (job_links d)))"

text \<open>Changing columns other than the identifier and the selection.\<close>

lemma sel_upd:
  assumes "\<And>r. sr_id (f r) = sr_id r" "\<And>r. sr_selectedProposalId (f r) = sr_selectedProposalId r"
  shows "sel (upd_rows serviceRequests_t n P f d) i = sel d i"
  by (cases "find_row serviceRequests_t i d")
    (simp_all add: sel_def tb_serviceRequests.find_row_upd assms)

lemma requests_ok_upd_requests:
  assumes "requests_ok d" "\<And>r. sr_id (f r) = sr_id r"
    and "\<And>r. sr_selectedProposalId (f r) = sr_selectedProposalId r"
    and "\<And>r. P r \<Longrightarrow> request_ok r \<Longrightarrow> request_ok (f r)"
  shows "requests_ok (upd_rows serviceRequests_t n P f d)"
proof -
  let ?d = "upd_rows serviceRequests_t n P f d"
  have sel: "sel ?d = sel d" by (rule ext) (simp add: sel_upd assms)
  have eq: "find_row proposals_t i ?d = find_row proposals_t i d"
    "job_links ?d = job_links d" "unique_ids proposals_t ?d = unique_ids proposals_t d" for i
    by (simp_all add: find_row_def job_links_def unique_ids_def upd_rows_def)
  have touch: "request_ok (r\<lparr>sr_updatedAt := n\<rparr>) = request_ok r" for r by (simp add: request_ok_def)
  have "request_ok x" if "find_row serviceRequests_t i ?d = Some x" for i x
    using that assms by (auto simp: tb_serviceRequests.find_row_upd touch requests_ok_def)
  moreover have "unique_ids serviceRequests_t ?d"
    using assms(1,2) by (simp add: requests_ok_def tb_serviceRequests.unique_ids_upd)
  ultimately show ?thesis
    using assms(1) unfolding requests_ok_def proposal_ok_def eq sel by blast
qed

lemma requests_ok_frames [keeps_rules]:
  "frames requests_ok users_t" "frames requests_ok categories_t" "frames requests_ok workerProfiles_t"
  "frames requests_ok invitations_t" "frames requests_ok notifications_t" "frames requests_ok interventions_t"
  "frames requests_ok reviews_t" "frames requests_ok intents_t" "frames requests_ok transactions_t"
  "frames requests_ok ledger_t" "frames requests_ok payouts_t" "frames requests_ok refunds_t"
  "frames requests_ok incidents_t" "frames requests_ok incidentEvents_t" "frames requests_ok paymentEvents_t"
  by (simp_all add: frames_def requests_ok_def unique_ids_def find_row_def sel_def job_links_def proposal_ok_def)

lemmas request_rules = keeps_rules keeps_frame requests_ok_frames

lemma requests_ok_invitations: "requests_ok (upd_rows invitations_t n P f d) = requests_ok d"
  using requests_ok_frames(4) by (simp add: frames_def upd_rows_def)

lemma requests_ok_notifications: "requests_ok (d\<lparr>notifications := x\<rparr>) = requests_ok d"
  using requests_ok_frames(5) by (simp add: frames_def)

lemma request_ok_expire: "sr_status r = SR_OPEN \<Longrightarrow> request_ok r \<Longrightarrow> request_ok (r\<lparr>sr_status := SR_EXPIRED\<rparr>)"
  by (simp add: request_ok_def)

lemma requests_ok_expired: "requests_ok d \<Longrightarrow> requests_ok (expired_db E ids d)"
  unfolding expired_db_def requests_ok_invitations
  by (rule requests_ok_upd_requests) (simp_all add: request_ok_expire)

text \<open>A new request has no selection and no job.\<close>

lemma requests_ok_create_request:
  assumes "requests_ok d" "sr_status r = SR_OPEN" "sr_selectedProposalId r = None"
    and "\<forall>x \<in> set (serviceRequests d). sr_id x \<noteq> sr_id r"
  shows "requests_ok (d\<lparr>serviceRequests := serviceRequests d @ [r]\<rparr>)"
proof -
  let ?d = "d\<lparr>serviceRequests := serviceRequests d @ [r]\<rparr>"
  have find: "find_row serviceRequests_t i ?d = (if i = sr_id r then Some r else find_row serviceRequests_t i d)" for i
    using tb_serviceRequests.find_row_append [of d r i] assms(4) by simp
  have fresh: "find_row serviceRequests_t (sr_id r) d = None"
    using assms(4) by (auto simp: find_row_def find_None_iff)
  have sel: "sel ?d = sel d" by (rule ext) (simp add: sel_def find fresh assms(3))
  have eq: "find_row proposals_t i ?d = find_row proposals_t i d"
    "job_links ?d = job_links d" "unique_ids proposals_t ?d = unique_ids proposals_t d" for i
    by (simp_all add: find_row_def job_links_def unique_ids_def)
  have "unique_ids serviceRequests_t ?d"
    using tb_serviceRequests.unique_ids_append [of d r] assms(1,4) by (simp add: requests_ok_def)
  moreover have "request_ok x" if "find_row serviceRequests_t i ?d = Some x" for i x
    using that assms(1-3) by (auto simp: find request_ok_def requests_ok_def split: if_splits)
  ultimately show ?thesis
    using assms(1) unfolding requests_ok_def proposal_ok_def eq sel by blast
qed

text \<open>A proposal that is new, or submitted again, on a request without a selection.\<close>

lemma requests_ok_create_proposal:
  assumes "requests_ok d" "pr_status p = PR_SUBMITTED" "sel d (pr_requestId p) = None"
    and "\<forall>x \<in> set (proposals d). pr_id x \<noteq> pr_id p"
  shows "requests_ok (d\<lparr>proposals := proposals d @ [p]\<rparr>)"
proof -
  let ?d = "d\<lparr>proposals := proposals d @ [p]\<rparr>"
  have find: "find_row proposals_t i ?d = (if i = pr_id p then Some p else find_row proposals_t i d)" for i
    using tb_proposals.find_row_append [of d p i] assms(4) by simp
  have fresh: "find_row proposals_t (pr_id p) d = None"
    using assms(4) by (auto simp: find_row_def find_None_iff)
  have eq: "find_row serviceRequests_t i ?d = find_row serviceRequests_t i d"
    "job_links ?d = job_links d" "unique_ids serviceRequests_t ?d = unique_ids serviceRequests_t d" for i
    by (simp_all add: find_row_def job_links_def unique_ids_def)
  have sel: "sel ?d = sel d" by (rule ext) (simp add: sel_def eq)
  have "unique_ids proposals_t ?d"
    using tb_proposals.unique_ids_append [of d p] assms(1,4) by (simp add: requests_ok_def)
  moreover have "proposal_ok ?d x" if "find_row proposals_t i ?d = Some x" for i x
    using that assms(1-3) by (auto simp: find proposal_ok_def requests_ok_def sel split: if_splits)
  moreover have "\<exists>x. find_row proposals_t k ?d = Some x \<and> pr_requestId x = i" if "sel d i = Some k" for i k
    using that assms(1) fresh by (auto simp: find requests_ok_def) (metis option.distinct(1))
  ultimately show ?thesis
    using assms(1) unfolding requests_ok_def eq sel by blast
qed

lemma requests_ok_resubmit:
  assumes "requests_ok d" "find_row proposals_t k d = Some p" "sel d (pr_requestId p) = None"
    and f: "\<And>r. pr_id (f r) = pr_id r" "\<And>r. pr_requestId (f r) = pr_requestId r"
      "\<And>r. pr_status (f r) = PR_SUBMITTED"
  shows "requests_ok (upd_rows proposals_t n (\<lambda>r. pr_id r = k) f d)"
proof -
  let ?d = "upd_rows proposals_t n (\<lambda>r. pr_id r = k) f d"
  have find: "find_row proposals_t i ?d =
      map_option (\<lambda>r. if pr_id r = k then (f r)\<lparr>pr_updatedAt := n\<rparr> else r) (find_row proposals_t i d)" for i
    by (cases "find_row proposals_t i d") (simp_all add: tb_proposals.find_row_upd f)
  have eq: "find_row serviceRequests_t i ?d = find_row serviceRequests_t i d"
    "job_links ?d = job_links d" "unique_ids serviceRequests_t ?d = unique_ids serviceRequests_t d" for i
    by (simp_all add: find_row_def job_links_def unique_ids_def upd_rows_def)
  have sel: "sel ?d = sel d" by (rule ext) (simp add: sel_def eq)
  have "unique_ids proposals_t ?d"
    using assms(1) f by (simp add: requests_ok_def tb_proposals.unique_ids_upd)
  moreover have "proposal_ok ?d x" if x: "find_row proposals_t i ?d = Some x" for i x
  proof -
    obtain r where r: "find_row proposals_t i d = Some r" "x = (if pr_id r = k then (f r)\<lparr>pr_updatedAt := n\<rparr> else r)"
      using x by (auto simp: find)
    then have "proposal_ok d r" using assms(1) by (simp add: requests_ok_def)
    moreover have "pr_id r = k \<Longrightarrow> r = p" using find_row_SomeD [OF r(1)] r(1) assms(2) by auto
    ultimately show ?thesis using r(2) assms(3) f by (auto simp: proposal_ok_def sel)
  qed
  moreover have "\<exists>x. find_row proposals_t j ?d = Some x \<and> pr_requestId x = i" if s: "sel d i = Some j" for i j
  proof -
    obtain x where x: "find_row proposals_t j d = Some x" "pr_requestId x = i"
      using s assms(1) unfolding requests_ok_def by blast
    then show ?thesis by (cases "pr_id x = k") (simp_all add: find f)
  qed
  ultimately show ?thesis
    using assms(1) unfolding requests_ok_def eq sel by blast
qed

end
