(* ===== verification/Selection.thy ===== *)
theory Selection
  imports Requests
begin

text \<open>
  \<^verbatim>\<open>service-requests.service.ts\<close>, \<^verbatim>\<open>selectProposal\<close>: the customer picks a proposal; one transaction
  closes the request, rejects the other proposals, creates the job and its deposit intent.
\<close>

subsection \<open>The deposit\<close>

definition selectForbidden :: exn where
  "selectForbidden = ForbiddenException ''Only request owner can select a proposal''"

definition alreadySelected :: exn where
  "alreadySelected = ConflictException ''A proposal was already selected for this request''"

definition requestNotOpen :: exn where
  "requestNotOpen = ConflictException ''Service request is not open anymore''"

definition proposalNotFound :: exn where
  "proposalNotFound = NotFoundException ''Proposal not found for this request''"

definition proposalNotSelectable :: exn where
  "proposalNotSelectable = ConflictException ''Proposal cannot be selected in current status''"

definition providerProfileMissing :: exn where
  "providerProfileMissing = ConflictException ''Selected provider profile does not exist''"

definition providerUnavailable :: exn where
  "providerUnavailable = ConflictException ''Selected provider is currently unavailable''"

definition depositPriceNotPositive :: exn where
  "depositPriceNotPositive = BadRequestException ''Proposal price must be greater than 0''"

definition resolveDepositPercentFromEnv :: "env \<Rightarrow> int" where
  "resolveDepositPercentFromEnv E = env_clamped 30 20 30 (e_depositPercent E)"

definition resolvePlatformFeeBpsFromEnv :: "env \<Rightarrow> int" where
  "resolvePlatformFeeBpsFromEnv E = env_clamped 1500 0 9000 (e_feeBps E)"

definition resolveDefaultPaymentProvider :: "env \<Rightarrow> paymentProvider" where
  "resolveDefaultPaymentProvider E =
     (case truthy (map_option (\<lambda>s. js_upper (js_trim s)) (e_defaultProvider E)) of
        None \<Rightarrow> PP_INTERNAL
      | Some raw \<Rightarrow> or_else (provider_of_name raw) PP_INTERNAL)"

record depositSplit =
  ds_depositPercent :: int
  ds_depositAmount :: int
  ds_platformFeeAmount :: int
  ds_providerNetAmount :: int

definition deposit_split_of :: "env \<Rightarrow> int \<Rightarrow> int option \<Rightarrow> depositSplit" where
  "deposit_split_of E price depositPercent =
     (let normalizedPrice = max 0 price;
          resolvedDepositPercent = or_else depositPercent (resolveDepositPercentFromEnv E);
          depositAmount = max 1 (round_div (normalizedPrice * resolvedDepositPercent) 100);
          platformFeeAmount = min depositAmount (round_div (depositAmount * resolvePlatformFeeBpsFromEnv E) 10000)
      in \<lparr>ds_depositPercent = resolvedDepositPercent, ds_depositAmount = depositAmount,
          ds_platformFeeAmount = platformFeeAmount,
          ds_providerNetAmount = max 0 (depositAmount - platformFeeAmount)\<rparr>)"

definition computeDepositSplit :: "env \<Rightarrow> int \<Rightarrow> int option \<Rightarrow> depositSplit svc" where
  "computeDepositSplit E price depositPercent =
     sthen (sguard (0 < max 0 price) depositPriceNotPositive) (sreturn (deposit_split_of E price depositPercent))"

subsection \<open>The transaction\<close>

record selection =
  sl_request :: serviceRequest
  sl_selectedProposalId :: id
  sl_job :: job
  sl_paymentIntent :: "paymentIntent option"
  sl_idempotent :: bool

definition selectedJob :: "env \<Rightarrow> id \<Rightarrow> serviceRequest \<Rightarrow> proposal \<Rightarrow> id \<Rightarrow> id \<Rightarrow> job" where
  "selectedJob E actorUserId request proposal providerProfileId i =
     \<lparr>jb_id = i, jb_clientId = actorUserId, jb_customerId = Some actorUserId,
      jb_providerId = Some (pr_providerId proposal), jb_workerProfileId = providerProfileId,
      jb_categoryId = sr_categoryId request, jb_requestId = Some (sr_id request),
      jb_proposalId = Some (pr_id proposal), jb_agreedPrice = Some (pr_price proposal),
      jb_pricingMode = JPM_FIXED_PRICE, jb_title = sr_title request, jb_description = sr_description request,
      jb_budget = Some (pr_price proposal), jb_quotedAmount = Some (pr_price proposal),
      jb_quoteMessage = pr_comment proposal, jb_status = JOB_REQUESTED, jb_acceptedAt = None,
      jb_startedAt = None, jb_completedAt = None, jb_canceledAt = None, jb_canceledBy = None,
      jb_cancelReason = None, jb_contactUnlockedAt = None, jb_createdAt = e_now E, jb_updatedAt = e_now E\<rparr>"

definition depositIntent ::
  "env \<Rightarrow> id \<Rightarrow> serviceRequest \<Rightarrow> proposal \<Rightarrow> depositSplit \<Rightarrow> id \<Rightarrow> id \<Rightarrow> paymentIntent" where
  "depositIntent E actorUserId request proposal split jobId i =
     \<lparr>pi_id = i, pi_jobId = jobId, pi_customerId = actorUserId,
      pi_providerUserId = Some (pr_providerId proposal), pi_amount = ds_depositAmount split,
      pi_currency = ''MZN'', pi_platformFeeAmount = ds_platformFeeAmount split,
      pi_providerNetAmount = ds_providerNetAmount split, pi_status = PI_AWAITING_PAYMENT,
      pi_provider = resolveDefaultPaymentProvider E, pi_expiresAt = None,
      pi_acceptedQuoteSnapshot = Some (pr_price proposal),
      pi_metadata = Some (JObj [(''kind'', JStr ''deposit''), (''agreedPrice'', JNum (show_int (pr_price proposal))),
        (''depositPercent'', JNum (show_int (ds_depositPercent split))),
        (''serviceRequestId'', JStr (sr_id request)), (''proposalId'', JStr (pr_id proposal))]),
      pi_createdAt = e_now E, pi_updatedAt = e_now E\<rparr>"

definition expireSentInvitations :: "env \<Rightarrow> id \<Rightarrow> unit svc" where
  "expireSentInvitations E requestId =
     sbind (updateMany E invitations_t (\<lambda>i. ri_requestId i = requestId \<and> ri_status i = RI_SENT) (expire_invitation E))
       (\<lambda>_. sreturn ())"

definition closeWithProposal :: "env \<Rightarrow> serviceRequest \<Rightarrow> proposal \<Rightarrow> serviceRequest svc" where
  "closeWithProposal E request proposal =
     sbind (updateMany E proposals_t (\<lambda>p. pr_requestId p = sr_id request \<and> pr_id p \<noteq> pr_id proposal)
       (\<lambda>p. p\<lparr>pr_status := PR_REJECTED\<rparr>)) (\<lambda>_.
     sbind (update E proposals_t (pr_id proposal) (\<lambda>p. p\<lparr>pr_status := PR_SELECTED\<rparr>)) (\<lambda>_.
     sbind (update E serviceRequests_t (sr_id request)
       (\<lambda>r. r\<lparr>sr_status := SR_CLOSED, sr_selectedProposalId := Some (pr_id proposal)\<rparr>)) (\<lambda>updatedRequest.
     sthen (expireSentInvitations E (sr_id request)) (sreturn updatedRequest))))"

definition applySelection ::
  "env \<Rightarrow> id \<Rightarrow> serviceRequest \<Rightarrow> proposal \<Rightarrow> id \<Rightarrow> depositSplit \<Rightarrow> selection svc" where
  "applySelection E actorUserId request proposal providerProfileId split =
     sbind (findBy jobs_t (\<lambda>j. jb_requestId j = Some (sr_id request))) (\<lambda>existing.
     case existing of
       Some existingJob \<Rightarrow>
         sthen (expireSentInvitations E (sr_id request))
         (sread (\<lambda>d. \<lparr>sl_request = request, sl_selectedProposalId = pr_id proposal, sl_job = existingJob,
            sl_paymentIntent = first_of (job_intents d (jb_id existingJob)), sl_idempotent = True\<rparr>))
     | None \<Rightarrow>
         sbind (closeWithProposal E request proposal) (\<lambda>updatedRequest.
         sbind (create E jobs_t (selectedJob E actorUserId request proposal providerProfileId)) (\<lambda>job.
         sbind (create E intents_t (depositIntent E actorUserId request proposal split (jb_id job))) (\<lambda>intent.
         sreturn \<lparr>sl_request = updatedRequest, sl_selectedProposalId = pr_id proposal, sl_job = job,
           sl_paymentIntent = Some intent, sl_idempotent = False\<rparr>))))"

subsection \<open>Telling the providers\<close>

definition notifySelected :: "env \<Rightarrow> id \<Rightarrow> serviceRequest \<Rightarrow> proposal \<Rightarrow> id \<Rightarrow> unit svc" where
  "notifySelected E actorUserId request proposal jobId =
     sbind (notify E \<lparr>ni_userId = pr_providerId proposal, ni_actorUserId = Some actorUserId,
       ni_kind = NK_PROPOSAL_SELECTED, ni_tone = Some NT_SUCCESS, ni_title = ''A tua proposta foi selecionada'',
       ni_description = ''O cliente escolheu a tua proposta para o pedido '' @ q_mark @ sr_title request @ q_mark @ ''.'',
       ni_href = ''/pro/propostas#selecionadas'', ni_hrefLabel = Some ''Ver proposta'',
       ni_metadata = Some (JObj [(''requestId'', JStr (sr_id request)), (''proposalId'', JStr (pr_id proposal)),
         (''jobId'', JStr jobId)])\<rparr>)
     (\<lambda>_. sreturn ())"

definition notifyRejected :: "env \<Rightarrow> id \<Rightarrow> serviceRequest \<Rightarrow> proposal \<Rightarrow> unit svc" where
  "notifyRejected E actorUserId request rejectedProposal =
     sbind (notify E \<lparr>ni_userId = pr_providerId rejectedProposal, ni_actorUserId = Some actorUserId,
       ni_kind = NK_PROPOSAL_REJECTED, ni_tone = Some NT_MUTED, ni_title = (''Proposta n'' @ [CHR 0xE3] @ ''o selecionada''),
       ni_description = ''O pedido '' @ q_mark @ sr_title request @ q_mark @ ('' avan'' @ [CHR 0xE7] @ ''ou com outro prestador.''),
       ni_href = ''/pro/propostas#nao-selecionadas'', ni_hrefLabel = Some (''Ver hist'' @ [CHR 0xF3] @ ''rico''),
       ni_metadata = Some (JObj [(''requestId'', JStr (sr_id request)), (''proposalId'', JStr (pr_id rejectedProposal))])\<rparr>)
     (\<lambda>_. sreturn ())"

definition announceSelection ::
  "env \<Rightarrow> id \<Rightarrow> serviceRequest \<Rightarrow> proposal \<Rightarrow> proposal list \<Rightarrow> selection \<Rightarrow> unit svc" where
  "announceSelection E actorUserId request proposal rejectedProposalProviders result =
     sthen (audit ''service_request_proposal_selected'')
     (swhen (\<not> sl_idempotent result)
       (sthen (notifySelected E actorUserId request proposal (jb_id (sl_job result)))
        (sfor rejectedProposalProviders (notifyRejected E actorUserId request))))"

subsection \<open>The operation\<close>

definition selectableProposal :: "id \<Rightarrow> id \<Rightarrow> proposal svc" where
  "selectableProposal requestId proposalId =
     sbind (require proposals_t proposalId proposalNotFound) (\<lambda>proposal.
     sthen (sguard (pr_requestId proposal = requestId) proposalNotFound)
     (sthen (sguard (pr_status proposal \<in> set [PR_SUBMITTED, PR_SELECTED]) proposalNotSelectable)
     (sreturn proposal)))"

definition availableProfile :: "id \<Rightarrow> workerProfile svc" where
  "availableProfile providerId =
     sbind (findBy workerProfiles_t (\<lambda>p. wp_userId p = providerId)) (\<lambda>found.
     sbind (sopt found providerProfileMissing) (\<lambda>profile.
     sthen (sguard (wp_isAvailable profile) providerUnavailable) (sreturn profile)))"

definition proceedSelection :: "env \<Rightarrow> serviceRequest \<Rightarrow> id \<Rightarrow> id \<Rightarrow> int option \<Rightarrow> selection svc" where
  "proceedSelection E request proposalId actorUserId depositPercent =
     sbind (selectableProposal (sr_id request) proposalId) (\<lambda>proposal.
     sbind (findMany proposals_t (\<lambda>p. pr_requestId p = sr_id request \<and> pr_id p \<noteq> pr_id proposal)) (\<lambda>rejectedProposalProviders.
     sbind (availableProfile (pr_providerId proposal)) (\<lambda>providerProfile.
     sbind (computeDepositSplit E (pr_price proposal) depositPercent) (\<lambda>split.
     sbind (transact (applySelection E actorUserId request proposal (wp_id providerProfile) split)) (\<lambda>result.
     sthen (announceSelection E actorUserId request proposal rejectedProposalProviders result)
     (sreturn result))))))"

definition selectProposal :: "env \<Rightarrow> id \<Rightarrow> id \<Rightarrow> id \<Rightarrow> int option \<Rightarrow> selection svc" where
  "selectProposal E requestId proposalId actorUserId depositPercent =
     sbind (require serviceRequests_t requestId requestNotFound) (\<lambda>request.
     sbind (sread (\<lambda>d. map_option (\<lambda>j. (j, first_of (job_intents d (jb_id j)))) (request_job d requestId))) (\<lambda>job.
     sthen (sguard (sr_customerId request = actorUserId) selectForbidden)
     (sbind (refreshRequestStatusIfExpired E request) (\<lambda>currentStatus.
      sthen (sguard (truthy (sr_selectedProposalId request) = None \<or> sr_selectedProposalId request = Some proposalId)
        alreadySelected)
      (case (if sr_selectedProposalId request = Some proposalId then job else None) of
         Some (existingJob, intent) \<Rightarrow> sreturn \<lparr>sl_request = request, sl_selectedProposalId = proposalId,
           sl_job = existingJob, sl_paymentIntent = intent, sl_idempotent = True\<rparr>
       | None \<Rightarrow> sthen (sguard (currentStatus = SR_OPEN) requestNotOpen)
           (proceedSelection E request proposalId actorUserId depositPercent))))))"

subsection \<open>The deposit split\<close>

lemma fee_bps_bounds: "0 \<le> resolvePlatformFeeBpsFromEnv E" "resolvePlatformFeeBpsFromEnv E \<le> 9000"
  using env_clamped_bounds [of 0 1500 9000 "e_feeBps E"] by (simp_all add: resolvePlatformFeeBpsFromEnv_def)

lemma deposit_percent_bounds: "20 \<le> resolveDepositPercentFromEnv E" "resolveDepositPercentFromEnv E \<le> 30"
  using env_clamped_bounds [of 20 30 30 "e_depositPercent E"] by (simp_all add: resolveDepositPercentFromEnv_def)

definition deposit_as_split :: "env \<Rightarrow> int \<Rightarrow> int option \<Rightarrow> split" where
  "deposit_as_split E price percent =
     (let s = deposit_split_of E price percent in
      \<lparr>sp_gross = ds_depositAmount s, sp_platformFee = ds_platformFeeAmount s,
       sp_providerNet = ds_providerNetAmount s\<rparr>)"

interpretation deposit_split: fee_split "\<lambda>x. deposit_as_split (fst x) (fst (snd x)) (snd (snd x))"
proof unfold_locales
  fix x :: "env \<times> int \<times> int option"
  have "0 \<le> round_div (max 1 n * resolvePlatformFeeBpsFromEnv (fst x)) 10000" for n
    using fee_bps_bounds [of "fst x"] by (intro round_div_nonneg) simp_all
  then show "0 \<le> sp_platformFee (deposit_as_split (fst x) (fst (snd x)) (snd (snd x)))"
    by (simp add: deposit_as_split_def deposit_split_of_def Let_def)
qed (auto simp: deposit_as_split_def deposit_split_of_def Let_def)

lemma split_ok_depositIntent: "split_ok (depositIntent E u r p (deposit_split_of E price percent) j i)"
  using deposit_split.fee_nonneg [of "(E, price, percent)"] deposit_split.net_nonneg [of "(E, price, percent)"]
    deposit_split.split_sum [of "(E, price, percent)"]
  by (simp add: split_ok_def depositIntent_def deposit_as_split_def Let_def)

text \<open>The deposit is at least 1 and never more than the agreed price.\<close>

lemma deposit_bounds:
  assumes "0 < price" "case percent of None \<Rightarrow> True | Some p \<Rightarrow> 20 \<le> p \<and> p \<le> 30"
  shows "1 \<le> ds_depositAmount (deposit_split_of E price percent)"
    "ds_depositAmount (deposit_split_of E price percent) \<le> price"
proof -
  let ?p = "or_else percent (resolveDepositPercentFromEnv E)"
  have p: "0 \<le> ?p" "?p \<le> 100"
    using assms(2) deposit_percent_bounds [of E] by (cases percent; simp)+
  then have "price * ?p \<le> price * 100" using assms(1) by (intro mult_left_mono) simp_all
  then have "round_div (price * ?p) 100 \<le> price" by (intro round_div_le) simp_all
  then show "1 \<le> ds_depositAmount (deposit_split_of E price percent)"
    "ds_depositAmount (deposit_split_of E price percent) \<le> price"
    using assms(1) by (simp_all add: deposit_split_of_def Let_def)
qed

subsection \<open>The request operations keep the selection invariant\<close>

lemma keeps_expire:
  assumes "\<And>ids d. J d \<Longrightarrow> J (expired_db E ids d)"
  shows "keeps J (expireRequestsByIds E ids)" "keeps J (expireStaleOpenRequests E)"
    "keeps J (refreshRequestStatusIfExpired E r)" "keeps J (requireOpen E r e)"
  unfolding keeps_wp
  by (auto intro!: wp_expireRequestsByIds wp_expireStale wp_refresh wp_requireOpen simp: assms)

lemmas keeps_requests_expire = keeps_expire [of requests_ok, OF requests_ok_expired]

lemma keeps_audit [keeps_rules]: "keeps J (audit ev)" "keeps J (auditWarn ev)"
  by (simp_all add: audit_def auditWarn_def keeps_rules)

lemma keeps_activeCategory [keeps_rules]: "keeps J (activeCategory c)"
  by (simp add: activeCategory_def keeps_rules)

lemma keeps_newRequest: "keeps requests_ok (create E serviceRequests_t (newRequest E u c t s l))"
  by (rule keeps_create) (simp add: requests_ok_create_request newRequest_def)

lemma keeps_requests_create:
  "keeps requests_ok (createRequest E u dto)" "keeps requests_ok (recreateRequest E u i dto')"
  by (simp_all add: createRequest_def recreateRequest_def request_rules keeps_rules keeps_newRequest
      keeps_requests_expire)

lemma keeps_request_data: "keeps requests_ok (update E serviceRequests_t i (request_data E dto r))"
  by (rule keeps_update, rule requests_ok_upd_requests)
    (simp_all add: request_data_def request_ok_def)

lemma keeps_requests_read:
  "keeps requests_ok (updateRequest E u i dto)" "keeps requests_ok (getMineById E u i)"
  "keeps requests_ok (listMineRequests E u q)" "keeps requests_ok (listOpenForProvider E u q)"
  "keeps requests_ok (listMineProposals E u)" "keeps requests_ok (listRequestProposals E i a)"
  "keeps requests_ok (sweepTick E)"
  by (simp_all add: updateRequest_def getMineById_def listMineRequests_def listOpenForProvider_def sweepTick_def
      listMineProposals_def listRequestProposals_def request_rules keeps_rules keeps_request_data keeps_requests_expire)

lemma keeps_requests_invitations:
  "keeps requests_ok (listRequestInvitations E i u)" "keeps requests_ok (createInvitation E i u p)"
  "keeps requests_ok (listMineInvitations E u)" "keeps requests_ok (declineInvitation E i u)"
  by (simp_all add: listRequestInvitations_def createInvitation_def listMineInvitations_def declineInvitation_def
      expirePendingInvitationsForRequest_def expirePendingInvitationsForProvider_def markOpened_def
      notifyInvited_def notifyDeclined_def request_rules keeps_rules keeps_requests_expire)

text \<open>An open request has no selection.\<close>

lemma acceptable_sel:
  assumes "requests_ok d" "find_row serviceRequests_t i d = Some r" "acceptable E r"
  shows "sel d i = None"
proof -
  have "request_ok r" using assms(1,2) by (simp add: requests_ok_def)
  then show ?thesis using assms(2,3) by (simp add: sel_def acceptable_def request_ok_def)
qed

lemma wp_saveProposal:
  assumes "requests_ok (w_db w)" "sel (w_db w) i = None"
  shows "wp (saveProposal E i u dto) (\<lambda>_ w'. requests_ok (w_db w')) (\<lambda>_ w'. requests_ok (w_db w')) w"
proof (cases "find (\<lambda>p. pr_requestId p = i \<and> pr_providerId p = u) (proposals (w_db w))")
  case None
  then show ?thesis using assms
    by (simp add: saveProposal_def wp_simps Let_def requests_ok_create_proposal newProposal_def)
next
  case (Some p)
  then have p: "p \<in> set (proposals (w_db w))" "pr_requestId p = i" by (auto simp: find_Some_iff)
  then have "find_row proposals_t (pr_id p) (w_db w) = Some p"
    using assms(1) tb_proposals.find_row_unique [of "w_db w" p] by (simp add: requests_ok_def)
  then show ?thesis using assms p(2) Some
    by (simp add: saveProposal_def wp_simps requests_ok_resubmit [where p = p])
qed

lemma keeps_markAccepted: "keeps requests_ok (markInvitationAccepted E i u)"
  by (simp add: markInvitationAccepted_def request_rules keeps_rules)

lemma keeps_notifyProposed: "keeps requests_ok (notifyProposed E u r p)"
  by (simp add: notifyProposed_def request_rules)

lemma keeps_requests_submit: "keeps requests_ok (submitProposal E i u dto)"
  unfolding keeps_wp
proof (intro allI impI)
  fix w :: world assume J: "requests_ok (w_db w)"
  let ?Q = "\<lambda>_ w'. requests_ok (w_db w')"
  have fin: "wp (sthen (markInvitationAccepted E i u) (sthen (notifyProposed E u r p) (sreturn p))) ?Q ?Q w'"
    if "requests_ok (w_db w')" for r p w'
    by (rule keeps_wp [THEN iffD1, rule_format, OF keeps_sthen [OF keeps_markAccepted
          keeps_sthen [OF keeps_notifyProposed keeps_sreturn]]]) (rule that)
  have "wp (sthen (requireOpen E r proposeNotOpen) (sthen (sguard (0 < sp_price dto) priceNotPositive)
      (sbind (saveProposal E i u dto) (\<lambda>p. sthen (markInvitationAccepted E i u)
        (sthen (notifyProposed E u r p) (sreturn p)))))) ?Q ?Q w"
    if r: "find_row serviceRequests_t i (w_db w) = Some r" for r
    unfolding wp_sthen [of "requireOpen E r proposeNotOpen"]
  proof (rule wp_requireOpen)
    assume "acceptable E r"
    then have "sel (w_db w) i = None" using acceptable_sel [OF J r] by simp
    from wp_saveProposal [OF J this, of E u dto]
    have "wp (sbind (saveProposal E i u dto) (\<lambda>p. sthen (markInvitationAccepted E i u)
        (sthen (notifyProposed E u r p) (sreturn p)))) ?Q ?Q w"
      unfolding wp_sbind by (rule wp_mono) (auto intro: fin)
    then show "wp (sthen (sguard (0 < sp_price dto) priceNotPositive) (sbind (saveProposal E i u dto)
        (\<lambda>p. sthen (markInvitationAccepted E i u) (sthen (notifyProposed E u r p) (sreturn p))))) ?Q ?Q w"
      using J by (simp add: wp_sthen [of "sguard _ _"] wp_sguard)
  qed (use J requests_ok_expired in auto)
  then show "wp (submitProposal E i u dto) ?Q ?Q w"
    using J unfolding submitProposal_def
    by (simp add: wp_sbind wp_findUnique wp_findBy wp_sopt wp_sthen [of "sguard _ _"] wp_sguard split: option.split)
qed

subsection \<open>The transaction of the selection\<close>

definition closed_db :: "env \<Rightarrow> serviceRequest \<Rightarrow> proposal \<Rightarrow> db \<Rightarrow> db" where
  "closed_db E request proposal d =
     upd_rows invitations_t (e_now E) (\<lambda>i. ri_requestId i = sr_id request \<and> ri_status i = RI_SENT) (expire_invitation E)
     (upd_rows serviceRequests_t (e_now E) (\<lambda>r. sr_id r = sr_id request)
       (\<lambda>r. r\<lparr>sr_status := SR_CLOSED, sr_selectedProposalId := Some (pr_id proposal)\<rparr>)
     (upd_rows proposals_t (e_now E) (\<lambda>p. pr_id p = pr_id proposal) (\<lambda>p. p\<lparr>pr_status := PR_SELECTED\<rparr>)
     (upd_rows proposals_t (e_now E) (\<lambda>p. pr_requestId p = sr_id request \<and> pr_id p \<noteq> pr_id proposal)
       (\<lambda>p. p\<lparr>pr_status := PR_REJECTED\<rparr>) d)))"

lemma find_closed_proposal: "find_row proposals_t k (closed_db E request proposal d) =
    map_option (\<lambda>p. if pr_id p = pr_id proposal then p\<lparr>pr_status := PR_SELECTED, pr_updatedAt := e_now E\<rparr>
      else if pr_requestId p = sr_id request then p\<lparr>pr_status := PR_REJECTED, pr_updatedAt := e_now E\<rparr> else p)
      (find_row proposals_t k d)"
proof -
  have inv: "find_row proposals_t k (upd_rows invitations_t n P f e) = find_row proposals_t k e" for n P f e
    by (simp add: find_row_def upd_rows_def)
  have req: "find_row proposals_t k (upd_rows serviceRequests_t n P f e) = find_row proposals_t k e" for n P f e
    by (simp add: find_row_def upd_rows_def)
  show ?thesis
    by (cases "find_row proposals_t k d") (simp_all add: closed_db_def inv req tb_proposals.find_row_upd)
qed

lemma find_closed_request: "find_row serviceRequests_t k (closed_db E request proposal d) =
    map_option (\<lambda>r. if sr_id r = sr_id request then r\<lparr>sr_status := SR_CLOSED,
      sr_selectedProposalId := Some (pr_id proposal), sr_updatedAt := e_now E\<rparr> else r) (find_row serviceRequests_t k d)"
proof -
  have inv: "find_row serviceRequests_t k (upd_rows invitations_t n P f e) = find_row serviceRequests_t k e" for n P f e
    by (simp add: find_row_def upd_rows_def)
  have pro: "find_row serviceRequests_t k (upd_rows proposals_t n P f e) = find_row serviceRequests_t k e" for n P f e
    by (simp add: find_row_def upd_rows_def)
  show ?thesis
    by (cases "find_row serviceRequests_t k d")
      (simp_all add: closed_db_def inv pro tb_serviceRequests.find_row_upd)
qed

lemma closed_db_rest [simp]: "jobs (closed_db E r p d) = jobs d" "intents (closed_db E r p d) = intents d"
    "ledger (closed_db E r p d) = ledger d" "notifications (closed_db E r p d) = notifications d"
    "refunds (closed_db E r p d) = refunds d" "payouts (closed_db E r p d) = payouts d"
    "unique_ids proposals_t (closed_db E r p d) = unique_ids proposals_t d"
    "unique_ids serviceRequests_t (closed_db E r p d) = unique_ids serviceRequests_t d"
proof -
  have u: "unique_ids proposals_t (upd_rows invitations_t n P f e) = unique_ids proposals_t e"
    "unique_ids proposals_t (upd_rows serviceRequests_t n P' f' e) = unique_ids proposals_t e"
    "unique_ids serviceRequests_t (upd_rows invitations_t n P f e) = unique_ids serviceRequests_t e"
    "unique_ids serviceRequests_t (upd_rows proposals_t n P'' f'' e) = unique_ids serviceRequests_t e"
    for n P f P' f' P'' f'' e
    by (simp_all add: unique_ids_def upd_rows_def)
  show "unique_ids proposals_t (closed_db E r p d) = unique_ids proposals_t d"
    "unique_ids serviceRequests_t (closed_db E r p d) = unique_ids serviceRequests_t d"
    by (simp_all add: closed_db_def u tb_proposals.unique_ids_upd tb_serviceRequests.unique_ids_upd)
qed (simp_all add: closed_db_def upd_rows_def)

lemma requests_ok_selected: "requests_ok d \<Longrightarrow> sel d i = Some k \<Longrightarrow> \<exists>p. find_row proposals_t k d = Some p \<and> pr_requestId p = i"
  by (simp add: requests_ok_def)

lemma requests_ok_link: "requests_ok d \<Longrightarrow> (Some i, k) \<in> set (job_links d) \<Longrightarrow> k \<noteq> None \<and> sel d i = k"
  by (simp add: requests_ok_def)

lemma requests_ok_linked: "requests_ok d \<Longrightarrow> sel d i \<noteq> None \<Longrightarrow> \<exists>k. (Some i, k) \<in> set (job_links d)"
  by (simp add: requests_ok_def)

text \<open>The state after the transaction satisfies the invariant again.\<close>

lemma requests_ok_selection:
  assumes ok: "requests_ok d" and r: "find_row serviceRequests_t i d = Some request"
    and none: "sel d i = None" and p: "find_row proposals_t k d = Some proposal" "pr_requestId proposal = i"
    and job: "jb_requestId job = Some i" "jb_proposalId job = Some k"
  shows "requests_ok ((closed_db E request proposal d)\<lparr>jobs := jobs d @ [job]\<rparr>)"
proof -
  let ?d = "(closed_db E request proposal d)\<lparr>jobs := jobs d @ [job]\<rparr>"
  have ids: "sr_id request = i" "pr_id proposal = k"
    using find_row_SomeD [OF r] find_row_SomeD [OF p(1)] by simp_all
  have fr: "find_row serviceRequests_t j ?d = find_row serviceRequests_t j (closed_db E request proposal d)"
    "find_row proposals_t j ?d = find_row proposals_t j (closed_db E request proposal d)" for j
    by (simp_all add: find_row_def)
  have sel: "sel ?d j = (if j = i then Some k else sel d j)" for j
  proof (cases "find_row serviceRequests_t j d")
    case (Some x)
    then have "sr_id x = j" by (auto dest: find_row_SomeD)
    then show ?thesis using Some by (simp add: sel_def fr find_closed_request ids)
  qed (use r in \<open>auto simp: sel_def fr find_closed_request ids\<close>)
  have links: "job_links ?d = job_links d @ [(Some i, Some k)]"
    by (simp add: job_links_def job)
  have U: "unique_ids serviceRequests_t ?d \<and> unique_ids proposals_t ?d"
  proof -
    have "unique_ids serviceRequests_t (x\<lparr>jobs := js\<rparr>) = unique_ids serviceRequests_t x"
      "unique_ids proposals_t (x\<lparr>jobs := js\<rparr>) = unique_ids proposals_t x" for x js
      by (simp_all add: unique_ids_def)
    then show ?thesis using ok by (simp add: requests_ok_def)
  qed
  have R: "request_ok x" if "find_row serviceRequests_t j ?d = Some x" for j x
    using that ok by (auto simp: fr find_closed_request requests_ok_def request_ok_def split: if_splits)
  have P: "proposal_ok ?d x" if x: "find_row proposals_t j ?d = Some x" for j x
  proof -
    obtain y where y: "find_row proposals_t j d = Some y"
      "x = (if pr_id y = k then y\<lparr>pr_status := PR_SELECTED, pr_updatedAt := e_now E\<rparr>
        else if pr_requestId y = i then y\<lparr>pr_status := PR_REJECTED, pr_updatedAt := e_now E\<rparr> else y)"
      using x by (auto simp: fr find_closed_proposal ids)
    then have "proposal_ok d y" using ok by (simp add: requests_ok_def)
    moreover have "pr_id y = k \<Longrightarrow> y = proposal"
      using find_row_SomeD [OF y(1)] y(1) p(1) by auto
    ultimately show ?thesis using y(2) none p(2) by (auto simp: proposal_ok_def sel)
  qed
  have S: "\<exists>x. find_row proposals_t m ?d = Some x \<and> pr_requestId x = j" if s: "sel ?d j = Some m" for j m
  proof -
    obtain x where "find_row proposals_t m d = Some x" "pr_requestId x = j"
      using s p requests_ok_selected [OF ok, of j m] unfolding sel by (cases "j = i") auto
    then show ?thesis by (simp add: fr find_closed_proposal)
  qed
  have J1: "(Some j, m) \<in> set (job_links d) \<Longrightarrow> m \<noteq> None \<and> sel d j = m" for j m
    using requests_ok_link [OF ok] .
  have J2: "sel d j \<noteq> None \<Longrightarrow> \<exists>m. (Some j, m) \<in> set (job_links d)" for j
    using requests_ok_linked [OF ok] .
  have "m \<noteq> None \<and> sel ?d j = m" if "(Some j, m) \<in> set (job_links ?d)" for j m
    using that J1 [of j m] none by (auto simp: links sel)
  moreover have "\<exists>m. (Some j, m) \<in> set (job_links ?d)" if "sel ?d j \<noteq> None" for j
    using that J2 [of j] by (cases "j = i") (auto simp: links sel)
  ultimately show ?thesis
    using U R P S unfolding requests_ok_def by blast
qed

text \<open>Run from a state that satisfies the invariant, on an unselected request, the transaction
  either rolls back or leaves the closed request, the new job and its deposit intent.\<close>

definition selected_db :: "env \<Rightarrow> serviceRequest \<Rightarrow> proposal \<Rightarrow> job \<Rightarrow> paymentIntent \<Rightarrow> db \<Rightarrow> db" where
  "selected_db E request proposal job intent d =
     (closed_db E request proposal d)\<lparr>jobs := jobs d @ [job], intents := intents d @ [intent]\<rparr>"

lemma wp_closeWithProposal:
  assumes "find_row serviceRequests_t (sr_id request) (w_db w) = Some r"
    and "find_row proposals_t (pr_id proposal) (w_db w) = Some p"
  shows "wp (closeWithProposal E request proposal) Q X w =
    Q (r\<lparr>sr_status := SR_CLOSED, sr_selectedProposalId := Some (pr_id proposal), sr_updatedAt := e_now E\<rparr>)
      (w\<lparr>w_db := closed_db E request proposal (w_db w)\<rparr>)"
proof -
  have "find_row proposals_t (pr_id proposal) (upd_rows proposals_t n
      (\<lambda>p. pr_requestId p = sr_id request \<and> pr_id p \<noteq> pr_id proposal) (\<lambda>p. p\<lparr>pr_status := PR_REJECTED\<rparr>) (w_db w)) = Some p" for n
    using assms(2) by (auto simp: tb_proposals.find_row_upd dest: find_row_SomeD)
  moreover have "find_row serviceRequests_t (sr_id request) (upd_rows proposals_t n P f d) =
      find_row serviceRequests_t (sr_id request) d" for n P f d
    by (simp add: find_row_def upd_rows_def)
  ultimately show ?thesis
    using assms(1)
    by (simp add: closeWithProposal_def expireSentInvitations_def wp_sbind wp_sthen wp_updateMany wp_update
        wp_sreturn closed_db_def)
qed

lemma no_job_link:
  assumes "requests_ok d" "sel d i = None"
  shows "find (\<lambda>j. jb_requestId j = Some i) (jobs d) = None"
proof -
  have "(Some i, k) \<notin> set (job_links d)" for k
    using assms(2) requests_ok_link [OF assms(1), of i k] by auto
  then show ?thesis by (force simp: find_None_iff job_links_def)
qed

lemma wp_applySelection:
  assumes ok: "requests_ok (w_db w)" and r: "find_row serviceRequests_t (sr_id request) (w_db w) = Some request"
    and none: "sel (w_db w) (sr_id request) = None"
    and p: "find_row proposals_t (pr_id proposal) (w_db w) = Some proposal"
    and Q: "\<And>jid iid job intent w'. \<lbrakk>job = selectedJob E u request proposal pid jid;
        intent = depositIntent E u request proposal split jid iid; \<forall>x \<in> set (jobs (w_db w)). jb_id x \<noteq> jid;
        w_db w' = selected_db E request proposal job intent (w_db w)\<rbrakk> \<Longrightarrow>
      Q \<lparr>sl_request = request\<lparr>sr_status := SR_CLOSED, sr_selectedProposalId := Some (pr_id proposal),
           sr_updatedAt := e_now E\<rparr>, sl_selectedProposalId = pr_id proposal, sl_job = job,
         sl_paymentIntent = Some intent, sl_idempotent = False\<rparr> w'"
    and X: "\<And>e w'. w_db w' = w_db w \<Longrightarrow> X e w'"
  shows "wp (transact (applySelection E u request proposal pid split)) Q X w"
  unfolding wp_transact applySelection_def wp_sbind wp_findBy
  by (simp add: no_job_link [OF ok none] wp_sbind wp_closeWithProposal [OF r p] wp_create Let_def wp_sreturn X
      selectedJob_def) (auto intro!: Q simp: selectedJob_def selected_db_def)

subsection \<open>The whole selection\<close>

lemma notified_trans: "d1 = d\<lparr>notifications := n1\<rparr> \<Longrightarrow> d2 = d1\<lparr>notifications := n2\<rparr> \<Longrightarrow> d2 = d\<lparr>notifications := n2\<rparr>"
  for d d1 d2 :: db
  by simp

lemma wp_tellProvider:
  assumes "\<And>w'. w_db w' = (w_db w)\<lparr>notifications := notifications (w_db w')\<rparr> \<Longrightarrow> Q () w'"
    and "\<And>e w'. w_db w' = (w_db w)\<lparr>notifications := notifications (w_db w')\<rparr> \<Longrightarrow> X e w'"
  shows "wp (notifyRejected E u r p) Q X w" "wp (notifySelected E u r p j) Q X w"
proof -
  have X: "w_db w' = w_db w \<Longrightarrow> X e w'" for e w' by (rule assms(2)) simp
  show "wp (notifyRejected E u r p) Q X w" "wp (notifySelected E u r p j) Q X w"
    unfolding notifyRejected_def notifySelected_def wp_sbind wp_sreturn
    by (rule wp_notify; fast intro: assms(1) X)+
qed

lemma wp_notifyRejectedEach:
  assumes "\<And>w'. w_db w' = (w_db w)\<lparr>notifications := notifications (w_db w')\<rparr> \<Longrightarrow> Q () w'"
    and "\<And>e w'. w_db w' = (w_db w)\<lparr>notifications := notifications (w_db w')\<rparr> \<Longrightarrow> X e w'"
  shows "wp (sfor ps (notifyRejected E u r)) Q X w"
  using assms
proof (induction ps arbitrary: w)
  case Nil
  then show ?case by (simp add: wp_sreturn)
next
  case (Cons p ps)
  have step: "wp (sfor ps (notifyRejected E u r)) Q X w1"
    if "w_db w1 = (w_db w)\<lparr>notifications := notifications (w_db w1)\<rparr>" for w1 :: world
  proof (rule Cons.IH)
    fix w' :: world assume "w_db w' = (w_db w1)\<lparr>notifications := notifications (w_db w')\<rparr>"
    then show "Q () w'" by (intro Cons.prems(1) notified_trans [OF that])
  next
    fix e and w' :: world assume "w_db w' = (w_db w1)\<lparr>notifications := notifications (w_db w')\<rparr>"
    then show "X e w'" by (intro Cons.prems(2) notified_trans [OF that])
  qed
  show ?case
    unfolding sfor.simps wp_sbind
    by (rule wp_tellProvider) (fast intro: step Cons.prems(2))+
qed

lemma wp_announce:
  assumes "\<And>w'. w_db w' = (w_db w)\<lparr>notifications := notifications (w_db w')\<rparr> \<Longrightarrow> Q () w'"
    and "\<And>e w'. w_db w' = (w_db w)\<lparr>notifications := notifications (w_db w')\<rparr> \<Longrightarrow> X e w'"
  shows "wp (announceSelection E u r p ps res) Q X w"
proof -
  have each: "wp (sfor ps (notifyRejected E u r)) Q X w1"
    if "w_db w1 = (w_db w)\<lparr>notifications := notifications (w_db w1)\<rparr>" for w1 :: world
  proof (rule wp_notifyRejectedEach)
    fix w' :: world assume "w_db w' = (w_db w1)\<lparr>notifications := notifications (w_db w')\<rparr>"
    then show "Q () w'" by (intro assms(1) notified_trans [OF that])
  next
    fix e and w' :: world assume "w_db w' = (w_db w1)\<lparr>notifications := notifications (w_db w')\<rparr>"
    then show "X e w'" by (intro assms(2) notified_trans [OF that])
  qed
  let ?w = "w\<lparr>w_metrics := w_metrics w @ [BusinessEvent ''jobs''
    (sanitizeLabel ''service_request_proposal_selected'') ''success'']\<rparr>"
  have "wp (notifySelected E u r p (jb_id (sl_job res))) (\<lambda>_. wp (sfor ps (notifyRejected E u r)) Q X) X ?w"
    by (rule wp_tellProvider(2)) (auto intro: each assms(2))
  moreover have "Q () ?w" by (rule assms(1)) simp
  ultimately show ?thesis
    unfolding announceSelection_def wp_sthen wp_audit wp_swhen by simp
qed

text \<open>What the selection checks before its transaction.\<close>

definition can_select :: "env \<Rightarrow> db \<Rightarrow> id \<Rightarrow> id \<Rightarrow> id \<Rightarrow> serviceRequest \<Rightarrow> proposal \<Rightarrow> workerProfile \<Rightarrow> bool" where
  "can_select E d requestId proposalId u request proposal profile \<longleftrightarrow>
     find_row serviceRequests_t requestId d = Some request \<and> sr_customerId request = u \<and> acceptable E request
     \<and> find_row proposals_t proposalId d = Some proposal \<and> pr_requestId proposal = requestId
     \<and> pr_status proposal \<noteq> PR_REJECTED
     \<and> find (\<lambda>p. wp_userId p = pr_providerId proposal) (workerProfiles d) = Some profile
     \<and> wp_isAvailable profile \<and> 0 < pr_price proposal"

lemma wp_selectableProposal: "wp (selectableProposal i k) Q X w = (case find_row proposals_t k (w_db w) of
    None \<Rightarrow> X proposalNotFound w
  | Some p \<Rightarrow> if pr_requestId p \<noteq> i then X proposalNotFound w
      else if pr_status p = PR_REJECTED then X proposalNotSelectable w else Q p w)"
proof -
  have st: "pr_status p \<in> set [PR_SUBMITTED, PR_SELECTED] \<longleftrightarrow> pr_status p \<noteq> PR_REJECTED" for p
    by (cases "pr_status p") simp_all
  then show ?thesis
    unfolding selectableProposal_def st wp_sbind wp_require wp_sthen wp_sguard wp_sreturn
    by (auto split: option.split)
qed

lemma wp_availableProfile: "wp (availableProfile u) Q X w =
    (case find (\<lambda>p. wp_userId p = u) (workerProfiles (w_db w)) of
       None \<Rightarrow> X providerProfileMissing w
     | Some p \<Rightarrow> if wp_isAvailable p then Q p w else X providerUnavailable w)"
  by (simp add: availableProfile_def wp_sbind wp_findBy wp_sopt wp_sthen wp_sguard wp_sreturn split: option.split)

lemma wp_computeDepositSplit: "wp (computeDepositSplit E price percent) Q X w =
    (if 0 < price then Q (deposit_split_of E price percent) w else X depositPriceNotPositive w)"
  by (simp add: computeDepositSplit_def wp_sthen wp_sguard wp_sreturn)

definition selection_of :: "env \<Rightarrow> serviceRequest \<Rightarrow> proposal \<Rightarrow> job \<Rightarrow> paymentIntent \<Rightarrow> selection" where
  "selection_of E request proposal job intent =
     \<lparr>sl_request = request\<lparr>sr_status := SR_CLOSED, sr_selectedProposalId := Some (pr_id proposal),
        sr_updatedAt := e_now E\<rparr>, sl_selectedProposalId = pr_id proposal, sl_job = job,
      sl_paymentIntent = Some intent, sl_idempotent = False\<rparr>"

lemma wp_proceedSelection:
  assumes ok: "requests_ok (w_db w)" and r: "find_row serviceRequests_t (sr_id request) (w_db w) = Some request"
    and opn: "sr_customerId request = u" "acceptable E request"
    and Q: "\<And>proposal profile jid iid job intent w'.
      \<lbrakk>can_select E (w_db w) (sr_id request) k u request proposal profile;
       job = selectedJob E u request proposal (wp_id profile) jid;
       intent = depositIntent E u request proposal (deposit_split_of E (pr_price proposal) percent) jid iid;
       \<forall>x \<in> set (jobs (w_db w)). jb_id x \<noteq> jid;
       w_db w' = (selected_db E request proposal job intent (w_db w))\<lparr>notifications := notifications (w_db w')\<rparr>\<rbrakk>
      \<Longrightarrow> Q (selection_of E request proposal job intent) w' \<and> (\<forall>e. X e w')"
    and X: "\<And>e w'. w_db w' = w_db w \<Longrightarrow> X e w'"
  shows "wp (proceedSelection E request k u percent) Q X w"
proof (cases "find_row proposals_t k (w_db w)")
  case None
  then show ?thesis by (simp add: proceedSelection_def wp_sbind wp_selectableProposal X)
next
  case (Some p)
  have none: "sel (w_db w) (sr_id request) = None" using acceptable_sel [OF ok r opn(2)] .
  have k: "pr_id p = k" using find_row_SomeD [OF Some] by simp
  have "wp (sbind (transact (applySelection E u request p (wp_id profile) (deposit_split_of E (pr_price p) percent)))
      (\<lambda>result. sthen (announceSelection E u request p rs result) (sreturn result))) Q X w"
    if c: "can_select E (w_db w) (sr_id request) k u request p profile" for rs profile
    unfolding wp_sbind
  proof (rule wp_applySelection [OF ok r none])
    show "find_row proposals_t (pr_id p) (w_db w) = Some p" using Some k by simp
  next
    fix jid iid job intent and w1 :: world
    assume a: "job = selectedJob E u request p (wp_id profile) jid"
      "intent = depositIntent E u request p (deposit_split_of E (pr_price p) percent) jid iid"
      "\<forall>x \<in> set (jobs (w_db w)). jb_id x \<noteq> jid"
      and w1: "w_db w1 = selected_db E request p job intent (w_db w)"
    have fin: "w_db w' = (w_db w1)\<lparr>notifications := notifications (w_db w')\<rparr> \<Longrightarrow>
        Q (selection_of E request p job intent) w' \<and> (\<forall>e. X e w')" for w' :: world
      unfolding w1 by (rule Q [OF c a])
    show "wp (sthen (announceSelection E u request p rs \<lparr>sl_request = request\<lparr>sr_status := SR_CLOSED,
          sr_selectedProposalId := Some (pr_id p), sr_updatedAt := e_now E\<rparr>, sl_selectedProposalId = pr_id p,
          sl_job = job, sl_paymentIntent = Some intent, sl_idempotent = False\<rparr>)
        (sreturn \<lparr>sl_request = request\<lparr>sr_status := SR_CLOSED,
          sr_selectedProposalId := Some (pr_id p), sr_updatedAt := e_now E\<rparr>, sl_selectedProposalId = pr_id p,
          sl_job = job, sl_paymentIntent = Some intent, sl_idempotent = False\<rparr>)) Q X w1"
      unfolding wp_sthen wp_sreturn by (rule wp_announce) (use fin in \<open>auto simp: selection_of_def\<close>)
  qed (rule X)
  then show ?thesis
    unfolding proceedSelection_def
    by (auto simp: wp_sbind wp_selectableProposal wp_findMany wp_availableProfile wp_computeDepositSplit Some X
        can_select_def r opn split: option.split)
qed

text \<open>The three ways a call ends: a repeated call returns the job of the first, a first call selects
  (only the notifications after it may still fail), and any other call changes nothing but the
  expiry of the request.\<close>

lemma wp_selectProposal:
  assumes ok: "requests_ok (w_db w)"
    and again: "\<And>request job w'. \<lbrakk>find_row serviceRequests_t i (w_db w) = Some request; sr_customerId request = u;
        sr_selectedProposalId request = Some k; request_job (w_db w) i = Some job; w_db w' = w_db w\<rbrakk> \<Longrightarrow>
      Q \<lparr>sl_request = request, sl_selectedProposalId = k, sl_job = job,
         sl_paymentIntent = first_of (job_intents (w_db w) (jb_id job)), sl_idempotent = True\<rparr> w'"
    and first: "\<And>request proposal profile jid iid job intent w'.
      \<lbrakk>can_select E (w_db w) i k u request proposal profile;
       job = selectedJob E u request proposal (wp_id profile) jid;
       intent = depositIntent E u request proposal (deposit_split_of E (pr_price proposal) percent) jid iid;
       \<forall>x \<in> set (jobs (w_db w)). jb_id x \<noteq> jid;
       w_db w' = (selected_db E request proposal job intent (w_db w))\<lparr>notifications := notifications (w_db w')\<rparr>\<rbrakk>
      \<Longrightarrow> Q (selection_of E request proposal job intent) w' \<and> (\<forall>e. X e w')"
    and X: "\<And>e w'. w_db w' = w_db w \<or> w_db w' = expired_db E [i] (w_db w) \<Longrightarrow> X e w'"
  shows "wp (selectProposal E i k u percent) Q X w"
proof (cases "find_row serviceRequests_t i (w_db w)")
  case None
  then show ?thesis by (simp add: selectProposal_def wp_sbind wp_require X)
next
  case (Some r)
  have id: "sr_id r = i" using find_row_SomeD [OF Some] by simp
  have rok: "request_ok r" using ok Some by (simp add: requests_ok_def)
  let ?job = "map_option (\<lambda>j. (j, first_of (job_intents (w_db w) (jb_id j)))) (request_job (w_db w) i)"
  define rest where "rest status =
    sthen (sguard (truthy (sr_selectedProposalId r) = None \<or> sr_selectedProposalId r = Some k) alreadySelected)
      (case (if sr_selectedProposalId r = Some k then ?job else None) of
         Some (existingJob, intent) \<Rightarrow> sreturn \<lparr>sl_request = r, sl_selectedProposalId = k,
           sl_job = existingJob, sl_paymentIntent = intent, sl_idempotent = True\<rparr>
       | None \<Rightarrow> sthen (sguard (status = SR_OPEN) requestNotOpen) (proceedSelection E r k u percent))" for status
  have main: "sr_customerId r = u \<Longrightarrow> wp (refreshRequestStatusIfExpired E r) (\<lambda>s. wp (rest s) Q X) X w"
  proof (rule wp_refresh)
    assume u: "sr_customerId r = u" and fresh: "\<not> isRequestPastExpiry E r"
    show "wp (rest (sr_status r)) Q X w"
    proof (cases "sr_selectedProposalId r")
      case None
      have "acceptable E r" if "sr_status r = SR_OPEN" using that fresh None by (simp add: acceptable_def)
      then have "sr_status r = SR_OPEN \<Longrightarrow> wp (proceedSelection E r k u percent) Q X w"
        using first Some id X by (intro wp_proceedSelection ok u) simp_all
      then show ?thesis using None by (simp add: rest_def wp_sthen wp_sguard X)
    next
      case sel: (Some k')
      then have "sr_status r \<noteq> SR_OPEN" using rok by (auto simp: request_ok_def)
      then show ?thesis using sel again [OF Some u]
        by (auto simp: rest_def wp_sthen wp_sguard wp_sreturn X split: option.split)
    qed
  next
    fix w' :: world assume u: "sr_customerId r = u" and past: "isRequestPastExpiry E r"
      and w': "w_db w' = expired_db E [sr_id r] (w_db w)"
    then have "sr_selectedProposalId r = None" using rok by (auto simp: request_ok_def isRequestPastExpiry_def)
    then show "wp (rest SR_EXPIRED) Q X w'"
      using w' id by (simp add: rest_def wp_sthen wp_sguard X)
  qed
  show ?thesis
    unfolding selectProposal_def wp_sbind wp_require Some option.case wp_sread wp_sthen [of "sguard (_ = u) _"] wp_sguard
    using main X by (simp flip: rest_def)
qed

lemma requests_ok_intents: "requests_ok (d\<lparr>intents := x\<rparr>) = requests_ok d"
  using requests_ok_frames(8) by (simp add: frames_def)

lemma requests_ok_selected_db:
  assumes "requests_ok d" "can_select E d i k u request proposal profile"
    and "jb_requestId job = Some (sr_id request)" "jb_proposalId job = Some (pr_id proposal)"
  shows "requests_ok (selected_db E request proposal job intent d)"
proof -
  have ids: "sr_id request = i" "pr_id proposal = k"
    using assms(2) find_row_SomeD [of serviceRequests_t i d request] find_row_SomeD [of proposals_t k d proposal]
    by (simp_all add: can_select_def)
  have "sel d i = None"
    using assms(1,2) by (intro acceptable_sel [where E = E and r = request]) (simp_all add: can_select_def)
  then have "requests_ok ((closed_db E request proposal d)\<lparr>jobs := jobs d @ [job]\<rparr>)"
    using assms ids by (intro requests_ok_selection [where i = i and k = k]) (simp_all add: can_select_def)
  then have "requests_ok (((closed_db E request proposal d)\<lparr>jobs := jobs d @ [job]\<rparr>)\<lparr>intents := intents d @ [intent]\<rparr>)"
    by (simp only: requests_ok_intents)
  then show ?thesis by (simp add: selected_db_def)
qed

lemma keeps_requests_select: "keeps requests_ok (selectProposal E i k u percent)"
  unfolding keeps_wp
proof (intro allI impI)
  fix w :: world assume ok: "requests_ok (w_db w)"
  show "wp (selectProposal E i k u percent) (\<lambda>_ w'. requests_ok (w_db w')) (\<lambda>_ w'. requests_ok (w_db w')) w"
  proof (rule wp_selectProposal [OF ok])
    fix request proposal profile jid iid job intent and w' :: world
    assume c: "can_select E (w_db w) i k u request proposal profile"
      and job: "job = selectedJob E u request proposal (wp_id profile) jid"
      and w': "w_db w' = (selected_db E request proposal job intent (w_db w))\<lparr>notifications := notifications (w_db w')\<rparr>"
    have "requests_ok (selected_db E request proposal job intent (w_db w))"
      by (rule requests_ok_selected_db [OF ok c]) (simp_all add: job selectedJob_def)
    then have "requests_ok (w_db w')" by (subst w') (simp only: requests_ok_notifications)
    then show "requests_ok (w_db w') \<and> (\<forall>e. requests_ok (w_db w'))" by simp
  qed (use ok requests_ok_expired in auto)
qed

text \<open>The funds and the jobs through a selection.\<close>

lemma bind_computeDepositSplit: "sbind (computeDepositSplit E price percent) f =
    sthen (sguard (0 < max 0 price) depositPriceNotPositive) (f (deposit_split_of E price percent))"
  by (simp add: computeDepositSplit_def sthen_def sguard_def sbind_def sreturn_def sthrow_def fun_eq_iff)

lemma keeps_close:
  assumes "frames J proposals_t" "frames J serviceRequests_t" "frames J invitations_t"
  shows "keeps J (closeWithProposal E r p)" "keeps J (expireSentInvitations E i)"
  by (simp_all add: closeWithProposal_def expireSentInvitations_def keeps_rules keeps_frame assms)

lemma keeps_announce: "frames J notifications_t \<Longrightarrow> keeps J (announceSelection E u r p ps res)"
  by (simp add: announceSelection_def notifySelected_def notifyRejected_def keeps_rules)

lemma keeps_selectProposal:
  assumes fr: "frames J proposals_t" "frames J serviceRequests_t" "frames J invitations_t" "frames J notifications_t"
    and job: "\<And>r p pid. keeps J (create E jobs_t (selectedJob E u r p pid))"
    and intent: "\<And>r p price j. keeps J (create E intents_t (depositIntent E u r p (deposit_split_of E price percent) j))"
  shows "keeps J (selectProposal E i k u percent)"
proof -
  have "J d \<Longrightarrow> J (expired_db E' ids d)" for E' ids d
    using fr(2,3) by (simp add: frames_def expired_db_def upd_rows_def)
  note ex = keeps_expire [of J, OF this]
  have "keeps J (applySelection E u r p pid (deposit_split_of E price percent))" for r p pid price
    by (simp add: applySelection_def keeps_rules keeps_close fr job intent)
  then have "keeps J (proceedSelection E r k u percent)" for r
    by (simp add: proceedSelection_def bind_computeDepositSplit selectableProposal_def availableProfile_def
        keeps_rules keeps_announce fr)
  then show ?thesis
    by (simp add: selectProposal_def split_beta keeps_rules ex)
qed

lemma keeps_funds_select: "keeps funds_ok (selectProposal E i k u percent)"
proof (rule keeps_selectProposal)
  show "keeps funds_ok (create E intents_t (depositIntent E u r p (deposit_split_of E price percent) j))" for r p price j
    by (rule keeps_create) (simp add: funds_ok_def money_ok_def amounts_ok_def split_ok_depositIntent)
qed (simp_all add: funds_rules keeps_rules keeps_frame)

lemma jobs_ok_frames [keeps_rules]:
  "frames jobs_ok users_t" "frames jobs_ok serviceRequests_t" "frames jobs_ok invitations_t"
  "frames jobs_ok proposals_t" "frames jobs_ok notifications_t" "frames jobs_ok interventions_t"
  "frames jobs_ok reviews_t" "frames jobs_ok intents_t" "frames jobs_ok transactions_t"
  "frames jobs_ok ledger_t" "frames jobs_ok payouts_t" "frames jobs_ok refunds_t" "frames jobs_ok workerProfiles_t"
  "frames jobs_ok incidents_t" "frames jobs_ok incidentEvents_t" "frames jobs_ok paymentEvents_t"
  by (simp_all add: frames_def jobs_ok_def unique_ids_def)

lemma keeps_jobs_select: "keeps jobs_ok (selectProposal E i k u percent)"
proof (rule keeps_selectProposal)
  show "keeps jobs_ok (create E jobs_t (selectedJob E u r p pid))" for r p pid
    by (rule keeps_create) (auto simp: jobs_ok_def job_ok_def selectedJob_def unique_ids_def)
qed (simp_all add: keeps_rules keeps_frame)

end
