(* ===== verification/Bystanders.thy ===== *)
theory Bystanders
  imports Selection
begin

text \<open>
  Which invariants an operation cannot touch, because it writes none of the tables they look at:
  one interface for the charges and their settlement, one for the refunds, the payouts, the
  support cases, the inbox and the requests; \<open>payment_bystander\<close> joins the five on the payment
  side.  The invariants of each component interpret the interfaces of the others.
\<close>

subsection \<open>Invariants that look at no payment table\<close>

locale charge_bystander =
  fixes J :: "db \<Rightarrow> bool"
  assumes new_intent: "keeps J (create E intents_t (newIntent E u job a wu p))"
    and intent_status: "keeps J (update E intents_t i (\<lambda>r. r\<lparr>pi_status := s\<rparr>))"
    and frames_transactions: "frames J transactions_t" and frames_ledger: "frames J ledger_t"
    and frames_paymentEvents: "frames J paymentEvents_t"
    and keeps_contact: "keeps J (update E jobs_t i (\<lambda>r. r\<lparr>jb_contactUnlockedAt := Some (e_now E)\<rparr>))"
begin

lemmas charge_frames = new_intent intent_status frames_transactions frames_ledger frames_paymentEvents keeps_contact

lemma applyGatewayStatus: "keeps J (applyGatewayStatus E input)"
  by (simp add: applyGatewayStatus_def applyToIntent_def settleCharge_def ensureChargeLedgerEntries_def
      keeps_rules keeps_frame keeps_appendEntries_frame charge_frames)

lemmas settlement = keeps_handleWebhook [OF applyGatewayStatus frames_paymentEvents]
  keeps_reconcileTransaction [OF applyGatewayStatus] keeps_reconcilePending [OF applyGatewayStatus]
  keeps_runCycle [OF applyGatewayStatus]

lemma charges: "keeps J (createIntent E u j p)" "keeps J (payIntent E k u dto)"
  by (simp_all add: createIntent_def payableJob_def resolveChargeAmount_def payIntent_def chargeIntent_def
      findIntentOrThrow_def split_beta keeps_rules keeps_frame charge_frames applyGatewayStatus)

end

locale refund_bystander =
  fixes J :: "db \<Rightarrow> bool"
  assumes frames_refunds: "frames J refunds_t" and frames_refund_transactions: "frames J transactions_t"
    and frames_refund_ledger: "frames J ledger_t" and frames_refund_cases: "frames J incidents_t"
    and frames_refund_events: "frames J incidentEvents_t" and frames_refund_notifications: "frames J notifications_t"
begin

lemmas refund_frames = frames_refunds frames_refund_transactions frames_refund_ledger frames_refund_cases
  frames_refund_events frames_refund_notifications

lemma processRefund: "keeps J (processRefundRequest E r u note)"
  by (simp add: processRefundRequest_def settleRefund_def appendRefundLedgerEntries_def Let_def
      keeps_rules keeps_frame keeps_sync_frame keeps_appendEntries_frame refund_frames)

lemma closeRefund: "keeps J (closeRefund E i f d)"
  by (simp add: closeRefund_def keeps_rules keeps_frame keeps_sync_frame refund_frames)

lemma refunds: "keeps J (createJobRefundRequest E j a dto)" "keeps J (cancelRefundRequest E r a)"
    "keeps J (adminApproveRefund E u r n)" "keeps J (adminRejectRefund E u r s n)"
    "keeps J (adminCreateRefund E u k dto)"
  by (simp_all add: createJobRefundRequest_def cancelRefundRequest_def adminApproveRefund_def adminRejectRefund_def
      adminCreateRefund_def Let_def keeps_rules keeps_frame keeps_ensure_frame refund_frames processRefund closeRefund)

end

locale payout_bystander =
  fixes J :: "db \<Rightarrow> bool"
  assumes frames_payouts: "frames J payouts_t" and frames_payout_transactions: "frames J transactions_t"
    and frames_payout_ledger: "frames J ledger_t"
begin

lemma payouts: "keeps J (adminCreatePayout E u pd)" "keeps J (adminApprovePayout E u p)"
    "keeps J (adminProcessPayout E u p dto)" "keeps J (adminReleaseProviderFunds E u j)"
  by (simp_all add: adminCreatePayout_def adminApprovePayout_def adminProcessPayout_def recordPayout_def
      settlePayout_def adminReleaseProviderFunds_def releaseHeld_def keeps_rules keeps_frame
      keeps_appendEntries_frame frames_payouts frames_payout_transactions frames_payout_ledger)

end

locale support_bystander =
  fixes J :: "db \<Rightarrow> bool"
  assumes frames_incidents: "frames J incidents_t" and frames_incidentEvents: "frames J incidentEvents_t"
begin

lemma support: "keeps J (createIncident E u dto)" "keeps J (updateIncident E k u dto')"
  by (simp_all add: createIncident_def updateIncident_def assertRelatedEntitiesExist_def requireRelated_def
      keeps_rules keeps_resolveActorName keeps_frame frames_incidents frames_incidentEvents)

end

locale inbox_bystander =
  fixes J :: "db \<Rightarrow> bool"
  assumes frames_inbox: "frames J notifications_t"
begin

lemma reading: "keeps J (markRead E n u)" "keeps J (markAllRead E u)"
  by (simp_all add: markRead_def markAllRead_def keeps_rules keeps_frame frames_inbox)

end

locale payment_bystander = charge_bystander + refund_bystander + payout_bystander + support_bystander
  + inbox_bystander

subsection \<open>Invariants that look at no request table\<close>

locale request_bystander =
  fixes J :: "db \<Rightarrow> bool"
  assumes frames_requests: "frames J serviceRequests_t" and frames_proposals: "frames J proposals_t"
    and frames_invitations: "frames J invitations_t" and frames_notifications: "frames J notifications_t"
begin

lemmas frames_all = frames_requests frames_proposals frames_invitations frames_notifications

lemma expired: "J d \<Longrightarrow> J (expired_db E ids d)"
  using frames_requests frames_invitations by (simp add: frames_def expired_db_def upd_rows_def)

lemmas expire = keeps_expire [of J, OF expired]

lemma requests: "keeps J (createRequest E u cd)" "keeps J (recreateRequest E u i rc)"
    "keeps J (updateRequest E u i ud)" "keeps J (getMineById E u i)"
    "keeps J (listMineRequests E u q)" "keeps J (listOpenForProvider E u q)" "keeps J (sweepTick E)"
    "keeps J (listMineProposals E u)" "keeps J (listRequestProposals E i a)"
  by (simp_all add: createRequest_def recreateRequest_def updateRequest_def getMineById_def listMineRequests_def
      listOpenForProvider_def sweepTick_def listMineProposals_def listRequestProposals_def
      keeps_rules keeps_frame frames_all expire)

lemma invitations: "keeps J (listRequestInvitations E i u)" "keeps J (createInvitation E i u p)"
    "keeps J (listMineInvitations E u)" "keeps J (declineInvitation E i u)"
  by (simp_all add: listRequestInvitations_def createInvitation_def listMineInvitations_def declineInvitation_def
      expirePendingInvitationsForRequest_def expirePendingInvitationsForProvider_def markOpened_def
      notifyInvited_def notifyDeclined_def keeps_rules keeps_frame frames_all expire)

lemma submit: "keeps J (submitProposal E i u dto)"
  by (simp add: submitProposal_def saveProposal_def markInvitationAccepted_def notifyProposed_def
      keeps_rules keeps_frame frames_all expire)

end

subsection \<open>The status machine of the jobs\<close>

lemma keeps_updateStatus_frame:
  assumes "frames J jobs_t" "frames J notifications_t"
    and "\<And>P. keeps J (updateMany E intents_t P (\<lambda>i. i\<lparr>pi_status := PI_CANCELED\<rparr>))"
  shows "keeps J (updateStatus E j u nxt reason)"
  by (simp add: updateStatus_def statusChecks_def assertExecutionPaymentReady_def writeStatus_def notifyCanceled_def
      Let_def keeps_rules keeps_frame assms)

end
