(* ===== verification/Regexp.thy ===== *)
theory Regexp
  imports Js_Base
begin

text \<open>
  Regular expressions without captures, as \<^verbatim>\<open>RegExp.prototype.test\<close> and \<^verbatim>\<open>match\<close> with the flag
  \<^verbatim>\<open>g\<close> use them: the language of an expression, an executable matcher by derivatives, the search
  for a match anywhere in a string, and the successive leftmost matches.  Backtracking takes the
  greedy alternative first; for the one pattern that \<^verbatim>\<open>match\<close> is called with, an optional sign,
  one digit, a run of one character class and a digit, the greedy match is the longest one.
\<close>

datatype rx =
    Nothing
  | Eps
  | Cls "char \<Rightarrow> bool"
  | Alt rx rx
  | Cat rx rx
  | Rep rx

subsection \<open>Languages\<close>

primrec lang_at :: "string set \<Rightarrow> nat \<Rightarrow> string set" where
  "lang_at L 0 = {[]}"
| "lang_at L (Suc n) = {u @ v | u v. u \<in> L \<and> v \<in> lang_at L n}"

primrec lang :: "rx \<Rightarrow> string set" where
  "lang Nothing = {}"
| "lang Eps = {[]}"
| "lang (Cls P) = {[c] | c. P c}"
| "lang (Alt r s) = lang r \<union> lang s"
| "lang (Cat r s) = {u @ v | u v. u \<in> lang r \<and> v \<in> lang s}"
| "lang (Rep r) = (\<Union>n. lang_at (lang r) n)"

subsection \<open>Matching\<close>

primrec nullable :: "rx \<Rightarrow> bool" where
  "nullable Nothing \<longleftrightarrow> False"
| "nullable Eps \<longleftrightarrow> True"
| "nullable (Cls P) \<longleftrightarrow> False"
| "nullable (Alt r s) \<longleftrightarrow> nullable r \<or> nullable s"
| "nullable (Cat r s) \<longleftrightarrow> nullable r \<and> nullable s"
| "nullable (Rep r) \<longleftrightarrow> True"

fun mk_alt :: "rx \<Rightarrow> rx \<Rightarrow> rx" where
  "mk_alt Nothing s = s"
| "mk_alt r Nothing = r"
| "mk_alt r s = Alt r s"

fun mk_cat :: "rx \<Rightarrow> rx \<Rightarrow> rx" where
  "mk_cat Nothing s = Nothing"
| "mk_cat Eps s = s"
| "mk_cat r s = Cat r s"

primrec deriv :: "char \<Rightarrow> rx \<Rightarrow> rx" where
  "deriv c Nothing = Nothing"
| "deriv c Eps = Nothing"
| "deriv c (Cls P) = (if P c then Eps else Nothing)"
| "deriv c (Alt r s) = mk_alt (deriv c r) (deriv c s)"
| "deriv c (Cat r s) =
     (if nullable r then mk_alt (mk_cat (deriv c r) s) (deriv c s) else mk_cat (deriv c r) s)"
| "deriv c (Rep r) = mk_cat (deriv c r) (Rep r)"

primrec rx_matches :: "rx \<Rightarrow> string \<Rightarrow> bool" where
  "rx_matches r [] \<longleftrightarrow> nullable r"
| "rx_matches r (c # cs) \<longleftrightarrow> rx_matches (deriv c r) cs"

lemma nullable_lang: "nullable r \<longleftrightarrow> [] \<in> lang r"
proof (induction r)
  case (Rep r)
  have "[] \<in> lang_at (lang r) 0" by simp
  then show ?case by (simp only: lang.simps UN_iff UNIV_I bex_UNIV nullable.simps) blast
qed auto

lemma lang_mk_alt [simp]: "lang (mk_alt r s) = lang r \<union> lang s"
  by (induction r s rule: mk_alt.induct) auto

lemma lang_mk_cat [simp]: "lang (mk_cat r s) = {u @ v | u v. u \<in> lang r \<and> v \<in> lang s}"
  by (induction r s rule: mk_cat.induct) auto

lemma lang_at_Cons:
  "c # s \<in> lang_at L n \<Longrightarrow> \<exists>u v m. s = u @ v \<and> c # u \<in> L \<and> v \<in> lang_at L m"
proof (induction n)
  case (Suc n)
  then obtain u v where uv: "c # s = u @ v" "u \<in> L" "v \<in> lang_at L n" by auto
  show ?case
  proof (cases u)
    case Nil
    then show ?thesis using uv Suc.IH by simp
  next
    case (Cons a u')
    then show ?thesis using uv by auto
  qed
qed simp

lemma deriv_lang: "s \<in> lang (deriv c r) \<longleftrightarrow> c # s \<in> lang r"
proof (induction r arbitrary: s)
  case (Cat r t)
  have "c # s \<in> lang (Cat r t) \<longleftrightarrow>
      (\<exists>u v. s = u @ v \<and> c # u \<in> lang r \<and> v \<in> lang t) \<or> ([] \<in> lang r \<and> c # s \<in> lang t)"
    by (auto simp: Cons_eq_append_conv)
  then show ?case using Cat by (auto simp: nullable_lang)
next
  case (Rep r)
  have "c # s \<in> lang (Rep r) \<longleftrightarrow> (\<exists>u v. s = u @ v \<and> c # u \<in> lang r \<and> v \<in> lang (Rep r))" (is "_ = ?R")
  proof
    assume "c # s \<in> lang (Rep r)"
    then show ?R by (auto dest!: lang_at_Cons)
  next
    assume ?R
    then obtain u v n where "s = u @ v" "c # u \<in> lang r" "v \<in> lang_at (lang r) n" by auto
    then have "c # s \<in> lang_at (lang r) (Suc n)" by (auto intro: exI [of _ "c # u"])
    then show "c # s \<in> lang (Rep r)" by (simp only: lang.simps) blast
  qed
  then show ?case using Rep by auto
qed auto

theorem rx_matches_lang: "rx_matches r s \<longleftrightarrow> s \<in> lang r"
  by (induction s arbitrary: r) (simp_all add: nullable_lang deriv_lang)

subsection \<open>Searching\<close>

text \<open>The length of the longest prefix that matches.\<close>

primrec longest :: "rx \<Rightarrow> string \<Rightarrow> nat option" where
  "longest r [] = (if nullable r then Some 0 else None)"
| "longest r (c # cs) =
     (case longest (deriv c r) cs of
        Some n \<Rightarrow> Some (Suc n)
      | None \<Rightarrow> if nullable r then Some 0 else None)"

lemma longest_Some:
  "longest r s = Some n \<Longrightarrow> n \<le> length s \<and> rx_matches r (take n s)
     \<and> (\<forall>m \<le> length s. rx_matches r (take m s) \<longrightarrow> m \<le> n)"
proof (induction s arbitrary: r n)
  case (Cons c cs)
  show ?case
  proof (cases "longest (deriv c r) cs")
    case None
    have no: "\<not> rx_matches (deriv c r) (take m cs)" for m
      using None
    proof (induction cs arbitrary: r c m)
      case (Cons d ds)
      then show ?case by (cases m) (auto split: option.splits if_splits)
    qed (simp split: if_splits)
    have "m = 0" if "rx_matches r (take m (c # cs))" for m
      using that no by (cases m) auto
    then show ?thesis using Cons.prems None by (auto split: if_splits)
  next
    case (Some k)
    then have n: "n = Suc k" using Cons.prems by simp
    have "m \<le> n" if "m \<le> length (c # cs)" "rx_matches r (take m (c # cs))" for m
      using that Cons.IH [OF Some] n by (cases m) auto
    then show ?thesis using Cons.IH [OF Some] n by simp
  qed
qed (simp split: if_splits)

lemma longest_None: "longest r s = None \<Longrightarrow> \<not> rx_matches r (take m s)"
proof (induction s arbitrary: r m)
  case (Cons c cs)
  then show ?case by (cases m) (auto split: option.splits if_splits)
qed (simp split: if_splits)

text \<open>\<^verbatim>\<open>r.test(s)\<close>.\<close>

definition rx_test :: "rx \<Rightarrow> string \<Rightarrow> bool" where
  "rx_test r s = list_ex (\<lambda>i. longest r (drop i s) \<noteq> None) [0..<Suc (length s)]"

text \<open>\<^verbatim>\<open>s.match(r)\<close> for a global pattern that does not match the empty string.\<close>

function match_all :: "rx \<Rightarrow> string \<Rightarrow> string list" where
  "match_all r [] = []"
| "match_all r (c # cs) =
     (case longest r (c # cs) of
        Some (Suc n) \<Rightarrow> take (Suc n) (c # cs) # match_all r (drop n cs)
      | _ \<Rightarrow> match_all r cs)"
  by pat_completeness auto

termination by (relation "measure (\<lambda>(r, s). length s)") auto

lemma rx_test_iff: "rx_test r s \<longleftrightarrow> (\<exists>u v x. s = u @ v @ x \<and> v \<in> lang r)"
proof
  assume "rx_test r s"
  then obtain i n where "longest r (drop i s) = Some n"
    unfolding rx_test_def list_ex_iff by blast
  then have "take n (drop i s) \<in> lang r" using longest_Some rx_matches_lang by blast
  moreover have "s = take i s @ take n (drop i s) @ drop n (drop i s)"
    by (simp only: append_take_drop_id)
  ultimately show "\<exists>u v x. s = u @ v @ x \<and> v \<in> lang r" by blast
next
  assume "\<exists>u v x. s = u @ v @ x \<and> v \<in> lang r"
  then obtain u v x where s: "s = u @ v @ x" "v \<in> lang r" by blast
  then have "rx_matches r (take (length v) (drop (length u) s))" by (simp add: rx_matches_lang)
  then have "longest r (drop (length u) s) \<noteq> None" using longest_None by blast
  then show "rx_test r s" using s unfolding rx_test_def list_ex_iff
    by (intro bexI [of _ "length u"]) auto
qed

subsection \<open>Building expressions\<close>

definition lit :: "(char \<Rightarrow> char \<Rightarrow> bool) \<Rightarrow> string \<Rightarrow> rx" where
  "lit eq w = foldr (\<lambda>c. Cat (Cls (eq c))) w Eps"

primrec times_rx :: "nat \<Rightarrow> rx \<Rightarrow> rx" where
  "times_rx 0 r = Eps"
| "times_rx (Suc n) r = Cat r (times_rx n r)"

text \<open>\<^verbatim>\<open>r{n,}\<close> and \<^verbatim>\<open>r?\<close>.\<close>

definition at_least :: "nat \<Rightarrow> rx \<Rightarrow> rx" where
  "at_least n r = Cat (times_rx n r) (Rep r)"

definition maybe_rx :: "rx \<Rightarrow> rx" where
  "maybe_rx r = Alt r Eps"

lemma class_Cat: "s \<in> {u @ v | u v. u \<in> {[c] | c. P c} \<and> v \<in> L} \<longleftrightarrow> (\<exists>c v. s = c # v \<and> P c \<and> v \<in> L)"
proof
  assume "\<exists>c v. s = c # v \<and> P c \<and> v \<in> L"
  then obtain c v where "s = [c] @ v" "P c" "v \<in> L" by auto
  then show "s \<in> {u @ v | u v. u \<in> {[c] | c. P c} \<and> v \<in> L}" by blast
qed auto

lemma lang_at_class: "s \<in> lang_at {[c] | c. P c} n \<longleftrightarrow> length s = n \<and> list_all P s"
proof (induction n arbitrary: s)
  case (Suc n)
  show ?case unfolding lang_at.simps by (subst class_Cat) (cases s; auto simp: Suc)
qed auto

lemma lang_rep_class: "s \<in> lang (Rep (Cls P)) \<longleftrightarrow> list_all P s"
  by (simp only: lang.simps UN_iff lang_at_class) simp

lemma lang_times_class: "s \<in> lang (times_rx n (Cls P)) \<longleftrightarrow> length s = n \<and> list_all P s"
proof (induction n arbitrary: s)
  case (Suc n)
  show ?case unfolding times_rx.simps lang.simps by (subst class_Cat) (cases s; auto simp: Suc)
qed auto

lemma lang_at_least_class: "s \<in> lang (at_least n (Cls P)) \<longleftrightarrow> n \<le> length s \<and> list_all P s"
proof
  assume "s \<in> lang (at_least n (Cls P))"
  then obtain u v where "s = u @ v" "u \<in> lang (times_rx n (Cls P))" "v \<in> lang (Rep (Cls P))"
    by (auto simp: at_least_def simp del: lang.simps(6))
  then show "n \<le> length s \<and> list_all P s" unfolding lang_times_class lang_rep_class by auto
next
  assume s: "n \<le> length s \<and> list_all P s"
  have "take n s \<in> lang (times_rx n (Cls P))" "drop n s \<in> lang (Rep (Cls P))"
    using s unfolding lang_times_class lang_rep_class by (auto simp: list_all_iff dest: in_set_takeD in_set_dropD)
  then have "take n s @ drop n s \<in> lang (at_least n (Cls P))"
    unfolding at_least_def lang.simps(5) by blast
  then show "s \<in> lang (at_least n (Cls P))" by simp
qed

end
