(* ===== verification/TrustSafety.thy ===== *)
theory TrustSafety
  imports Refunds Regexp
begin

text \<open>
  \<^verbatim>\<open>trust-safety/trust-safety.service.ts\<close>: the screening of chat messages for shared contacts,
  the escalation from a warning to a temporary block, appeals and the review by an
  administrator.
\<close>

subsection \<open>Screening a message\<close>

text \<open>
  The flag \<^verbatim>\<open>i\<close> compares letters up to case; the classes below hold ASCII letters only, and
  no other Latin-1 letter folds to one of them.
\<close>

definition fold_eq :: "char \<Rightarrow> char \<Rightarrow> bool" where
  "fold_eq a b \<longleftrightarrow> low_char a = low_char b"

definition is_ascii_letter :: "char \<Rightarrow> bool" where
  "is_ascii_letter c \<longleftrightarrow> (let n = of_char c :: nat in 97 \<le> n \<and> n \<le> 122 \<or> 65 \<le> n \<and> n \<le> 90)"

definition is_word :: "char \<Rightarrow> bool" where
  "is_word c \<longleftrightarrow> is_ascii_letter c \<or> is_digit c \<or> c = CHR ''_''"

definition emailRegex :: rx where
  "emailRegex =
     Cat (at_least 1 (Cls (\<lambda>c. is_ascii_letter c \<or> is_digit c \<or> c \<in> set ''._%+-'')))
    (Cat (Cls (\<lambda>c. c = CHR ''@''))
    (Cat (at_least 1 (Cls (\<lambda>c. is_ascii_letter c \<or> is_digit c \<or> c \<in> set ''.-'')))
    (Cat (Cls (\<lambda>c. c = CHR ''.''))
         (at_least 2 (Cls is_ascii_letter)))))"

definition urlRegex :: rx where
  "urlRegex =
     Alt (Cat (lit fold_eq ''http'') (Cat (maybe_rx (lit fold_eq ''s'')) (lit fold_eq ''://'')))
    (Alt (lit fold_eq ''www.'')
    (Alt (lit fold_eq ''wa.me/'')
    (Alt (lit fold_eq ''t.me/'') (lit fold_eq ''bit.ly/''))))"

definition phone_char :: "char \<Rightarrow> bool" where
  "phone_char c \<longleftrightarrow> is_digit c \<or> js_ws c \<or> c \<in> set ''().-''"

definition phoneRegex :: rx where
  "phoneRegex =
     Cat (maybe_rx (Cls (\<lambda>c. c = CHR ''+'')))
    (Cat (Cls is_digit)
    (Cat (at_least 6 (Cls phone_char)) (Cls is_digit)))"

definition contact_keywords :: "string list" where
  "contact_keywords =
     [''whatsapp'', ''whats'', ''telegram'', ''telemovel'', ''telefone'', ''numero'', ''n'' @ [CHR 0xFA] @ ''mero'',
      ''email'', ''gmail'', ''hotmail'', ''liga'', ''liga-me'', ''contacta'', ''contacto'', ''call'', ''dm'',
      ''instagram'', ''facebook'', ''inbox'']"

text \<open>\<^verbatim>\<open>\b(a|b|...)\b\<close> with the flag \<^verbatim>\<open>i\<close>: some word stands between two word boundaries.\<close>

definition boundary :: "string \<Rightarrow> nat \<Rightarrow> bool" where
  "boundary s i \<longleftrightarrow> (0 < i \<and> i \<le> length s \<and> is_word (s ! (i - 1))) \<noteq> (i < length s \<and> is_word (s ! i))"

definition keyword_test :: "string list \<Rightarrow> string \<Rightarrow> bool" where
  "keyword_test ks s = list_ex (\<lambda>i. list_ex (\<lambda>k.
     list_all2 fold_eq (take (length k) (drop i s)) k \<and> boundary s i \<and> boundary s (i + length k)) ks) [0..<Suc (length s)]"

definition hasPhoneLike :: "string \<Rightarrow> bool" where
  "hasPhoneLike s = list_ex (\<lambda>m. 8 \<le> length (filter is_digit m)) (match_all phoneRegex s)"

definition contact_signals :: "string \<Rightarrow> string list" where
  "contact_signals trimmed =
     (if rx_test emailRegex trimmed then [''email''] else [])
     @ (if rx_test urlRegex trimmed then [''external_link''] else [])
     @ (if hasPhoneLike trimmed then [''phone''] else [])
     @ (if keyword_test contact_keywords (js_lower trimmed) then [''external_contact_keyword''] else [])"

record detection =
  dn_riskLevel :: riskLevel
  dn_signals :: "string list"
  dn_reasonSummary :: string
  dn_messagePreview :: string

definition js_trimEnd :: "string \<Rightarrow> string" where
  "js_trimEnd s = rev (dropWhile js_ws (rev s))"

definition detectContactSharing :: "string \<Rightarrow> detection option" where
  "detectContactSharing content =
     (let trimmed = js_trim content; signals = contact_signals trimmed in
      if signals = [] then None
      else (let risk = (if ''phone'' \<in> set signals \<or> ''email'' \<in> set signals \<or> ''external_link'' \<in> set signals
                 then RL_HIGH else RL_LOW) in
        Some \<lparr>dn_riskLevel = risk, dn_signals = signals,
          dn_reasonSummary = (if risk = RL_HIGH then ''Tentativa de partilha direta de contacto antes do pagamento.''
            else ''Mensagem sugere desvio para contacto externo antes do pagamento.''),
          dn_messagePreview = (if 180 < length trimmed then js_trimEnd (take 177 trimmed) @ ''...'' else trimmed)\<rparr>))"

subsection \<open>What the callers see\<close>

record interventionDto =
  td_row :: trustSafetyIntervention
  td_isBlocking :: bool

definition blocking_status :: "interventionStatus \<Rightarrow> bool" where
  "blocking_status s \<longleftrightarrow> s \<in> set [TI_OPEN, TI_APPEALED, TI_ENFORCED]"

definition toInterventionDto :: "env \<Rightarrow> trustSafetyIntervention \<Rightarrow> interventionDto" where
  "toInterventionDto E item =
     \<lparr>td_row = item\<lparr>ti_reviewedByUserId := None, ti_metadata := None\<rparr>,
      td_isBlocking = (ti_action item = IA_TEMP_BLOCK \<and> blocking_status (ti_status item)
        \<and> (case ti_blockedUntil item of None \<Rightarrow> False | Some t \<Rightarrow> e_now E < t))\<rparr>"

datatype actorRole = Role_customer | Role_provider

record evaluateInput =
  ev_jobId :: id
  ev_requestId :: "id option"
  ev_actorUserId :: id
  ev_counterpartUserId :: id
  ev_actorRole :: actorRole
  ev_contactUnlocked :: bool
  ev_content :: string

datatype guidanceKind = Guide_warning | Guide_blocked

record guidance =
  gd_title :: string
  gd_description :: string
  gd_ctaHref :: string
  gd_ctaLabel :: string
  gd_appealAllowed :: bool

definition buildGuidance :: "env \<Rightarrow> guidanceKind \<Rightarrow> evaluateInput \<Rightarrow> time option \<Rightarrow> guidance" where
  "buildGuidance E kind input until =
     (let isCustomer = (ev_actorRole input = Role_customer) in
      \<lparr>gd_title = (if kind = Guide_warning then ''Partilha de contacto ainda nao esta protegida''
         else ''Mensagens temporariamente restringidas''),
       gd_description = (if kind = Guide_warning
         then ''Antes do sinal ser confirmado, o Tchuno protege o contacto e a cobertura de suporte. Edita a mensagem ou avanca pelo fluxo protegido.''
         else ''Detet'' @ [CHR 0xE1] @ ''mos repetidas tentativas de partilha de contacto antes do pagamento. O chat fica temporariamente restringido''
           @ (case until of None \<Rightarrow> '''' | Some t \<Rightarrow> '' ate '' @ e_localeString E t) @ ''.''),
       gd_ctaHref = (if isCustomer then
           (case truthy (ev_requestId input) of Some r \<Rightarrow> ''/app/pedidos/'' @ r | None \<Rightarrow> ''/app/pagamentos'')
         else ''/pro/mensagens''),
       gd_ctaLabel = (if isCustomer then ''Ver pedido e pagar sinal'' else ''Continuar no chat protegido''),
       gd_appealAllowed = (kind = Guide_blocked)\<rparr>)"

datatype moderation =
    Clear
  | Warned interventionDto guidance
  | Blocked interventionDto guidance

record conversationState =
  cst_activeIntervention :: "interventionDto option"
  cst_recentInterventions :: "interventionDto list"

definition getConversationState :: "env \<Rightarrow> id \<Rightarrow> id \<Rightarrow> conversationState svc" where
  "getConversationState E jobId userId =
     sbind (findMany interventions_t (\<lambda>t. ti_jobId t = jobId \<and> ti_actorUserId t = userId)) (\<lambda>rows.
     (let items = take 5 (sort_desc ti_order rows) in
      sreturn \<lparr>cst_activeIntervention = map_option (toInterventionDto E)
          (find (\<lambda>t. blocking_status (ti_status t) \<and> ti_action t = IA_TEMP_BLOCK) items),
        cst_recentInterventions = map (toInterventionDto E) items\<rparr>))"

subsection \<open>Screening an attempt\<close>

abbreviation hour_ms :: int where "hour_ms \<equiv> 3600000"

definition restricts :: "time \<Rightarrow> id \<Rightarrow> id \<Rightarrow> trustSafetyIntervention \<Rightarrow> bool" where
  "restricts now jobId userId t \<longleftrightarrow> ti_jobId t = jobId \<and> ti_actorUserId t = userId \<and> ti_action t = IA_TEMP_BLOCK
     \<and> blocking_status (ti_status t) \<and> (case ti_blockedUntil t of None \<Rightarrow> False | Some u \<Rightarrow> now < u)"

definition warningRow :: "env \<Rightarrow> evaluateInput \<Rightarrow> detection \<Rightarrow> id \<Rightarrow> trustSafetyIntervention" where
  "warningRow E input d i =
     \<lparr>ti_id = i, ti_jobId = ev_jobId input, ti_actorUserId = ev_actorUserId input,
      ti_counterpartUserId = ev_counterpartUserId input, ti_riskLevel = dn_riskLevel d, ti_action = IA_WARNING,
      ti_status = TI_LOGGED, ti_reasonSummary = dn_reasonSummary d, ti_messagePreview = dn_messagePreview d,
      ti_blockedUntil = None, ti_appealRequestedAt = None, ti_appealReason = None, ti_reviewedByUserId = None,
      ti_reviewedAt = None, ti_resolutionNote = None,
      ti_metadata = Some (JObj [(''signals'', JArr (map JStr (dn_signals d)))]),
      ti_createdAt = e_now E, ti_updatedAt = e_now E\<rparr>"

definition severe :: "nat \<Rightarrow> detection \<Rightarrow> bool" where
  "severe previousAttempts d \<longleftrightarrow> 2 \<le> previousAttempts \<or> dn_riskLevel d = RL_HIGH"

definition block_end :: "env \<Rightarrow> nat \<Rightarrow> detection \<Rightarrow> time" where
  "block_end E previousAttempts d = e_now E + (if severe previousAttempts d then 4 * hour_ms else 30 * 60 * 1000)"

definition blockRow :: "env \<Rightarrow> evaluateInput \<Rightarrow> detection \<Rightarrow> nat \<Rightarrow> id \<Rightarrow> trustSafetyIntervention" where
  "blockRow E input d previousAttempts i =
     (warningRow E input d i)\<lparr>ti_riskLevel := (if severe previousAttempts d then RL_HIGH else RL_MEDIUM),
       ti_action := IA_TEMP_BLOCK, ti_status := TI_OPEN, ti_blockedUntil := Some (block_end E previousAttempts d),
       ti_metadata := Some (JObj [(''signals'', JArr (map JStr (dn_signals d))),
         (''previousAttempts'', JNum (show_nat previousAttempts))])\<rparr>"

definition recent_attempt :: "time \<Rightarrow> id \<Rightarrow> id \<Rightarrow> trustSafetyIntervention \<Rightarrow> bool" where
  "recent_attempt now jobId userId t \<longleftrightarrow>
     ti_jobId t = jobId \<and> ti_actorUserId t = userId \<and> now - 24 * hour_ms \<le> ti_createdAt t"

definition evaluateMessageAttempt :: "env \<Rightarrow> evaluateInput \<Rightarrow> moderation svc" where
  "evaluateMessageAttempt E input =
     (if ev_contactUnlocked input then sreturn Clear
      else sbind (findFirstDesc interventions_t (\<lambda>t. (or_else (ti_blockedUntil t) 0, ti_createdAt t, ti_id t))
          (restricts (e_now E) (ev_jobId input) (ev_actorUserId input))) (\<lambda>active.
        case active of
          Some r \<Rightarrow> sreturn (Blocked (toInterventionDto E r) (buildGuidance E Guide_blocked input (ti_blockedUntil r)))
        | None \<Rightarrow>
          (case detectContactSharing (ev_content input) of
             None \<Rightarrow> sreturn Clear
           | Some d \<Rightarrow>
             sbind (countRows interventions_t (recent_attempt (e_now E) (ev_jobId input) (ev_actorUserId input)))
               (\<lambda>previousAttempts.
             if previousAttempts = 0 then
               sbind (create E interventions_t (warningRow E input d)) (\<lambda>warning.
               sreturn (Warned (toInterventionDto E warning) (buildGuidance E Guide_warning input None)))
             else
               sbind (create E interventions_t (blockRow E input d previousAttempts)) (\<lambda>blocked.
               sreturn (Blocked (toInterventionDto E blocked)
                 (buildGuidance E Guide_blocked input (Some (block_end E previousAttempts d)))))))))"

subsection \<open>Appeals and reviews\<close>

abbreviation interventionMissing :: exn where
  "interventionMissing \<equiv> NotFoundException ''Trust & Safety intervention not found''"
abbreviation appealForbidden :: exn where
  "appealForbidden \<equiv> ForbiddenException ''You are not allowed to appeal this intervention''"
abbreviation notAppealable :: exn where
  "notAppealable \<equiv> ConflictException ''This intervention cannot be appealed''"
abbreviation notReviewable :: exn where
  "notReviewable \<equiv> ConflictException ''This intervention is no longer reviewable''"

definition appeal_data :: "env \<Rightarrow> string \<Rightarrow> trustSafetyIntervention \<Rightarrow> trustSafetyIntervention" where
  "appeal_data E reason r =
     r\<lparr>ti_status := TI_APPEALED, ti_appealRequestedAt := Some (e_now E), ti_appealReason := Some (js_trim reason)\<rparr>"

definition appealIntervention :: "env \<Rightarrow> id \<Rightarrow> id \<Rightarrow> string \<Rightarrow> interventionDto svc" where
  "appealIntervention E interventionId userId reason =
     sbind (require interventions_t interventionId interventionMissing) (\<lambda>t.
     sthen (sguard (ti_actorUserId t = userId) appealForbidden)
     (sthen (sguard (ti_status t \<in> set [TI_OPEN, TI_ENFORCED]) notAppealable)
     (sbind (update E interventions_t (ti_id t) (appeal_data E reason)) (\<lambda>updated.
     sreturn (toInterventionDto E updated)))))"

record interventionAdminDto =
  tad_dto :: interventionDto
  tad_job :: "(id \<times> id option \<times> string \<times> jobStatus) option"
  tad_actorUser :: "(id \<times> string option \<times> string) option"
  tad_counterpartUser :: "(id \<times> string option \<times> string) option"
  tad_reviewedByUser :: "(id \<times> string option \<times> string) option"

definition user_card :: "db \<Rightarrow> id option \<Rightarrow> (id \<times> string option \<times> string) option" where
  "user_card d i = map_option (\<lambda>u. (us_id u, us_name u, us_email u)) (find_user d i)"

definition toAdminDto :: "env \<Rightarrow> db \<Rightarrow> trustSafetyIntervention \<Rightarrow> interventionAdminDto" where
  "toAdminDto E d item =
     \<lparr>tad_dto = toInterventionDto E item,
      tad_job = map_option (\<lambda>j. (jb_id j, jb_requestId j, jb_title j, jb_status j)) (find_row jobs_t (ti_jobId item) d),
      tad_actorUser = user_card d (Some (ti_actorUserId item)),
      tad_counterpartUser = user_card d (Some (ti_counterpartUserId item)),
      tad_reviewedByUser = user_card d (ti_reviewedByUserId item)\<rparr>"

definition interventionStatus_of :: "string \<Rightarrow> interventionStatus option" where
  "interventionStatus_of s = map_of [(''LOGGED'', TI_LOGGED), (''OPEN'', TI_OPEN), (''APPEALED'', TI_APPEALED),
     (''CLEARED'', TI_CLEARED), (''ENFORCED'', TI_ENFORCED)] s"

record interventionSummary =
  isu_openCount :: nat
  isu_appealedCount :: nat
  isu_highRiskCount :: nat

text \<open>A status that is not in the enum is refused by the database client.\<close>

definition adminListInterventions ::
    "env \<Rightarrow> pageInput \<Rightarrow> string option \<Rightarrow> (interventionAdminDto paginated \<times> interventionSummary) svc" where
  "adminListInterventions E query status =
     sbind (case truthy status of
         None \<Rightarrow> sreturn (\<lambda>t. ti_status t \<noteq> TI_LOGGED)
       | Some s \<Rightarrow> sbind (sopt (interventionStatus_of s) (PrismaError ''validation'')) (\<lambda>v. sreturn (\<lambda>t. ti_status t = v)))
     (\<lambda>wh.
     sbind (countRows interventions_t (\<lambda>t. ti_status t = TI_OPEN)) (\<lambda>openCount.
     sbind (countRows interventions_t (\<lambda>t. ti_status t = TI_APPEALED)) (\<lambda>appealedCount.
     sbind (countRows interventions_t (\<lambda>t. ti_riskLevel t = RL_HIGH \<and> blocking_status (ti_status t))) (\<lambda>highRiskCount.
     sread (\<lambda>d. (page_of query (map (toAdminDto E d) (sort_desc ti_order (filter wh (interventions d)))),
       \<lparr>isu_openCount = openCount, isu_appealedCount = appealedCount, isu_highRiskCount = highRiskCount\<rparr>))))))"

datatype decision = Decide_CLEARED | Decide_ENFORCED

definition decided_status :: "decision \<Rightarrow> interventionStatus" where
  "decided_status dec = (if dec = Decide_CLEARED then TI_CLEARED else TI_ENFORCED)"

definition review_data ::
    "env \<Rightarrow> id \<Rightarrow> decision \<Rightarrow> string option \<Rightarrow> trustSafetyIntervention \<Rightarrow> trustSafetyIntervention \<Rightarrow> trustSafetyIntervention" where
  "review_data E reviewerUserId dec note old r =
     r\<lparr>ti_status := decided_status dec, ti_reviewedByUserId := Some reviewerUserId, ti_reviewedAt := Some (e_now E),
       ti_resolutionNote := trim_or_null note,
       ti_blockedUntil := Some (if dec = Decide_CLEARED then e_now E
         else case ti_blockedUntil old of
             Some u \<Rightarrow> if e_now E < u then u else e_now E + 24 * hour_ms
           | None \<Rightarrow> e_now E + 24 * hour_ms)\<rparr>"

definition buildConversationHref :: "job \<Rightarrow> trustSafetyIntervention \<Rightarrow> string" where
  "buildConversationHref job item =
     (let isCustomer = (ti_actorUserId item = jb_clientId job \<or> Some (ti_actorUserId item) = jb_customerId job) in
      case (if isCustomer then truthy (jb_requestId job) else None) of
        Some r \<Rightarrow> ''/app/pedidos/'' @ r
      | None \<Rightarrow> (if isCustomer then ''/app/mensagens?job='' else ''/pro/mensagens?job='') @ ti_jobId item)"

definition status_label :: "interventionStatus \<Rightarrow> string" where
  "status_label s = (case s of TI_LOGGED \<Rightarrow> ''LOGGED'' | TI_OPEN \<Rightarrow> ''OPEN'' | TI_APPEALED \<Rightarrow> ''APPEALED''
     | TI_CLEARED \<Rightarrow> ''CLEARED'' | TI_ENFORCED \<Rightarrow> ''ENFORCED'')"

definition notifyReviewed :: "env \<Rightarrow> id \<Rightarrow> decision \<Rightarrow> string option \<Rightarrow> job \<Rightarrow> trustSafetyIntervention \<Rightarrow> unit svc" where
  "notifyReviewed E reviewerUserId dec note job t =
     sbind (notify E \<lparr>ni_userId = ti_actorUserId t, ni_actorUserId = Some reviewerUserId,
       ni_kind = NK_TRUST_SAFETY_UPDATE,
       ni_tone = Some (if dec = Decide_CLEARED then NT_SUCCESS else NT_ATTENTION),
       ni_title = ''Restri'' @ [CHR 0xE7, CHR 0xE3] @ ''o de mensagens '' @ (if dec = Decide_CLEARED then ''revista'' else ''confirmada''),
       ni_description = or_else (trim_or_null note) (if dec = Decide_CLEARED
         then ''A equipa revogou a restri'' @ [CHR 0xE7, CHR 0xE3] @ ''o e podes voltar a usar o chat normalmente.''
         else ''A equipa confirmou a interven'' @ [CHR 0xE7, CHR 0xE3]
           @ ''o por tentativa de partilha de contacto fora do fluxo protegido.''),
       ni_href = buildConversationHref job t, ni_hrefLabel = Some ''Abrir conversa'',
       ni_metadata = Some (JObj [(''jobId'', JStr (ti_jobId t)), (''interventionId'', JStr (ti_id t)),
         (''status'', JStr (status_label (ti_status t)))])\<rparr>) (\<lambda>_. sreturn ())"

definition reviewIntervention :: "env \<Rightarrow> id \<Rightarrow> id \<Rightarrow> decision \<Rightarrow> string option \<Rightarrow> interventionAdminDto svc" where
  "reviewIntervention E interventionId reviewerUserId dec note =
     sbind (require interventions_t interventionId interventionMissing) (\<lambda>t.
     sthen (sguard (blocking_status (ti_status t)) notReviewable)
     (sbind (update E interventions_t (ti_id t) (review_data E reviewerUserId dec note t)) (\<lambda>updated.
     sbind (findUniqueOrThrow jobs_t (ti_jobId updated)) (\<lambda>job.
     sthen (notifyReviewed E reviewerUserId dec note job updated)
     (sread (\<lambda>d. toAdminDto E d updated))))))"

subsection \<open>Digits are found\<close>

lemma digit_phone: "is_digit c \<Longrightarrow> phone_char c"
  by (simp add: phone_char_def)

lemma digits_phone: "list_all is_digit ds \<Longrightarrow> list_all phone_char ds"
  by (simp add: list_all_iff digit_phone)

lemma phone_tail:
  "v \<in> lang (Cat (at_least 6 (Cls phone_char)) (Cls is_digit)) \<longleftrightarrow>
     v \<noteq> [] \<and> 7 \<le> length v \<and> list_all phone_char v \<and> is_digit (last v)"
proof -
  have "v \<in> lang (Cat (at_least 6 (Cls phone_char)) (Cls is_digit)) \<longleftrightarrow>
      (\<exists>a d. v = a @ [d] \<and> a \<in> lang (at_least 6 (Cls phone_char)) \<and> is_digit d)"
    by auto
  then show ?thesis unfolding lang_at_least_class
    by (cases v rule: rev_cases) (auto simp: digit_phone)
qed

lemma phone_lang:
  "s \<in> lang phoneRegex \<longleftrightarrow> (\<exists>p d v. s = p @ d # v \<and> p \<in> {[], ''+''} \<and> is_digit d
     \<and> v \<noteq> [] \<and> 7 \<le> length v \<and> list_all phone_char v \<and> is_digit (last v))"
proof -
  have "s \<in> lang phoneRegex \<longleftrightarrow> (\<exists>p d v. s = p @ d # v \<and> p \<in> {[], ''+''} \<and> is_digit d
      \<and> v \<in> lang (Cat (at_least 6 (Cls phone_char)) (Cls is_digit)))"
    unfolding phoneRegex_def maybe_rx_def lang.simps(5) [of "Alt _ _"] lang.simps(5) [of "Cls is_digit"]
    by (auto simp del: lang.simps(5)) (metis append_Cons append_Nil)+
  then show ?thesis by (simp only: phone_tail)
qed

lemma digits_match:
  assumes "list_all is_digit ds" "8 \<le> length ds"
  shows "ds \<in> lang phoneRegex"
proof -
  obtain d v where ds: "ds = d # v" using assms(2) by (cases ds) auto
  then have v: "v \<noteq> []" "7 \<le> length v" using assms(2) by auto
  then have "is_digit (last v)" using assms(1) ds by (auto simp: list_all_iff)
  then show ?thesis
    using assms(1) ds v digits_phone unfolding phone_lang
    by (intro exI [of _ "[]"] exI [of _ d] exI [of _ v]) simp
qed

lemma match_extends:
  assumes "s \<in> lang phoneRegex" "list_all is_digit ds"
  shows "s @ ds \<in> lang phoneRegex"
proof (cases "ds = []")
  case False
  obtain p d v where s: "s = p @ d # v" "p \<in> {[], ''+''}" "is_digit d" "v \<noteq> []" "7 \<le> length v"
      "list_all phone_char v" "is_digit (last v)"
    using assms(1) unfolding phone_lang by blast
  have "is_digit (last (v @ ds))" using False assms(2) by (auto simp: list_all_iff)
  then show ?thesis
    using s assms(2) digits_phone unfolding phone_lang
    by (intro exI [of _ p] exI [of _ d] exI [of _ "v @ ds"]) simp
qed (use assms in simp)

lemma phone_found:
  assumes "list_all is_digit ds" "8 \<le> length ds" "s = pre @ ds @ post"
  shows "\<exists>m \<in> set (match_all phoneRegex s). 8 \<le> length (filter is_digit m)"
  using assms(3)
proof (induction phoneRegex s arbitrary: pre rule: match_all.induct)
  case 1
  then show ?case using assms(2) by simp
next
  case (2 c cs)
  let ?s = "c # cs" and ?k = "length pre + length ds"
  note parts = "2.prems"
  show ?case
  proof (cases "longest phoneRegex ?s")
    case None
    have "pre \<noteq> []"
    proof
      assume "pre = []"
      then have "take (length ds) ?s = ds" unfolding parts by simp
      then show False using longest_None [OF None, of "length ds"] digits_match [OF assms(1,2)]
        by (simp add: rx_matches_lang)
    qed
    then obtain pre' where "cs = pre' @ ds @ post" using parts by (cases pre) auto
    then show ?thesis using None "2.hyps" by simp
  next
    case (Some n)
    note max = longest_Some [OF Some]
    have "n \<noteq> 0"
    proof
      assume "n = 0"
      then have "[] \<in> lang phoneRegex" using max by (simp add: rx_matches_lang)
      then show False unfolding phone_lang by simp
    qed
    then obtain k where n: "n = Suc k" by (cases n) auto
    show ?thesis
    proof (cases "n \<le> length pre")
      case True
      then have "drop k cs = drop n pre @ ds @ post"
        using parts n by (metis drop_Suc_Cons drop_append diff_is_0_eq drop0)
      then show ?thesis using "2.hyps"(3) [OF Some n, of "drop n pre"] Some n by auto
    next
      case False
      have "?k \<le> n"
      proof (rule ccontr)
        assume "\<not> ?k \<le> n"
        then have nk: "n < ?k" by simp
        have "take ?k ?s = take n ?s @ drop (n - length pre) ds"
          using nk False append_take_drop_id [of "n - length pre" ds] unfolding parts by simp
        moreover have "list_all is_digit (drop (n - length pre) ds)"
          using assms(1) by (auto simp: list_all_iff dest: in_set_dropD)
        ultimately have "rx_matches phoneRegex (take ?k ?s)"
          using match_extends max by (simp add: rx_matches_lang)
        moreover have "?k \<le> length ?s" using parts by simp
        ultimately show False using max nk by auto
      qed
      then have "take n ?s = pre @ ds @ take (n - ?k) post" unfolding parts by simp
      then have "8 \<le> length (filter is_digit (take n ?s))"
        using assms(1,2) by (simp add: filter_id_conv list_all_iff)
      then show ?thesis using Some n by simp
    qed
  qed
qed

lemma digits_detected:
  assumes "list_all is_digit ds" "8 \<le> length ds" "js_trim s = pre @ ds @ post"
  shows "\<exists>d. detectContactSharing s = Some d \<and> dn_riskLevel d = RL_HIGH \<and> ''phone'' \<in> set (dn_signals d)"
proof -
  have "hasPhoneLike (js_trim s)"
    using phone_found [OF assms] by (simp add: hasPhoneLike_def list_ex_iff)
  then show ?thesis by (simp add: detectContactSharing_def Let_def contact_signals_def)
qed

lemma preview_length: "detectContactSharing s = Some d \<Longrightarrow> length (dn_messagePreview d) \<le> 180"
proof -
  have "length (js_trimEnd t) \<le> length t" for t
    using length_dropWhile_le [of js_ws "rev t"] by (simp add: js_trimEnd_def)
  from this [of "take 177 (js_trim s)"] show "detectContactSharing s = Some d \<Longrightarrow> length (dn_messagePreview d) \<le> 180"
    by (auto simp: detectContactSharing_def Let_def split: if_splits)
qed

subsection \<open>What an intervention is\<close>

definition intervention_ok :: "trustSafetyIntervention \<Rightarrow> bool" where
  "intervention_ok t \<longleftrightarrow> (ti_action t = IA_WARNING \<longleftrightarrow> ti_status t = TI_LOGGED)
     \<and> (ti_action t = IA_TEMP_BLOCK \<longrightarrow> ti_blockedUntil t \<noteq> None)
     \<and> (ti_status t \<in> {TI_CLEARED, TI_ENFORCED} \<longrightarrow> ti_reviewedByUserId t \<noteq> None \<and> ti_reviewedAt t \<noteq> None)
     \<and> (ti_status t = TI_APPEALED \<longrightarrow> ti_appealReason t \<noteq> None)
     \<and> length (ti_messagePreview t) \<le> 180"

definition interventions_ok :: "db \<Rightarrow> bool" where
  "interventions_ok d \<longleftrightarrow> unique_ids interventions_t d \<and> list_all intervention_ok (interventions d)"

lemma restricts_end: "restricts n j u t \<Longrightarrow> \<exists>b. ti_blockedUntil t = Some b \<and> n < b"
  by (auto simp: restricts_def split: option.splits)

lemma row_sel [simp]:
  "ti_id (warningRow E input d i) = i" "ti_id (blockRow E input d n i) = i"
  "\<not> td_isBlocking (toInterventionDto E (warningRow E input d i))"
  "gd_appealAllowed (buildGuidance E k input u) = (k = Guide_blocked)"
  by (simp_all add: warningRow_def blockRow_def toInterventionDto_def buildGuidance_def Let_def)

lemma evaluate_contract:
  "wp (evaluateMessageAttempt E input)
    (\<lambda>r w'. case r of
        Clear \<Rightarrow> w' = w \<and> (ev_contactUnlocked input \<or> (detectContactSharing (ev_content input) = None
          \<and> (\<forall>t \<in> set (interventions (w_db w)). \<not> restricts (e_now E) (ev_jobId input) (ev_actorUserId input) t)))
      | Warned dto g \<Rightarrow> \<exists>d t. detectContactSharing (ev_content input) = Some d
          \<and> (\<forall>t \<in> set (interventions (w_db w)). \<not> recent_attempt (e_now E) (ev_jobId input) (ev_actorUserId input) t)
          \<and> t = warningRow E input d (ti_id t) \<and> dto = toInterventionDto E t \<and> \<not> td_isBlocking dto \<and> \<not> gd_appealAllowed g
          \<and> w_db w' = (w_db w)\<lparr>interventions := interventions (w_db w) @ [t]\<rparr>
      | Blocked dto g \<Rightarrow> gd_appealAllowed g \<and> \<not> ev_contactUnlocked input
          \<and> (\<exists>t \<in> set (interventions (w_db w')). restricts (e_now E) (ev_jobId input) (ev_actorUserId input) t
             \<and> dto = toInterventionDto E t)
          \<and> (w_db w' = w_db w \<or> (\<exists>d n t. detectContactSharing (ev_content input) = Some d \<and> 0 < n
             \<and> t = blockRow E input d n (ti_id t)
             \<and> w_db w' = (w_db w)\<lparr>interventions := interventions (w_db w) @ [t]\<rparr>)))
    (\<lambda>e w'. w_db w' = w_db w) w"
proof -
  let ?key = "\<lambda>t. (or_else (ti_blockedUntil t) 0, ti_createdAt t, ti_id t)"
    and ?act = "restricts (e_now E) (ev_jobId input) (ev_actorUserId input)"
  let ?active = "first_of (sort_desc ?key (filter ?act (interventions (w_db w))))"
  have new: "?act (blockRow E input d n i)" for d n i
    by (simp add: restricts_def blockRow_def warningRow_def blocking_status_def block_end_def)
  show ?thesis
  proof (cases "ev_contactUnlocked input")
    case locked: False
    show ?thesis
    proof (cases ?active)
      case (Some r)
      then have "r \<in> set (interventions (w_db w)) \<and> ?act r" using first_of_SomeD [OF Some] by simp
      then show ?thesis using Some locked by (auto simp: evaluateMessageAttempt_def wp_simps)
    next
      case None
      then have free: "\<forall>t \<in> set (interventions (w_db w)). \<not> ?act t"
        by (auto simp: first_of_None_iff filter_empty_conv)
      show ?thesis
      proof (cases "detectContactSharing (ev_content input)")
        case (Some d)
        let ?n = "length (filter (recent_attempt (e_now E) (ev_jobId input) (ev_actorUserId input)) (interventions (w_db w)))"
        show ?thesis
        proof (cases "?n = 0")
          case True
          then show ?thesis using None Some locked
            by (auto simp: evaluateMessageAttempt_def wp_simps Let_def filter_empty_conv
                intro!: exI [of _ "warningRow E input d (e_cuid E (w_ids w))"])
        next
          case False
          then show ?thesis using None Some locked new [of d ?n]
            by (auto simp: evaluateMessageAttempt_def wp_simps Let_def intro!: exI [of _ ?n] exI [of _ "blockRow E input d ?n (e_cuid E (w_ids w))"])
        qed
      next
        case None2: None
        then show ?thesis using None locked free by (simp add: evaluateMessageAttempt_def wp_simps)
      qed
    qed
  qed (simp add: evaluateMessageAttempt_def wp_simps)
qed

lemma keeps_interventions_evaluate: "keeps interventions_ok (evaluateMessageAttempt E input)"
proof -
  have new: "keeps interventions_ok (create E interventions_t mk)" if "\<And>i. intervention_ok (mk i)" for mk
    by (rule keeps_create) (use that in \<open>simp add: interventions_ok_def tb_interventions.unique_ids_append [simplified]\<close>)
  have "intervention_ok (warningRow E input d i)" "intervention_ok (blockRow E input d n i)"
    if "detectContactSharing (ev_content input) = Some d" for d i n
    using preview_length [OF that] by (simp_all add: intervention_ok_def warningRow_def blockRow_def)
  then show ?thesis
    by (auto simp: evaluateMessageAttempt_def keeps_rules new split: option.split intro!: keeps_rules)
qed

lemma upd_interventions_ok:
  assumes "interventions_ok d" "\<And>t. ti_id (f t) = ti_id t"
    and "\<And>t. t \<in> set (interventions d) \<Longrightarrow> ti_id t = i \<Longrightarrow> intervention_ok t \<Longrightarrow> intervention_ok (f t)"
  shows "interventions_ok (upd_rows interventions_t n (\<lambda>t. ti_id t = i) f d)"
proof -
  have "intervention_ok (t\<lparr>ti_updatedAt := n\<rparr>) = intervention_ok t" for t n by (simp add: intervention_ok_def)
  moreover have "unique_ids interventions_t (upd_rows interventions_t n (\<lambda>t. ti_id t = i) f d)"
    using assms(1,2) by (simp add: interventions_ok_def tb_interventions.unique_ids_upd)
  ultimately show ?thesis
    using assms by (auto simp: interventions_ok_def list_all_iff tb_interventions.ball_upd [simplified])
qed

text \<open>The row of the identifier is the row that was read.\<close>

lemma same_intervention:
  "interventions_ok d \<Longrightarrow> find_row interventions_t i d = Some r \<Longrightarrow> t \<in> set (interventions d) \<Longrightarrow> ti_id t = ti_id r \<Longrightarrow> t = r"
  using tb_interventions.unique_row [of d i r t] find_row_SomeD [of interventions_t i d r]
  by (simp add: interventions_ok_def)

lemma intervention_ok_appeal:
  assumes "intervention_ok t" "ti_status t \<in> {TI_OPEN, TI_ENFORCED}"
  shows "intervention_ok (appeal_data E reason t)"
  using assms by (auto simp: appeal_data_def intervention_ok_def)

lemma keeps_interventions_appeal: "keeps interventions_ok (appealIntervention E i u reason)"
proof -
  have "interventions_ok (upd_rows interventions_t n (\<lambda>t. ti_id t = ti_id r) (appeal_data E reason) d)"
    if "interventions_ok d" "find_row interventions_t i d = Some r" "ti_status r \<in> {TI_OPEN, TI_ENFORCED}" for d n r
  proof (rule upd_interventions_ok [OF that(1)])
    fix t assume "t \<in> set (interventions d)" "ti_id t = ti_id r" "intervention_ok t"
    then show "intervention_ok (appeal_data E reason t)"
      using same_intervention [OF that(1,2)] intervention_ok_appeal that(3) by metis
  qed (simp add: appeal_data_def)
  then show ?thesis
    unfolding keeps_wp
    by (auto simp: appealIntervention_def wp_simps split: option.split)
qed

lemma intervention_ok_review:
  assumes "intervention_ok t" "blocking_status (ti_status t)"
  shows "intervention_ok (review_data E u dec note t t)"
  using assms by (cases dec) (auto simp: review_data_def decided_status_def intervention_ok_def blocking_status_def)

lemma keeps_interventions_review: "keeps interventions_ok (reviewIntervention E i u dec note)"
proof -
  have upd: "interventions_ok (upd_rows interventions_t n (\<lambda>t. ti_id t = ti_id r) (review_data E u dec note r) d)"
    if "interventions_ok d" "find_row interventions_t i d = Some r" "blocking_status (ti_status r)" for d n r
  proof (rule upd_interventions_ok [OF that(1)])
    fix t assume "t \<in> set (interventions d)" "ti_id t = ti_id r" "intervention_ok t"
    then show "intervention_ok (review_data E u dec note r t)"
      using same_intervention [OF that(1,2)] intervention_ok_review that(3) by metis
  qed (simp add: review_data_def)
  have tell: "wp (notifyReviewed E u dec note job t) (\<lambda>_ w'. interventions_ok (w_db w')) (\<lambda>_ w'. interventions_ok (w_db w')) w"
    if "interventions_ok (w_db w)" for job t w
    using that keeps_notify [of interventions_ok]
    by (simp add: notifyReviewed_def wp_simps keeps_wp frames_def interventions_ok_def unique_ids_def)
  have read: "wp (sread f) Q X = (\<lambda>w. Q (f (w_db w)) w)" for f :: "db \<Rightarrow> interventionAdminDto" and Q X
    by (rule ext) (simp add: wp_simps)
  show ?thesis
    unfolding keeps_wp
    by (auto simp: reviewIntervention_def wp_simps read upd tell split: option.split)
qed

end
