(* ===== verification/Messages.thy ===== *)
theory Messages
  imports TrustSafety Gateway
begin

text \<open>
  \<^verbatim>\<open>messages/messages.service.ts\<close> with \<^verbatim>\<open>messages/upload-policy.ts\<close> and
  \<^verbatim>\<open>storage/storage.service.ts\<close>: the conversation of a job, its messages and their attachments.
\<close>

subsection \<open>The upload policy\<close>

abbreviation MESSAGE_ATTACHMENT_MAX_BYTES :: int where "MESSAGE_ATTACHMENT_MAX_BYTES \<equiv> 5 * 1024 * 1024"

definition extensionByMimeType :: "string \<Rightarrow> string list option" where
  "extensionByMimeType m = map_of
     [(''image/jpeg'', [''jpg'', ''jpeg'']), (''image/png'', [''png'']), (''image/webp'', [''webp''])] m"

abbreviation badType :: exn where "badType \<equiv> BadRequestException ''Unsupported attachment content type''"
abbreviation badSize :: exn where "badSize \<equiv> BadRequestException ''Attachment size exceeds policy''"
abbreviation badName :: exn where "badName \<equiv> BadRequestException ''Invalid attachment file name''"
abbreviation noExtension :: exn where "noExtension \<equiv> BadRequestException ''Attachment file extension is required''"
abbreviation wrongExtension :: exn where
  "wrongExtension \<equiv> BadRequestException ''Attachment extension does not match content type''"
abbreviation keyNotBound :: exn where "keyNotBound \<equiv> BadRequestException ''Attachment key is not bound to this job''"
abbreviation wrongKeyExtension :: exn where
  "wrongKeyExtension \<equiv> BadRequestException ''Attachment key extension does not match content type''"
abbreviation relativeUrl :: exn where "relativeUrl \<equiv> BadRequestException ''Attachment URL must be absolute''"

text \<open>\<^verbatim>\<open>s.slice(s.lastIndexOf('.') + 1)\<close>, and \<^verbatim>\<open>s.lastIndexOf('.')\<close> itself.\<close>

definition after_dot :: "string \<Rightarrow> string" where
  "after_dot s = rev (takeWhile (\<lambda>c. c \<noteq> CHR ''.'') (rev s))"

definition last_dot :: "string \<Rightarrow> int" where
  "last_dot s = int (length s) - int (length (after_dot s)) - 1"

definition control_char :: "char \<Rightarrow> bool" where
  "control_char c \<longleftrightarrow> (let n = of_char c :: nat in n < 32 \<or> n = 127)"

definition getExtension :: "string \<Rightarrow> exn + string" where
  "getExtension fileName =
     (let trimmed = js_trim fileName in
      if trimmed = [] \<or> CHR ''/'' \<in> set trimmed \<or> CHR 0x5C \<in> set trimmed \<or> list_ex control_char trimmed
      then Inl badName
      else if last_dot trimmed \<le> 0 \<or> last_dot trimmed = int (length trimmed) - 1 then Inl noExtension
      else Inr (js_lower (after_dot trimmed)))"

record uploadInput =
  ui_fileName :: string
  ui_contentType :: string
  ui_sizeBytes :: int
  ui_expiresIn :: "int option"

record messageUpload =
  mu_key :: string
  mu_contentType :: string
  mu_sizeBytes :: int
  mu_maxSizeBytes :: int
  mu_expiresIn :: int

definition size_ok :: "int \<Rightarrow> bool" where
  "size_ok n \<longleftrightarrow> 1 \<le> n \<and> n \<le> MESSAGE_ATTACHMENT_MAX_BYTES"

definition key_prefix :: "id \<Rightarrow> id \<Rightarrow> string" where
  "key_prefix userId jobId = ''uploads/messages/'' @ userId @ ''/'' @ jobId @ ''/''"

definition buildMessageAttachmentUpload :: "env \<Rightarrow> id \<Rightarrow> id \<Rightarrow> uploadInput \<Rightarrow> messageUpload svc" where
  "buildMessageAttachmentUpload E jobId userId input =
     sbind (sopt (extensionByMimeType (ui_contentType input)) badType) (\<lambda>allowed.
     sthen (sguard (size_ok (ui_sizeBytes input)) badSize)
     (case getExtension (ui_fileName input) of
        Inl e \<Rightarrow> sthrow e
      | Inr extension \<Rightarrow>
        sthen (sguard (extension \<in> set allowed) wrongExtension)
        (sbind (randomUUID E) (\<lambda>uuid.
        sreturn \<lparr>mu_key = key_prefix userId jobId @ uuid @ ''.''
            @ (if ui_contentType input = ''image/jpeg'' then ''jpg'' else extension),
          mu_contentType = ui_contentType input, mu_sizeBytes = ui_sizeBytes input,
          mu_maxSizeBytes = MESSAGE_ATTACHMENT_MAX_BYTES, mu_expiresIn = or_else (ui_expiresIn input) 300\<rparr>))))"

record attachmentInput =
  ai_url :: string
  ai_key :: string
  ai_contentType :: string
  ai_size :: int

definition absolute_url :: "string \<Rightarrow> bool" where
  "absolute_url u \<longleftrightarrow> js_starts_with u ''http://'' \<or> js_starts_with u ''https://''"

definition validateMessageAttachmentReference :: "id \<Rightarrow> id \<Rightarrow> attachmentInput \<Rightarrow> attachmentInput svc" where
  "validateMessageAttachmentReference jobId userId input =
     sbind (sopt (extensionByMimeType (ai_contentType input)) badType) (\<lambda>allowed.
     sthen (sguard (size_ok (ai_size input)) badSize)
     (sthen (sguard (js_starts_with (ai_key input) (key_prefix userId jobId)) keyNotBound)
     (sthen (sguard (js_lower (after_dot (ai_key input)) \<in> set allowed) wrongKeyExtension)
     (sthen (sguard (absolute_url (ai_url input)) relativeUrl)
     (sreturn input)))))"

record presignResult =
  ps_url :: string
  ps_upload :: messageUpload
  ps_expiresAt :: time

definition createPresignedPut :: "env \<Rightarrow> string \<Rightarrow> string \<Rightarrow> int \<Rightarrow> (string \<times> time) svc" where
  "createPresignedPut E key contentType expiresSeconds =
     (case (truthy (e_s3AccessKey E), truthy (e_s3SecretKey E), truthy (e_s3Region E), truthy (e_s3Bucket E)) of
        (Some _, Some _, Some _, Some bucket) \<Rightarrow>
          sreturn (e_signedUrl E bucket key contentType expiresSeconds, e_now E + expiresSeconds * 1000)
      | _ \<Rightarrow> sthrow (PlainError ''Storage not configured''))"

subsection \<open>Conversations\<close>

abbreviation participantsUnavailable :: exn where
  "participantsUnavailable \<equiv> ConflictException ''Conversation participants are not available''"

record conversation =
  cn_job :: job
  cn_role :: actorRole
  cn_customer :: user
  cn_provider :: user
  cn_counterpart :: user
  cn_contactUnlocked :: bool

definition contact_unlocked :: "db \<Rightarrow> job \<Rightarrow> bool" where
  "contact_unlocked d job \<longleftrightarrow> jb_contactUnlockedAt job \<noteq> None
     \<or> list_ex (\<lambda>i. pi_jobId i = jb_id job \<and> paid_status (pi_status i)) (intents d)"

definition resolveConversationAccess :: "db \<Rightarrow> id \<Rightarrow> job \<Rightarrow> exn + conversation" where
  "resolveConversationAccess d userId job =
     (case (job_provider d job, job_customer d job) of
        (Some provider, Some customer) \<Rightarrow>
          (let isCustomer = (jb_clientId job = userId \<or> jb_customerId job = Some userId);
               isProvider = (us_id provider = userId) in
           if \<not> isCustomer \<and> \<not> isProvider then Inl jobForbidden
           else Inr \<lparr>cn_job = job, cn_role = (if isCustomer then Role_customer else Role_provider),
             cn_customer = customer, cn_provider = provider,
             cn_counterpart = (if isCustomer then provider else customer),
             cn_contactUnlocked = contact_unlocked d job\<rparr>)
      | _ \<Rightarrow> Inl participantsUnavailable)"

definition of_sum :: "exn + 'a \<Rightarrow> 'a svc" where
  "of_sum r = (case r of Inl e \<Rightarrow> sthrow e | Inr v \<Rightarrow> sreturn v)"

definition getConversationOrThrow :: "id \<Rightarrow> id \<Rightarrow> conversation svc" where
  "getConversationOrThrow jobId userId =
     sbind (require jobs_t jobId jobNotFound) (\<lambda>job.
     sbind (sread (\<lambda>d. resolveConversationAccess d userId job)) of_sum)"

text \<open>The e-mail address of the counterpart is shown once the contact is unlocked.\<close>

definition toParticipantDto :: "user \<Rightarrow> bool \<Rightarrow> id \<times> string option \<times> string option" where
  "toParticipantDto u unlocked = (us_id u, us_name u, if unlocked then Some (us_email u) else None)"

record messageDto =
  md_message :: jobMessage
  md_attachments :: "jobMessageAttachment list"

definition toMessageDto :: "db \<Rightarrow> jobMessage \<Rightarrow> messageDto" where
  "toMessageDto d m =
     \<lparr>md_message = m, md_attachments = filter (\<lambda>a. ja_jobMessageId a = jm_id m) (attachments d)\<rparr>"

abbreviation jm_order :: "jobMessage \<Rightarrow> time \<times> id" where "jm_order m \<equiv> (jm_createdAt m, jm_id m)"

definition createUploadPresign :: "env \<Rightarrow> id \<Rightarrow> id \<Rightarrow> uploadInput \<Rightarrow> presignResult svc" where
  "createUploadPresign E jobId userId dto =
     sbind (getConversationOrThrow jobId userId) (\<lambda>access.
     sthen (sguard (cn_contactUnlocked access) (ForbiddenException ''Contact not unlocked for uploads''))
     (sthen (sguard (jb_status (cn_job access) \<noteq> JOB_CANCELED)
       (ConflictException ''Canceled jobs are no longer open for uploads''))
     (sbind (buildMessageAttachmentUpload E jobId userId dto) (\<lambda>upload.
     sbind (createPresignedPut E (mu_key upload) (mu_contentType upload) (mu_expiresIn upload)) (\<lambda>p.
     sreturn \<lparr>ps_url = fst p, ps_upload = upload, ps_expiresAt = snd p\<rparr>)))))"

subsection \<open>Reading\<close>

record inboxEntry =
  ib_job :: job
  ib_contactUnlocked :: bool
  ib_counterpart :: "id \<times> string option \<times> string option"
  ib_unreadCount :: nat
  ib_latestMessage :: "messageDto option"
  ib_lastActivityAt :: time

definition on_job :: "db \<Rightarrow> id \<Rightarrow> job \<Rightarrow> bool" where
  "on_job d userId j \<longleftrightarrow> jb_clientId j = userId \<or> jb_customerId j = Some userId \<or> jb_providerId j = Some userId
     \<or> worker_user d j = Some userId"

definition inbox_entry :: "db \<Rightarrow> id \<Rightarrow> job \<Rightarrow> exn + inboxEntry" where
  "inbox_entry d userId job =
     (case resolveConversationAccess d userId job of
        Inl e \<Rightarrow> Inl e
      | Inr access \<Rightarrow>
        (let ms = filter (\<lambda>m. jm_jobId m = jb_id job) (messages d); latest = first_of (sort_desc jm_order ms) in
         Inr \<lparr>ib_job = job, ib_contactUnlocked = cn_contactUnlocked access,
           ib_counterpart = toParticipantDto (cn_counterpart access) (cn_contactUnlocked access),
           ib_unreadCount = length (filter (\<lambda>m. jm_recipientUserId m = userId \<and> jm_readAt m = None) ms),
           ib_latestMessage = map_option (toMessageDto d) latest,
           ib_lastActivityAt = (case latest of Some m \<Rightarrow> jm_createdAt m | None \<Rightarrow> jb_updatedAt job)\<rparr>))"

primrec sum_map :: "('a \<Rightarrow> exn + 'b) \<Rightarrow> 'a list \<Rightarrow> exn + 'b list" where
  "sum_map f [] = Inr []"
| "sum_map f (x # xs) =
     (case f x of Inl e \<Rightarrow> Inl e
      | Inr y \<Rightarrow> (case sum_map f xs of Inl e \<Rightarrow> Inl e | Inr ys \<Rightarrow> Inr (y # ys)))"

definition messagesListMine :: "id \<Rightarrow> inboxEntry list svc" where
  "messagesListMine userId =
     sbind (sread (\<lambda>d. sum_map (inbox_entry d userId)
       (take 50 (sort_desc (\<lambda>j. (jb_updatedAt j, jb_createdAt j)) (filter (on_job d userId) (jobs d)))))) (\<lambda>r.
     sbind (of_sum r) (\<lambda>entries. sreturn (sort_key (\<lambda>x. - ib_lastActivityAt x) entries)))"

record jobConversation =
  jc_access :: conversation
  jc_counterpart :: "id \<times> string option \<times> string option"
  jc_trustSafety :: conversationState
  jc_items :: "messageDto list"

definition listByJob :: "env \<Rightarrow> id \<Rightarrow> id \<Rightarrow> jobConversation svc" where
  "listByJob E jobId userId =
     sbind (getConversationOrThrow jobId userId) (\<lambda>access.
     sbind (sread (\<lambda>d. map (toMessageDto d) (sort_key jm_order (filter (\<lambda>m. jm_jobId m = jobId) (messages d))))) (\<lambda>items.
     sbind (getConversationState E jobId userId) (\<lambda>trustSafety.
     sreturn \<lparr>jc_access = access,
       jc_counterpart = toParticipantDto (cn_counterpart access) (cn_contactUnlocked access),
       jc_trustSafety = trustSafety, jc_items = items\<rparr>)))"

definition markJobRead :: "env \<Rightarrow> id \<Rightarrow> id \<Rightarrow> (nat \<times> time) svc" where
  "markJobRead E jobId userId =
     sbind (getConversationOrThrow jobId userId) (\<lambda>_.
     sbind (updateMany E messages_t (\<lambda>m. jm_jobId m = jobId \<and> jm_recipientUserId m = userId \<and> jm_readAt m = None)
       (\<lambda>m. m\<lparr>jm_readAt := Some (e_now E)\<rparr>)) (\<lambda>cnt.
     sreturn (cnt, e_now E)))"

subsection \<open>Sending\<close>

record createMessageDto =
  cm_content :: string
  cm_attachments :: "attachmentInput list"

datatype sendResult =
    Moderated moderation
  | Sent messageDto

definition newMessage :: "env \<Rightarrow> id \<Rightarrow> id \<Rightarrow> id \<Rightarrow> string \<Rightarrow> id \<Rightarrow> jobMessage" where
  "newMessage E jobId userId recipient content i =
     \<lparr>jm_id = i, jm_jobId = jobId, jm_senderUserId = userId, jm_recipientUserId = recipient,
      jm_content = content, jm_createdAt = e_now E, jm_readAt = None\<rparr>"

definition newAttachment :: "env \<Rightarrow> id \<Rightarrow> id \<Rightarrow> attachmentInput \<Rightarrow> id \<Rightarrow> jobMessageAttachment" where
  "newAttachment E messageId userId a i =
     \<lparr>ja_id = i, ja_jobMessageId = messageId, ja_url = ai_url a, ja_key = Some (ai_key a),
      ja_contentType = Some (ai_contentType a), ja_size = Some (ai_size a), ja_uploadedByUserId = Some userId,
      ja_createdAt = e_now E\<rparr>"

definition saveAttachment :: "env \<Rightarrow> id \<Rightarrow> id \<Rightarrow> id \<Rightarrow> attachmentInput \<Rightarrow> unit svc" where
  "saveAttachment E jobId userId messageId a =
     sbind (validateMessageAttachmentReference jobId userId a) (\<lambda>validated.
     sbind (create E attachments_t (newAttachment E messageId userId validated)) (\<lambda>_. sreturn ()))"

definition saveMessage :: "env \<Rightarrow> id \<Rightarrow> id \<Rightarrow> id \<Rightarrow> string \<Rightarrow> attachmentInput list \<Rightarrow> messageDto svc" where
  "saveMessage E jobId userId recipient content atts =
     sbind (create E messages_t (newMessage E jobId userId recipient content)) (\<lambda>msg.
     sthen (sfor (take 6 atts) (saveAttachment E jobId userId (jm_id msg)))
     (sbind (findUniqueOrThrow messages_t (jm_id msg)) (\<lambda>m. sread (\<lambda>d. toMessageDto d m))))"

definition notifyMessage :: "env \<Rightarrow> id \<Rightarrow> id \<Rightarrow> conversation \<Rightarrow> unit svc" where
  "notifyMessage E jobId userId access =
     (let isCustomer = (cn_role access = Role_customer) in
      sbind (notify E \<lparr>ni_userId = us_id (cn_counterpart access), ni_actorUserId = Some userId,
        ni_kind = NK_JOB_MESSAGE_RECEIVED, ni_tone = Some NT_INFO,
        ni_title = ''Nova mensagem sobre '' @ q_mark @ jb_title (cn_job access) @ q_mark,
        ni_description = (if isCustomer then user_label (cn_customer access) ''Cliente''
            else user_label (cn_provider access) ''Prestador'') @ '' enviou uma nova mensagem no teu job.'',
        ni_href = (if isCustomer then ''/pro/mensagens?job='' else ''/app/mensagens?job='') @ jobId,
        ni_hrefLabel = Some ''Abrir conversa'', ni_metadata = Some (JObj [(''jobId'', JStr jobId)])\<rparr>) (\<lambda>_. sreturn ()))"

definition sendMessage :: "env \<Rightarrow> id \<Rightarrow> id \<Rightarrow> createMessageDto \<Rightarrow> sendResult svc" where
  "sendMessage E jobId userId dto =
     (let content = js_trim (cm_content dto) in
      sthen (sguard (content \<noteq> []) (BadRequestException ''content should not be empty''))
      (sbind (getConversationOrThrow jobId userId) (\<lambda>access.
      sthen (sguard (jb_status (cn_job access) \<noteq> JOB_CANCELED)
        (ConflictException ''Canceled jobs are no longer open for new messages''))
      (sbind (evaluateMessageAttempt E
          \<lparr>ev_jobId = jobId, ev_requestId = jb_requestId (cn_job access), ev_actorUserId = userId,
           ev_counterpartUserId = us_id (cn_counterpart access), ev_actorRole = cn_role access,
           ev_contactUnlocked = cn_contactUnlocked access, ev_content = content\<rparr>) (\<lambda>moderation.
      if moderation \<noteq> Clear then sreturn (Moderated moderation)
      else sbind (transact (saveMessage E jobId userId (us_id (cn_counterpart access)) content (cm_attachments dto)))
        (\<lambda>created.
        sthen (notifyMessage E jobId userId access)
        (sreturn (Sent created))))))))"

subsection \<open>The key of an upload is accepted\<close>

lemma after_dot_append: "CHR ''.'' \<notin> set x \<Longrightarrow> after_dot (s @ CHR ''.'' # x) = x"
proof -
  assume x: "CHR ''.'' \<notin> set x"
  have "takeWhile (\<lambda>c. c \<noteq> CHR ''.'') (rev x @ CHR ''.'' # rev s) = rev x"
    using x by (subst takeWhile_append2) auto
  then show ?thesis by (simp add: after_dot_def)
qed

lemma starts_with_append [simp]: "js_starts_with (p @ s) p"
  by (simp add: js_starts_with_def)

lemma extension_plain:
  assumes "extensionByMimeType m = Some xs" "x \<in> set xs"
  shows "CHR ''.'' \<notin> set x" "js_lower x = x" "js_lower ''jpg'' = ''jpg''"
    "m = ''image/jpeg'' \<Longrightarrow> ''jpg'' \<in> set xs"
  using assms by (auto simp: extensionByMimeType_def js_lower_def low_char_def Let_def split: if_splits)

lemma upload_accepted:
  "wp (buildMessageAttachmentUpload E jobId userId input)
    (\<lambda>up w'. mu_contentType up = ui_contentType input \<and> js_starts_with (mu_key up) (key_prefix userId jobId)
       \<and> (\<forall>url X. absolute_url url \<longrightarrow>
         wp (validateMessageAttachmentReference jobId userId
           \<lparr>ai_url = url, ai_key = mu_key up, ai_contentType = mu_contentType up, ai_size = mu_sizeBytes up\<rparr>)
           (\<lambda>a w''. ai_key a = mu_key up \<and> w'' = w') X w'))
    (\<lambda>e w'. w' = w) w"
proof -
  have accepted: "wp (validateMessageAttachmentReference jobId userId
      \<lparr>ai_url = url, ai_key = key_prefix userId jobId @ uuid @ ''.'' @ x, ai_contentType = m, ai_size = n\<rparr>)
      (\<lambda>a w''. ai_key a = key_prefix userId jobId @ uuid @ ''.'' @ x \<and> w'' = w') X w'"
    if "extensionByMimeType m = Some xs" "x \<in> set xs" "size_ok n" "absolute_url url" for url uuid x m n xs X w'
  proof -
    have "after_dot (key_prefix userId jobId @ uuid @ ''.'' @ x) = x"
      using after_dot_append [OF extension_plain(1) [OF that(1,2)], of "key_prefix userId jobId @ uuid"] by simp
    then show ?thesis
      using that extension_plain(2) [OF that(1,2)] by (simp add: validateMessageAttachmentReference_def wp_simps)
  qed
  have pick: "(if m = ''image/jpeg'' then ''jpg'' else x) \<in> set xs" if "extensionByMimeType m = Some xs" "x \<in> set xs" for m x xs
    using extension_plain(4) [OF that] that by simp
  show ?thesis
    unfolding buildMessageAttachmentUpload_def
    by (auto simp: wp_simps randomUUID_def accepted [OF _ pick] split: option.split sum.split
        simp del: append.simps)
qed

subsection \<open>Well-formed messages\<close>

definition attachment_ok :: "jobMessage \<Rightarrow> jobMessageAttachment \<Rightarrow> bool" where
  "attachment_ok m a \<longleftrightarrow> ja_uploadedByUserId a = Some (jm_senderUserId m) \<and> absolute_url (ja_url a)
     \<and> (\<exists>k. ja_key a = Some k \<and> js_starts_with k (key_prefix (jm_senderUserId m) (jm_jobId m)))
     \<and> (\<exists>t n. ja_contentType a = Some t \<and> extensionByMimeType t \<noteq> None \<and> ja_size a = Some n \<and> size_ok n)"

definition attachments_of :: "id \<Rightarrow> db \<Rightarrow> jobMessageAttachment list" where
  "attachments_of i d = filter (\<lambda>a. ja_jobMessageId a = i) (attachments d)"

definition messages_ok :: "db \<Rightarrow> bool" where
  "messages_ok d \<longleftrightarrow> unique_ids messages_t d \<and> (\<forall>m \<in> set (messages d). jm_content m \<noteq> [])
     \<and> (\<forall>a \<in> set (attachments d). \<exists>m \<in> set (messages d). jm_id m = ja_jobMessageId a \<and> attachment_ok m a)
     \<and> (\<forall>i. length (attachments_of i d) \<le> 6)"

text \<open>The attachments of one message are saved one by one, all or none.\<close>

lemma wp_validate:
  "wp (validateMessageAttachmentReference jobId userId a) Q X w \<longleftrightarrow>
     (case extensionByMimeType (ai_contentType a) of
        None \<Rightarrow> X badType w
      | Some allowed \<Rightarrow>
        if \<not> size_ok (ai_size a) then X badSize w
        else if \<not> js_starts_with (ai_key a) (key_prefix userId jobId) then X keyNotBound w
        else if js_lower (after_dot (ai_key a)) \<notin> set allowed then X wrongKeyExtension w
        else if \<not> absolute_url (ai_url a) then X relativeUrl w else Q a w)"
  by (simp add: validateMessageAttachmentReference_def wp_simps split: option.split)

lemma wp_saveAttachment:
  "wp (saveAttachment E j u i a) Q X w \<longleftrightarrow>
     wp (validateMessageAttachmentReference j u a) (\<lambda>v. wp (sbind (create E attachments_t (newAttachment E i u v)) (\<lambda>_. sreturn ())) Q X) X w"
  by (simp add: saveAttachment_def wp_simps)

lemma wp_saveAttachments:
  fixes w :: world
  assumes "\<And>rows w'. \<lbrakk>w_db w' = (w_db w)\<lparr>attachments := attachments (w_db w) @ rows\<rparr>; length rows = length atts;
      \<forall>a \<in> set rows. ja_jobMessageId a = i \<and> attachment_ok m a\<rbrakk> \<Longrightarrow> Q () w'"
    and "\<And>e w'. X e w'" and "jm_senderUserId m = u" "jm_jobId m = j"
  shows "wp (sfor atts (saveAttachment E j u i)) Q X w"
  using assms(1)
proof (induction atts arbitrary: w)
  case Nil
  have "Q () w" by (rule Nil [of _ "[]"]) simp_all
  then show ?case by (simp add: wp_simps)
next
  case (Cons a atts)
  let ?r = "newAttachment E i u a (e_cuid E (w_ids w))"
  let ?w = "w\<lparr>w_ids := Suc (w_ids w), w_db := (w_db w)\<lparr>attachments := attachments (w_db w) @ [?r]\<rparr>\<rparr>"
  have rest: "wp (sfor atts (saveAttachment E j u i)) Q X ?w" if ok: "attachment_ok m ?r"
  proof (rule Cons.IH)
    fix rows and w' :: world assume "w_db w' = (w_db ?w)\<lparr>attachments := attachments (w_db ?w) @ rows\<rparr>" "length rows = length atts"
      "\<forall>a \<in> set rows. ja_jobMessageId a = i \<and> attachment_ok m a"
    then show "Q () w'"
      by (intro Cons.prems [of w' "?r # rows"]) (use ok in \<open>simp_all add: newAttachment_def\<close>)
  qed
  have ok: "attachment_ok m ?r" if "extensionByMimeType (ai_contentType a) = Some xs" "size_ok (ai_size a)"
      "js_starts_with (ai_key a) (key_prefix u j)" "absolute_url (ai_url a)" for xs
    using that assms(3,4) by (simp add: attachment_ok_def newAttachment_def)
  have X: "X = (\<lambda>_ _. True)" using assms(2) by (intro ext) simp
  show ?case
    using rest ok unfolding X
    by (auto simp: wp_simps wp_saveAttachment wp_validate Let_def split: option.split)
qed

lemma wp_saveMessage:
  fixes w :: world
  assumes "\<And>v w' msg rows. \<lbrakk>w_db w' = (w_db w)\<lparr>messages := messages (w_db w) @ [msg], attachments := attachments (w_db w) @ rows\<rparr>;
      msg = newMessage E j u c content (jm_id msg); \<forall>x \<in> set (messages (w_db w)). jm_id x \<noteq> jm_id msg;
      length rows \<le> 6; \<forall>a \<in> set rows. ja_jobMessageId a = jm_id msg \<and> attachment_ok msg a;
      md_message v = msg\<rbrakk> \<Longrightarrow> Q v w'"
    and "\<And>e w'. X e w'"
  shows "wp (saveMessage E j u c content atts) Q X w"
proof -
  let ?i = "e_cuid E (w_ids w)"
  let ?m = "newMessage E j u c content ?i"
  let ?w = "w\<lparr>w_ids := Suc (w_ids w), w_db := (w_db w)\<lparr>messages := messages (w_db w) @ [?m]\<rparr>\<rparr>"
  have m: "jm_id ?m = ?i" "jm_senderUserId ?m = u" "jm_jobId ?m = j" by (simp_all add: newMessage_def)
  have "wp (sfor (take 6 atts) (saveAttachment E j u ?i))
      (\<lambda>_. wp (sbind (findUniqueOrThrow messages_t ?i) (\<lambda>m. sread (\<lambda>d. toMessageDto d m))) Q X) X ?w"
    if new: "\<forall>x \<in> set (messages (w_db w)). jm_id x \<noteq> ?i"
  proof (rule wp_saveAttachments [where m = ?m])
    fix rows and w' :: world assume r: "w_db w' = (w_db ?w)\<lparr>attachments := attachments (w_db ?w) @ rows\<rparr>"
      "length rows = length (take 6 atts)" "\<forall>a \<in> set rows. ja_jobMessageId a = ?i \<and> attachment_ok ?m a"
    have "find (\<lambda>x. jm_id x = ?i) (messages (w_db w) @ [?m]) = Some ?m"
      using new m by (intro find_appended) auto
    then show "wp (sbind (findUniqueOrThrow messages_t ?i) (\<lambda>m. sread (\<lambda>d. toMessageDto d m))) Q X w'"
      using r new m by (auto simp: wp_simps find_row_def toMessageDto_def intro!: assms(1) [where msg = ?m and rows = rows])
  qed (simp_all add: assms(2) m)
  then show ?thesis
    using assms(2) m by (auto simp: saveMessage_def wp_simps Let_def)
qed

lemma messages_ok_saved:
  assumes ok: "messages_ok d" and new: "\<forall>x \<in> set (messages d). jm_id x \<noteq> jm_id msg"
    and msg: "jm_content msg \<noteq> []" and rows: "length rows \<le> 6" "\<forall>a \<in> set rows. ja_jobMessageId a = jm_id msg \<and> attachment_ok msg a"
  shows "messages_ok (d\<lparr>messages := messages d @ [msg], attachments := attachments d @ rows\<rparr>)"
proof -
  have fresh: "ja_jobMessageId a \<noteq> jm_id msg" if "a \<in> set (attachments d)" for a
    using ok new that unfolding messages_ok_def by metis
  have "length (attachments_of i d @ filter (\<lambda>a. ja_jobMessageId a = i) rows) \<le> 6" for i
  proof (cases "i = jm_id msg")
    case True
    then have "attachments_of i d = []" using fresh by (auto simp: attachments_of_def filter_empty_conv)
    then show ?thesis using rows(1) length_filter_le [of _ rows] le_trans by (metis append_Nil)
  next
    case False
    then have "filter (\<lambda>a. ja_jobMessageId a = i) rows = []" using rows(2) by (auto simp: filter_empty_conv)
    then show ?thesis using ok by (simp add: messages_ok_def)
  qed
  then show ?thesis
    using ok new msg rows tb_messages.unique_ids_append [of d msg]
    by (auto simp: messages_ok_def attachments_of_def unique_ids_def)
qed

subsection \<open>Contract of sending\<close>

lemma wp_getConversation [wp_simps]:
  "wp (getConversationOrThrow jobId userId) Q X w \<longleftrightarrow>
     (case find_row jobs_t jobId (w_db w) of
        None \<Rightarrow> X jobNotFound w
      | Some job \<Rightarrow> (case resolveConversationAccess (w_db w) userId job of Inl e \<Rightarrow> X e w | Inr c \<Rightarrow> Q c w))"
  by (simp add: getConversationOrThrow_def wp_simps of_sum_def split: option.split sum.split)

definition attempt :: "id \<Rightarrow> id \<Rightarrow> conversation \<Rightarrow> string \<Rightarrow> evaluateInput" where
  "attempt jobId userId access content =
     \<lparr>ev_jobId = jobId, ev_requestId = jb_requestId (cn_job access), ev_actorUserId = userId,
      ev_counterpartUserId = us_id (cn_counterpart access), ev_actorRole = cn_role access,
      ev_contactUnlocked = cn_contactUnlocked access, ev_content = content\<rparr>"

lemma wp_evaluate:
  fixes w :: world
  assumes "\<And>w'. \<lbrakk>w' = w; ev_contactUnlocked input \<or> (detectContactSharing (ev_content input) = None
        \<and> (\<forall>t \<in> set (interventions (w_db w)). \<not> restricts (e_now E) (ev_jobId input) (ev_actorUserId input) t))\<rbrakk> \<Longrightarrow> Q Clear w'"
    and "\<And>m w'. \<lbrakk>m \<noteq> Clear; \<not> ev_contactUnlocked input; w_db w' = (w_db w)\<lparr>interventions := interventions (w_db w')\<rparr>\<rbrakk> \<Longrightarrow> Q m w'"
    and "\<And>e w'. w_db w' = w_db w \<Longrightarrow> X e w'"
  shows "wp (evaluateMessageAttempt E input) Q X w"
proof (cases "ev_contactUnlocked input")
  case True
  then show ?thesis using assms(1) [of w] by (simp add: evaluateMessageAttempt_def wp_simps)
next
  case False
  note bounds = evaluate_contract [of E input w]
  show ?thesis
  proof (rule wp_mono [OF bounds], goal_cases)
    case (1 r w')
    note post = 1
    show "Q r w'"
    proof (cases "r = Clear")
      case True
      then show ?thesis using post assms(1) [of w'] by simp
    next
      case False
      have "w_db w' = (w_db w)\<lparr>interventions := interventions (w_db w')\<rparr>"
        using post False by (cases r) auto
      then show ?thesis using assms(2) False \<open>\<not> ev_contactUnlocked input\<close> by blast
    qed
  qed (use assms(3) in blast)
qed

lemma wp_sendMessage:
  fixes w :: world
  assumes stored: "\<And>job access msg rows v w'. \<lbrakk>find_row jobs_t jobId (w_db w) = Some job;
      resolveConversationAccess (w_db w) userId job = Inr access; jb_status (cn_job access) \<noteq> JOB_CANCELED;
      cn_contactUnlocked access \<or> (detectContactSharing (js_trim (cm_content dto)) = None
        \<and> (\<forall>t \<in> set (interventions (w_db w)). \<not> restricts (e_now E) jobId userId t));
      msg = newMessage E jobId userId (us_id (cn_counterpart access)) (js_trim (cm_content dto)) (jm_id msg);
      jm_content msg \<noteq> []; \<forall>x \<in> set (messages (w_db w)). jm_id x \<noteq> jm_id msg; length rows \<le> 6;
      \<forall>a \<in> set rows. ja_jobMessageId a = jm_id msg \<and> attachment_ok msg a; md_message v = msg;
      w_db w' = (w_db w)\<lparr>messages := messages (w_db w) @ [msg], attachments := attachments (w_db w) @ rows,
        notifications := notifications (w_db w')\<rparr>\<rbrakk> \<Longrightarrow> Q (Sent v) w' \<and> (\<forall>e. X e w')"
    and moderated: "\<And>m w'. \<lbrakk>m \<noteq> Clear; w_db w' = (w_db w)\<lparr>interventions := interventions (w_db w')\<rparr>\<rbrakk> \<Longrightarrow> Q (Moderated m) w'"
    and failed: "\<And>e w'. w_db w' = w_db w \<Longrightarrow> X e w'"
  shows "wp (sendMessage E jobId userId dto) Q X w"
proof -
  let ?content = "js_trim (cm_content dto)"
  have send: "wp (transact (saveMessage E jobId userId (us_id (cn_counterpart access)) ?content (cm_attachments dto)))
      (\<lambda>created. wp (sthen (notifyMessage E jobId userId access) (sreturn (Sent created))) Q X) X w"
    if acc: "find_row jobs_t jobId (w_db w) = Some job" "resolveConversationAccess (w_db w) userId job = Inr access"
      "jb_status (cn_job access) \<noteq> JOB_CANCELED" "?content \<noteq> []"
      "cn_contactUnlocked access \<or> (detectContactSharing ?content = None
        \<and> (\<forall>t \<in> set (interventions (w_db w)). \<not> restricts (e_now E) jobId userId t))" for job access
    unfolding wp_transact
  proof (rule wp_saveMessage)
    fix v :: messageDto and w1 :: world and msg rows
    assume saved: "w_db w1 = (w_db w)\<lparr>messages := messages (w_db w) @ [msg], attachments := attachments (w_db w) @ rows\<rparr>"
      "msg = newMessage E jobId userId (us_id (cn_counterpart access)) ?content (jm_id msg)"
      "\<forall>x \<in> set (messages (w_db w)). jm_id x \<noteq> jm_id msg" "length rows \<le> 6"
      "\<forall>a \<in> set rows. ja_jobMessageId a = jm_id msg \<and> attachment_ok msg a" "md_message v = msg"
    have full: "jm_content msg \<noteq> []" by (subst saved(2)) (use acc(4) in \<open>simp add: newMessage_def\<close>)
    have "Q (Sent v) w' \<and> (\<forall>e. X e w')" if "w_db w' = (w_db w1)\<lparr>notifications := notifications (w_db w')\<rparr>" for w'
      by (rule stored [OF acc(1,2,3,5) saved(2) full saved(3-6)]) (subst that, simp add: saved(1))
    then have "wp (notify E i) (\<lambda>_. Q (Sent v)) X w1" for i
      by (intro wp_notify) (auto simp: saved(1))
    then show "wp (sthen (notifyMessage E jobId userId access) (sreturn (Sent v))) Q X w1"
      by (simp add: notifyMessage_def wp_simps Let_def)
  qed (simp add: failed)
  show ?thesis
  proof (cases "find_row jobs_t jobId (w_db w)")
    case (Some job)
    show ?thesis
    proof (cases "resolveConversationAccess (w_db w) userId job")
      case (Inr access)
      have "wp (evaluateMessageAttempt E (attempt jobId userId access ?content))
          (\<lambda>m. wp (if m \<noteq> Clear then sreturn (Moderated m)
            else sbind (transact (saveMessage E jobId userId (us_id (cn_counterpart access)) ?content (cm_attachments dto)))
              (\<lambda>created. sthen (notifyMessage E jobId userId access) (sreturn (Sent created)))) Q X) X w"
        if ok: "jb_status (cn_job access) \<noteq> JOB_CANCELED" "?content \<noteq> []"
      proof (rule wp_evaluate)
        fix w' assume "w' = w" "ev_contactUnlocked (attempt jobId userId access ?content) \<or>
          (detectContactSharing (ev_content (attempt jobId userId access ?content)) = None
            \<and> (\<forall>t \<in> set (interventions (w_db w)). \<not> restricts (e_now E) (ev_jobId (attempt jobId userId access ?content))
              (ev_actorUserId (attempt jobId userId access ?content)) t))"
        then show "wp (if Clear \<noteq> Clear then sreturn (Moderated Clear)
            else sbind (transact (saveMessage E jobId userId (us_id (cn_counterpart access)) ?content (cm_attachments dto)))
              (\<lambda>created. sthen (notifyMessage E jobId userId access) (sreturn (Sent created)))) Q X w'"
          using send [OF Some Inr ok] by (simp add: attempt_def wp_sbind)
      qed (auto simp: wp_simps moderated failed)
      then show ?thesis
        using Some Inr failed by (auto simp: sendMessage_def wp_simps Let_def attempt_def)
    qed (use Some failed in \<open>simp add: sendMessage_def wp_simps Let_def\<close>)
  qed (use failed in \<open>simp add: sendMessage_def wp_simps Let_def\<close>)
qed

subsection \<open>Invariants\<close>

lemma messages_ok_cong: "messages d' = messages d \<Longrightarrow> attachments d' = attachments d \<Longrightarrow> messages_ok d' = messages_ok d"
  by (simp add: messages_ok_def attachments_of_def unique_ids_def)

lemma keeps_messages_send: "keeps messages_ok (sendMessage E j u dto)"
  unfolding keeps_wp
proof (intro allI impI)
  fix w :: world assume ok: "messages_ok (w_db w)"
  show "wp (sendMessage E j u dto) (\<lambda>_ w'. messages_ok (w_db w')) (\<lambda>_ w'. messages_ok (w_db w')) w"
  proof (rule wp_sendMessage)
    fix job access msg rows v and w' :: world
    assume msg: "jm_content msg \<noteq> []" "\<forall>x \<in> set (messages (w_db w)). jm_id x \<noteq> jm_id msg" "length rows \<le> 6"
      "\<forall>a \<in> set rows. ja_jobMessageId a = jm_id msg \<and> attachment_ok msg a"
      and w': "w_db w' = (w_db w)\<lparr>messages := messages (w_db w) @ [msg], attachments := attachments (w_db w) @ rows,
        notifications := notifications (w_db w')\<rparr>"
    have "messages_ok (w_db w') = messages_ok ((w_db w)\<lparr>messages := messages (w_db w) @ [msg], attachments := attachments (w_db w) @ rows\<rparr>)"
      by (rule messages_ok_cong) (subst w', simp)+
    then show "messages_ok (w_db w') \<and> (\<forall>e. messages_ok (w_db w'))"
      using messages_ok_saved [OF ok msg(2,1,3,4)] by simp
  next
    fix m and w' :: world assume w': "w_db w' = (w_db w)\<lparr>interventions := interventions (w_db w')\<rparr>"
    show "messages_ok (w_db w')" by (rule messages_ok_cong [THEN iffD2, OF _ _ ok]) (subst w', simp)+
  qed (simp add: ok)
qed

lemma keeps_messages_read: "keeps messages_ok (markJobRead E j u)"
proof -
  let ?f = "\<lambda>m. m\<lparr>jm_readAt := Some (e_now E)\<rparr>"
  have "messages_ok (upd_rows messages_t n P ?f d)" if ok: "messages_ok d" for n P d
  proof -
    have "unique_ids messages_t (upd_rows messages_t n P ?f d)" using ok by (simp add: messages_ok_def tb_messages.unique_ids_upd)
    moreover have "\<exists>m' \<in> set (messages (upd_rows messages_t n P ?f d)). jm_id m' = ja_jobMessageId a \<and> attachment_ok m' a"
      if m: "m \<in> set (messages d)" "jm_id m = ja_jobMessageId a" "attachment_ok m a" for m a
    proof -
      let ?m = "if P m then ?f m else m"
      have "?m \<in> set (messages (upd_rows messages_t n P ?f d))" using m(1) by (force simp: upd_rows_def)
      moreover have "jm_id ?m = ja_jobMessageId a" "attachment_ok ?m a" using m(2,3) by (simp_all add: attachment_ok_def)
      ultimately show ?thesis by blast
    qed
    ultimately show ?thesis using ok
      by (auto simp: messages_ok_def attachments_of_def tb_messages.ball_upd [simplified] upd_rows_def)
  qed
  then show ?thesis
    unfolding keeps_wp
    by (auto simp: markJobRead_def wp_simps split: option.split sum.split)
qed

lemma messages_frames_interventions [keeps_rules]:
  "frames interventions_ok messages_t" "frames interventions_ok attachments_t" "frames interventions_ok notifications_t"
  by (simp_all add: frames_def interventions_ok_def unique_ids_def)

lemma keeps_getConversation [keeps_rules]: "keeps J (getConversationOrThrow j u)"
  by (simp add: keeps_wp wp_simps split: option.split sum.split)

lemma keeps_sendMessage:
  assumes "\<And>input. keeps J (evaluateMessageAttempt E input)" "frames J messages_t" "frames J attachments_t" "frames J notifications_t"
  shows "keeps J (sendMessage E j u dto)"
  by (simp add: sendMessage_def saveMessage_def saveAttachment_def validateMessageAttachmentReference_def notifyMessage_def
      Let_def keeps_rules keeps_frame assms)

lemmas keeps_interventions_send = keeps_sendMessage [OF keeps_interventions_evaluate messages_frames_interventions]

end
