(* ===== verification/SecurityAudit.thy ===== *)
theory SecurityAudit
  imports Requests
begin

text \<open>
  \<^verbatim>\<open>auth/security-audit.service.ts\<close>: the audit log, with the sanitizer that keeps secrets and
  oversized values out of its metadata.  The log lines of the process are output only and not
  modelled.
\<close>

subsection \<open>Dates as text\<close>

text \<open>\<^verbatim>\<open>Date.prototype.toISOString\<close>: the proleptic Gregorian date of a number of milliseconds.\<close>

definition civil_date :: "int \<Rightarrow> int \<times> int \<times> int" where
  "civil_date days =
     (let z = days + 719468; era = z div 146097; doe = z mod 146097;
          yoe = (doe - doe div 1460 + doe div 36524 - doe div 146096) div 365;
          doy = doe - (365 * yoe + yoe div 4 - yoe div 100);
          mp = (5 * doy + 2) div 153;
          m = (if mp < 10 then mp + 3 else mp - 9) in
      (yoe + era * 400 + (if m \<le> 2 then 1 else 0), m, doy - (153 * mp + 2) div 5 + 1))"

definition pad :: "nat \<Rightarrow> int \<Rightarrow> string" where
  "pad k n = (let s = show_nat (nat n) in replicate (k - length s) (CHR ''0'') @ s)"

definition toISOString :: "time \<Rightarrow> string" where
  "toISOString t =
     (let (y, m, d) = civil_date (t div 86400000); r = t mod 86400000 in
      (if 0 \<le> y \<and> y \<le> 9999 then pad 4 y else (if y < 0 then ''-'' else ''+'') @ pad 6 \<bar>y\<bar>)
      @ ''-'' @ pad 2 m @ ''-'' @ pad 2 d @ ''T'' @ pad 2 (r div 3600000) @ '':''
      @ pad 2 (r div 60000 mod 60) @ '':'' @ pad 2 (r div 1000 mod 60) @ ''.'' @ pad 3 (r mod 1000) @ ''Z'')"

subsection \<open>The sanitizer\<close>

definition SENSITIVE_METADATA_KEYS :: "string list" where
  "SENSITIVE_METADATA_KEYS =
     [''password'', ''passwordhash'', ''token'', ''accesstoken'', ''refreshtoken'', ''authorization'', ''cookie'']"

definition sensitive_key :: "string \<Rightarrow> bool" where
  "sensitive_key k \<longleftrightarrow> js_lower (js_trim k) \<in> set SENSITIVE_METADATA_KEYS"

definition kept_items :: "'a option list \<Rightarrow> 'a list" where
  "kept_items xs = concat (map (\<lambda>x. case x of None \<Rightarrow> [] | Some v \<Rightarrow> [v]) xs)"

lemma size_taken [termination_simp]: "x \<in> set (take n js) \<Longrightarrow> size x < Suc (size_list size js)"
  by (rule le_imp_less_Suc) (rule size_list_estimation' [OF in_set_takeD order_refl])

fun walk :: "json \<Rightarrow> json option" where
  "walk JNull = None"
| "walk (JStr s) = Some (JStr (if 1024 < length s then take 1024 s @ ''...'' else s))"
| "walk (JNum n) = Some (JNum n)"
| "walk (JBool b) = Some (JBool b)"
| "walk (JArr js) = Some (JArr (kept_items (map walk (take 50 js))))"
| "walk (JObj kvs) = Some (JObj (kept_items (map
     (\<lambda>kv. if sensitive_key (fst kv) then None else map_option (Pair (fst kv)) (walk (snd kv))) kvs)))"

definition sanitizeMetadata :: "json option \<Rightarrow> json option" where
  "sanitizeMetadata value =
     (case value of None \<Rightarrow> None
      | Some v \<Rightarrow> (case walk v of Some (JObj kvs) \<Rightarrow> Some (JObj kvs) | _ \<Rightarrow> None))"

definition sanitizeNullable :: "string option \<Rightarrow> nat \<Rightarrow> string option" where
  "sanitizeNullable value maxLength = map_option (take maxLength) (trim_or_null value)"

subsection \<open>Recording\<close>

record auditEventInput =
  av_actorUserId :: "id option"
  av_actorRole :: "string option"
  av_action :: string
  av_targetType :: "string option"
  av_targetId :: "string option"
  av_status :: auditStatus
  av_reason :: "string option"
  av_ipAddress :: "string option"
  av_userAgent :: "string option"
  av_route :: string
  av_method :: string
  av_metadata :: "json option"

definition auditRow :: "env \<Rightarrow> auditEventInput \<Rightarrow> id \<Rightarrow> auditLog" where
  "auditRow E input i =
     \<lparr>al_id = i, al_actorUserId = truthy (av_actorUserId input),
      al_actorRole = sanitizeNullable (av_actorRole input) 64, al_action = av_action input,
      al_targetType = sanitizeNullable (av_targetType input) 64,
      al_targetId = sanitizeNullable (av_targetId input) 128, al_status = av_status input,
      al_reason = sanitizeNullable (av_reason input) 512, al_ipAddress = sanitizeNullable (av_ipAddress input) 64,
      al_userAgent = sanitizeNullable (av_userAgent input) 512,
      al_route = or_else (sanitizeNullable (Some (av_route input)) 256) ''unknown'',
      al_method = or_else (sanitizeNullable (Some (av_method input)) 16) ''UNKNOWN'',
      al_metadata = sanitizeMetadata (av_metadata input), al_createdAt = e_now E\<rparr>"

text \<open>Connecting an actor that does not exist fails; any failure is logged and swallowed.\<close>

definition recordAuditEvent :: "env \<Rightarrow> auditEventInput \<Rightarrow> unit svc" where
  "recordAuditEvent E input =
     stry (sthen (case truthy (av_actorUserId input) of
           None \<Rightarrow> sreturn ()
         | Some u \<Rightarrow> sbind (findUniqueOrThrow users_t u) (\<lambda>_. sreturn ()))
       (sbind (create E auditLogs_t (auditRow E input)) (\<lambda>_. sreturn ())))
     (\<lambda>_. sreturn ())"

definition auditMetric :: "string \<Rightarrow> string \<Rightarrow> unit svc" where
  "auditMetric ev res = recordBusinessEvent ''auth'' ev res"

definition roleName :: "appRole \<Rightarrow> string" where
  "roleName r = (case r of AR_GUEST \<Rightarrow> ''guest'' | AR_CUSTOMER \<Rightarrow> ''customer'' | AR_PROVIDER \<Rightarrow> ''provider''
     | AR_ADMIN \<Rightarrow> ''admin'' | AR_SUPPORT_ADMIN \<Rightarrow> ''support_admin'' | AR_OPS_ADMIN \<Rightarrow> ''ops_admin''
     | AR_SUPER_ADMIN \<Rightarrow> ''super_admin'')"

text \<open>Where a request came from.\<close>

record requestInfo =
  rq_method :: string
  rq_path :: string
  rq_ip :: "string option"
  rq_userAgent :: "string option"

definition logAdminLogin :: "env \<Rightarrow> user \<Rightarrow> string \<Rightarrow> string option \<Rightarrow> string option \<Rightarrow> string option \<Rightarrow> unit svc" where
  "logAdminLogin E u role ip deviceId userAgent =
     sthen (recordAuditEvent E \<lparr>av_actorUserId = Some (us_id u), av_actorRole = Some role, av_action = ''admin.login'',
       av_targetType = Some ''auth'', av_targetId = Some (us_id u), av_status = AU_SUCCESS, av_reason = None,
       av_ipAddress = ip, av_userAgent = userAgent, av_route = ''/auth/login'', av_method = ''POST'',
       av_metadata = Some (JObj [(''email'', JStr (us_email u)), (''deviceId'', json_of_opt deviceId)])\<rparr>)
     (auditMetric ''admin_login_success'' ''success'')"

definition logForbiddenAccess ::
    "env \<Rightarrow> id option \<Rightarrow> appRole \<Rightarrow> requestInfo \<Rightarrow> appRole list \<Rightarrow> string list \<Rightarrow> string \<Rightarrow> unit svc" where
  "logForbiddenAccess E userId role req requiredRoles requiredPermissions reason =
     sthen (recordAuditEvent E \<lparr>av_actorUserId = userId, av_actorRole = Some (roleName role),
       av_action = ''auth.access.denied'', av_targetType = Some ''route'', av_targetId = Some (rq_path req),
       av_status = AU_DENIED, av_reason = Some reason, av_ipAddress = rq_ip req, av_userAgent = rq_userAgent req,
       av_route = rq_path req, av_method = rq_method req,
       av_metadata = Some (JObj [(''requiredRoles'', JArr (map (\<lambda>r. JStr (roleName r)) requiredRoles)),
         (''requiredPermissions'', JArr (map JStr requiredPermissions))])\<rparr>)
     (auditMetric ''forbidden_access'' ''blocked'')"

record adminActionInput =
  ac_userId :: id
  ac_role :: appRole
  ac_action :: string
  ac_request :: requestInfo
  ac_success :: bool
  ac_targetType :: "string option"
  ac_targetId :: "string option"
  ac_reason :: "string option"
  ac_reauthRequired :: bool
  ac_metadata :: "(string \<times> json) list"

definition logAdminAction :: "env \<Rightarrow> adminActionInput \<Rightarrow> unit svc" where
  "logAdminAction E input =
     sthen (recordAuditEvent E \<lparr>av_actorUserId = Some (ac_userId input), av_actorRole = Some (roleName (ac_role input)),
       av_action = ac_action input, av_targetType = Some (or_else (ac_targetType input) ''route''),
       av_targetId = Some (or_else (ac_targetId input) (rq_path (ac_request input))),
       av_status = (if ac_success input then AU_SUCCESS else AU_FAILED), av_reason = ac_reason input,
       av_ipAddress = rq_ip (ac_request input), av_userAgent = rq_userAgent (ac_request input),
       av_route = rq_path (ac_request input), av_method = rq_method (ac_request input),
       av_metadata = Some (JObj (ac_metadata input @ [(''reauthRequired'', JBool (ac_reauthRequired input))]))\<rparr>)
     (auditMetric (''admin_action_'' @ ac_action input) (if ac_success input then ''success'' else ''failed''))"

definition logReauthFailure :: "env \<Rightarrow> id \<Rightarrow> string \<Rightarrow> string \<Rightarrow> requestInfo \<Rightarrow> unit svc" where
  "logReauthFailure E userId role reason req =
     recordAuditEvent E \<lparr>av_actorUserId = Some userId, av_actorRole = Some role, av_action = ''auth.reauth'',
       av_targetType = Some ''auth'', av_targetId = Some userId, av_status = AU_FAILED, av_reason = Some reason,
       av_ipAddress = rq_ip req, av_userAgent = rq_userAgent req, av_route = rq_path req, av_method = rq_method req,
       av_metadata = None\<rparr>"

definition logReauthSuccess :: "env \<Rightarrow> id \<Rightarrow> string \<Rightarrow> string option \<Rightarrow> time \<Rightarrow> requestInfo \<Rightarrow> unit svc" where
  "logReauthSuccess E userId role purpose expiresAt req =
     recordAuditEvent E \<lparr>av_actorUserId = Some userId, av_actorRole = Some role, av_action = ''auth.reauth'',
       av_targetType = Some ''auth'', av_targetId = Some userId, av_status = AU_SUCCESS, av_reason = None,
       av_ipAddress = rq_ip req, av_userAgent = rq_userAgent req, av_route = rq_path req, av_method = rq_method req,
       av_metadata = Some (JObj [(''purpose'', json_of_opt purpose), (''expiresAt'', JStr (toISOString expiresAt))])\<rparr>"

subsection \<open>The administrator's actions\<close>

record adminActor =
  aa_userId :: id
  aa_role :: appRole
  aa_request :: requestInfo

definition actorAction ::
    "adminActor \<Rightarrow> string \<Rightarrow> string \<Rightarrow> string \<Rightarrow> (string \<times> json) list \<Rightarrow> adminActionInput" where
  "actorAction actor action targetType targetId metadata =
     \<lparr>ac_userId = aa_userId actor, ac_role = aa_role actor, ac_action = action, ac_request = aa_request actor,
      ac_success = True, ac_targetType = Some targetType, ac_targetId = Some targetId, ac_reason = None,
      ac_reauthRequired = True, ac_metadata = metadata\<rparr>"

definition logRoleChange :: "env \<Rightarrow> adminActor \<Rightarrow> id \<Rightarrow> string \<Rightarrow> string \<Rightarrow> unit svc" where
  "logRoleChange E actor targetUserId previousRole nextRole =
     logAdminAction E (actorAction actor ''admin.user.role.change'' ''user'' targetUserId
       [(''previousRole'', JStr previousRole), (''nextRole'', JStr nextRole)])"

definition logUserStatusChange :: "env \<Rightarrow> adminActor \<Rightarrow> id \<Rightarrow> bool \<Rightarrow> unit svc" where
  "logUserStatusChange E actor targetUserId isActive =
     logAdminAction E (actorAction actor (if isActive then ''admin.user.reactivate'' else ''admin.user.suspend'')
       ''user'' targetUserId [(''isActive'', JBool isActive)])"

definition logUserDeletion :: "env \<Rightarrow> adminActor \<Rightarrow> id \<Rightarrow> unit svc" where
  "logUserDeletion E actor targetUserId =
     logAdminAction E (actorAction actor ''admin.user.delete'' ''user'' targetUserId [])"

definition logSettingChange :: "env \<Rightarrow> adminActor \<Rightarrow> string \<Rightarrow> unit svc" where
  "logSettingChange E actor settingKey =
     logAdminAction E (actorAction actor ''admin.setting.change'' ''setting'' settingKey [])"

definition logSensitiveExport :: "env \<Rightarrow> adminActor \<Rightarrow> string \<Rightarrow> nat \<Rightarrow> unit svc" where
  "logSensitiveExport E actor exportName records =
     logAdminAction E (actorAction actor ''admin.data.export'' ''export'' exportName [(''records'', JNum (show_nat records))])"

subsection \<open>Listing\<close>

record auditLogFilter =
  af_page :: "int option"
  af_limit :: "int option"
  af_action :: "string option"
  af_status :: "auditStatus option"
  af_actorUserId :: "id option"

abbreviation al_order :: "auditLog \<Rightarrow> time \<times> id" where "al_order r \<equiv> (al_createdAt r, al_id r)"

definition auditWhere :: "auditLogFilter \<Rightarrow> auditLog \<Rightarrow> bool" where
  "auditWhere input r \<longleftrightarrow>
     (case truthy (af_action input) of None \<Rightarrow> True | Some s \<Rightarrow> contains_ci (al_action r) s)
     \<and> (case af_status input of None \<Rightarrow> True | Some s \<Rightarrow> al_status r = s)
     \<and> (case truthy (af_actorUserId input) of None \<Rightarrow> True | Some u \<Rightarrow> al_actorUserId r = Some u)"

text \<open>Page at least 1, limit between 1 and 100; here \<^verbatim>\<open>hasNext\<close> counts the rows delivered.\<close>

definition clamped_page :: "int option \<Rightarrow> int option \<Rightarrow> resolvedPagination" where
  "clamped_page page limit =
     (let p = max 1 (or_else page 1); l = min (max 1 (or_else limit 20)) 100 in
      \<lparr>rp_page = p, rp_limit = l, rp_skip = (p - 1) * l\<rparr>)"

definition delivered_page :: "resolvedPagination \<Rightarrow> 'r list \<Rightarrow> 'r paginated" where
  "delivered_page p rs =
     (let rows = take_page p rs in
      \<lparr>pgn_data = rows, pgn_total = int (length rs), pgn_page = rp_page p, pgn_limit = rp_limit p,
       pgn_hasNext = rp_skip p + int (length rows) < int (length rs)\<rparr>)"

definition listAuditLogs :: "auditLogFilter \<Rightarrow> auditLog paginated svc" where
  "listAuditLogs input =
     sread (\<lambda>d. delivered_page (clamped_page (af_page input) (af_limit input))
       (sort_desc al_order (filter (auditWhere input) (auditLogs d))))"

subsection \<open>No secret reaches the log\<close>

fun clean :: "json \<Rightarrow> bool" where
  "clean JNull \<longleftrightarrow> False"
| "clean (JStr s) \<longleftrightarrow> length s \<le> 1027"
| "clean (JNum n) \<longleftrightarrow> True"
| "clean (JBool b) \<longleftrightarrow> True"
| "clean (JArr js) \<longleftrightarrow> length js \<le> 50 \<and> list_all clean js"
| "clean (JObj kvs) \<longleftrightarrow> list_all (\<lambda>kv. \<not> sensitive_key (fst kv) \<and> clean (snd kv)) kvs"

lemma set_kept_items: "set (kept_items xs) = {v. Some v \<in> set xs}"
  by (induction xs) (auto simp: kept_items_def split: option.splits)

lemma length_kept_items: "length (kept_items xs) \<le> length xs"
  by (induction xs) (auto simp: kept_items_def split: option.split)

lemma walk_clean: "walk j = Some j' \<Longrightarrow> clean j'"
proof (induction j arbitrary: j' rule: walk.induct)
  case (5 js)
  have "length (kept_items (map walk (take 50 js))) \<le> 50"
    using length_kept_items [of "map walk (take 50 js)"] by simp
  then show ?case using 5 by (force simp: set_kept_items list_all_iff)
next
  case (6 kvs)
  let ?item = "\<lambda>kv. if sensitive_key (fst kv) then None else map_option (Pair (fst kv)) (walk (snd kv))"
  have "\<not> sensitive_key (fst e) \<and> clean (snd e)" if "Some e \<in> ?item ` set kvs" for e
  proof -
    from that obtain kv where kv: "kv \<in> set kvs" "Some e = ?item kv" by (elim imageE)
    then have "\<not> sensitive_key (fst kv)" by (cases "sensitive_key (fst kv)") simp_all
    moreover from this obtain v where "walk (snd kv) = Some v" "e = (fst kv, v)"
      using kv(2) by (cases "walk (snd kv)") simp_all
    ultimately show ?thesis using "6.IH" [OF kv(1)] by simp
  qed
  then have "list_all (\<lambda>e. \<not> sensitive_key (fst e) \<and> clean (snd e)) (kept_items (map ?item kvs))"
    unfolding list_all_iff set_kept_items set_map by blast
  moreover have "j' = JObj (kept_items (map ?item kvs))" using "6.prems" by simp
  ultimately show ?case by simp
qed (auto split: if_splits)

lemma sanitize_clean: "sanitizeMetadata m = Some j \<Longrightarrow> clean j"
  using walk_clean by (auto simp: sanitizeMetadata_def split: option.splits json.splits)

definition audit_ok :: "auditLog \<Rightarrow> bool" where
  "audit_ok r \<longleftrightarrow> (\<forall>j. al_metadata r = Some j \<longrightarrow> clean j)
     \<and> al_route r \<noteq> [] \<and> length (al_route r) \<le> 256 \<and> al_method r \<noteq> [] \<and> length (al_method r) \<le> 16
     \<and> (\<forall>s. al_reason r = Some s \<longrightarrow> length s \<le> 512) \<and> (\<forall>s. al_userAgent r = Some s \<longrightarrow> length s \<le> 512)"

lemma sanitizeNullable_bounds: "sanitizeNullable x n = Some s \<Longrightarrow> length s \<le> n \<and> (0 < n \<longrightarrow> s \<noteq> [])"
  using trim_or_null_nonempty by (auto simp: sanitizeNullable_def)

lemma auditRow_ok: "audit_ok (auditRow E input i)"
  using sanitize_clean sanitizeNullable_bounds [of "Some (av_route input)" 256]
    sanitizeNullable_bounds [of "Some (av_method input)" 16] sanitizeNullable_bounds
  by (auto simp: audit_ok_def auditRow_def or_else_def split: option.split)

subsection \<open>Recording changes nothing else\<close>

lemma wp_recordAuditEvent:
  fixes w :: world
  assumes "\<And>w' rows. \<lbrakk>w_db w' = (w_db w)\<lparr>auditLogs := auditLogs (w_db w) @ rows\<rparr>; list_all audit_ok rows; length rows \<le> 1\<rbrakk> \<Longrightarrow> Q () w'"
  shows "wp (recordAuditEvent E input) Q X w"
proof -
  have none: "Q () w'" if "w_db w' = w_db w" for w' by (rule assms [of w' "[]"]) (simp_all add: that)
  have one: "Q () w'" if "w_db w' = (w_db w)\<lparr>auditLogs := auditLogs (w_db w) @ [auditRow E input i]\<rparr>" for w' i
    by (rule assms) (use that auditRow_ok in auto)
  show ?thesis using none one [where i = "e_cuid E (w_ids w)"]
    by (auto simp: recordAuditEvent_def wp_simps Let_def split: option.split)
qed

lemma keeps_recordAuditEvent [keeps_rules]: "frames J auditLogs_t \<Longrightarrow> keeps J (recordAuditEvent E input)"
  by (simp add: recordAuditEvent_def keeps_rules keeps_frame)

lemma keeps_logs [keeps_rules]:
  assumes "frames J auditLogs_t"
  shows "keeps J (logAdminLogin E u role ip dev ua)" "keeps J (logForbiddenAccess E ui ro req rs ps reason)"
    "keeps J (logAdminAction E a)" "keeps J (logReauthFailure E i role' reason' req')"
    "keeps J (logReauthSuccess E i role' purpose t req')" "keeps J (logRoleChange E actor j p n)"
    "keeps J (logUserStatusChange E actor j b)" "keeps J (logUserDeletion E actor j)"
    "keeps J (logSettingChange E actor k)" "keeps J (logSensitiveExport E actor k m)"
  by (simp_all add: logAdminLogin_def logForbiddenAccess_def logAdminAction_def logReauthFailure_def logReauthSuccess_def
      logRoleChange_def logUserStatusChange_def logUserDeletion_def logSettingChange_def logSensitiveExport_def
      auditMetric_def keeps_rules assms)

text \<open>The log only grows, by well-formed rows.\<close>

definition log_extends :: "auditLog list \<Rightarrow> db \<Rightarrow> bool" where
  "log_extends rows d \<longleftrightarrow> (\<exists>more. auditLogs d = rows @ more \<and> list_all audit_ok more)"

lemma keeps_log_recordAuditEvent: "keeps (log_extends rows) (recordAuditEvent E input)"
  unfolding keeps_wp by (auto simp: log_extends_def intro!: wp_recordAuditEvent)

lemma keeps_log_logs [keeps_rules]:
  "keeps (log_extends rows) (logAdminLogin E u role ip dev ua)" "keeps (log_extends rows) (logForbiddenAccess E ui ro req rs ps reason)"
  "keeps (log_extends rows) (logAdminAction E a)" "keeps (log_extends rows) (logReauthFailure E i role' reason' req')"
  "keeps (log_extends rows) (logReauthSuccess E i role' purpose t req')" "keeps (log_extends rows) (logRoleChange E actor j p n)"
  "keeps (log_extends rows) (logUserStatusChange E actor j b)" "keeps (log_extends rows) (logUserDeletion E actor j)"
  "keeps (log_extends rows) (logSettingChange E actor k)" "keeps (log_extends rows) (logSensitiveExport E actor k m)"
  by (simp_all add: logAdminLogin_def logForbiddenAccess_def logAdminAction_def logReauthFailure_def logReauthSuccess_def
      logRoleChange_def logUserStatusChange_def logUserDeletion_def logSettingChange_def logSensitiveExport_def
      auditMetric_def keeps_rules keeps_log_recordAuditEvent)

end
