(* ===== verification/Catalog.thy ===== *)
theory Catalog
  imports Requests
begin

text \<open>
  \<^verbatim>\<open>categories/categories.service.ts\<close>, with the normal form of slugs, and
  \<^verbatim>\<open>worker-profile/worker-profile.service.ts\<close>: listing with filters and orders, upsert and partial
  update of the own profile with its categories.
\<close>

subsection \<open>An update that can break a unique constraint\<close>

definition updateUnique :: "env \<Rightarrow> 'r tbl \<Rightarrow> id \<Rightarrow> ('r \<Rightarrow> 'r) \<Rightarrow> 'r svc" where
  "updateUnique E T i f =
     sbind (findUniqueOrThrow T i) (\<lambda>r.
     sbind (findBy T (\<lambda>x. t_key T x \<noteq> i \<and> t_clash T x (f r))) (\<lambda>other.
     sthen (sguard (other = None) (PrismaError ''P2002''))
     (update E T i f)))"

lemma wp_updateUnique [wp_simps]: "wp (updateUnique E T i f) Q X w =
    (case find_row T i (w_db w) of
       None \<Rightarrow> X (PrismaError ''P2025'') w
     | Some r \<Rightarrow>
       if \<exists>x \<in> set (t_rows T (w_db w)). t_key T x \<noteq> i \<and> t_clash T x (f r)
       then X (PrismaError ''P2002'') w
       else Q (t_touch T (e_now E) (f r))
         (w\<lparr>w_db := upd_rows T (e_now E) (\<lambda>r. t_key T r = i) f (w_db w)\<rparr>))"
  by (auto simp: updateUnique_def wp_simps find_None_iff split: option.split)

lemma keeps_updateUnique_frame: "frames J T \<Longrightarrow> keeps J (updateUnique E T i f)"
  by (simp add: updateUnique_def keeps_rules keeps_frame)

text \<open>The unique constraints of a table, other than its identifier's.\<close>

definition constraints :: "'r tbl \<Rightarrow> db \<Rightarrow> bool" where
  "constraints T d \<longleftrightarrow> unique_ids T d
     \<and> (\<forall>x \<in> set (t_rows T d). \<forall>y \<in> set (t_rows T d). t_key T x \<noteq> t_key T y \<longrightarrow> \<not> t_clash T x y)"

lemma constraints_map:
  assumes "unique_ids T d'" "t_rows T d' = map g (t_rows T d)" "\<And>x. t_key T (g x) = t_key T x"
    and "\<And>x y. x \<in> set (t_rows T d) \<Longrightarrow> y \<in> set (t_rows T d) \<Longrightarrow> t_key T x \<noteq> t_key T y \<Longrightarrow> \<not> t_clash T (g x) (g y)"
  shows "constraints T d'"
  using assms(1,4) unfolding constraints_def assms(2) set_map ball_simps(9) assms(3) by simp

locale unique_table = lawful_table T for T :: "'r tbl" +
  assumes clash_sym: "t_clash T x y = t_clash T y x"
    and clash_touch: "t_clash T (t_touch T n x) y = t_clash T x y"
begin

lemma keeps_constraints_create: "keeps (constraints T) (create E T mk)"
proof (rule keeps_create)
  fix d i
  assume "constraints T d" "\<forall>x \<in> set (t_rows T d). t_key T x \<noteq> t_key T (mk i) \<and> \<not> t_clash T x (mk i)"
  then show "constraints T (t_put T (t_rows T d @ [mk i]) d)"
    using clash_sym by (auto simp: constraints_def rows_put unique_ids_append)
qed

lemma constraints_upd_row:
  assumes ok: "constraints T d" and r: "find_row T i d = Some r" and f: "\<And>x. t_key T (f x) = t_key T x"
    and clash: "\<not> (\<exists>x \<in> set (t_rows T d). t_key T x \<noteq> i \<and> t_clash T x (f r))"
  shows "constraints T (upd_rows T n (\<lambda>x. t_key T x = i) f d)"
proof -
  let ?g = "\<lambda>x. if t_key T x = i then t_touch T n (f x) else x"
  have u: "unique_ids T d" using ok by (simp add: constraints_def)
  have key: "t_key T (?g x) = t_key T x" for x using f key_touch by simp
  have apart: "\<not> t_clash T (?g x) (?g y)"
    if xy: "x \<in> set (t_rows T d)" "y \<in> set (t_rows T d)" "t_key T x \<noteq> t_key T y" for x y
  proof -
    have one: "\<not> t_clash T (t_touch T n (f a)) b"
      if "a \<in> set (t_rows T d)" "b \<in> set (t_rows T d)" "t_key T a = i" "t_key T b \<noteq> i" for a b
      using unique_row [OF u r that(1,3)] clash that(2,4) clash_sym [of b] clash_touch by auto
    have "\<not> t_clash T x y" using ok xy by (simp add: constraints_def)
    then show ?thesis using one [of x y] one [of y x] xy clash_sym by (auto split: if_splits)
  qed
  have "unique_ids T (upd_rows T n (\<lambda>x. t_key T x = i) f d)" using u f by (simp add: unique_ids_upd)
  then show ?thesis by (rule constraints_map [OF _ rows_upd key apart])
qed

lemma keeps_constraints_updateUnique:
  assumes "\<And>x. t_key T (f x) = t_key T x"
  shows "keeps (constraints T) (updateUnique E T i f)"
  unfolding keeps_wp
  using assms by (auto simp: wp_updateUnique constraints_upd_row split: option.split)

text \<open>An update of other columns.\<close>

lemma constraints_upd_same:
  assumes f: "\<And>x. t_key T (f x) = t_key T x" and c: "\<And>x y. t_clash T (f x) y = t_clash T x y"
    and ok: "constraints T d"
  shows "constraints T (upd_rows T n Q f d)"
proof -
  let ?g = "\<lambda>x. if Q x then t_touch T n (f x) else x"
  have left: "t_clash T (?g x) y = t_clash T x y" for x y by (simp add: clash_touch c)
  have "t_clash T (?g x) (?g y) = t_clash T x y" for x y
    using left [of x "?g y"] left [of y x] clash_sym [of x "?g y"] clash_sym [of y x] by simp
  moreover have "t_key T (?g x) = t_key T x" for x by (simp add: key_touch f)
  moreover have "unique_ids T (upd_rows T n Q f d)" using ok f by (simp add: constraints_def unique_ids_upd)
  ultimately show ?thesis using ok
    by (intro constraints_map [OF _ rows_upd]) (simp_all add: constraints_def)
qed

lemma keeps_constraints_same:
  assumes "\<And>x. t_key T (f x) = t_key T x" "\<And>x y. t_clash T (f x) y = t_clash T x y"
  shows "keeps (constraints T) (update E T i f)" "keeps (constraints T) (updateMany E T P f)"
  using constraints_upd_same [OF assms] by (auto intro!: keeps_update keeps_updateMany)

end

interpretation uq_categories: unique_table categories_t
  by unfold_locales auto

interpretation uq_workerProfiles: unique_table workerProfiles_t
  by unfold_locales auto

interpretation uq_reviews: unique_table reviews_t
  by unfold_locales auto

interpretation uq_sessions: unique_table sessions_t
  by unfold_locales auto

interpretation uq_challenges: unique_table challenges_t
  by unfold_locales auto

subsection \<open>Slugs\<close>

definition slug_char :: "char \<Rightarrow> bool" where
  "slug_char c \<longleftrightarrow> (let n = of_char c :: nat in 97 \<le> n \<and> n \<le> 122 \<or> 48 \<le> n \<and> n \<le> 57)"

text \<open>\<^verbatim>\<open>.replace(/[^a-z0-9]+/g, '-')\<close>.\<close>

fun dashed :: "bool \<Rightarrow> string \<Rightarrow> string" where
  "dashed inrun [] = []"
| "dashed inrun (c # cs) =
     (if slug_char c then c # dashed False cs
      else if inrun then dashed True cs else CHR ''-'' # dashed True cs)"

text \<open>\<^verbatim>\<open>.replace(/^-+|-+$/g, '')\<close>.\<close>

definition strip_dashes :: "string \<Rightarrow> string" where
  "strip_dashes s = rev (dropWhile (\<lambda>c. c = CHR ''-'') (rev (dropWhile (\<lambda>c. c = CHR ''-'') s)))"

text \<open>\<^verbatim>\<open>.replace(/-{2,}/g, '-')\<close>.\<close>

fun collapse_dashes :: "string \<Rightarrow> string" where
  "collapse_dashes (a # b # cs) =
     (if a = CHR ''-'' \<and> b = CHR ''-'' then collapse_dashes (b # cs) else a # collapse_dashes (b # cs))"
| "collapse_dashes s = s"

definition slug_of :: "string \<Rightarrow> string" where
  "slug_of input = collapse_dashes (strip_dashes (dashed False (js_trim (js_lower input))))"

abbreviation noSlug :: exn where "noSlug \<equiv> ConflictException ''Unable to generate a valid slug''"

definition normalizeSlug :: "string \<Rightarrow> string svc" where
  "normalizeSlug input = sthen (sguard (slug_of input \<noteq> []) noSlug) (sreturn (slug_of input))"

text \<open>The normal form, as the DTO's pattern \<^verbatim>\<open>/^[a-z0-9]+(?:-[a-z0-9]+)*$/\<close> has it.\<close>

fun no_double_dash :: "string \<Rightarrow> bool" where
  "no_double_dash (a # b # cs) \<longleftrightarrow> \<not> (a = CHR ''-'' \<and> b = CHR ''-'') \<and> no_double_dash (b # cs)"
| "no_double_dash s \<longleftrightarrow> True"

definition valid_slug :: "string \<Rightarrow> bool" where
  "valid_slug s \<longleftrightarrow> s \<noteq> [] \<and> list_all (\<lambda>c. slug_char c \<or> c = CHR ''-'') s
     \<and> hd s \<noteq> CHR ''-'' \<and> last s \<noteq> CHR ''-'' \<and> no_double_dash s"

lemma dash_no_slug [simp]: "\<not> slug_char (CHR ''-'')"
  by (simp add: slug_char_def)

lemma dashed_chars: "c \<in> set (dashed b s) \<Longrightarrow> slug_char c \<or> c = CHR ''-''"
  by (induction s arbitrary: b) (auto split: if_splits)

lemma strip_dashes_set: "set (strip_dashes s) \<subseteq> set s"
  by (auto simp: strip_dashes_def dest!: set_dropWhileD)

lemma strip_dashes_ends:
  assumes "strip_dashes s \<noteq> []"
  shows "hd (strip_dashes s) \<noteq> CHR ''-''" "last (strip_dashes s) \<noteq> CHR ''-''"
proof -
  let ?d = "\<lambda>c. c = CHR ''-''"
  let ?t = "dropWhile ?d s"
  have rest: "dropWhile ?d (rev ?t) \<noteq> []" using assms by (simp add: strip_dashes_def)
  show "last (strip_dashes s) \<noteq> CHR ''-''"
    using hd_dropWhile [OF rest] rest by (simp add: strip_dashes_def last_rev)
  have t: "?t \<noteq> []" by (rule contrapos_nn [OF rest]) (simp only: rev.simps dropWhile.simps)
  have "rev (rev ?t) = rev (takeWhile ?d (rev ?t) @ dropWhile ?d (rev ?t))"
    by (simp only: takeWhile_dropWhile_id)
  then have "hd ?t = hd (rev (dropWhile ?d (rev ?t)) @ rev (takeWhile ?d (rev ?t)))"
    by (simp only: rev_rev_ident rev_append)
  then have "hd (strip_dashes s) = hd ?t"
    using rest by (simp add: strip_dashes_def)
  then show "hd (strip_dashes s) \<noteq> CHR ''-''" using hd_dropWhile [OF t] by simp
qed

lemma collapse_set: "set (collapse_dashes s) \<subseteq> set s"
  by (induction s rule: collapse_dashes.induct) auto

lemma collapse_Nil [simp]: "collapse_dashes s = [] \<longleftrightarrow> s = []"
  by (induction s rule: collapse_dashes.induct) auto

lemma collapse_ends: "s \<noteq> [] \<Longrightarrow> hd (collapse_dashes s) = hd s \<and> last (collapse_dashes s) = last s"
  by (induction s rule: collapse_dashes.induct) auto

lemma collapse_hd: "hd (collapse_dashes (a # s)) = a"
  using collapse_ends [of "a # s"] by simp

lemma no_double_Cons: "no_double_dash (a # s) \<longleftrightarrow> no_double_dash s \<and> (s = [] \<or> \<not> (a = CHR ''-'' \<and> hd s = CHR ''-''))"
  by (cases s) auto

lemma collapse_no_double: "no_double_dash (collapse_dashes s)"
  by (induction s rule: collapse_dashes.induct) (auto simp: no_double_Cons collapse_hd)

lemma slug_of_valid:
  assumes "slug_of s \<noteq> []"
  shows "valid_slug (slug_of s)"
proof -
  let ?t = "strip_dashes (dashed False (js_trim (js_lower s)))"
  have t: "?t \<noteq> []" using assms by (simp add: slug_of_def)
  have "\<forall>c \<in> set (slug_of s). slug_char c \<or> c = CHR ''-''"
    using dashed_chars strip_dashes_set collapse_set unfolding slug_of_def by blast
  then show ?thesis
    using t strip_dashes_ends [OF t] collapse_ends [OF t] collapse_no_double [of ?t]
    by (simp add: valid_slug_def slug_of_def list_all_iff)
qed

text \<open>A slug in normal form is its own slug.\<close>

lemma dashed_valid: "no_double_dash s \<Longrightarrow> list_all (\<lambda>c. slug_char c \<or> c = CHR ''-'') s \<Longrightarrow>
    (b \<Longrightarrow> s \<noteq> [] \<Longrightarrow> hd s \<noteq> CHR ''-'') \<Longrightarrow> dashed b s = s"
  by (induction b s rule: dashed.induct) (auto simp: no_double_Cons)

lemma strip_valid:
  assumes "s \<noteq> []" "hd s \<noteq> CHR ''-''" "last s \<noteq> CHR ''-''"
  shows "strip_dashes s = s"
proof -
  have "dropWhile (\<lambda>c. c = CHR ''-'') s = s" using assms(1,2) by (cases s) auto
  moreover have "dropWhile (\<lambda>c. c = CHR ''-'') (rev s) = rev s"
    using assms(1,3) by (cases s rule: rev_cases) auto
  ultimately show ?thesis by (simp add: strip_dashes_def)
qed

lemma collapse_valid: "no_double_dash s \<Longrightarrow> collapse_dashes s = s"
  by (induction s rule: collapse_dashes.induct) auto

lemma slug_char_plain: "slug_char c \<or> c = CHR ''-'' \<Longrightarrow> low_char c = c \<and> \<not> js_ws c"
  by (auto simp: slug_char_def low_char_def js_ws_def Let_def)

lemma slug_of_valid_id:
  assumes "valid_slug s"
  shows "slug_of s = s"
proof -
  have plain: "low_char c = c \<and> \<not> js_ws c" if "c \<in> set s" for c
    using assms that slug_char_plain by (auto simp: valid_slug_def list_all_iff)
  then have low: "js_lower s = s" by (simp add: js_lower_def map_idI)
  have keep: "dropWhile js_ws t = t" if "set t \<subseteq> set s" for t
    using that plain by (cases t) auto
  have "js_trim s = s" by (simp add: js_trim_def keep)
  then show ?thesis
    using assms low by (simp add: slug_of_def valid_slug_def dashed_valid strip_valid collapse_valid)
qed

subsection \<open>Categories\<close>

abbreviation categoryConflict :: exn where
  "categoryConflict \<equiv> ConflictException ''Category name or slug already exists''"

record createCategoryDto =
  cc_name :: string
  cc_slug :: "string option"
  cc_description :: "string option"
  cc_sortOrder :: "int option"

record updateCategoryDto =
  uc_name :: "string option"
  uc_slug :: "string option"
  uc_description :: "string option"
  uc_sortOrder :: "int option"

text \<open>Names are ordered by code units, as under PostgreSQL's C collation.\<close>

definition listCategories :: "bool \<Rightarrow> category list svc" where
  "listCategories includeInactive =
     sread (\<lambda>d. sort_key (\<lambda>c. (ca_sortOrder c, ca_name c)) (filter (\<lambda>c. includeInactive \<or> ca_isActive c) (categories d)))"

definition getCategoryById :: "id \<Rightarrow> category svc" where
  "getCategoryById i = require categories_t i categoryNotFound"

definition handlePrismaConflict :: "exn \<Rightarrow> 'a svc" where
  "handlePrismaConflict e = (if e = PrismaError ''P2002'' then sthrow categoryConflict else sthrow e)"

definition newCategory :: "env \<Rightarrow> string \<Rightarrow> string \<Rightarrow> createCategoryDto \<Rightarrow> id \<Rightarrow> category" where
  "newCategory E name slug dto i =
     \<lparr>ca_id = i, ca_name = name, ca_slug = slug, ca_description = trim_or_null (cc_description dto),
      ca_isActive = True, ca_sortOrder = or_else (cc_sortOrder dto) 0,
      ca_createdAt = e_now E, ca_updatedAt = e_now E\<rparr>"

definition createCategory :: "env \<Rightarrow> createCategoryDto \<Rightarrow> category svc" where
  "createCategory E dto =
     (let name = js_trim (cc_name dto) in
      sbind (normalizeSlug (or_else (cc_slug dto) name)) (\<lambda>slug.
      stry (create E categories_t (newCategory E name slug dto)) handlePrismaConflict))"

definition category_data :: "updateCategoryDto \<Rightarrow> string option \<Rightarrow> category \<Rightarrow> category" where
  "category_data dto slug r =
     r\<lparr>ca_name := (case uc_name dto of None \<Rightarrow> ca_name r | Some n \<Rightarrow> js_trim n),
       ca_slug := or_else slug (ca_slug r),
       ca_description := (case uc_description dto of None \<Rightarrow> ca_description r | Some s \<Rightarrow> trim_or_null (Some s)),
       ca_sortOrder := or_else (uc_sortOrder dto) (ca_sortOrder r)\<rparr>"

definition updateCategory :: "env \<Rightarrow> id \<Rightarrow> updateCategoryDto \<Rightarrow> category svc" where
  "updateCategory E i dto =
     sbind (require categories_t i categoryNotFound) (\<lambda>_.
     sbind (case uc_slug dto of None \<Rightarrow> sreturn None | Some s \<Rightarrow> sbind (normalizeSlug s) (\<lambda>n. sreturn (Some n))) (\<lambda>slug.
     stry (updateUnique E categories_t i (category_data dto slug)) handlePrismaConflict))"

definition removeCategory :: "env \<Rightarrow> id \<Rightarrow> unit svc" where
  "removeCategory E i =
     sbind (require categories_t i categoryNotFound) (\<lambda>_.
     sbind (update E categories_t i (\<lambda>r. r\<lparr>ca_isActive := False\<rparr>)) (\<lambda>_. sreturn ()))"

subsection \<open>Contracts of the categories\<close>

lemma createCategory_slug:
  "wp (createCategory E dto) (\<lambda>r _. valid_slug (ca_slug r) \<and> ca_isActive r \<and> ca_name r = js_trim (cc_name dto))
    (\<lambda>e w'. w_db w' = w_db w \<and> e \<in> {noSlug, categoryConflict}) w"
  by (simp add: createCategory_def normalizeSlug_def handlePrismaConflict_def newCategory_def wp_simps Let_def slug_of_valid)

lemma keeps_categories:
  "keeps (constraints categories_t) (createCategory E dto)" "keeps (constraints categories_t) (updateCategory E i dto')"
  "keeps (constraints categories_t) (removeCategory E i)"
  by (simp_all add: createCategory_def normalizeSlug_def handlePrismaConflict_def updateCategory_def removeCategory_def
      category_data_def keeps_rules uq_categories.keeps_constraints_create uq_categories.keeps_constraints_updateUnique
      uq_categories.keeps_constraints_same(1) split: option.split)

subsection \<open>Worker profiles\<close>

record upsertProfileDto =
  up_publicName :: "string option"
  up_bio :: "string option"
  up_location :: "string option"
  up_serviceAreaPreferences :: "string list option"
  up_hourlyRate :: "int option"
  up_experienceYears :: "int option"
  up_isAvailable :: "bool option"
  up_availabilityStatus :: "availabilityStatus option"
  up_categoryIds :: "id list option"

record workerProfileDto =
  wd_profile :: workerProfile
  wd_publicName :: "string option"
  wd_displayName :: "string option"
  wd_name :: "string option"
  wd_categories :: "(id \<times> string \<times> string) list"

definition profile_categories :: "db \<Rightarrow> id \<Rightarrow> category list" where
  "profile_categories d p =
     List.map_filter (\<lambda>pc. find_row categories_t (pc_categoryId pc) d)
       (filter (\<lambda>pc. pc_workerProfileId pc = p) (profileCategories d))"

definition profileToDto :: "db \<Rightarrow> workerProfile \<Rightarrow> workerProfileDto" where
  "profileToDto d profile =
     (let publicName = trim_or_null (wp_publicName profile);
          accountName = (case find_row users_t (wp_userId profile) d of None \<Rightarrow> None | Some u \<Rightarrow> trim_or_null (us_name u)) in
      \<lparr>wd_profile = profile, wd_publicName = publicName, wd_displayName = or_opt publicName accountName,
       wd_name = accountName,
       wd_categories = map (\<lambda>c. (ca_id c, ca_name c, ca_slug c))
         (sort_key ca_sortOrder (profile_categories d (wp_id profile)))\<rparr>)"

definition normalizeServiceAreas :: "string list option \<Rightarrow> string list" where
  "normalizeServiceAreas items = (case items of None \<Rightarrow> [] | Some xs \<Rightarrow> filter (\<lambda>x. x \<noteq> []) (map js_trim xs))"

definition resolveAvailabilityStatus :: "upsertProfileDto \<Rightarrow> availabilityStatus" where
  "resolveAvailabilityStatus dto =
     (case up_availabilityStatus dto of Some s \<Rightarrow> s
      | None \<Rightarrow> if up_isAvailable dto = Some False then WA_UNAVAILABLE else WA_AVAILABLE_NOW)"

definition resolveIsAvailable :: "upsertProfileDto \<Rightarrow> bool" where
  "resolveIsAvailable dto =
     (case up_availabilityStatus dto of Some s \<Rightarrow> s \<noteq> WA_UNAVAILABLE
      | None \<Rightarrow> or_else (up_isAvailable dto) True)"

abbreviation invalidCategories :: exn where
  "invalidCategories \<equiv> ConflictException ''One or more categories are invalid or inactive''"

definition ensureCategoriesExist :: "id list \<Rightarrow> unit svc" where
  "ensureCategoriesExist ids =
     (if ids = [] then sreturn ()
      else sbind (findMany categories_t (\<lambda>c. ca_id c \<in> set ids \<and> ca_isActive c)) (\<lambda>found.
        sguard (length found = length ids) invalidCategories))"

text \<open>\<^verbatim>\<open>deleteMany\<close>, then \<^verbatim>\<open>createMany\<close>; a repeated category breaks the primary key.\<close>

definition replaceCategories :: "env \<Rightarrow> id \<Rightarrow> id list option \<Rightarrow> unit svc" where
  "replaceCategories E p cats =
     (case cats of None \<Rightarrow> sreturn ()
      | Some ids \<Rightarrow>
        sthen (smodify (\<lambda>w. w\<lparr>w_db := (w_db w)\<lparr>profileCategories :=
          filter (\<lambda>pc. pc_workerProfileId pc \<noteq> p) (profileCategories (w_db w))\<rparr>\<rparr>))
        (sthen (sguard (distinct ids) (PrismaError ''P2002''))
        (smodify (\<lambda>w. w\<lparr>w_db := (w_db w)\<lparr>profileCategories := profileCategories (w_db w) @
          map (\<lambda>c. \<lparr>pc_workerProfileId = p, pc_categoryId = c, pc_createdAt = e_now E\<rparr>) ids\<rparr>\<rparr>))))"

definition upsert_data :: "upsertProfileDto \<Rightarrow> workerProfile \<Rightarrow> workerProfile" where
  "upsert_data dto r =
     r\<lparr>wp_publicName := trim_or_null (up_publicName dto), wp_bio := trim_or_null (up_bio dto),
       wp_location := trim_or_null (up_location dto),
       wp_serviceAreaPreferences := normalizeServiceAreas (up_serviceAreaPreferences dto),
       wp_hourlyRate := up_hourlyRate dto, wp_experienceYears := or_else (up_experienceYears dto) 0,
       wp_isAvailable := resolveIsAvailable dto, wp_availabilityStatus := resolveAvailabilityStatus dto\<rparr>"

definition emptyProfile :: "env \<Rightarrow> id \<Rightarrow> id \<Rightarrow> workerProfile" where
  "emptyProfile E userId i =
     \<lparr>wp_id = i, wp_userId = userId, wp_publicName = None, wp_bio = None, wp_location = None,
      wp_serviceAreaPreferences = [], wp_hourlyRate = None, wp_experienceYears = 0, wp_isAvailable = True,
      wp_availabilityStatus = WA_AVAILABLE_NOW, wp_ratingAvg = 0, wp_ratingCount = 0,
      wp_createdAt = e_now E, wp_updatedAt = e_now E\<rparr>"

definition profile_of :: "id \<Rightarrow> workerProfile option svc" where
  "profile_of userId = findBy workerProfiles_t (\<lambda>p. wp_userId p = userId)"

definition getProfile :: "id \<Rightarrow> workerProfileDto svc" where
  "getProfile userId =
     sbind (profile_of userId) (\<lambda>found.
     sbind (sopt found profileNotFound) (\<lambda>profile. sread (\<lambda>d. profileToDto d profile)))"

definition upsertMe :: "env \<Rightarrow> id \<Rightarrow> upsertProfileDto \<Rightarrow> workerProfileDto svc" where
  "upsertMe E userId dto =
     sthen (case up_categoryIds dto of None \<Rightarrow> sreturn () | Some ids \<Rightarrow> ensureCategoriesExist ids)
     (sbind (transact (
        sbind (profile_of userId) (\<lambda>existing.
        sbind (case existing of
            Some p \<Rightarrow> update E workerProfiles_t (wp_id p) (upsert_data dto)
          | None \<Rightarrow> create E workerProfiles_t (\<lambda>i. upsert_data dto (emptyProfile E userId i))) (\<lambda>upserted.
        sthen (replaceCategories E (wp_id upserted) (up_categoryIds dto))
        (findUniqueOrThrow workerProfiles_t (wp_id upserted)))))) (\<lambda>profile.
      sread (\<lambda>d. profileToDto d profile)))"

definition update_data :: "upsertProfileDto \<Rightarrow> workerProfile \<Rightarrow> workerProfile" where
  "update_data dto r =
     (let keep = (\<lambda>x old. case x of None \<Rightarrow> old | Some s \<Rightarrow> trim_or_null (Some s));
          r1 = r\<lparr>wp_publicName := keep (up_publicName dto) (wp_publicName r),
             wp_bio := keep (up_bio dto) (wp_bio r), wp_location := keep (up_location dto) (wp_location r),
             wp_serviceAreaPreferences := (case up_serviceAreaPreferences dto of None \<Rightarrow> wp_serviceAreaPreferences r
               | Some xs \<Rightarrow> normalizeServiceAreas (Some xs)),
             wp_hourlyRate := (case up_hourlyRate dto of None \<Rightarrow> wp_hourlyRate r | Some n \<Rightarrow> Some n),
             wp_experienceYears := or_else (up_experienceYears dto) (wp_experienceYears r)\<rparr>;
          r2 = (case up_availabilityStatus dto of None \<Rightarrow> r1
             | Some s \<Rightarrow> r1\<lparr>wp_availabilityStatus := s, wp_isAvailable := (s \<noteq> WA_UNAVAILABLE)\<rparr>) in
      case up_isAvailable dto of None \<Rightarrow> r2
      | Some b \<Rightarrow> r2\<lparr>wp_isAvailable := b,
          wp_availabilityStatus := (if b then WA_AVAILABLE_NOW else WA_UNAVAILABLE)\<rparr>)"

definition updateMe :: "env \<Rightarrow> id \<Rightarrow> upsertProfileDto \<Rightarrow> workerProfileDto svc" where
  "updateMe E userId dto =
     sbind (profile_of userId) (\<lambda>found.
     sbind (sopt found profileNotFound) (\<lambda>existing.
     sthen (case up_categoryIds dto of None \<Rightarrow> sreturn () | Some ids \<Rightarrow> ensureCategoriesExist ids)
     (sbind (transact (
        sthen (sbind (update E workerProfiles_t (wp_id existing) (update_data dto)) (\<lambda>_. sreturn ()))
        (sthen (replaceCategories E (wp_id existing) (up_categoryIds dto))
        (findUniqueOrThrow workerProfiles_t (wp_id existing))))) (\<lambda>profile.
      sread (\<lambda>d. profileToDto d profile)))))"

subsection \<open>Listing profiles\<close>

datatype profileSort = PSort_updatedAt | PSort_rating | PSort_hourlyRate

record listProfilesQuery =
  lw_page :: pageInput
  lw_isAvailable :: "bool option"
  lw_categorySlug :: "string option"
  lw_search :: "string option"
  lw_sort :: "(profileSort \<times> sortDirection) option"

definition contains_opt :: "string option \<Rightarrow> string \<Rightarrow> bool" where
  "contains_opt field needle = (case field of None \<Rightarrow> False | Some s \<Rightarrow> contains_ci s needle)"

definition profileWhere :: "db \<Rightarrow> listProfilesQuery \<Rightarrow> workerProfile \<Rightarrow> bool" where
  "profileWhere d query p \<longleftrightarrow>
     (case lw_isAvailable query of None \<Rightarrow> True | Some b \<Rightarrow> wp_isAvailable p = b)
     \<and> (case truthy (lw_categorySlug query) of None \<Rightarrow> True
        | Some slug \<Rightarrow> list_ex (\<lambda>c. ca_slug c = slug \<and> ca_isActive c) (profile_categories d (wp_id p)))
     \<and> (case trim_or_null (lw_search query) of None \<Rightarrow> True
        | Some s \<Rightarrow> contains_opt (wp_publicName p) s
            \<or> contains_opt (Option.bind (find_row users_t (wp_userId p) d) us_name) s
            \<or> contains_ci (wp_userId p) s \<or> contains_opt (wp_location p) s
            \<or> list_ex (\<lambda>c. contains_ci (ca_name c) s) (profile_categories d (wp_id p)))"

abbreviation by_update :: "workerProfile list \<Rightarrow> workerProfile list" where
  "by_update ps \<equiv> sort_desc (\<lambda>p. (wp_updatedAt p, wp_id p)) ps"

definition profileOrderBy :: "profileSort \<times> sortDirection \<Rightarrow> workerProfile list \<Rightarrow> workerProfile list" where
  "profileOrderBy s ps =
     (case s of
        (PSort_rating, dir) \<Rightarrow> sort_key (\<lambda>p. (if dir = Sort_desc then - wp_ratingAvg p else wp_ratingAvg p,
            - int (wp_ratingCount p))) (by_update ps)
      | (PSort_hourlyRate, dir) \<Rightarrow> sort_key (\<lambda>p. budget_key dir (wp_hourlyRate p)) (by_update ps)
      | (PSort_updatedAt, dir) \<Rightarrow> sort_key (\<lambda>p. if dir = Sort_desc then - wp_updatedAt p else wp_updatedAt p)
          (sort_desc wp_id ps))"

definition listProfiles :: "listProfilesQuery \<Rightarrow> workerProfileDto paginated svc" where
  "listProfiles query =
     sread (\<lambda>d. page_of (lw_page query) (map (profileToDto d)
       (profileOrderBy (or_else (lw_sort query) (PSort_updatedAt, Sort_desc))
         (filter (profileWhere d query) (workerProfiles d)))))"

end
