(* ===== verification/Access.thy ===== *)
theory Access
  imports SecurityAudit Catalog
begin

text \<open>
  Who may call what: \<^verbatim>\<open>auth/authorization.service.ts\<close> (roles and permissions),
  \<^verbatim>\<open>auth/reauth.service.ts\<close> (one-time challenges for critical actions) and
  \<^verbatim>\<open>auth/guards/access-policy.guard.ts\<close>, which puts the two together in front of a handler.
\<close>

subsection \<open>Roles and permissions\<close>

text \<open>A permission is one of the strings of the union type \<^verbatim>\<open>Permission\<close>.\<close>

definition customerPermissions :: "string list" where
  "customerPermissions =
     [''public.read'', ''customer.jobs.read.own'', ''customer.requests.create'', ''customer.requests.invite'',
      ''customer.requests.read.own'', ''customer.requests.select'', ''customer.requests.update'',
      ''customer.payments.create'', ''customer.payments.read.own'', ''customer.reviews.create'',
      ''customer.reviews.read.own'', ''provider.profile.manage'']"

definition providerPermissions :: "string list" where
  "providerPermissions =
     [''public.read'', ''provider.profile.manage'', ''provider.jobs.read.own'', ''provider.requests.read.invites'',
      ''provider.requests.decline.invite'', ''provider.requests.read.open'', ''provider.requests.propose'',
      ''provider.jobs.status.update'', ''provider.earnings.read.own'', ''provider.reviews.read.received'']"

definition adminPermissions :: "string list" where
  "adminPermissions =
     [''public.read'', ''admin.ops.read'', ''admin.payments.read'', ''admin.payments.manage'',
      ''admin.categories.manage'', ''admin.roles.manage'', ''admin.users.manage'', ''admin.providers.manage'',
      ''admin.orders.manage'', ''admin.reports.read'', ''admin.moderation.manage'', ''admin.support.manage'',
      ''admin.settings.manage'', ''admin.audit.read'']"

definition supportAdminPermissions :: "string list" where
  "supportAdminPermissions =
     [''public.read'', ''admin.ops.read'', ''admin.payments.read'', ''admin.users.manage'',
      ''admin.providers.manage'', ''admin.reports.read'', ''admin.moderation.manage'', ''admin.support.manage'',
      ''admin.audit.read'']"

definition opsAdminPermissions :: "string list" where
  "opsAdminPermissions =
     [''public.read'', ''admin.ops.read'', ''admin.payments.read'', ''admin.payments.manage'',
      ''admin.categories.manage'', ''admin.orders.manage'', ''admin.reports.read'', ''admin.support.manage'',
      ''admin.settings.manage'', ''admin.audit.read'']"

definition rolePermissions :: "appRole \<Rightarrow> string list" where
  "rolePermissions r = (case r of
       AR_GUEST \<Rightarrow> [''public.read'']
     | AR_CUSTOMER \<Rightarrow> customerPermissions
     | AR_PROVIDER \<Rightarrow> providerPermissions
     | AR_ADMIN \<Rightarrow> adminPermissions
     | AR_SUPPORT_ADMIN \<Rightarrow> supportAdminPermissions
     | AR_OPS_ADMIN \<Rightarrow> opsAdminPermissions
     | AR_SUPER_ADMIN \<Rightarrow> adminPermissions)"

record accessContext =
  ax_userId :: "id option"
  ax_role :: appRole
  ax_permissions :: "string list"
  ax_isAuthenticated :: bool

definition resolveAdminRole :: "adminSubrole option \<Rightarrow> appRole" where
  "resolveAdminRole s = (case s of
       Some AS_SUPPORT_ADMIN \<Rightarrow> AR_SUPPORT_ADMIN
     | Some AS_OPS_ADMIN \<Rightarrow> AR_OPS_ADMIN
     | Some AS_SUPER_ADMIN \<Rightarrow> AR_SUPER_ADMIN
     | None \<Rightarrow> AR_ADMIN)"

definition isProviderUser :: "id \<Rightarrow> bool svc" where
  "isProviderUser userId = sbind (findBy workerProfiles_t (\<lambda>p. wp_userId p = userId)) (\<lambda>p. sreturn (p \<noteq> None))"

definition resolveAccessContext :: "id option \<Rightarrow> userRole option \<Rightarrow> adminSubrole option \<Rightarrow> accessContext svc" where
  "resolveAccessContext userId platformRole adminSubrole =
     (case truthy userId of
        None \<Rightarrow> sreturn \<lparr>ax_userId = None, ax_role = AR_GUEST, ax_permissions = rolePermissions AR_GUEST,
          ax_isAuthenticated = False\<rparr>
      | Some u \<Rightarrow>
        sbind (if platformRole = Some UR_ADMIN then sreturn (resolveAdminRole adminSubrole)
          else sbind (isProviderUser u) (\<lambda>b. sreturn (if b then AR_PROVIDER else AR_CUSTOMER))) (\<lambda>role.
        sreturn \<lparr>ax_userId = Some u, ax_role = role, ax_permissions = rolePermissions role,
          ax_isAuthenticated = True\<rparr>))"

definition hasAnyRole :: "appRole \<Rightarrow> appRole list \<Rightarrow> bool" where
  "hasAnyRole contextRole requiredRoles \<longleftrightarrow> requiredRoles = [] \<or> contextRole \<in> set requiredRoles
     \<or> (contextRole = AR_SUPER_ADMIN \<and> AR_ADMIN \<in> set requiredRoles)"

definition hasAllPermissions :: "string list \<Rightarrow> string list \<Rightarrow> bool" where
  "hasAllPermissions contextPermissions requiredPermissions \<longleftrightarrow>
     requiredPermissions = [] \<or> list_all (\<lambda>p. p \<in> set contextPermissions) requiredPermissions"

subsection \<open>Reauthentication\<close>

definition resolveReauthTtlMinutes :: "env \<Rightarrow> rat" where
  "resolveReauthTtlMinutes E = (case e_reauthTtl E of
       NotFinite \<Rightarrow> 10
     | Fin q \<Rightarrow> if q \<le> 0 then 10 else min (max q 1) 30)"

text \<open>\<^verbatim>\<open>new Date(Date.now() + ttl * 60_000)\<close> drops the fraction of a millisecond.\<close>

definition reauthExpiry :: "env \<Rightarrow> time" where
  "reauthExpiry E = js_trunc (of_int (e_now E) + resolveReauthTtlMinutes E * 60000)"

definition randomHex :: "env \<Rightarrow> string svc" where
  "randomHex E = sbind (sget w_ids) (\<lambda>n.
     sthen (smodify (\<lambda>w. w\<lparr>w_ids := Suc n\<rparr>)) (sreturn (e_randomHex E n)))"

definition resolveRoleLabel :: "userRole \<Rightarrow> adminSubrole option \<Rightarrow> string" where
  "resolveRoleLabel role adminSubrole =
     (if role \<noteq> UR_ADMIN then ''customer'' else roleName (resolveAdminRole adminSubrole))"

abbreviation badReauth :: exn where
  "badReauth \<equiv> UnauthorizedException (''Credenciais de reautentica'' @ [CHR 0xE7, CHR 0xE3] @ ''o inv'' @ [CHR 0xE1] @ ''lidas'')"

record clientInfo =
  ci_deviceId :: "string option"
  ci_ip :: "string option"
  ci_userAgent :: "string option"

definition confirmRequest :: "clientInfo \<Rightarrow> requestInfo" where
  "confirmRequest ci = \<lparr>rq_method = ''POST'', rq_path = ''/auth/reauth/confirm'', rq_ip = ci_ip ci, rq_userAgent = ci_userAgent ci\<rparr>"

definition outstanding :: "id \<Rightarrow> time \<Rightarrow> reauthChallenge \<Rightarrow> bool" where
  "outstanding userId now c \<longleftrightarrow> rc_userId c = userId \<and> rc_consumedAt c = None \<and> now < rc_expiresAt c"

definition newChallenge :: "env \<Rightarrow> id \<Rightarrow> string \<Rightarrow> string option \<Rightarrow> clientInfo \<Rightarrow> id \<Rightarrow> reauthChallenge" where
  "newChallenge E userId tokenHash purpose ci i =
     \<lparr>rc_id = i, rc_userId = userId, rc_tokenHash = tokenHash, rc_expiresAt = reauthExpiry E, rc_consumedAt = None,
      rc_purpose = purpose, rc_ipAddress = sanitizeNullable (ci_ip ci) 64,
      rc_userAgent = sanitizeNullable (ci_userAgent ci) 512, rc_createdAt = e_now E\<rparr>"

definition issueChallenge :: "env \<Rightarrow> id \<Rightarrow> string \<Rightarrow> string option \<Rightarrow> clientInfo \<Rightarrow> unit svc" where
  "issueChallenge E userId tokenHash purpose ci =
     transact (sbind (updateMany E challenges_t (outstanding userId (e_now E)) (\<lambda>c. c\<lparr>rc_consumedAt := Some (e_now E)\<rparr>)) (\<lambda>_.
       sbind (create E challenges_t (newChallenge E userId tokenHash purpose ci)) (\<lambda>_. sreturn ())))"

definition confirmByPassword :: "env \<Rightarrow> id \<Rightarrow> string \<Rightarrow> string option \<Rightarrow> clientInfo \<Rightarrow> (string \<times> time) svc" where
  "confirmByPassword E userId password purpose ci =
     sbind (findUnique users_t userId) (\<lambda>found.
     case found of
       None \<Rightarrow> sthen (logReauthFailure E userId ''guest'' ''user_not_found_or_inactive'' (confirmRequest ci)) (sthrow badReauth)
     | Some u \<Rightarrow>
       if \<not> us_isActive u then
         sthen (logReauthFailure E userId ''guest'' ''user_not_found_or_inactive'' (confirmRequest ci)) (sthrow badReauth)
       else if \<not> e_bcryptCompare E password (us_passwordHash u) then
         sthen (logReauthFailure E (us_id u) (resolveRoleLabel (us_role u) (us_adminSubrole u)) ''invalid_password''
           (confirmRequest ci)) (sthrow badReauth)
       else sbind (randomHex E) (\<lambda>reauthToken.
         sthen (issueChallenge E (us_id u) (e_sha256 E reauthToken) purpose ci)
         (sthen (logReauthSuccess E (us_id u) (resolveRoleLabel (us_role u) (us_adminSubrole u)) purpose (reauthExpiry E)
           (confirmRequest ci))
         (sreturn (reauthToken, reauthExpiry E)))))"

datatype reauthResult = ReauthOk | ReauthRefused string

definition refuseReauth :: "env \<Rightarrow> id \<Rightarrow> string \<Rightarrow> string \<Rightarrow> requestInfo \<Rightarrow> reauthResult svc" where
  "refuseReauth E userId role reason req =
     sthen (logReauthFailure E userId role reason req) (sreturn (ReauthRefused reason))"

definition consume :: "env \<Rightarrow> reauthChallenge \<Rightarrow> unit svc" where
  "consume E c = sbind (update E challenges_t (rc_id c) (\<lambda>r. r\<lparr>rc_consumedAt := Some (e_now E)\<rparr>)) (\<lambda>_. sreturn ())"

definition purposes_differ :: "string option \<Rightarrow> string option \<Rightarrow> bool" where
  "purposes_differ required given \<longleftrightarrow>
     (case (truthy (map_option (js_lower \<circ> js_trim) required), truthy (map_option (js_lower \<circ> js_trim) given)) of
        (Some a, Some b) \<Rightarrow> a \<noteq> b | _ \<Rightarrow> False)"

definition consumeChallenge ::
    "env \<Rightarrow> id \<Rightarrow> string \<Rightarrow> string \<Rightarrow> string option \<Rightarrow> requestInfo \<Rightarrow> reauthResult svc" where
  "consumeChallenge E userId rawToken role purpose req =
     (let token = js_trim rawToken in
      if token = [] then refuseReauth E userId role ''missing_token'' req
      else sbind (findBy challenges_t (\<lambda>c. rc_userId c = userId \<and> rc_tokenHash c = e_sha256 E token)) (\<lambda>found.
        case found of
          None \<Rightarrow> refuseReauth E userId role ''invalid_or_expired'' req
        | Some c \<Rightarrow>
          if rc_consumedAt c \<noteq> None then refuseReauth E userId role ''already_used'' req
          else if rc_expiresAt c \<le> e_now E then
            sthen (consume E c) (refuseReauth E userId role ''invalid_or_expired'' req)
          else if purposes_differ purpose (rc_purpose c) then refuseReauth E userId role ''purpose_mismatch'' req
          else sthen (consume E c) (sreturn ReauthOk)))"

subsection \<open>The guard\<close>

text \<open>\<^verbatim>\<open>@RequireReauth()\<close> or \<^verbatim>\<open>@RequireReauth('purpose')\<close>; an empty purpose counts as none.\<close>

datatype reauthRequirement = NoReauth | Reauth "string option"

record endpointPolicy =
  ep_roles :: "appRole list"
  ep_permissions :: "string list"
  ep_reauth :: reauthRequirement

record guardedRequest =
  gq_info :: requestInfo
  gq_user :: "user option"
  gq_reauthToken :: "string option"

definition reauthPurpose :: "reauthRequirement \<Rightarrow> string option" where
  "reauthPurpose r = (case r of NoReauth \<Rightarrow> None | Reauth p \<Rightarrow> truthy p)"

abbreviation authenticationNeeded :: exn where
  "authenticationNeeded \<equiv> UnauthorizedException (''Autentica'' @ [CHR 0xE7, CHR 0xE3] @ ''o necess'' @ [CHR 0xE1] @ ''ria'')"
abbreviation permissionMissing :: exn where
  "permissionMissing \<equiv> ForbiddenException (''Permiss'' @ [CHR 0xE3] @ ''o insuficiente para esta opera'' @ [CHR 0xE7, CHR 0xE3] @ ''o'')"
abbreviation reauthNeeded :: exn where
  "reauthNeeded \<equiv> ForbiddenException (''Reautentica'' @ [CHR 0xE7, CHR 0xE3] @ ''o necess'' @ [CHR 0xE1]
     @ ''ria para concluir esta a'' @ [CHR 0xE7, CHR 0xE3] @ ''o.'')"

text \<open>The guard returns the context it found, or nothing for a handler without a policy.\<close>

definition canActivate :: "env \<Rightarrow> endpointPolicy \<Rightarrow> guardedRequest \<Rightarrow> accessContext option svc" where
  "canActivate E p req =
     (if ep_roles p = [] \<and> ep_permissions p = [] then sreturn None
      else case truthy (map_option us_id (gq_user req)) of
        None \<Rightarrow> sthen (logForbiddenAccess E None AR_GUEST (gq_info req) (ep_roles p) (ep_permissions p) ''unauthenticated'')
          (sthrow authenticationNeeded)
      | Some userId \<Rightarrow>
        sbind (resolveAccessContext (Some userId) (map_option us_role (gq_user req)) (Option.bind (gq_user req) us_adminSubrole)) (\<lambda>c.
        if hasAnyRole (ax_role c) (ep_roles p) \<and> hasAllPermissions (ax_permissions c) (ep_permissions p) then
          (if ep_reauth p = NoReauth then sreturn (Some c)
           else sbind (consumeChallenge E userId (or_else (gq_reauthToken req) []) (roleName (ax_role c))
             (reauthPurpose (ep_reauth p)) (gq_info req)) (\<lambda>r.
             if r = ReauthOk then sreturn (Some c) else sthrow reauthNeeded))
        else sthen (logForbiddenAccess E (Some userId) (ax_role c) (gq_info req) (ep_roles p) (ep_permissions p)
            ''insufficient_permissions'') (sthrow permissionMissing)))"

text \<open>\<^verbatim>\<open>JwtStrategy.validate\<close>: the bearer's account exists and is active.\<close>

definition validateBearer :: "env \<Rightarrow> string \<Rightarrow> user svc" where
  "validateBearer E token =
     sbind (sopt (e_jwtVerify E (or_else (truthy (e_accessSecret E)) ''change-me-access'') token) (UnauthorizedException ''Unauthorized'')) (\<lambda>payload.
     sbind (case json_get payload ''sub'' of Some (JStr sub) \<Rightarrow> findUnique users_t sub | _ \<Rightarrow> sreturn None) (\<lambda>found.
     case found of
       Some u \<Rightarrow> if us_isActive u then sreturn u else sthrow (UnauthorizedException ''Unauthorized'')
     | None \<Rightarrow> sthrow (UnauthorizedException ''Unauthorized'')))"

subsection \<open>A challenge is used once\<close>

lemma reauthTtl_bounds: "1 \<le> resolveReauthTtlMinutes E \<and> resolveReauthTtlMinutes E \<le> 30"
  by (simp add: resolveReauthTtlMinutes_def split: jsnum.split)

definition spent :: "string \<Rightarrow> db \<Rightarrow> bool" where
  "spent h d \<longleftrightarrow> (\<exists>c \<in> set (challenges d). rc_tokenHash c = h \<and> rc_consumedAt c \<noteq> None)"

lemma spent_upd:
  assumes "spent h d" "\<And>c. rc_tokenHash (f c) = rc_tokenHash c" "\<And>c. rc_consumedAt c \<noteq> None \<Longrightarrow> rc_consumedAt (f c) \<noteq> None"
  shows "spent h (upd_rows challenges_t n P f d)"
proof -
  obtain c where c: "c \<in> set (challenges d)" "rc_tokenHash c = h" "rc_consumedAt c \<noteq> None"
    using assms(1) by (auto simp: spent_def)
  have "(if P c then f c else c) \<in> set (challenges (upd_rows challenges_t n P f d))" using c(1) by (force simp: upd_rows_def)
  then show ?thesis using c assms(2,3) unfolding spent_def by (intro bexI) auto
qed

lemma keeps_spent_reauth:
  "keeps (spent h) (confirmByPassword E u pw purpose ci)" "keeps (spent h) (consumeChallenge E u tok role purpose req)"
proof -
  have frame: "frames (spent h) auditLogs_t" by (simp add: frames_def spent_def)
  have new: "keeps (spent h) (create E challenges_t mk)" for mk
    by (rule keeps_create) (auto simp: spent_def)
  have mark: "keeps (spent h) (updateMany E challenges_t P (\<lambda>c. c\<lparr>rc_consumedAt := Some t\<rparr>))"
    "keeps (spent h) (update E challenges_t i (\<lambda>c. c\<lparr>rc_consumedAt := Some t\<rparr>))" for P t i
    by (auto intro!: keeps_updateMany keeps_update spent_upd)
  show "keeps (spent h) (confirmByPassword E u pw purpose ci)"
    by (simp add: confirmByPassword_def randomHex_def issueChallenge_def keeps_rules keeps_smodify frame new mark)
  show "keeps (spent h) (consumeChallenge E u tok role purpose req)"
    by (simp add: consumeChallenge_def refuseReauth_def consume_def Let_def keeps_rules frame mark)
qed

lemma keeps_constraints_reauth:
  "keeps (constraints challenges_t) (confirmByPassword E u pw purpose ci)"
  "keeps (constraints challenges_t) (consumeChallenge E u tok role purpose req)"
proof -
  have frame: "frames (constraints challenges_t) auditLogs_t" by (simp add: frames_def constraints_def unique_ids_def)
  have mark: "keeps (constraints challenges_t) (updateMany E challenges_t P (\<lambda>c. c\<lparr>rc_consumedAt := Some t\<rparr>))"
    "keeps (constraints challenges_t) (update E challenges_t i (\<lambda>c. c\<lparr>rc_consumedAt := Some t\<rparr>))" for P t i
    by (rule uq_challenges.keeps_constraints_same; simp)+
  show "keeps (constraints challenges_t) (confirmByPassword E u pw purpose ci)"
    by (simp add: confirmByPassword_def randomHex_def issueChallenge_def keeps_rules keeps_smodify frame
        uq_challenges.keeps_constraints_create mark)
  show "keeps (constraints challenges_t) (consumeChallenge E u tok role purpose req)"
    by (simp add: consumeChallenge_def refuseReauth_def consume_def Let_def keeps_rules frame mark)
qed

lemma wp_refuseReauth: "(\<And>w'. Q (ReauthRefused reason) w') \<Longrightarrow> wp (refuseReauth E u role reason req) Q X w"
  by (auto simp: refuseReauth_def logReauthFailure_def wp_simps intro!: wp_recordAuditEvent)

lemma consumeChallenge_contract:
  fixes w :: world
  shows "wp (consumeChallenge E u tok role purpose req)
    (\<lambda>r w'. r = ReauthOk \<longrightarrow> js_trim tok \<noteq> [] \<and> (\<exists>c \<in> set (challenges (w_db w)). rc_userId c = u
         \<and> rc_tokenHash c = e_sha256 E (js_trim tok) \<and> outstanding u (e_now E) c
         \<and> \<not> purposes_differ purpose (rc_purpose c)
         \<and> w_db w' = upd_rows challenges_t (e_now E) (\<lambda>x. rc_id x = rc_id c) (\<lambda>x. x\<lparr>rc_consumedAt := Some (e_now E)\<rparr>) (w_db w))
       \<and> spent (e_sha256 E (js_trim tok)) (w_db w'))
    (\<lambda>_ _. False) w"
proof -
  let ?h = "e_sha256 E (js_trim tok)" and ?P = "\<lambda>c. rc_userId c = u \<and> rc_tokenHash c = e_sha256 E (js_trim tok)"
  show ?thesis
  proof (cases "find ?P (challenges (w_db w))")
    case (Some c)
    then have c: "c \<in> set (challenges (w_db w))" "rc_userId c = u" "rc_tokenHash c = ?h"
      by (auto simp: find_Some_iff)
    let ?d = "upd_rows challenges_t (e_now E) (\<lambda>x. rc_id x = rc_id c) (\<lambda>x. x\<lparr>rc_consumedAt := Some (e_now E)\<rparr>) (w_db w)"
    have "c\<lparr>rc_consumedAt := Some (e_now E)\<rparr> \<in> set (challenges ?d)" using c(1) by (force simp: upd_rows_def)
    then have "spent ?h ?d" using c(3) unfolding spent_def by (intro bexI) auto
    moreover have "find_row challenges_t (rc_id c) (w_db w) \<noteq> None" using c(1) by (auto simp: find_row_def find_None_iff)
    ultimately show ?thesis
      using Some c
      by (auto simp: consumeChallenge_def consume_def wp_simps Let_def outstanding_def split: option.split
          intro!: wp_refuseReauth)
  qed (auto simp: consumeChallenge_def wp_simps Let_def intro!: wp_refuseReauth)
qed

lemma spent_refused:
  fixes w :: world
  assumes "constraints challenges_t (w_db w)" "spent (e_sha256 E (js_trim tok)) (w_db w)"
  shows "wp (consumeChallenge E u tok role purpose req) (\<lambda>r _. r \<noteq> ReauthOk) (\<lambda>_ _. False) w"
proof -
  let ?h = "e_sha256 E (js_trim tok)"
  obtain s where s: "s \<in> set (challenges (w_db w))" "rc_tokenHash s = ?h" "rc_consumedAt s \<noteq> None"
    using assms(2) by (auto simp: spent_def)
  have same: "c = s" if "c \<in> set (challenges (w_db w))" "rc_tokenHash c = ?h" for c
  proof -
    have "rc_id c = rc_id s" using assms(1) that s unfolding constraints_def by (metis challenges_t_simps(1,3,5))
    then show ?thesis using assms(1) that s
      by (simp add: constraints_def unique_ids_def) (metis (no_types, lifting) distinct_map inj_onD)
  qed
  show ?thesis
  proof (rule wp_mono [OF consumeChallenge_contract [of E u tok role purpose req w]], goal_cases)
    case (1 r w')
    show ?case
    proof
      assume "r = ReauthOk"
      then obtain c where "c \<in> set (challenges (w_db w))" "rc_tokenHash c = ?h" "outstanding u (e_now E) c" using 1 by blast
      then show False using same [of c] s(3) by (simp add: outstanding_def)
    qed
  qed simp
qed

subsection \<open>What passing the guard means\<close>

lemma wp_logForbiddenAccess: "(\<And>w'. Q () w') \<Longrightarrow> wp (logForbiddenAccess E ui ro req rs ps reason) Q X w"
  by (auto simp: logForbiddenAccess_def auditMetric_def wp_simps intro!: wp_recordAuditEvent)

lemma guard_contract:
  "wp (canActivate E p req)
    (\<lambda>r w'. case r of
        None \<Rightarrow> ep_roles p = [] \<and> ep_permissions p = []
      | Some c \<Rightarrow> \<exists>u. gq_user req = Some u \<and> ax_userId c = Some (us_id u) \<and> ax_permissions c = rolePermissions (ax_role c)
          \<and> (us_role u = UR_ADMIN \<longrightarrow> ax_role c = resolveAdminRole (us_adminSubrole u))
          \<and> (us_role u \<noteq> UR_ADMIN \<longrightarrow> ax_role c \<in> {AR_CUSTOMER, AR_PROVIDER})
          \<and> hasAnyRole (ax_role c) (ep_roles p) \<and> hasAllPermissions (ax_permissions c) (ep_permissions p)
          \<and> (ep_reauth p \<noteq> NoReauth \<longrightarrow> spent (e_sha256 E (js_trim (or_else (gq_reauthToken req) []))) (w_db w')))
    (\<lambda>e _. e \<in> {authenticationNeeded, permissionMissing, reauthNeeded}) w"
proof -
  have consumed: "wp (consumeChallenge E u tok role purpose r) (\<lambda>x. wp (if x = ReauthOk then sreturn (Some c) else sthrow reauthNeeded) Q X) X w1"
    if "\<And>w'. spent (e_sha256 E (js_trim tok)) (w_db w') \<Longrightarrow> Q (Some c) w'" "\<And>w'. X reauthNeeded w'"
    for u tok role purpose r c Q X and w1 :: world
    by (rule wp_mono [OF consumeChallenge_contract]) (use that in \<open>auto simp: wp_simps\<close>)
  show ?thesis
  proof (cases "gq_user req")
    case None
    then show ?thesis by (auto simp: canActivate_def wp_simps intro!: wp_logForbiddenAccess)
  next
    case (Some u)
    show ?thesis
    proof (cases "(ep_roles p = [] \<and> ep_permissions p = []) \<or> us_id u = []")
      case True
      then show ?thesis using Some by (auto simp: canActivate_def wp_simps intro!: wp_logForbiddenAccess)
    next
      case False
      define role where "role = (if us_role u = UR_ADMIN then resolveAdminRole (us_adminSubrole u)
        else if find (\<lambda>p. wp_userId p = us_id u) (workerProfiles (w_db w)) \<noteq> None then AR_PROVIDER else AR_CUSTOMER)"
      define c where "c = \<lparr>ax_userId = Some (us_id u), ax_role = role, ax_permissions = rolePermissions role, ax_isAuthenticated = True\<rparr>"
      have id: "truthy (Some (us_id u)) = Some (us_id u)" using False by (cases "us_id u") auto
      have resolve: "wp (resolveAccessContext (Some (us_id u)) (Some (us_role u)) (us_adminSubrole u)) Q X w = Q c w" for Q X
        by (simp add: resolveAccessContext_def isProviderUser_def wp_simps id c_def role_def)
      have role: "us_role u = UR_ADMIN \<longrightarrow> role = resolveAdminRole (us_adminSubrole u)"
        "us_role u \<noteq> UR_ADMIN \<longrightarrow> role \<in> {AR_CUSTOMER, AR_PROVIDER}" by (simp_all add: role_def)
      have ctx: "ax_userId c = Some (us_id u)" "ax_role c = role" "ax_permissions c = rolePermissions role" by (simp_all add: c_def)
      show ?thesis
      proof (cases "hasAnyRole role (ep_roles p) \<and> hasAllPermissions (rolePermissions role) (ep_permissions p)")
        case True
        then show ?thesis using False role
          by (auto simp: canActivate_def wp_simps Some id resolve ctx intro!: consumed)
      next
        case no: False
        then show ?thesis using False
          by (auto simp: canActivate_def wp_simps Some id resolve ctx intro!: wp_logForbiddenAccess)
      qed
    qed
  qed
qed

end
