(* ===== verification/Sessions.thy ===== *)
theory Sessions
  imports Access
begin

text \<open>
  \<^verbatim>\<open>auth/auth.service.ts\<close>: registration, login, rotation of refresh tokens with the detection of
  reuse, logout, the list of sessions and the requests for password recovery.
\<close>

subsection \<open>Secrets\<close>

text \<open>\<^verbatim>\<open>resolveSecret\<close> runs when the service is built; \<open>None\<close> is a process that does not start.\<close>

definition resolveSecret :: "env \<Rightarrow> string option \<Rightarrow> string \<Rightarrow> string option" where
  "resolveSecret E value fallback =
     (let secret = or_else (truthy value) fallback;
          isDefaultValue = (secret = fallback \<or> js_starts_with secret ''change-me'') in
      if e_nodeEnv E = Some ''production'' \<and> isDefaultValue then None else Some secret)"

definition accessSecret :: "env \<Rightarrow> string" where
  "accessSecret E = or_else (truthy (e_accessSecret E)) ''change-me-access''"

definition refreshSecret :: "env \<Rightarrow> string" where
  "refreshSecret E = or_else (truthy (e_refreshSecret E)) ''change-me-refresh''"

subsection \<open>Tokens\<close>

abbreviation badRefresh :: exn where "badRefresh \<equiv> UnauthorizedException ''Invalid refresh token''"
abbreviation badCredentials :: exn where "badCredentials \<equiv> UnauthorizedException ''Invalid credentials''"
abbreviation emailTaken :: exn where "emailTaken \<equiv> ConflictException ''Email is already in use''"

definition authAudit :: "string \<Rightarrow> unit svc" where
  "authAudit ev = recordBusinessEvent ''auth'' ev ''success''"

definition authWarn :: "string \<Rightarrow> unit svc" where
  "authWarn ev = recordBusinessEvent ''auth'' ev (if ev = ''register_conflict'' then ''blocked'' else ''failed'')"

record refreshPayload =
  rpl_sub :: string
  rpl_sid :: string
  rpl_did :: string

definition claim :: "json \<Rightarrow> string \<Rightarrow> string option" where
  "claim p k = (case json_get p k of Some (JStr s) \<Rightarrow> truthy (Some s) | _ \<Rightarrow> None)"

text \<open>Every failure becomes the same exception; \<open>None\<close> stands for it.\<close>

definition verifyRefreshToken :: "env \<Rightarrow> string \<Rightarrow> refreshPayload option" where
  "verifyRefreshToken E refreshToken =
     (case e_jwtVerify E (refreshSecret E) refreshToken of
        None \<Rightarrow> None
      | Some p \<Rightarrow>
        if claim p ''type'' \<noteq> Some ''refresh'' then None
        else (case (claim p ''sid'', claim p ''did'', claim p ''sub'', claim p ''jti'') of
            (Some sid, Some did, Some sub, Some _) \<Rightarrow> Some \<lparr>rpl_sub = sub, rpl_sid = sid, rpl_did = did\<rparr>
          | _ \<Rightarrow> None))"

record authResponse =
  ar_userId :: id
  ar_email :: string
  ar_name :: "string option"
  ar_role :: userRole
  ar_adminSubrole :: "adminSubrole option"
  ar_accessToken :: string
  ar_refreshToken :: string

definition newSession :: "env \<Rightarrow> id \<Rightarrow> string \<Rightarrow> string \<Rightarrow> clientInfo \<Rightarrow> id \<Rightarrow> session" where
  "newSession E userId deviceId tokenHash ci i =
     \<lparr>se_id = i, se_userId = userId, se_deviceId = deviceId, se_refreshTokenHash = tokenHash, se_createdAt = e_now E,
      se_lastUsedAt = e_now E, se_revokedAt = None, se_ip = ci_ip ci, se_userAgent = ci_userAgent ci\<rparr>"

definition openSession :: "env \<Rightarrow> id \<Rightarrow> clientInfo \<Rightarrow> session svc" where
  "openSession E userId ci =
     sbind (case truthy (ci_deviceId ci) of Some x \<Rightarrow> sreturn x | None \<Rightarrow> randomUUID E) (\<lambda>deviceId.
     sbind (randomUUID E) (\<lambda>seed.
     create E sessions_t (newSession E userId deviceId (e_sha256 E seed) ci)))"

definition rotate :: "env \<Rightarrow> string \<Rightarrow> clientInfo \<Rightarrow> session \<Rightarrow> session \<Rightarrow> session" where
  "rotate E token ci old r =
     r\<lparr>se_refreshTokenHash := e_sha256 E token, se_lastUsedAt := e_now E, se_revokedAt := None,
       se_ip := or_opt (ci_ip ci) (se_ip old), se_userAgent := or_opt (ci_userAgent ci) (se_userAgent old)\<rparr>"

definition refreshClaims :: "user \<Rightarrow> session \<Rightarrow> string \<Rightarrow> json" where
  "refreshClaims u s jti = JObj [(''sub'', JStr (us_id u)), (''email'', JStr (us_email u)), (''type'', JStr ''refresh''),
     (''sid'', JStr (se_id s)), (''did'', JStr (se_deviceId s)), (''jti'', JStr jti)]"

definition signTokens :: "env \<Rightarrow> user \<Rightarrow> clientInfo \<Rightarrow> session \<Rightarrow> authResponse svc" where
  "signTokens E u ci s =
     sbind (randomUUID E) (\<lambda>jti.
     (let accessToken = e_jwtSign E (accessSecret E) (JObj [(''sub'', JStr (us_id u)), (''email'', JStr (us_email u))]) ''15m'';
          refreshToken = e_jwtSign E (refreshSecret E) (refreshClaims u s jti) ''7d'' in
      sbind (updateUnique E sessions_t (se_id s) (rotate E refreshToken ci s)) (\<lambda>_.
      sreturn \<lparr>ar_userId = us_id u, ar_email = us_email u, ar_name = us_name u, ar_role = us_role u,
        ar_adminSubrole = us_adminSubrole u, ar_accessToken = accessToken, ar_refreshToken = refreshToken\<rparr>)))"

definition issueTokens :: "env \<Rightarrow> user \<Rightarrow> clientInfo \<Rightarrow> session option \<Rightarrow> authResponse svc" where
  "issueTokens E u ci existing =
     sbind (case existing of Some s \<Rightarrow> sreturn s | None \<Rightarrow> openSession E (us_id u) ci) (signTokens E u ci)"

subsection \<open>Signing in and out\<close>

record registerDto =
  rg_email :: string
  rg_password :: string
  rg_name :: "string option"

definition newUser :: "env \<Rightarrow> registerDto \<Rightarrow> string \<Rightarrow> id \<Rightarrow> user" where
  "newUser E dto passwordHash i =
     \<lparr>us_id = i, us_email = rg_email dto, us_name = rg_name dto, us_passwordHash = passwordHash, us_role = UR_USER,
      us_adminSubrole = None, us_isActive = True, us_createdAt = e_now E, us_updatedAt = e_now E\<rparr>"

definition register :: "env \<Rightarrow> registerDto \<Rightarrow> clientInfo \<Rightarrow> authResponse svc" where
  "register E dto ci =
     sbind (findBy users_t (\<lambda>u. us_email u = rg_email dto)) (\<lambda>existing.
     if existing \<noteq> None then sthen (authWarn ''register_conflict'') (sthrow emailTaken)
     else sbind (create E users_t (newUser E dto (e_bcryptHash E (rg_password dto)))) (\<lambda>u.
       sthen (authAudit ''register_success'') (issueTokens E u ci None)))"

definition login :: "env \<Rightarrow> string \<Rightarrow> string \<Rightarrow> clientInfo \<Rightarrow> authResponse svc" where
  "login E email password ci =
     sbind (findBy users_t (\<lambda>u. us_email u = email)) (\<lambda>found.
     case found of
       None \<Rightarrow> sthen (authWarn ''login_failed'') (sthrow badCredentials)
     | Some u \<Rightarrow>
       if \<not> e_bcryptCompare E password (us_passwordHash u) then
         sthen (authWarn ''login_failed'') (sthrow badCredentials)
       else sthen (authAudit ''login_success'')
         (sthen (swhen (us_role u = UR_ADMIN)
           (logAdminLogin E u (roleName (resolveAdminRole (us_adminSubrole u))) (ci_ip ci) (ci_deviceId ci) (ci_userAgent ci)))
         (issueTokens E u ci None)))"

abbreviation revoke :: "env \<Rightarrow> session \<Rightarrow> session" where
  "revoke E s \<equiv> s\<lparr>se_revokedAt := Some (e_now E)\<rparr>"

definition revokeSessionChain :: "env \<Rightarrow> id \<Rightarrow> id \<Rightarrow> unit svc" where
  "revokeSessionChain E sessionId userId =
     sbind (updateMany E sessions_t (\<lambda>s. se_id s = sessionId \<and> se_userId s = userId \<and> se_revokedAt s = None) (revoke E))
       (\<lambda>_. sreturn ())"

definition refuseRefresh :: "string \<Rightarrow> 'a svc" where
  "refuseRefresh ev = sthen (authWarn ev) (sthrow badRefresh)"

definition refresh :: "env \<Rightarrow> string option \<Rightarrow> clientInfo \<Rightarrow> authResponse svc" where
  "refresh E token ci =
     (case truthy token of
        None \<Rightarrow> sthrow badRefresh
      | Some refreshToken \<Rightarrow>
        sbind (sopt (verifyRefreshToken E refreshToken) badRefresh) (\<lambda>payload.
        sbind (findUnique sessions_t (rpl_sid payload)) (\<lambda>found.
        case found of
          None \<Rightarrow> refuseRefresh ''refresh_failed''
        | Some s \<Rightarrow>
          sbind (findUniqueOrThrow users_t (se_userId s)) (\<lambda>u.
          if se_revokedAt s \<noteq> None then refuseRefresh ''refresh_failed''
          else if \<not> us_isActive u \<or> se_userId s \<noteq> rpl_sub payload then refuseRefresh ''refresh_failed''
          else if rpl_sid payload \<noteq> se_id s \<or> rpl_did payload \<noteq> se_deviceId s
            \<or> e_sha256 E refreshToken \<noteq> se_refreshTokenHash s then
            sthen (revokeSessionChain E (se_id s) (se_userId s)) (refuseRefresh ''refresh_reuse_detected'')
          else sthen (authAudit ''refresh_success'') (issueTokens E u ci (Some s))))))"

definition logout :: "env \<Rightarrow> string option \<Rightarrow> unit svc" where
  "logout E token =
     (case truthy token of
        None \<Rightarrow> sreturn ()
      | Some refreshToken \<Rightarrow>
        sbind (updateMany E sessions_t (\<lambda>s. se_refreshTokenHash s = e_sha256 E refreshToken \<and> se_revokedAt s = None) (revoke E))
          (\<lambda>_. authAudit ''logout''))"

definition logoutAll :: "env \<Rightarrow> id \<Rightarrow> unit svc" where
  "logoutAll E userId =
     sbind (updateMany E sessions_t (\<lambda>s. se_userId s = userId \<and> se_revokedAt s = None) (revoke E))
       (\<lambda>_. authAudit ''logout_all'')"

definition revokeSession :: "env \<Rightarrow> id \<Rightarrow> id \<Rightarrow> unit svc" where
  "revokeSession E userId sessionId =
     sbind (updateMany E sessions_t (\<lambda>s. se_id s = sessionId \<and> se_userId s = userId \<and> se_revokedAt s = None) (revoke E))
       (\<lambda>_. authAudit ''session_revoke'')"

definition validateUserById :: "id \<Rightarrow> user option svc" where
  "validateUserById userId = findUnique users_t userId"

subsection \<open>Listing sessions\<close>

datatype sessionStatus = Sess_active | Sess_revoked | Sess_all
datatype sessionSort = SSort_lastUsedAt | SSort_createdAt

record listSessionsQuery =
  ls_status :: "sessionStatus option"
  ls_limit :: "int option"
  ls_offset :: "int option"
  ls_sort :: "(sessionSort \<times> sortDirection) option"

record sessionPage =
  sg_data :: "session list"
  sg_total :: int
  sg_limit :: int
  sg_offset :: int
  sg_page :: int
  sg_pageCount :: int
  sg_hasNext :: bool
  sg_hasPrev :: bool

definition sessionWhere :: "id \<Rightarrow> sessionStatus \<Rightarrow> session \<Rightarrow> bool" where
  "sessionWhere userId status s \<longleftrightarrow> se_userId s = userId
     \<and> (status = Sess_active \<longrightarrow> se_revokedAt s = None) \<and> (status = Sess_revoked \<longrightarrow> se_revokedAt s \<noteq> None)"

definition sessionOrderBy :: "sessionSort \<times> sortDirection \<Rightarrow> session list \<Rightarrow> session list" where
  "sessionOrderBy o' ss =
     (let field = (if fst o' = SSort_lastUsedAt then se_lastUsedAt else se_createdAt) in
      sort_key (\<lambda>s. if snd o' = Sort_desc then - field s else field s) ss)"

text \<open>The rows leave out the owner and the token's hash.\<close>

definition public_session :: "session \<Rightarrow> session" where
  "public_session s = s\<lparr>se_userId := [], se_refreshTokenHash := []\<rparr>"

definition listSessions :: "id \<Rightarrow> listSessionsQuery \<Rightarrow> sessionPage svc" where
  "listSessions userId query =
     (let limit = or_else (ls_limit query) 20; offset = or_else (ls_offset query) 0 in
      sread (\<lambda>d.
        let matching = sessionOrderBy (or_else (ls_sort query) (SSort_lastUsedAt, Sort_desc))
              (filter (sessionWhere userId (or_else (ls_status query) Sess_active)) (sessions d));
            total = int (length matching); rows = take (nat limit) (drop (nat offset) matching) in
        \<lparr>sg_data = map public_session rows, sg_total = total, sg_limit = limit, sg_offset = offset,
         sg_page = offset div limit + 1, sg_pageCount = (if total = 0 then 1 else (total + limit - 1) div limit),
         sg_hasNext = offset + int (length rows) < total, sg_hasPrev = 0 < offset\<rparr>))"

subsection \<open>Password recovery\<close>

abbreviation pq_order :: "passwordRecoveryRequest \<Rightarrow> time \<times> id" where
  "pq_order r \<equiv> (pq_requestedAt r, pq_id r)"

definition open_recovery :: "recoveryStatus \<Rightarrow> bool" where
  "open_recovery s \<longleftrightarrow> s \<in> set [PW_OPEN, PW_IN_PROGRESS]"

definition newRecovery :: "env \<Rightarrow> string \<Rightarrow> id option \<Rightarrow> id \<Rightarrow> passwordRecoveryRequest" where
  "newRecovery E email userId i =
     \<lparr>pq_id = i, pq_email = email, pq_userId = userId, pq_status = PW_OPEN, pq_note = None, pq_requestedAt = e_now E,
      pq_startedAt = None, pq_resolvedAt = None, pq_resolvedByUserId = None,
      pq_createdAt = e_now E, pq_updatedAt = e_now E\<rparr>"

definition requestPasswordRecovery :: "env \<Rightarrow> string \<Rightarrow> bool svc" where
  "requestPasswordRecovery E rawEmail =
     (let email = js_lower (js_trim rawEmail) in
      sbind (findBy users_t (\<lambda>u. us_email u = email)) (\<lambda>u.
      sbind (findFirstDesc recoveryRequests_t pq_order (\<lambda>r. pq_email r = email \<and> open_recovery (pq_status r))) (\<lambda>existing.
      sthen (case existing of
          None \<Rightarrow> sbind (create E recoveryRequests_t (newRecovery E email (map_option us_id u))) (\<lambda>_. sreturn ())
        | Some r \<Rightarrow>
          (case u of
             Some usr \<Rightarrow> swhen (truthy (pq_userId r) = None \<and> us_id usr \<noteq> [])
               (sbind (update E recoveryRequests_t (pq_id r) (\<lambda>x. x\<lparr>pq_userId := Some (us_id usr)\<rparr>)) (\<lambda>_. sreturn ()))
           | None \<Rightarrow> sreturn ()))
      (sthen (authAudit ''password_recovery_requested'') (sreturn True)))))"

definition listPasswordRecoveryRequests ::
    "int option \<Rightarrow> int option \<Rightarrow> recoveryStatus option \<Rightarrow> passwordRecoveryRequest paginated svc" where
  "listPasswordRecoveryRequests page limit status =
     sread (\<lambda>d. delivered_page (clamped_page page limit) (sort_desc pq_order
       (filter (\<lambda>r. case status of None \<Rightarrow> True | Some s \<Rightarrow> pq_status r = s) (recoveryRequests d))))"

definition recovery_data ::
    "env \<Rightarrow> id \<Rightarrow> recoveryStatus \<Rightarrow> string option \<Rightarrow> passwordRecoveryRequest \<Rightarrow> passwordRecoveryRequest \<Rightarrow> passwordRecoveryRequest" where
  "recovery_data E actorId status note old r =
     (let closed = (status = PW_RESOLVED \<or> status = PW_CANCELED) in
      r\<lparr>pq_status := status, pq_note := or_opt (trim_or_null note) (pq_note old),
        pq_startedAt := (if status = PW_IN_PROGRESS then Some (or_else (pq_startedAt old) (e_now E)) else pq_startedAt old),
        pq_resolvedAt := (if closed then Some (e_now E) else None),
        pq_resolvedByUserId := (if closed then Some actorId else None)\<rparr>)"

definition recoveryStatus_name :: "recoveryStatus \<Rightarrow> string" where
  "recoveryStatus_name s = (case s of PW_OPEN \<Rightarrow> ''OPEN'' | PW_IN_PROGRESS \<Rightarrow> ''IN_PROGRESS''
     | PW_RESOLVED \<Rightarrow> ''RESOLVED'' | PW_CANCELED \<Rightarrow> ''CANCELED'')"

definition updatePasswordRecoveryRequest ::
    "env \<Rightarrow> id \<Rightarrow> recoveryStatus \<Rightarrow> string option \<Rightarrow> id \<Rightarrow> appRole \<Rightarrow> clientInfo \<Rightarrow> passwordRecoveryRequest svc" where
  "updatePasswordRecoveryRequest E i status note actorId actorRole ci =
     sthen (sguard (status \<in> set [PW_IN_PROGRESS, PW_RESOLVED, PW_CANCELED])
       (BadRequestException ''Invalid password recovery status''))
     (sbind (require recoveryRequests_t i (NotFoundException ''Password recovery request not found'')) (\<lambda>existing.
      sthen (sguard (\<not> (pq_status existing = PW_RESOLVED \<or> pq_status existing = PW_CANCELED))
        (ConflictException ''Password recovery request is already closed''))
      (sbind (update E recoveryRequests_t i (recovery_data E actorId status note existing)) (\<lambda>updated.
       sthen (logAdminAction E \<lparr>ac_userId = actorId, ac_role = actorRole, ac_action = ''auth.password_recovery.update'',
         ac_request = \<lparr>rq_method = ''POST'', rq_path = ''/auth/password-recovery/requests/'' @ i,
           rq_ip = ci_ip ci, rq_userAgent = ci_userAgent ci\<rparr>, ac_success = True,
         ac_targetType = Some ''PASSWORD_RECOVERY_REQUEST'', ac_targetId = Some i, ac_reason = trim_or_null note,
         ac_reauthRequired = False, ac_metadata = [(''nextStatus'', JStr (recoveryStatus_name status)),
           (''email'', JStr (pq_email existing))]\<rparr>)
       (sreturn updated)))))"

subsection \<open>What issuing tokens does\<close>

lemma wp_randomUUID [wp_simps]: "wp (randomUUID E) Q X w = Q (e_uuid E (w_ids w)) (w\<lparr>w_ids := Suc (w_ids w)\<rparr>)"
  by (simp add: randomUUID_def wp_simps)

lemma wp_signTokens:
  fixes w :: world
  assumes s: "find_row sessions_t (se_id s) (w_db w) = Some s"
    and "\<And>r w'. \<lbrakk>\<forall>x \<in> set (sessions (w_db w)). se_id x \<noteq> se_id s \<longrightarrow> se_refreshTokenHash x \<noteq> e_sha256 E (ar_refreshToken r);
      w_db w' = upd_rows sessions_t (e_now E) (\<lambda>x. se_id x = se_id s) (rotate E (ar_refreshToken r) ci s) (w_db w)\<rbrakk> \<Longrightarrow> Q r w'"
    and "\<And>e w'. w_db w' = w_db w \<Longrightarrow> X e w'"
  shows "wp (signTokens E u ci s) Q X w"
  using s by (auto simp: signTokens_def wp_simps Let_def rotate_def intro!: assms(2,3))

lemma wp_openSession:
  fixes w :: world
  assumes "\<And>s w'. \<lbrakk>w_db w' = (w_db w)\<lparr>sessions := sessions (w_db w) @ [s]\<rparr>;
      \<forall>x \<in> set (sessions (w_db w)). se_id x \<noteq> se_id s \<and> se_refreshTokenHash x \<noteq> se_refreshTokenHash s;
      se_userId s = userId; se_revokedAt s = None\<rbrakk> \<Longrightarrow> Q s w'"
    and "\<And>e w'. w_db w' = w_db w \<Longrightarrow> X e w'"
  shows "wp (openSession E userId ci) Q X w"
  by (auto simp: openSession_def wp_simps Let_def newSession_def intro!: assms split: option.split)

lemma wp_issueTokens_new:
  fixes w :: world
  assumes "\<And>r s w'. \<lbrakk>\<forall>x \<in> set (sessions (w_db w)). se_id x \<noteq> se_id s \<and> se_refreshTokenHash x \<noteq> se_refreshTokenHash s;
      se_userId s = us_id u; se_revokedAt s = None; se_refreshTokenHash s = e_sha256 E (ar_refreshToken r);
      w_db w' = (w_db w)\<lparr>sessions := sessions (w_db w) @ [s]\<rparr>\<rbrakk> \<Longrightarrow> Q r w'"
    and "\<And>e s w'. \<lbrakk>\<forall>x \<in> set (sessions (w_db w)). se_id x \<noteq> se_id s \<and> se_refreshTokenHash x \<noteq> se_refreshTokenHash s;
      se_userId s = us_id u; se_revokedAt s = None;
      w_db w' = (w_db w)\<lparr>sessions := sessions (w_db w) @ [s]\<rparr>\<rbrakk> \<Longrightarrow> X e w'"
    and "\<And>e w'. w_db w' = w_db w \<Longrightarrow> X e w'"
  shows "wp (issueTokens E u ci None) Q X w"
proof -
  have "wp (openSession E (us_id u) ci) (\<lambda>s. wp (signTokens E u ci s) Q X) X w"
  proof (rule wp_openSession)
    fix s and w1 :: world
    assume w1: "w_db w1 = (w_db w)\<lparr>sessions := sessions (w_db w) @ [s]\<rparr>"
      and new: "\<forall>x \<in> set (sessions (w_db w)). se_id x \<noteq> se_id s \<and> se_refreshTokenHash x \<noteq> se_refreshTokenHash s"
      and own: "se_userId s = us_id u" "se_revokedAt s = None"
    have ids: "\<forall>x \<in> set (sessions (w_db w)). se_id x \<noteq> se_id s" using new by blast
    then have found: "find_row sessions_t (se_id s) (w_db w1) = Some s" by (simp add: w1 find_row_def find_appended)
    show "wp (signTokens E u ci s) Q X w1"
    proof (rule wp_signTokens [OF found])
      fix r :: authResponse and w' :: world
      let ?s = "rotate E (ar_refreshToken r) ci s s"
      assume h: "\<forall>x \<in> set (sessions (w_db w1)). se_id x \<noteq> se_id s \<longrightarrow> se_refreshTokenHash x \<noteq> e_sha256 E (ar_refreshToken r)"
        and w': "w_db w' = upd_rows sessions_t (e_now E) (\<lambda>x. se_id x = se_id s) (rotate E (ar_refreshToken r) ci s) (w_db w1)"
      have "map (\<lambda>x. if se_id x = se_id s then rotate E (ar_refreshToken r) ci s x else x) (sessions (w_db w)) = sessions (w_db w)"
        using ids by (simp add: map_idI)
      then have "w_db w' = (w_db w)\<lparr>sessions := sessions (w_db w) @ [?s]\<rparr>" by (simp add: w' w1 upd_rows_def cong: if_cong)
      then show "Q r w'" using own ids h w1
        by (intro assms(1) [where s = ?s]) (auto simp: rotate_def)
    next
      fix e and w' :: world assume "w_db w' = w_db w1"
      then show "X e w'" using own new w1 by (intro assms(2) [where s = s]) simp_all
    qed
  qed (rule assms(3))
  then show ?thesis by (simp add: issueTokens_def wp_sbind)
qed

lemma keeps_issueTokens:
  assumes "keeps J (openSession E (us_id u) ci)" "\<And>s. keeps J (signTokens E u ci s)"
  shows "keeps J (issueTokens E u ci x)"
  using assms by (simp add: issueTokens_def keeps_rules split: option.split)

subsection \<open>Refreshing\<close>

abbreviation of_session :: "session \<Rightarrow> session \<Rightarrow> bool" where
  "of_session s x \<equiv> se_id x = se_id s \<and> se_userId x = se_userId s \<and> se_revokedAt x = None"

lemma wp_refreshTokens:
  fixes w :: world
  assumes rotated: "\<And>t p s u r w'. \<lbrakk>token = Some t; verifyRefreshToken E t = Some p; find_row sessions_t (rpl_sid p) (w_db w) = Some s;
      find_row users_t (se_userId s) (w_db w) = Some u; us_isActive u; se_revokedAt s = None; se_userId s = rpl_sub p;
      rpl_did p = se_deviceId s; e_sha256 E t = se_refreshTokenHash s;
      \<forall>x \<in> set (sessions (w_db w)). se_id x \<noteq> se_id s \<longrightarrow> se_refreshTokenHash x \<noteq> e_sha256 E (ar_refreshToken r);
      w_db w' = upd_rows sessions_t (e_now E) (\<lambda>x. se_id x = se_id s) (rotate E (ar_refreshToken r) ci s) (w_db w)\<rbrakk> \<Longrightarrow> Q r w'"
    and reused: "\<And>t p s u w'. \<lbrakk>token = Some t; verifyRefreshToken E t = Some p; find_row sessions_t (rpl_sid p) (w_db w) = Some s;
      find_row users_t (se_userId s) (w_db w) = Some u; se_revokedAt s = None;
      rpl_did p \<noteq> se_deviceId s \<or> e_sha256 E t \<noteq> se_refreshTokenHash s;
      w_db w' = upd_rows sessions_t (e_now E) (of_session s) (revoke E) (w_db w)\<rbrakk> \<Longrightarrow> X badRefresh w'"
    and refused: "\<And>e w'. w_db w' = w_db w \<Longrightarrow> X e w'"
  shows "wp (refresh E token ci) Q X w"
proof (cases "truthy token")
  case None
  then show ?thesis by (simp add: refresh_def wp_simps refused)
next
  case t: (Some t)
  then have token: "token = Some t" by (simp add: truthy_Some_iff)
  show ?thesis
  proof (cases "verifyRefreshToken E t")
    case None
    then show ?thesis by (simp add: refresh_def wp_simps t refused)
  next
    case p: (Some p)
    show ?thesis
    proof (cases "find_row sessions_t (rpl_sid p) (w_db w)")
      case None
      then show ?thesis by (simp add: refresh_def refuseRefresh_def authWarn_def wp_simps t p refused)
    next
      case s: (Some s)
      have sid: "rpl_sid p = se_id s" using find_row_SomeD [OF s] by simp
      then have self: "find_row sessions_t (se_id s) (w_db w) = Some s" using s by simp
      show ?thesis
      proof (cases "find_row users_t (se_userId s) (w_db w)")
        case None
        then show ?thesis by (simp add: refresh_def wp_simps t p s refused)
      next
        case u: (Some u)
        have "wp (issueTokens E u ci (Some s)) Q X w1"
          if "w_db w1 = w_db w" "us_isActive u" "se_revokedAt s = None" "se_userId s = rpl_sub p" "rpl_did p = se_deviceId s"
            "e_sha256 E t = se_refreshTokenHash s" for w1
          using s that sid
          by (auto simp: issueTokens_def wp_simps intro!: wp_signTokens rotated [OF token p s u] refused)
        then show ?thesis
          using sid reused [OF token p s u]
          by (auto simp: refresh_def refuseRefresh_def authWarn_def authAudit_def revokeSessionChain_def wp_simps t p s self u refused)
      qed
    qed
  qed
qed

definition revoked :: "id \<Rightarrow> db \<Rightarrow> bool" where
  "revoked i d \<longleftrightarrow> (\<exists>s \<in> set (sessions d). se_id s = i \<and> se_revokedAt s \<noteq> None)"

text \<open>A revoked session stays revoked: \<open>sealed i\<close> is kept by every operation on sessions.\<close>

definition sealed :: "id \<Rightarrow> db \<Rightarrow> bool" where
  "sealed i d \<longleftrightarrow> constraints sessions_t d \<and> revoked i d"

lemma revoked_upd:
  assumes "revoked i d" "\<And>s. se_id (f s) = se_id s" "\<And>s. P s \<Longrightarrow> se_id s = i \<Longrightarrow> se_revokedAt s \<noteq> None \<Longrightarrow> se_revokedAt (f s) \<noteq> None"
  shows "revoked i (upd_rows sessions_t n P f d)"
proof -
  obtain s where s: "s \<in> set (sessions d)" "se_id s = i" "se_revokedAt s \<noteq> None" using assms(1) by (auto simp: revoked_def)
  have "(if P s then f s else s) \<in> set (sessions (upd_rows sessions_t n P f d))" using s(1) by (force simp: upd_rows_def)
  then show ?thesis using s assms(2,3) unfolding revoked_def by (intro bexI) auto
qed

lemma constraints_revoke: "constraints sessions_t d \<Longrightarrow> constraints sessions_t (upd_rows sessions_t n P (\<lambda>s. s\<lparr>se_revokedAt := Some t\<rparr>) d)"
  by (rule uq_sessions.constraints_upd_same) simp_all

lemma sealed_revoke: "sealed i d \<Longrightarrow> sealed i (upd_rows sessions_t n P (\<lambda>s. s\<lparr>se_revokedAt := Some t\<rparr>) d)"
  by (simp add: sealed_def constraints_revoke revoked_upd)

lemma sealed_append:
  "sealed i d \<Longrightarrow> \<forall>x \<in> set (sessions d). se_id x \<noteq> se_id s \<and> se_refreshTokenHash x \<noteq> se_refreshTokenHash s \<Longrightarrow>
     sealed i (d\<lparr>sessions := sessions d @ [s]\<rparr>)"
  using tb_sessions.unique_ids_append [of d s]
  by (auto simp: sealed_def constraints_def revoked_def)

lemma sealed_cong: "sessions d' = sessions d \<Longrightarrow> sealed i d' = sealed i d"
  by (simp add: sealed_def constraints_def unique_ids_def revoked_def)

lemma unrevoked_other:
  assumes "sealed i d" "find_row sessions_t k d = Some s" "se_revokedAt s = None"
  shows "se_id s \<noteq> i"
proof
  assume "se_id s = i"
  moreover obtain r where "r \<in> set (sessions d)" "se_id r = i" "se_revokedAt r \<noteq> None"
    using assms(1) by (auto simp: sealed_def revoked_def)
  ultimately show False
    using tb_sessions.unique_row [of d k s r] find_row_SomeD [OF assms(2)] assms by (simp add: sealed_def constraints_def)
qed

lemma constraints_rotate:
  assumes "constraints sessions_t d" "find_row sessions_t (se_id s) d = Some s"
    and "\<forall>x \<in> set (sessions d). se_id x \<noteq> se_id s \<longrightarrow> se_refreshTokenHash x \<noteq> e_sha256 E t"
  shows "constraints sessions_t (upd_rows sessions_t n (\<lambda>x. se_id x = se_id s) (rotate E t ci s) d)"
proof -
  have "constraints sessions_t (upd_rows sessions_t n (\<lambda>x. t_key sessions_t x = se_id s) (rotate E t ci s) d)"
    by (rule uq_sessions.constraints_upd_row [OF assms(1,2)]) (use assms(3) in \<open>auto simp: rotate_def\<close>)
  then show ?thesis by simp
qed

lemma constraints_append:
  "constraints sessions_t d \<Longrightarrow> \<forall>x \<in> set (sessions d). se_id x \<noteq> se_id s \<and> se_refreshTokenHash x \<noteq> se_refreshTokenHash s \<Longrightarrow>
     constraints sessions_t (d\<lparr>sessions := sessions d @ [s]\<rparr>)"
  using tb_sessions.unique_ids_append [of d s] by (auto simp: constraints_def)

lemma sealed_rotate:
  assumes "sealed i d" "find_row sessions_t (se_id s) d = Some s" "se_revokedAt s = None"
    and "\<forall>x \<in> set (sessions d). se_id x \<noteq> se_id s \<longrightarrow> se_refreshTokenHash x \<noteq> e_sha256 E t"
  shows "sealed i (upd_rows sessions_t n (\<lambda>x. se_id x = se_id s) (rotate E t ci s) d)"
  using assms unrevoked_other [OF assms(1-3)] constraints_rotate [of d s E t n ci]
  by (simp add: sealed_def revoked_upd rotate_def)

lemma same_sessions:
  "sessions d' = sessions d \<Longrightarrow> constraints sessions_t d' = constraints sessions_t d"
  by (simp add: constraints_def unique_ids_def)

text \<open>Whatever depends on the sessions alone and survives the three changes survives every operation.\<close>

locale session_invariant =
  fixes J :: "db \<Rightarrow> bool"
  assumes cong: "sessions d' = sessions d \<Longrightarrow> J d' = J d"
    and revoke: "J d \<Longrightarrow> J (upd_rows sessions_t n P (\<lambda>s. s\<lparr>se_revokedAt := Some tm\<rparr>) d)"
    and append: "J d \<Longrightarrow> \<forall>x \<in> set (sessions d). se_id x \<noteq> se_id s \<and> se_refreshTokenHash x \<noteq> se_refreshTokenHash s
      \<Longrightarrow> J (d\<lparr>sessions := sessions d @ [s]\<rparr>)"
    and rotate: "J d \<Longrightarrow> find_row sessions_t (se_id s) d = Some s \<Longrightarrow> se_revokedAt s = None \<Longrightarrow>
      \<forall>x \<in> set (sessions d). se_id x \<noteq> se_id s \<longrightarrow> se_refreshTokenHash x \<noteq> e_sha256 E t \<Longrightarrow>
      J (upd_rows sessions_t n (\<lambda>x. se_id x = se_id s) (rotate E t ci s) d)"
begin

lemma frame: "frames J users_t" "frames J auditLogs_t" "frames J recoveryRequests_t"
  by (auto simp: frames_def intro!: cong)

lemma keeps_revoke: "keeps J (updateMany E sessions_t P (revoke E))"
  by (rule keeps_updateMany) (rule revoke)

lemma keeps_issue: "keeps J (issueTokens E u ci None)"
  unfolding keeps_wp by (auto intro!: wp_issueTokens_new simp: append)

lemma keeps_refresh: "keeps J (refresh E token ci)"
  unfolding keeps_wp
proof (intro allI impI)
  fix w :: world assume J: "J (w_db w)"
  show "wp (refresh E token ci) (\<lambda>_ w'. J (w_db w')) (\<lambda>_ w'. J (w_db w')) w"
  proof (rule wp_refreshTokens)
    fix p s and r :: authResponse and w' :: world
    assume s: "find_row sessions_t (rpl_sid p) (w_db w) = Some s" "se_revokedAt s = None"
      "\<forall>x \<in> set (sessions (w_db w)). se_id x \<noteq> se_id s \<longrightarrow> se_refreshTokenHash x \<noteq> e_sha256 E (ar_refreshToken r)"
      and w': "w_db w' = upd_rows sessions_t (e_now E) (\<lambda>x. se_id x = se_id s) (Sessions.rotate E (ar_refreshToken r) ci s) (w_db w)"
    have "find_row sessions_t (se_id s) (w_db w) = Some s" using s(1) find_row_SomeD [OF s(1)] by simp
    then show "J (w_db w')" using s w' J by (simp add: rotate)
  qed (simp_all add: J revoke)
qed

lemma auth: "keeps J (register E dto ci)" "keeps J (login E email pw ci)" "keeps J (refresh E token ci)"
  "keeps J (logout E token)" "keeps J (logoutAll E u)" "keeps J (revokeSession E u s)"
  "keeps J (requestPasswordRecovery E email)" "keeps J (updatePasswordRecoveryRequest E i st note a r ci)"
  by (simp_all add: register_def login_def logout_def logoutAll_def revokeSession_def requestPasswordRecovery_def
      updatePasswordRecoveryRequest_def authAudit_def authWarn_def Let_def keeps_rules keeps_frame frame keeps_revoke keeps_issue keeps_refresh)

end

interpretation sessions_unique: session_invariant "constraints sessions_t"
  by unfold_locales (rule same_sessions constraints_revoke constraints_append constraints_rotate; assumption)+

interpretation sessions_sealed: session_invariant "sealed i" for i
  by unfold_locales (rule sealed_cong sealed_revoke sealed_append sealed_rotate; assumption)+

subsection \<open>Reuse of a rotated token\<close>

lemma revoked_refused:
  assumes "sealed i (w_db w)" "\<And>p. verifyRefreshToken E t = Some p \<Longrightarrow> rpl_sid p = i"
  shows "wp (refresh E (Some t) ci) (\<lambda>_ _. False) (\<lambda>_ w'. w_db w' = w_db w) w"
proof (rule wp_refreshTokens)
  fix t' p s u r w'
  assume "Some t = Some t'" "verifyRefreshToken E t' = Some p" "find_row sessions_t (rpl_sid p) (w_db w) = Some s" "se_revokedAt s = None"
  then show False using unrevoked_other [OF assms(1)] assms(2) find_row_SomeD [of sessions_t "rpl_sid p" "w_db w" s] by auto
next
  fix t' p s u w'
  assume "Some t = Some t'" "verifyRefreshToken E t' = Some p" "find_row sessions_t (rpl_sid p) (w_db w) = Some s" "se_revokedAt s = None"
  then show "w_db w' = w_db w" using unrevoked_other [OF assms(1)] assms(2) find_row_SomeD [of sessions_t "rpl_sid p" "w_db w" s] by auto
qed

lemma reuse_refused:
  fixes w :: world
  assumes p: "verifyRefreshToken E t = Some p" "t \<noteq> []" and s: "find_row sessions_t (rpl_sid p) (w_db w) = Some s"
    and u: "find_row users_t (se_userId s) (w_db w) = Some u" "us_isActive u" "se_userId s = rpl_sub p"
    and live: "se_revokedAt s = None" and hash: "e_sha256 E t \<noteq> se_refreshTokenHash s"
    and ok: "constraints sessions_t (w_db w)"
  shows "wp (refresh E (Some t) ci) (\<lambda>_ _. False) (\<lambda>e w'. e = badRefresh \<and> sealed (rpl_sid p) (w_db w')) w"
proof -
  have sid: "rpl_sid p = se_id s" "s \<in> set (sessions (w_db w))" using find_row_SomeD [OF s] by simp_all
  let ?P = "\<lambda>x. se_id x = se_id s \<and> se_userId x = se_userId s \<and> se_revokedAt x = None"
  let ?d = "upd_rows sessions_t (e_now E) ?P (revoke E) (w_db w)"
  have "revoke E s \<in> set (sessions ?d)" using sid(2) live by (force simp: upd_rows_def)
  then have "revoked (se_id s) ?d" unfolding revoked_def by (intro bexI) auto
  then have "sealed (se_id s) ?d" using constraints_revoke [OF ok] by (simp add: sealed_def)
  moreover have "truthy (Some t) = Some t" using p(2) by (cases t) auto
  ultimately show ?thesis
    using p s u live hash sid(1)
    by (simp add: refresh_def refuseRefresh_def authWarn_def revokeSessionChain_def wp_simps)
qed

lemma rotation_reuse:
  fixes w :: world
  assumes ok: "constraints sessions_t (w_db w)" and run: "refresh E (Some t) ci w = (Inr r, w1)"
    and same: "e_sha256 E' = e_sha256 E" "verifyRefreshToken E' t = verifyRefreshToken E t"
    and fresh: "e_sha256 E t \<noteq> e_sha256 E (ar_refreshToken r)"
  shows "\<exists>p w2. verifyRefreshToken E t = Some p \<and> refresh E' (Some t) ci' w1 = (Inl badRefresh, w2) \<and> sealed (rpl_sid p) (w_db w2)"
proof -
  have nonempty: "t \<noteq> []" using run by (cases t) (simp_all add: refresh_def sthrow_def)
  define Q where "Q r' w1 \<longleftrightarrow> (\<exists>p s u. verifyRefreshToken E t = Some p \<and> find_row sessions_t (rpl_sid p) (w_db w) = Some s
      \<and> find_row users_t (se_userId s) (w_db w) = Some u \<and> us_isActive u \<and> se_userId s = rpl_sub p
      \<and> (\<forall>x \<in> set (sessions (w_db w)). se_id x \<noteq> se_id s \<longrightarrow> se_refreshTokenHash x \<noteq> e_sha256 E (ar_refreshToken r'))
      \<and> w_db w1 = upd_rows sessions_t (e_now E) (\<lambda>x. se_id x = se_id s) (rotate E (ar_refreshToken r') ci s) (w_db w))"
    for r' :: authResponse and w1 :: world
  have "wp (refresh E (Some t) ci) Q (\<lambda>_ _. True) w"
    by (rule wp_refreshTokens) (auto simp: Q_def)
  then have "Q r w1" using run wp_returned by fast
  then obtain p s u where q: "verifyRefreshToken E t = Some p" "find_row sessions_t (rpl_sid p) (w_db w) = Some s"
      "find_row users_t (se_userId s) (w_db w) = Some u" "us_isActive u" "se_userId s = rpl_sub p"
      "\<forall>x \<in> set (sessions (w_db w)). se_id x \<noteq> se_id s \<longrightarrow> se_refreshTokenHash x \<noteq> e_sha256 E (ar_refreshToken r)"
    and w1: "w_db w1 = upd_rows sessions_t (e_now E) (\<lambda>x. se_id x = se_id s) (rotate E (ar_refreshToken r) ci s) (w_db w)"
    unfolding Q_def by blast
  have sid: "rpl_sid p = se_id s" using find_row_SomeD [OF q(2)] by simp
  let ?s = "rotate E (ar_refreshToken r) ci s s"
  have "find_row sessions_t (rpl_sid p) (w_db w1) = Some ?s"
  proof -
    have "find_row sessions_t (se_id s) (upd_rows sessions_t n (\<lambda>x. se_id x = se_id s) f d) = map_option f (find_row sessions_t (se_id s) d)"
      if "\<And>x. se_id (f x) = se_id x" for n f d
    proof -
      have "find (\<lambda>x. se_id x = i) (map (\<lambda>x. if se_id x = i then f x else x) xs) = map_option f (find (\<lambda>x. se_id x = i) xs)" for i xs
        using that by (induction xs) auto
      then show ?thesis by (simp add: find_row_def upd_rows_def cong: if_cong)
    qed
    then show ?thesis using q(2) sid by (simp add: w1 rotate_def)
  qed
  moreover have "find_row users_t (se_userId ?s) (w_db w1) = Some u" using q(3) by (simp add: w1 find_row_def upd_rows_def rotate_def)
  moreover have "constraints sessions_t (w_db w1)" using constraints_rotate [OF ok _ q(6)] q(2) sid by (simp add: w1)
  ultimately have "wp (refresh E' (Some t) ci') (\<lambda>_ _. False) (\<lambda>e w'. e = badRefresh \<and> sealed (rpl_sid p) (w_db w')) w1"
    using q same fresh nonempty
    by (intro reuse_refused [where s = ?s and u = u]) (simp_all add: rotate_def)
  then show ?thesis using q(1) by (auto simp: wp_def split: prod.splits sum.splits)
qed

subsection \<open>Recovery requests\<close>

definition recovery_ok :: "db \<Rightarrow> bool" where
  "recovery_ok d \<longleftrightarrow> unique_ids recoveryRequests_t d
     \<and> (\<forall>r \<in> set (recoveryRequests d). pq_resolvedAt r \<noteq> None \<longleftrightarrow> \<not> open_recovery (pq_status r))
     \<and> (\<forall>x \<in> set (recoveryRequests d). \<forall>y \<in> set (recoveryRequests d).
          pq_email x = pq_email y \<and> open_recovery (pq_status x) \<and> open_recovery (pq_status y) \<longrightarrow> pq_id x = pq_id y)"

lemma recovery_ok_upd:
  assumes ok: "recovery_ok d" and key: "\<And>x. pq_id (f x) = pq_id x" "\<And>x. pq_email (f x) = pq_email x"
    and opens: "\<And>x. x \<in> set (recoveryRequests d) \<Longrightarrow> P x \<Longrightarrow> open_recovery (pq_status (f x)) \<Longrightarrow> open_recovery (pq_status x)"
    and closes: "\<And>x. x \<in> set (recoveryRequests d) \<Longrightarrow> P x \<Longrightarrow> pq_resolvedAt (f x) \<noteq> None \<longleftrightarrow> \<not> open_recovery (pq_status (f x))"
  shows "recovery_ok (upd_rows recoveryRequests_t n P f d)"
proof -
  let ?g = "\<lambda>x. if P x then (f x)\<lparr>pq_updatedAt := n\<rparr> else x"
  have rows: "recoveryRequests (upd_rows recoveryRequests_t n P f d) = map ?g (recoveryRequests d)" by (simp add: upd_rows_def)
  have g: "pq_id (?g x) = pq_id x" "pq_email (?g x) = pq_email x" for x using key by simp_all
  have opened: "open_recovery (pq_status x)" if "x \<in> set (recoveryRequests d)" "open_recovery (pq_status (?g x))" for x
    using opens [OF that(1)] that(2) by (auto split: if_splits)
  have "unique_ids recoveryRequests_t (upd_rows recoveryRequests_t n P f d)" using ok key by (simp add: recovery_ok_def tb_recoveryRequests.unique_ids_upd)
  moreover have "pq_resolvedAt (?g x) \<noteq> None \<longleftrightarrow> \<not> open_recovery (pq_status (?g x))" if "x \<in> set (recoveryRequests d)" for x
    using closes [OF that] ok that by (simp add: recovery_ok_def)
  moreover have "pq_id (?g x) = pq_id (?g y)" if "x \<in> set (recoveryRequests d)" "y \<in> set (recoveryRequests d)"
    "pq_email (?g x) = pq_email (?g y)" "open_recovery (pq_status (?g x))" "open_recovery (pq_status (?g y))" for x y
  proof -
    have "pq_id x = pq_id y"
      using ok that(1,2,3) opened [OF that(1,4)] opened [OF that(2,5)] unfolding g recovery_ok_def by blast
    then show ?thesis by (simp only: g)
  qed
  ultimately show ?thesis unfolding recovery_ok_def rows set_map ball_simps(9) by blast
qed

lemma recovery_unique: "recovery_ok d \<Longrightarrow> unique_ids recoveryRequests_t d"
  unfolding recovery_ok_def by blast

lemma recovery_closed:
  "recovery_ok d \<Longrightarrow> r \<in> set (recoveryRequests d) \<Longrightarrow> pq_resolvedAt r = None \<longleftrightarrow> open_recovery (pq_status r)"
  unfolding recovery_ok_def by blast

lemma keeps_recovery_request: "keeps recovery_ok (requestPasswordRecovery E email)"
proof -
  let ?e = "js_lower (js_trim email)"
  have new: "recovery_ok (d\<lparr>recoveryRequests := recoveryRequests d @ [newRecovery E ?e u i]\<rparr>)"
    if ok: "recovery_ok d" and none: "\<forall>r \<in> set (recoveryRequests d). \<not> (pq_email r = ?e \<and> open_recovery (pq_status r))"
      and fresh: "\<forall>r \<in> set (recoveryRequests d). pq_id r \<noteq> i" for d u i
  proof -
    have rows: "recoveryRequests (d\<lparr>recoveryRequests := recoveryRequests d @ [newRecovery E ?e u i]\<rparr>)
        = recoveryRequests d @ [newRecovery E ?e u i]" by simp
    have "unique_ids recoveryRequests_t (d\<lparr>recoveryRequests := recoveryRequests d @ [newRecovery E ?e u i]\<rparr>)"
      using ok fresh tb_recoveryRequests.unique_ids_append [of d "newRecovery E ?e u i"]
      by (simp add: recovery_ok_def newRecovery_def)
    moreover have "pq_resolvedAt r \<noteq> None \<longleftrightarrow> \<not> open_recovery (pq_status r)"
      if "r \<in> set (recoveryRequests d @ [newRecovery E ?e u i])" for r
      using that ok by (auto simp: recovery_ok_def newRecovery_def open_recovery_def)
    moreover have "pq_id x = pq_id y" if "x \<in> set (recoveryRequests d @ [newRecovery E ?e u i])"
      "y \<in> set (recoveryRequests d @ [newRecovery E ?e u i])"
      "pq_email x = pq_email y \<and> open_recovery (pq_status x) \<and> open_recovery (pq_status y)" for x y
    proof -
      have e: "pq_email (newRecovery E ?e u i) = ?e" by (simp add: newRecovery_def)
      show ?thesis
      proof (cases "x \<in> set (recoveryRequests d) \<and> y \<in> set (recoveryRequests d)")
        case True
        then show ?thesis using ok that(3) unfolding recovery_ok_def by blast
      next
        case False
        then show ?thesis using none that e by (metis Un_iff empty_iff insert_iff list.set set_append)
      qed
    qed
    ultimately show ?thesis unfolding recovery_ok_def db.select_convs db.update_convs rows by blast
  qed
  have upd: "recovery_ok (upd_rows recoveryRequests_t n (\<lambda>x. pq_id x = i) (\<lambda>x. x\<lparr>pq_userId := u\<rparr>) d)" if "recovery_ok d" for d n i u
    by (rule recovery_ok_upd [OF that]) (simp_all add: recovery_closed [OF that])
  have absent: "\<forall>r \<in> set (recoveryRequests d). \<not> (pq_email r = ?e \<and> open_recovery (pq_status r))"
    if "first_of (sort_desc pq_order (filter (\<lambda>r. pq_email r = ?e \<and> open_recovery (pq_status r)) (recoveryRequests d))) = None" for d
    using that by (auto simp: first_of_None_iff filter_empty_conv)
  have key: "pq_id (newRecovery E m u i) = i" for m u i by (simp add: newRecovery_def)
  show ?thesis
    unfolding keeps_wp
    by (auto simp: requestPasswordRecovery_def authAudit_def wp_simps Let_def key upd split: option.split intro!: new dest!: absent)
qed

lemma keeps_recovery_update: "keeps recovery_ok (updatePasswordRecoveryRequest E i st note a r ci)"
proof -
  have frame: "frames recovery_ok auditLogs_t" by (simp add: frames_def recovery_ok_def unique_ids_def)
  have upd: "recovery_ok (upd_rows recoveryRequests_t n (\<lambda>x. pq_id x = i) (recovery_data E a st note q) d)"
    if ok: "recovery_ok d" and q: "find_row recoveryRequests_t i d = Some q" "\<not> (pq_status q = PW_RESOLVED \<or> pq_status q = PW_CANCELED)"
      and st: "st \<in> {PW_IN_PROGRESS, PW_RESOLVED, PW_CANCELED}" for d n q
  proof (rule recovery_ok_upd [OF ok])
    fix x assume "x \<in> set (recoveryRequests d)" "pq_id x = i"
    then have "x = q" using tb_recoveryRequests.unique_row [of d i q x] recovery_unique [OF ok] q(1) by simp
    then show "open_recovery (pq_status x)" using q(2) by (cases "pq_status q") (auto simp: open_recovery_def)
  qed (use st in \<open>auto simp: recovery_data_def Let_def open_recovery_def\<close>)
  have step: "keeps recovery_ok (sthen (logAdminAction E l) (sreturn v))" for l and v :: passwordRecoveryRequest
    by (simp add: keeps_rules frame)
  show ?thesis
    unfolding keeps_wp
    using step [unfolded keeps_wp] upd
    by (auto simp: updatePasswordRecoveryRequest_def wp_sthen wp_sguard wp_sbind wp_require wp_update split: option.split)
qed

end
