(* ===== verification/Reviews.thy ===== *)
theory Reviews
  imports Catalog
begin

text \<open>
  \<^verbatim>\<open>reviews/reviews.service.ts\<close>: one review per completed job, by its client, with the rating
  aggregate of the provider's profile recomputed in the same transaction.
\<close>

subsection \<open>The average in hundredths\<close>

text \<open>
  \<^verbatim>\<open>avg.toFixed(2)\<close>: the average reaches JavaScript as the double nearest to the quotient, and
  \<^verbatim>\<open>toFixed\<close> picks the hundredth nearest to that double, the larger one of two.  Ratings lie
  between 1 and 5, where doubles are multiples of \<open>2 ^ -52\<close>, \<open>2 ^ -51\<close> and \<open>2 ^ -50\<close>.
\<close>

definition round_half_even :: "rat \<Rightarrow> int" where
  "round_half_even q = (let n = \<lfloor>q\<rfloor>; r = q - of_int n in
     if r < 1 / 2 then n else if 1 / 2 < r then n + 1 else if even n then n else n + 1)"

definition double_scale :: "rat \<Rightarrow> rat" where
  "double_scale q = (if q < 2 then 2 ^ 52 else if q < 4 then 2 ^ 51 else 2 ^ 50)"

definition double_of :: "rat \<Rightarrow> rat" where
  "double_of q = of_int (round_half_even (q * double_scale q)) / double_scale q"

definition toFixed2 :: "rat \<Rightarrow> int" where
  "toFixed2 x = \<lfloor>x * 100 + 1 / 2\<rfloor>"

definition ratingAverage :: "int list \<Rightarrow> int" where
  "ratingAverage rs = (if rs = [] then 0
     else toFixed2 (double_of (of_int (sum_list rs) / of_nat (length rs))))"

subsection \<open>Operations\<close>

abbreviation notReviewer :: exn where "notReviewer \<equiv> ForbiddenException ''Only the job client can review this job''"
abbreviation notCompleted :: exn where "notCompleted \<equiv> ConflictException ''Only completed jobs can be reviewed''"
abbreviation alreadyReviewed :: exn where "alreadyReviewed \<equiv> ConflictException ''This job already has a review''"

record createReviewDto =
  cv_jobId :: id
  cv_rating :: int
  cv_comment :: "string option"

definition reviewAudit :: "string \<Rightarrow> unit svc" where
  "reviewAudit ev = recordBusinessEvent ''reviews'' ev ''success''"

definition reviewWarn :: "string \<Rightarrow> exn \<Rightarrow> 'a svc" where
  "reviewWarn ev e = sthen (recordBusinessEvent ''reviews'' ev ''blocked'') (sthrow e)"

definition newReview :: "env \<Rightarrow> id \<Rightarrow> job \<Rightarrow> createReviewDto \<Rightarrow> id \<Rightarrow> review" where
  "newReview E reviewerId job dto i =
     \<lparr>rv_id = i, rv_jobId = cv_jobId dto, rv_workerProfileId = jb_workerProfileId job, rv_reviewerId = reviewerId,
      rv_rating = cv_rating dto, rv_comment = trim_or_null (cv_comment dto),
      rv_createdAt = e_now E, rv_updatedAt = e_now E\<rparr>"

definition ratings_of :: "id \<Rightarrow> db \<Rightarrow> int list" where
  "ratings_of p d = map rv_rating (filter (\<lambda>r. rv_workerProfileId r = p) (reviews d))"

definition saveReview :: "env \<Rightarrow> id \<Rightarrow> job \<Rightarrow> createReviewDto \<Rightarrow> review svc" where
  "saveReview E reviewerId job dto =
     sbind (create E reviews_t (newReview E reviewerId job dto)) (\<lambda>review.
     sbind (sread (ratings_of (jb_workerProfileId job))) (\<lambda>rs.
     sbind (update E workerProfiles_t (jb_workerProfileId job)
       (\<lambda>p. p\<lparr>wp_ratingAvg := ratingAverage rs, wp_ratingCount := length rs\<rparr>)) (\<lambda>_.
     sreturn review)))"

definition createReview :: "env \<Rightarrow> id \<Rightarrow> createReviewDto \<Rightarrow> review svc" where
  "createReview E reviewerId dto =
     sbind (findUnique jobs_t (cv_jobId dto)) (\<lambda>found.
     case found of
       None \<Rightarrow> reviewWarn ''review_create_job_not_found'' jobNotFound
     | Some job \<Rightarrow>
       if jb_clientId job \<noteq> reviewerId then reviewWarn ''review_create_forbidden_reviewer'' notReviewer
       else if jb_status job \<noteq> JOB_COMPLETED then reviewWarn ''review_create_job_not_completed'' notCompleted
       else sbind (findBy reviews_t (\<lambda>r. rv_jobId r = cv_jobId dto)) (\<lambda>existing.
         if existing \<noteq> None then reviewWarn ''review_create_duplicate'' alreadyReviewed
         else sbind (transact (saveReview E reviewerId job dto)) (\<lambda>review.
           sthen (reviewAudit ''review_created'') (sreturn review))))"

datatype reviewSort = RSort_createdAt | RSort_rating

record listReviewsQuery =
  lr_page :: pageInput
  lr_rating :: "int option"
  lr_sort :: "(reviewSort \<times> sortDirection) option"

definition reviewWhere :: "(review \<Rightarrow> bool) \<Rightarrow> listReviewsQuery \<Rightarrow> review \<Rightarrow> bool" where
  "reviewWhere baseWhere query r \<longleftrightarrow> baseWhere r \<and> (case lr_rating query of None \<Rightarrow> True | Some n \<Rightarrow> rv_rating r = n)"

definition reviewOrderBy :: "reviewSort \<times> sortDirection \<Rightarrow> review list \<Rightarrow> review list" where
  "reviewOrderBy s rs =
     (case s of
        (RSort_rating, dir) \<Rightarrow> sort_key (\<lambda>r. if dir = Sort_desc then - rv_rating r else rv_rating r) (sort_desc rv_order rs)
      | (RSort_createdAt, dir) \<Rightarrow> sort_key (\<lambda>r. if dir = Sort_desc then - rv_createdAt r else rv_createdAt r)
          (sort_desc rv_id rs))"

definition listReviewsByWorkerProfile :: "id \<Rightarrow> listReviewsQuery \<Rightarrow> review paginated svc" where
  "listReviewsByWorkerProfile p query =
     sread (\<lambda>d. page_of (lr_page query) (reviewOrderBy (or_else (lr_sort query) (RSort_createdAt, Sort_desc))
       (filter (reviewWhere (\<lambda>r. rv_workerProfileId r = p) query) (reviews d))))"

definition listMyReviews :: "id \<Rightarrow> listReviewsQuery \<Rightarrow> review paginated svc" where
  "listMyReviews reviewerId query =
     sread (\<lambda>d. page_of (lr_page query) (reviewOrderBy (or_else (lr_sort query) (RSort_createdAt, Sort_desc))
       (filter (reviewWhere (\<lambda>r. rv_reviewerId r = reviewerId) query) (reviews d))))"

subsection \<open>The average stays within the ratings\<close>

lemma round_half_even_int [simp]: "round_half_even (of_int k) = k"
  by (simp add: round_half_even_def Let_def)

lemma round_half_even_mono:
  assumes "p \<le> q"
  shows "round_half_even p \<le> round_half_even q"
proof (cases "\<lfloor>p\<rfloor> = \<lfloor>q\<rfloor>")
  case True
  then show ?thesis using assms by (auto simp: round_half_even_def Let_def)
next
  case False
  then have "\<lfloor>p\<rfloor> + 1 \<le> \<lfloor>q\<rfloor>" using floor_mono [OF assms] by simp
  moreover have "round_half_even p \<le> \<lfloor>p\<rfloor> + 1" "\<lfloor>q\<rfloor> \<le> round_half_even q"
    by (simp_all add: round_half_even_def Let_def)
  ultimately show ?thesis by simp
qed

lemma double_of_bounds:
  assumes "of_int lo \<le> q" "q \<le> of_int hi"
  shows "of_int lo \<le> double_of q \<and> double_of q \<le> of_int hi"
proof -
  define s where "s = double_scale q"
  have "s = of_int (2 ^ 52) \<or> s = of_int (2 ^ 51) \<or> s = of_int (2 ^ 50)" by (simp add: s_def double_scale_def)
  then obtain k :: int where k: "s = of_int k" "0 < k" by (elim disjE) (erule that; simp)+
  then have "of_int (lo * k) \<le> q * s" "q * s \<le> of_int (hi * k)" using assms by simp_all
  then have "lo * k \<le> round_half_even (q * s)" "round_half_even (q * s) \<le> hi * k"
    using round_half_even_mono round_half_even_int by metis+
  then have "(of_int (lo * k) :: rat) \<le> of_int (round_half_even (q * s))" "(of_int (round_half_even (q * s)) :: rat) \<le> of_int (hi * k)"
    by (simp_all only: of_int_le_iff)
  then show ?thesis
    using k by (simp add: double_of_def s_def [symmetric] field_simps)
qed

lemma toFixed2_mono: "x \<le> y \<Longrightarrow> toFixed2 x \<le> toFixed2 y"
  by (simp add: toFixed2_def floor_mono)

lemma toFixed2_int [simp]: "toFixed2 (of_int k) = 100 * k"
proof -
  have "\<lfloor>of_int k * 100 + 1 / 2 :: rat\<rfloor> = 100 * k" by (rule floor_unique) simp_all
  then show ?thesis by (simp only: toFixed2_def)
qed

lemma sum_list_bounds:
  fixes rs :: "int list"
  assumes "\<forall>r \<in> set rs. lo \<le> r \<and> r \<le> hi"
  shows "lo * int (length rs) \<le> sum_list rs \<and> sum_list rs \<le> hi * int (length rs)"
  using assms by (induction rs) (auto simp: algebra_simps)

lemma ratingAverage_bounds:
  assumes "rs \<noteq> []" "\<forall>r \<in> set rs. lo \<le> r \<and> r \<le> hi"
  shows "100 * lo \<le> ratingAverage rs \<and> ratingAverage rs \<le> 100 * hi"
proof -
  let ?n = "of_nat (length rs) :: rat" and ?q = "(of_int (sum_list rs) / of_nat (length rs) :: rat)"
  have n: "0 < ?n" using assms(1) by simp
  have "(of_int (lo * int (length rs)) :: rat) \<le> of_int (sum_list rs)" "(of_int (sum_list rs) :: rat) \<le> of_int (hi * int (length rs))"
    using sum_list_bounds [OF assms(2)] by (simp_all only: of_int_le_iff)
  then have "of_int lo \<le> ?q" "?q \<le> of_int hi" using n by (simp_all add: field_simps)
  then have "of_int lo \<le> double_of ?q" "double_of ?q \<le> of_int hi" using double_of_bounds by blast+
  then have "toFixed2 (of_int lo) \<le> toFixed2 (double_of ?q)" "toFixed2 (double_of ?q) \<le> toFixed2 (of_int hi)"
    using toFixed2_mono by blast+
  then show ?thesis using assms(1) by (simp add: ratingAverage_def)
qed

subsection \<open>Contract\<close>

lemma createReview_contract:
  "wp (createReview E u dto)
    (\<lambda>r w'. \<exists>job. find_row jobs_t (cv_jobId dto) (w_db w) = Some job \<and> jb_clientId job = u \<and> jb_status job = JOB_COMPLETED
       \<and> find (\<lambda>x. rv_jobId x = cv_jobId dto) (reviews (w_db w)) = None
       \<and> (\<forall>x \<in> set (reviews (w_db w)). rv_id x \<noteq> rv_id r)
       \<and> r = newReview E u job dto (rv_id r)
       \<and> (\<exists>p. find_row workerProfiles_t (jb_workerProfileId job) (w_db w) = Some p)
       \<and> w_db w' = upd_rows workerProfiles_t (e_now E) (\<lambda>p. wp_id p = jb_workerProfileId job)
           (\<lambda>p. p\<lparr>wp_ratingAvg := ratingAverage (ratings_of (jb_workerProfileId job) (w_db w) @ [cv_rating dto]),
              wp_ratingCount := Suc (length (ratings_of (jb_workerProfileId job) (w_db w)))\<rparr>)
           ((w_db w)\<lparr>reviews := reviews (w_db w) @ [r]\<rparr>))
    (\<lambda>e w'. w_db w' = w_db w) w"
  by (auto simp: createReview_def reviewWarn_def reviewAudit_def saveReview_def newReview_def ratings_of_def find_row_def
      wp_simps Let_def find_None_iff split: option.split)

end
