(* ===== verification/AdminOps.thy ===== *)
theory AdminOps
  imports Sessions Reviews Regexp
begin

text \<open>
  \<^verbatim>\<open>admin-ops/admin-ops.service.ts\<close>: the operational overview, roles and suspension of accounts,
  their deletion with the cascades of the schema, platform settings and the users' snapshot; and
  \<^verbatim>\<open>auth/interceptors/admin-action-audit.interceptor.ts\<close>, which logs every administrative call.
\<close>

subsection \<open>Percentages\<close>

text \<open>
  The double nearest to a rational between \<open>2 ^ -67\<close> and \<open>2 ^ 53\<close>: the quotient of two row
  counts, and a percentage.
\<close>

definition nearest_double :: "rat \<Rightarrow> rat" where
  "nearest_double q =
     (case find (\<lambda>k. 2 ^ 52 \<le> q * 2 ^ k) [0..<120] of
        None \<Rightarrow> 0
      | Some k \<Rightarrow> of_int (round_half_even (q * 2 ^ k)) / 2 ^ k)"

definition toFixed1 :: "rat \<Rightarrow> int" where
  "toFixed1 x = \<lfloor>x * 10 + 1 / 2\<rfloor>"

text \<open>\<^verbatim>\<open>Number(((completed / total) * 100).toFixed(1))\<close>, in tenths of a percent.\<close>

definition completionRate :: "nat \<Rightarrow> nat \<Rightarrow> int" where
  "completionRate completedJobs totalJobs =
     (if totalJobs = 0 then 0
      else toFixed1 (nearest_double (nearest_double (of_nat completedJobs / of_nat totalJobs) * 100)))"

subsection \<open>Overview\<close>

definition statusOrder :: "jobStatus list" where
  "statusOrder = [JOB_REQUESTED, JOB_ACCEPTED, JOB_IN_PROGRESS, JOB_COMPLETED, JOB_CANCELED]"

definition pricingModeOrder :: "jobPricingMode list" where
  "pricingModeOrder = [JPM_FIXED_PRICE, JPM_QUOTE_REQUEST]"

text \<open>\<^verbatim>\<open>groupBy\<close> counts a value only where it occurs; the summaries start from zero.\<close>

definition count_by :: "('r \<Rightarrow> 'k) \<Rightarrow> 'r list \<Rightarrow> 'k \<Rightarrow> nat" where
  "count_by f rows k = length (filter (\<lambda>r. f r = k) rows)"

definition buildStatusSummary :: "job list \<Rightarrow> (jobStatus \<times> nat) list" where
  "buildStatusSummary rows = map (\<lambda>s. (s, count_by jb_status rows s)) statusOrder"

definition buildPricingModeSummary :: "job list \<Rightarrow> (jobPricingMode \<times> nat) list" where
  "buildPricingModeSummary rows = map (\<lambda>m. (m, count_by jb_pricingMode rows m)) pricingModeOrder"

definition publicable :: "db \<Rightarrow> workerProfile \<Rightarrow> bool" where
  "publicable d p \<longleftrightarrow> wp_isAvailable p \<and> (case wp_hourlyRate p of None \<Rightarrow> False | Some r \<Rightarrow> 0 < r)
     \<and> 0 < wp_experienceYears p \<and> truthy (wp_location p) \<noteq> None
     \<and> (case find_row users_t (wp_userId p) d of None \<Rightarrow> False | Some u \<Rightarrow> us_isActive u)
     \<and> list_ex ca_isActive (profile_categories d (wp_id p))"

record jobListItem =
  ji_job :: job
  ji_hasReview :: bool

definition toJobListItem :: "db \<Rightarrow> job \<Rightarrow> jobListItem" where
  "toJobListItem d j = \<lparr>ji_job = j, ji_hasReview = list_ex (\<lambda>r. rv_jobId r = jb_id j) (reviews d)\<rparr>"

text \<open>Descending order puts the rows without a value first.\<close>

definition nulls_first :: "time option \<Rightarrow> bool \<times> time" where
  "nulls_first t = (case t of None \<Rightarrow> (True, 0) | Some x \<Rightarrow> (False, x))"

record opsOverview =
  ow_totalJobs :: nat
  ow_jobsByStatus :: "(jobStatus \<times> nat) list"
  ow_completionRate :: int
  ow_totalReviews :: nat
  ow_averageRating :: int
  ow_activePublicableWorkers :: nat
  ow_jobsByPricingMode :: "(jobPricingMode \<times> nat) list"
  ow_recentJobs :: "jobListItem list"
  ow_recentlyCanceledJobs :: "jobListItem list"
  ow_completedWithoutReviewJobs :: "jobListItem list"

definition getOverview :: "opsOverview svc" where
  "getOverview = sread (\<lambda>d.
     \<lparr>ow_totalJobs = length (jobs d), ow_jobsByStatus = buildStatusSummary (jobs d),
      ow_completionRate = completionRate (count_by jb_status (jobs d) JOB_COMPLETED) (length (jobs d)),
      ow_totalReviews = length (reviews d), ow_averageRating = ratingAverage (map rv_rating (reviews d)),
      ow_activePublicableWorkers = length (filter (publicable d) (workerProfiles d)),
      ow_jobsByPricingMode = buildPricingModeSummary (jobs d),
      ow_recentJobs = map (toJobListItem d) (take 8 (sort_desc jb_order (jobs d))),
      ow_recentlyCanceledJobs = map (toJobListItem d) (take 8 (sort_desc
        (\<lambda>j. (nulls_first (jb_canceledAt j), jb_updatedAt j, jb_id j)) (filter (\<lambda>j. jb_status j = JOB_CANCELED) (jobs d)))),
      ow_completedWithoutReviewJobs = map (toJobListItem d) (take 8 (sort_desc
        (\<lambda>j. (nulls_first (jb_completedAt j), jb_updatedAt j, jb_id j))
        (filter (\<lambda>j. jb_status j = JOB_COMPLETED \<and> \<not> list_ex (\<lambda>r. rv_jobId r = jb_id j) (reviews d)) (jobs d))))\<rparr>)"

subsection \<open>Accounts\<close>

abbreviation userMissing :: exn where
  "userMissing \<equiv> NotFoundException (''Utilizador n'' @ [CHR 0xE3] @ ''o encontrado.'')"
abbreviation ownRole :: exn where
  "ownRole \<equiv> BadRequestException (''N'' @ [CHR 0xE3] @ ''o podes remover o teu pr'' @ [CHR 0xF3]
     @ ''prio acesso admin nesta opera'' @ [CHR 0xE7, CHR 0xE3] @ ''o.'')"
abbreviation ownStatus :: exn where
  "ownStatus \<equiv> BadRequestException (''N'' @ [CHR 0xE3] @ ''o podes suspender a tua pr'' @ [CHR 0xF3]
     @ ''pria conta nesta opera'' @ [CHR 0xE7, CHR 0xE3] @ ''o.'')"
abbreviation ownAccount :: exn where
  "ownAccount \<equiv> BadRequestException (''N'' @ [CHR 0xE3] @ ''o podes apagar a tua pr'' @ [CHR 0xF3]
     @ ''pria conta administrativa.'')"

definition revokeSessionsOf :: "env \<Rightarrow> id \<Rightarrow> unit svc" where
  "revokeSessionsOf E userId =
     sbind (updateMany E sessions_t (\<lambda>s. se_userId s = userId \<and> se_revokedAt s = None) (revoke E)) (\<lambda>_. sreturn ())"

definition updateUserRole :: "env \<Rightarrow> id \<Rightarrow> userRole \<Rightarrow> adminSubrole option \<Rightarrow> adminActor \<Rightarrow> user svc" where
  "updateUserRole E targetUserId role adminSubrole actor =
     sbind (require users_t targetUserId userMissing) (\<lambda>target.
     sthen (sguard (\<not> (us_id target = aa_userId actor \<and> role \<noteq> UR_ADMIN)) ownRole)
     (let nextAdminSubrole = (if role = UR_ADMIN then adminSubrole else None) in
      sbind (update E users_t (us_id target) (\<lambda>u. u\<lparr>us_role := role, us_adminSubrole := nextAdminSubrole\<rparr>)) (\<lambda>updated.
      sthen (swhen (us_role target \<noteq> us_role updated \<or> us_adminSubrole target \<noteq> us_adminSubrole updated)
        (revokeSessionsOf E (us_id updated)))
      (sthen (logRoleChange E actor (us_id updated) (resolveRoleLabel (us_role target) (us_adminSubrole target))
        (resolveRoleLabel role nextAdminSubrole))
      (sreturn updated)))))"

definition updateUserStatus :: "env \<Rightarrow> id \<Rightarrow> bool \<Rightarrow> adminActor \<Rightarrow> user svc" where
  "updateUserStatus E targetUserId isActive actor =
     sbind (require users_t targetUserId userMissing) (\<lambda>target.
     sthen (sguard (\<not> (us_id target = aa_userId actor \<and> \<not> isActive)) ownStatus)
     (sbind (update E users_t (us_id target) (\<lambda>u. u\<lparr>us_isActive := isActive\<rparr>)) (\<lambda>updated.
      sthen (swhen (\<not> us_isActive updated) (revokeSessionsOf E (us_id updated)))
      (sthen (logUserStatusChange E actor (us_id updated) (us_isActive updated))
      (sreturn updated)))))"

subsection \<open>Deleting an account\<close>

text \<open>
  \<^verbatim>\<open>prisma.user.delete\<close> with the referential actions of the schema: \<open>Cascade\<close> removes the rows
  that point to a removed row, \<open>SetNull\<close> clears the reference.
\<close>

definition unlink :: "('a \<Rightarrow> bool) \<Rightarrow> 'a option \<Rightarrow> 'a option" where
  "unlink gone x = (case x of Some i \<Rightarrow> if gone i then None else Some i | None \<Rightarrow> None)"

definition delete_user :: "id \<Rightarrow> db \<Rightarrow> db" where
  "delete_user u d =
     (let self = (\<lambda>i. i = u);
          profiles = filter (\<lambda>p. wp_userId p \<noteq> u) (workerProfiles d);
          no_profile = (\<lambda>i. i \<in> wp_id ` set (filter (\<lambda>p. wp_userId p = u) (workerProfiles d)));
          no_request = (\<lambda>i. i \<in> sr_id ` set (filter (\<lambda>r. sr_customerId r = u) (serviceRequests d)));
          no_proposal = (\<lambda>i. i \<in> pr_id ` set (filter (\<lambda>p. pr_providerId p = u \<or> no_request (pr_requestId p)) (proposals d)));
          no_job = (\<lambda>i. i \<in> jb_id ` set (filter (\<lambda>j. jb_clientId j = u \<or> no_profile (jb_workerProfileId j)) (jobs d)));
          no_message = (\<lambda>i. i \<in> jm_id ` set (filter (\<lambda>m. no_job (jm_jobId m)) (messages d)));
          drop_intervention = (\<lambda>t. no_job (ti_jobId t) \<or> ti_actorUserId t = u \<or> ti_counterpartUserId t = u);
          no_intervention = (\<lambda>i. i \<in> ti_id ` set (filter drop_intervention (interventions d)));
          no_intent = (\<lambda>i. i \<in> pi_id ` set (filter (\<lambda>x. no_job (pi_jobId x) \<or> pi_customerId x = u) (intents d)));
          drop_refund = (\<lambda>r. no_job (rf_jobId r) \<or> no_intent (rf_paymentIntentId r) \<or> rf_requestedByUserId r = u);
          no_refund = (\<lambda>i. i \<in> rf_id ` set (filter drop_refund (refunds d)));
          no_incident = (\<lambda>i. i \<in> oi_id ` set (filter (\<lambda>x. oi_createdByUserId x = u) (incidents d))) in
      d\<lparr>users := filter (\<lambda>x. us_id x \<noteq> u) (users d),
        workerProfiles := profiles,
        profileCategories := filter (\<lambda>x. \<not> no_profile (pc_workerProfileId x)) (profileCategories d),
        serviceRequests := map (\<lambda>r. r\<lparr>sr_selectedProposalId := unlink no_proposal (sr_selectedProposalId r)\<rparr>)
          (filter (\<lambda>r. sr_customerId r \<noteq> u) (serviceRequests d)),
        invitations := filter (\<lambda>x. ri_providerUserId x \<noteq> u \<and> \<not> no_request (ri_requestId x)) (invitations d),
        proposals := filter (\<lambda>p. \<not> (pr_providerId p = u \<or> no_request (pr_requestId p))) (proposals d),
        jobs := map (\<lambda>j. j\<lparr>jb_customerId := unlink self (jb_customerId j), jb_providerId := unlink self (jb_providerId j),
            jb_requestId := unlink no_request (jb_requestId j), jb_proposalId := unlink no_proposal (jb_proposalId j)\<rparr>)
          (filter (\<lambda>j. \<not> no_job (jb_id j)) (jobs d)),
        notifications := filter (\<lambda>x. un_userId x \<noteq> u) (notifications d),
        messages := filter (\<lambda>m. \<not> no_job (jm_jobId m)) (messages d),
        attachments := filter (\<lambda>a. \<not> no_message (ja_jobMessageId a)) (attachments d),
        interventions := map (\<lambda>t. t\<lparr>ti_reviewedByUserId := unlink self (ti_reviewedByUserId t)\<rparr>)
          (filter (\<lambda>t. \<not> drop_intervention t) (interventions d)),
        reviews := filter (\<lambda>r. \<not> (no_job (rv_jobId r) \<or> no_profile (rv_workerProfileId r) \<or> rv_reviewerId r = u)) (reviews d),
        intents := map (\<lambda>x. x\<lparr>pi_providerUserId := unlink self (pi_providerUserId x)\<rparr>)
          (filter (\<lambda>x. \<not> no_intent (pi_id x)) (intents d)),
        transactions := map (\<lambda>t. t\<lparr>tx_paymentIntentId := unlink no_intent (tx_paymentIntentId t)\<rparr>) (transactions d),
        ledger := map (\<lambda>e. e\<lparr>le_jobId := unlink no_job (le_jobId e),
            le_paymentIntentId := unlink no_intent (le_paymentIntentId e),
            le_createdByUserId := unlink self (le_createdByUserId e)\<rparr>) (ledger d),
        payouts := map (\<lambda>p. p\<lparr>po_jobId := unlink no_job (po_jobId p),
            po_paymentIntentId := unlink no_intent (po_paymentIntentId p),
            po_requestedByUserId := unlink self (po_requestedByUserId p),
            po_approvedByUserId := unlink self (po_approvedByUserId p)\<rparr>)
          (filter (\<lambda>p. po_providerUserId p \<noteq> u) (payouts d)),
        refunds := map (\<lambda>r. r\<lparr>rf_approvedByUserId := unlink self (rf_approvedByUserId r)\<rparr>)
          (filter (\<lambda>r. \<not> drop_refund r) (refunds d)),
        incidents := map (\<lambda>x. x\<lparr>oi_ownerAdminUserId := unlink self (oi_ownerAdminUserId x),
            oi_relatedJobId := unlink no_job (oi_relatedJobId x),
            oi_relatedRefundRequestId := unlink no_refund (oi_relatedRefundRequestId x),
            oi_relatedTrustSafetyInterventionId := unlink no_intervention (oi_relatedTrustSafetyInterventionId x)\<rparr>)
          (filter (\<lambda>x. \<not> no_incident (oi_id x)) (incidents d)),
        incidentEvents := filter (\<lambda>x. \<not> no_incident (ie_incidentId x)) (incidentEvents d),
        paymentEvents := map (\<lambda>x. x\<lparr>pe_paymentIntentId := unlink no_intent (pe_paymentIntentId x)\<rparr>) (paymentEvents d),
        sessions := filter (\<lambda>s. se_userId s \<noteq> u) (sessions d),
        recoveryRequests := map (\<lambda>r. r\<lparr>pq_userId := unlink self (pq_userId r),
            pq_resolvedByUserId := unlink self (pq_resolvedByUserId r)\<rparr>) (recoveryRequests d),
        auditLogs := map (\<lambda>r. r\<lparr>al_actorUserId := unlink self (al_actorUserId r)\<rparr>) (auditLogs d),
        challenges := filter (\<lambda>c. rc_userId c \<noteq> u) (challenges d),
        settings := map (\<lambda>x. x\<lparr>ps_updatedByUserId := unlink self (ps_updatedByUserId x)\<rparr>) (settings d)\<rparr>)"

definition deleteUser :: "env \<Rightarrow> id \<Rightarrow> adminActor \<Rightarrow> id svc" where
  "deleteUser E targetUserId actor =
     sthen (sguard (targetUserId \<noteq> aa_userId actor) ownAccount)
     (sbind (require users_t targetUserId userMissing) (\<lambda>existing.
      sthen (smodify (\<lambda>w. w\<lparr>w_db := delete_user (us_id existing) (w_db w)\<rparr>))
      (sthen (logUserDeletion E actor (us_id existing))
      (sreturn (us_id existing)))))"

subsection \<open>Settings and export\<close>

definition key_char :: "char \<Rightarrow> bool" where
  "key_char c \<longleftrightarrow> slug_char c"

definition settingKeyRegex :: rx where
  "settingKeyRegex = Cat (at_least 1 (Cls key_char)) (Rep (Cat (Cls (\<lambda>c. c \<in> set ''._-'')) (at_least 1 (Cls key_char))))"

abbreviation badSettingKey :: exn where
  "badSettingKey \<equiv> BadRequestException (''Chave de configura'' @ [CHR 0xE7, CHR 0xE3] @ ''o inv'' @ [CHR 0xE1]
     @ ''lida. Usa letras min'' @ [CHR 0xFA] @ ''sculas, n'' @ [CHR 0xFA] @ ''meros, '' @ q_mark @ ''.'' @ q_mark
     @ '', '' @ q_mark @ ''_'' @ q_mark @ '' ou '' @ q_mark @ ''-'' @ q_mark @ ''.'')"

definition normalizeSettingKey :: "string \<Rightarrow> string svc" where
  "normalizeSettingKey value =
     (let normalized = js_lower (js_trim value) in
      sthen (sguard (rx_matches settingKeyRegex normalized) badSettingKey) (sreturn (take 80 normalized)))"

definition upsertPlatformSetting :: "env \<Rightarrow> string \<Rightarrow> json \<Rightarrow> adminActor \<Rightarrow> platformSetting svc" where
  "upsertPlatformSetting E key value actor =
     sbind (normalizeSettingKey key) (\<lambda>settingKey.
     sbind (findUnique settings_t settingKey) (\<lambda>existing.
     sbind (case existing of
         Some _ \<Rightarrow> update E settings_t settingKey (\<lambda>s. s\<lparr>ps_value := value, ps_updatedByUserId := Some (aa_userId actor)\<rparr>)
       | None \<Rightarrow> create E settings_t (\<lambda>_. \<lparr>ps_key = settingKey, ps_value = value,
           ps_updatedByUserId = Some (aa_userId actor), ps_createdAt = e_now E, ps_updatedAt = e_now E\<rparr>)) (\<lambda>setting.
     sthen (logSettingChange E actor (ps_key setting))
     (sreturn setting))))"

record usersSnapshot =
  sn_totalsByRole :: "(userRole \<times> nat) list"
  sn_totalsByAdminSubrole :: "(adminSubrole option \<times> nat) list"
  sn_activeUsers :: nat
  sn_inactiveUsers :: nat
  sn_exportedAt :: time

definition users_snapshot :: "env \<Rightarrow> db \<Rightarrow> usersSnapshot" where
  "users_snapshot E d =
     (let n = (\<lambda>P. length (filter P (users d))) in
      \<lparr>sn_totalsByRole = map (\<lambda>r. (r, n (\<lambda>u. us_role u = r))) [UR_USER, UR_ADMIN],
       sn_totalsByAdminSubrole = map (\<lambda>s. (s, n (\<lambda>u. us_role u = UR_ADMIN \<and> us_adminSubrole u = s)))
         [None, Some AS_SUPPORT_ADMIN, Some AS_OPS_ADMIN, Some AS_SUPER_ADMIN],
       sn_activeUsers = n us_isActive, sn_inactiveUsers = n (\<lambda>u. \<not> us_isActive u), sn_exportedAt = e_now E\<rparr>)"

definition exportUsersSnapshot :: "env \<Rightarrow> adminActor \<Rightarrow> usersSnapshot svc" where
  "exportUsersSnapshot E actor =
     sbind (sread (users_snapshot E)) (\<lambda>s.
     sthen (logSensitiveExport E actor ''users_snapshot'' (sum_list (map snd (sn_totalsByRole s))))
     (sreturn s))"

subsection \<open>The interceptor\<close>

definition interceptedAction :: "requestInfo \<Rightarrow> string \<Rightarrow> appRole option \<Rightarrow> bool \<Rightarrow> id option \<Rightarrow> exn option \<Rightarrow> id \<Rightarrow> adminActionInput" where
  "interceptedAction req path role reauthRequired targetId failure userId =
     \<lparr>ac_userId = userId, ac_role = or_else role AR_ADMIN, ac_action = rq_method req @ '' '' @ path, ac_request = req,
      ac_success = (failure = None),
      ac_targetType = Some (if truthy targetId \<noteq> None then ''entity'' else ''route''), ac_targetId = targetId,
      ac_reason = map_option exn_message failure, ac_reauthRequired = reauthRequired, ac_metadata = []\<rparr>"

definition intercept :: "env \<Rightarrow> requestInfo \<Rightarrow> string \<Rightarrow> id option \<Rightarrow> appRole option \<Rightarrow> bool \<Rightarrow> id option \<Rightarrow> 'a svc \<Rightarrow> 'a svc" where
  "intercept E req path userId role reauthRequired targetId handler =
     (let log = (\<lambda>failure. case truthy userId of
            None \<Rightarrow> sreturn ()
          | Some u \<Rightarrow> logAdminAction E (interceptedAction req path role reauthRequired targetId failure u)) in
      stry (sbind handler (\<lambda>v. sthen (log None) (sreturn v)))
        (\<lambda>e. sthen (log (Some e)) (sthrow e)))"

subsection \<open>The figures of the overview\<close>

lemma nearest_double_bounds:
  assumes "0 \<le> q" "q \<le> of_int n" "0 \<le> n"
  shows "0 \<le> nearest_double q \<and> nearest_double q \<le> of_int n"
proof (cases "find (\<lambda>k. 2 ^ 52 \<le> q * 2 ^ k) [0..<120]")
  case None
  then show ?thesis using assms by (simp add: nearest_double_def)
next
  case (Some k)
  have "of_int 0 \<le> q * 2 ^ k" "q * 2 ^ k \<le> of_int (n * 2 ^ k)" using assms by simp_all
  then have "0 \<le> round_half_even (q * 2 ^ k)" "round_half_even (q * 2 ^ k) \<le> n * 2 ^ k"
    using round_half_even_mono round_half_even_int by metis+
  then have "(of_int (round_half_even (q * 2 ^ k)) :: rat) \<le> of_int (n * 2 ^ k)" "0 \<le> (of_int (round_half_even (q * 2 ^ k)) :: rat)"
    by (simp_all only: of_int_le_iff of_int_0_le_iff)
  then show ?thesis using Some by (simp add: nearest_double_def field_simps)
qed

lemma completionRate_bounds:
  assumes "c \<le> t"
  shows "0 \<le> completionRate c t \<and> completionRate c t \<le> 1000"
proof (cases "t = 0")
  case False
  let ?q = "nearest_double (of_nat c / of_nat t)"
  have "0 \<le> (of_nat c / of_nat t :: rat)" "(of_nat c / of_nat t :: rat) \<le> of_int 1" using assms False by simp_all
  then have q: "0 \<le> ?q" "?q \<le> 1" using nearest_double_bounds [of "of_nat c / of_nat t" 1] by simp_all
  then have "0 \<le> nearest_double (?q * 100)" "nearest_double (?q * 100) \<le> 100"
    using nearest_double_bounds [of "?q * 100" 100] by simp_all
  then have "0 \<le> toFixed1 (nearest_double (?q * 100))" "toFixed1 (nearest_double (?q * 100)) \<le> \<lfloor>100 * 10 + 1 / 2 :: rat\<rfloor>"
    unfolding toFixed1_def by (auto intro!: floor_mono simp: zero_le_floor)
  moreover have "\<lfloor>100 * 10 + 1 / 2 :: rat\<rfloor> = 1000" by (rule floor_unique) simp_all
  ultimately show ?thesis using False by (simp add: completionRate_def)
qed (simp add: completionRate_def)

lemma status_summary_total: "sum_list (map snd (buildStatusSummary rows)) = length rows"
proof (induction rows)
  case (Cons r rows)
  then show ?case by (cases "jb_status r") (simp_all add: buildStatusSummary_def statusOrder_def count_by_def)
qed (simp add: buildStatusSummary_def statusOrder_def count_by_def)

subsection \<open>Suspension and change of role end the sessions\<close>

definition signed_out :: "id \<Rightarrow> db \<Rightarrow> bool" where
  "signed_out u d \<longleftrightarrow> (\<forall>s \<in> set (sessions d). se_userId s = u \<longrightarrow> se_revokedAt s \<noteq> None)"

lemma signed_out_revoked:
  "signed_out u (upd_rows sessions_t n (\<lambda>s. se_userId s = u \<and> se_revokedAt s = None) (revoke E) d)"
  unfolding signed_out_def tb_sessions.ball_upd [simplified] by simp

lemma wp_logAdminAction:
  fixes w :: world
  assumes "\<And>w' rows. w_db w' = (w_db w)\<lparr>auditLogs := auditLogs (w_db w) @ rows\<rparr> \<Longrightarrow> Q () w'"
  shows "wp (logAdminAction E a) Q X w"
  unfolding logAdminAction_def auditMetric_def wp_sthen wp_recordBusinessEvent
  by (rule wp_recordAuditEvent) (use assms in simp)

lemma suspended_signed_out:
  "wp (updateUserStatus E u False actor)
    (\<lambda>r w'. us_id r = u \<and> \<not> us_isActive r \<and> signed_out u (w_db w') \<and> u \<noteq> aa_userId actor)
    (\<lambda>e w'. w_db w' = w_db w) w"
proof (cases "find_row users_t u (w_db w)")
  case (Some t)
  then have t: "us_id t = u" using find_row_SomeD [OF Some] by simp
  then show ?thesis using Some
    by (auto simp: updateUserStatus_def revokeSessionsOf_def logUserStatusChange_def wp_simps signed_out_revoked
        intro!: wp_logAdminAction) (auto simp: signed_out_def upd_rows_def)
qed (simp add: updateUserStatus_def wp_simps)

subsection \<open>What a deletion forgets\<close>

lemma deleted_refunds:
  obtains f P where "refunds (delete_user u d) = map (\<lambda>r. r\<lparr>rf_approvedByUserId := f r\<rparr>) (filter P (refunds d))"
    "\<And>r. rf_requestedByUserId r = u \<Longrightarrow> \<not> P r"
proof -
  have "\<exists>f P. refunds (delete_user u d) = map (\<lambda>r. r\<lparr>rf_approvedByUserId := f r\<rparr>) (filter P (refunds d))
      \<and> (\<forall>r. rf_requestedByUserId r = u \<longrightarrow> \<not> P r)"
    unfolding delete_user_def Let_def
    by (simp, intro exI conjI, rule refl, simp)
  then obtain f P where "refunds (delete_user u d) = map (\<lambda>r. r\<lparr>rf_approvedByUserId := f r\<rparr>) (filter P (refunds d))"
    "\<forall>r. rf_requestedByUserId r = u \<longrightarrow> \<not> P r" by blast
  then show ?thesis using that by blast
qed

text \<open>A refund that was requested by the deleted account no longer counts.\<close>

lemma deletion_forgets_refund:
  assumes "r \<in> set (refunds d)" "rf_requestedByUserId r = u" "rf_paymentIntentId r = i" "rf_status r = RF_SUCCEEDED"
    and "\<forall>x \<in> set (refunds d). 0 \<le> rf_amount x"
  shows "refunded_of i (refunds (delete_user u d)) + rf_amount r \<le> refunded_of i (refunds d)"
proof -
  let ?own = "\<lambda>x. rf_paymentIntentId x = i \<and> rf_status x = RF_SUCCEEDED"
  have sub: "refunded_of i (map (\<lambda>x. x\<lparr>rf_approvedByUserId := f x\<rparr>) (filter P xs)) + (if r \<in> set xs then rf_amount r else 0) \<le> refunded_of i xs"
    if "\<not> P r" "\<forall>x \<in> set xs. 0 \<le> rf_amount x" for f P xs
    using that
  proof (induction xs)
    case (Cons x xs)
    then show ?case using assms(3,4) by (auto simp: refunded_of_def split: if_splits)
  qed (simp add: refunded_of_def)
  obtain f P where fP: "refunds (delete_user u d) = map (\<lambda>r. r\<lparr>rf_approvedByUserId := f r\<rparr>) (filter P (refunds d))"
    "\<And>r. rf_requestedByUserId r = u \<Longrightarrow> \<not> P r" using deleted_refunds [of u d] by blast
  show ?thesis using sub [of P "refunds d" f, OF fP(2) [OF assms(2)] assms(5)] assms(1) unfolding fP(1) by simp
qed

end
