(* ===== verification/Tracking.thy ===== *)
theory Tracking
  imports Tables Notifications
begin

text \<open>
  \<^verbatim>\<open>tracking/tracking.service.ts\<close>: the queue of front-end events, its flush, and the counters
  per worker and per category.  A flush runs from its first statement to its \<open>finally\<close> without
  another one in between, so \<^verbatim>\<open>flushInProgress\<close> is never seen set and is left out.
\<close>

subsection \<open>The queue\<close>

definition MAX_INGEST_EVENTS :: nat where
  "MAX_INGEST_EVENTS = 200"

definition MAX_IN_MEMORY_QUEUE :: nat where
  "MAX_IN_MEMORY_QUEUE = 3000"

text \<open>A DTO and a queued record have the same fields; the name is trimmed on the way in.\<close>

definition toEventRecord :: "trackingEventRecord \<Rightarrow> trackingEventRecord" where
  "toEventRecord ev = ev\<lparr>te_name := js_trim (te_name ev)\<rparr>"

definition scheduleFlush :: "unit svc" where
  "scheduleFlush = smodify (\<lambda>w. w\<lparr>w_flushScheduled := True\<rparr>)"

record ingestResult =
  ir_accepted :: nat
  ir_queued :: nat
  ir_dropped :: nat

definition ingestEvent :: "nat \<times> nat \<Rightarrow> trackingEventRecord \<Rightarrow> (nat \<times> nat) svc" where
  "ingestEvent counts ev = sbind (sget w_queue) (\<lambda>queue.
     if MAX_IN_MEMORY_QUEUE \<le> length queue then sreturn (fst counts, Suc (snd counts))
     else sthen (smodify (\<lambda>w. w\<lparr>w_queue := w_queue w @ [toEventRecord ev]\<rparr>))
       (sreturn (Suc (fst counts), snd counts)))"

definition ingestEvents :: "trackingEventRecord list \<Rightarrow> ingestResult svc" where
  "ingestEvents events =
     sbind (sfold (take MAX_INGEST_EVENTS events) ingestEvent (0, 0)) (\<lambda>counts.
     sthen scheduleFlush
     (sthen (recordBusinessEvent ''tracking'' ''events_ingested'' (if 0 < snd counts then ''blocked'' else ''success''))
     (sbind (sget w_queue) (\<lambda>queue.
      sreturn \<lparr>ir_accepted = fst counts, ir_queued = length queue, ir_dropped = snd counts\<rparr>))))"

subsection \<open>Aggregating a batch\<close>

record workerEventDelta =
  wd_interactions :: int
  wd_clicks :: int
  wd_ctaClicks :: int
  wd_conversions :: int
  wd_lastEventAt :: "time option"

record categoryEventDelta =
  kd_interactions :: int
  kd_lastEventAt :: "time option"

definition empty_worker_delta :: workerEventDelta where
  "empty_worker_delta = \<lparr>wd_interactions = 0, wd_clicks = 0, wd_ctaClicks = 0, wd_conversions = 0, wd_lastEventAt = None\<rparr>"

definition empty_category_delta :: categoryEventDelta where
  "empty_category_delta = \<lparr>kd_interactions = 0, kd_lastEventAt = None\<rparr>"

text \<open>A JavaScript \<open>Map\<close> keeps the order of insertion; the counters of a key are changed in place.\<close>

primrec get_or_create :: "string \<Rightarrow> 'd \<Rightarrow> ('d \<Rightarrow> 'd) \<Rightarrow> (string \<times> 'd) list \<Rightarrow> (string \<times> 'd) list" where
  "get_or_create k z f [] = [(k, f z)]"
| "get_or_create k z f (e # ds) = (if fst e = k then (k, f (snd e)) # ds else e # get_or_create k z f ds)"

definition normalizeWorkerProfileId :: "string option \<Rightarrow> string option" where
  "normalizeWorkerProfileId value = (case value of
     None \<Rightarrow> None
   | Some s \<Rightarrow> let normalized = js_trim s in
       if length normalized = 0 \<or> 64 < length normalized then None else Some normalized)"

definition readWorkerProfileId :: "trackingEventRecord \<Rightarrow> string option" where
  "readWorkerProfileId ev = (case normalizeWorkerProfileId (te_workerProfileId ev) of
     Some i \<Rightarrow> Some i
   | None \<Rightarrow> normalizeWorkerProfileId (te_workerId ev))"

definition readCategorySlug :: "trackingEventRecord \<Rightarrow> string option" where
  "readCategorySlug ev = (case te_categorySlug ev of
     None \<Rightarrow> None
   | Some s \<Rightarrow> let normalized = js_lower (js_trim s) in
       if length normalized = 0 \<or> 64 < length normalized then None else Some normalized)"

definition resolveEventTimestamp :: "env \<Rightarrow> string option \<Rightarrow> time" where
  "resolveEventTimestamp E value = (case truthy value of
     None \<Rightarrow> e_now E
   | Some s \<Rightarrow> (case e_dateParse E s of NotFinite \<Rightarrow> e_now E | Fin t \<Rightarrow> \<lfloor>t\<rfloor>))"

type_synonym deltas = "(string \<times> workerEventDelta) list \<times> (string \<times> categoryEventDelta) list"

definition on_worker :: "trackingEventRecord \<Rightarrow> (workerEventDelta \<Rightarrow> workerEventDelta) \<Rightarrow> deltas \<Rightarrow> deltas" where
  "on_worker ev f ds = (case readWorkerProfileId ev of
     None \<Rightarrow> ds
   | Some i \<Rightarrow> (get_or_create i empty_worker_delta f (fst ds), snd ds))"

definition applyEventToAggregateMaps :: "env \<Rightarrow> trackingEventRecord \<Rightarrow> deltas \<Rightarrow> deltas" where
  "applyEventToAggregateMaps E ev ds =
     (let eventAt = resolveEventTimestamp E (te_timestamp ev) in
      if te_name ev = ''marketplace.worker.card.click'' \<or> te_name ev = ''dashboard.worker.card.click'' then
        on_worker ev (\<lambda>d. d\<lparr>wd_interactions := wd_interactions d + 1, wd_clicks := wd_clicks d + 1, wd_lastEventAt := Some eventAt\<rparr>) ds
      else if te_name ev = ''marketplace.cta.click'' \<or> te_name ev = ''dashboard.cta.click'' then
        on_worker ev (\<lambda>d. d\<lparr>wd_interactions := wd_interactions d + 1, wd_ctaClicks := wd_ctaClicks d + 1, wd_lastEventAt := Some eventAt\<rparr>) ds
      else if te_name ev = ''job.create.submit'' then
        on_worker ev (\<lambda>d. d\<lparr>wd_interactions := wd_interactions d + 1, wd_conversions := wd_conversions d + 1, wd_lastEventAt := Some eventAt\<rparr>) ds
      else if te_name ev = ''marketplace.category.select'' then
        (case readCategorySlug ev of
           None \<Rightarrow> ds
         | Some s \<Rightarrow> (fst ds, get_or_create s empty_category_delta
             (\<lambda>d. d\<lparr>kd_interactions := kd_interactions d + 1, kd_lastEventAt := Some eventAt\<rparr>) (snd ds)))
      else ds)"

definition batch_deltas :: "env \<Rightarrow> trackingEventRecord list \<Rightarrow> deltas" where
  "batch_deltas E batch = fold (applyEventToAggregateMaps E) batch ([], [])"

subsection \<open>Persisting and flushing\<close>

definition upsert :: "env \<Rightarrow> 'r tbl \<Rightarrow> id \<Rightarrow> 'r \<Rightarrow> ('r \<Rightarrow> 'r) \<Rightarrow> unit svc" where
  "upsert E T k fresh f = sbind (findUnique T k) (\<lambda>existing. case existing of
     None \<Rightarrow> sbind (create E T (\<lambda>_. fresh)) (\<lambda>_. sreturn ())
   | Some _ \<Rightarrow> sbind (update E T k f) (\<lambda>_. sreturn ()))"

definition upsertWorker :: "env \<Rightarrow> string \<times> workerEventDelta \<Rightarrow> unit svc" where
  "upsertWorker E e = (let d = snd e in upsert E workerAggregates_t (fst e)
     \<lparr>tw_workerProfileId = fst e, tw_interactions = wd_interactions d, tw_clicks = wd_clicks d,
      tw_ctaClicks = wd_ctaClicks d, tw_conversions = wd_conversions d,
      tw_lastEventAt = Some (or_else (wd_lastEventAt d) (e_now E)), tw_createdAt = e_now E, tw_updatedAt = e_now E\<rparr>
     (\<lambda>r. r\<lparr>tw_interactions := tw_interactions r + wd_interactions d, tw_clicks := tw_clicks r + wd_clicks d,
        tw_ctaClicks := tw_ctaClicks r + wd_ctaClicks d, tw_conversions := tw_conversions r + wd_conversions d,
        tw_lastEventAt := Some (or_else (wd_lastEventAt d) (e_now E))\<rparr>))"

definition upsertCategory :: "env \<Rightarrow> string \<times> categoryEventDelta \<Rightarrow> unit svc" where
  "upsertCategory E e = (let d = snd e in upsert E categoryAggregates_t (fst e)
     \<lparr>tc_categorySlug = fst e, tc_interactions = kd_interactions d,
      tc_lastEventAt = Some (or_else (kd_lastEventAt d) (e_now E)), tc_createdAt = e_now E, tc_updatedAt = e_now E\<rparr>
     (\<lambda>r. r\<lparr>tc_interactions := tc_interactions r + kd_interactions d,
        tc_lastEventAt := Some (or_else (kd_lastEventAt d) (e_now E))\<rparr>))"

definition persistDeltas :: "env \<Rightarrow> deltas \<Rightarrow> unit svc" where
  "persistDeltas E ds =
     (if fst ds = [] \<and> snd ds = [] then sreturn ()
      else transact (sthen (sfor (fst ds) (upsertWorker E)) (sfor (snd ds) (upsertCategory E))))"

definition flushQueue :: "env \<Rightarrow> unit svc" where
  "flushQueue E =
     sthen (smodify (\<lambda>w. w\<lparr>w_flushScheduled := False\<rparr>))
     (sbind (sget w_queue) (\<lambda>batch.
      if batch = [] then sreturn ()
      else sthen (smodify (\<lambda>w. w\<lparr>w_queue := []\<rparr>))
        (sthen (stry
          (sthen (persistDeltas E (batch_deltas E batch)) (recordBusinessEvent ''tracking'' ''events_flushed'' ''success''))
          (\<lambda>_. recordBusinessEvent ''tracking'' ''events_flushed'' ''failed''))
        (sbind (sget w_queue) (\<lambda>queue. swhen (queue \<noteq> []) scheduleFlush)))))"

subsection \<open>The queue stays bounded\<close>

definition queue_ok :: "world \<Rightarrow> bool" where
  "queue_ok w \<longleftrightarrow> length (w_queue w) \<le> MAX_IN_MEMORY_QUEUE \<and> (w_queue w \<noteq> [] \<longrightarrow> w_flushScheduled w)"

lemma wp_ingestEvent: "wp (ingestEvent c ev) Q X w =
    (if MAX_IN_MEMORY_QUEUE \<le> length (w_queue w) then Q (fst c, Suc (snd c)) w
     else Q (Suc (fst c), snd c) (w\<lparr>w_queue := w_queue w @ [toEventRecord ev]\<rparr>))"
  by (simp add: ingestEvent_def wp_simps)

lemma wp_ingest_loop:
  assumes "length (w_queue w) \<le> MAX_IN_MEMORY_QUEUE"
  shows "wp (sfold evs ingestEvent (a, b))
     (\<lambda>c w'. w' = w\<lparr>w_queue := w_queue w @ map toEventRecord (take (MAX_IN_MEMORY_QUEUE - length (w_queue w)) evs)\<rparr>
        \<and> fst c = a + (length (w_queue w') - length (w_queue w)) \<and> fst c + snd c = a + b + length evs)
     (\<lambda>_ _. False) w"
  using assms
proof (induction evs arbitrary: a b w)
  case (Cons ev evs)
  let ?w = "w\<lparr>w_queue := w_queue w @ [toEventRecord ev]\<rparr>"
  show ?case
  proof (cases "MAX_IN_MEMORY_QUEUE \<le> length (w_queue w)")
    case True
    then show ?thesis using wp_mono [OF Cons.IH [OF Cons.prems, of a "Suc b"]] Cons.prems
      by (simp add: wp_simps wp_ingestEvent)
  next
    case False
    have "wp (sfold evs ingestEvent (Suc a, b))
       (\<lambda>c w'. w' = ?w\<lparr>w_queue := w_queue ?w @ map toEventRecord (take (MAX_IN_MEMORY_QUEUE - length (w_queue ?w)) evs)\<rparr>
        \<and> fst c = Suc a + (length (w_queue w') - length (w_queue ?w)) \<and> fst c + snd c = Suc a + b + length evs)
       (\<lambda>_ _. False) ?w"
      by (rule Cons.IH) (use False in simp)
    moreover have "take (MAX_IN_MEMORY_QUEUE - length (w_queue w)) (ev # evs) =
        ev # take (MAX_IN_MEMORY_QUEUE - length (w_queue ?w)) evs"
      using False by (simp add: take_Cons' diff_Suc split: nat.split)
    ultimately show ?thesis using False
      by (simp add: wp_simps wp_ingestEvent) (erule wp_mono, auto)
  qed
qed (simp add: wp_simps)

lemma wp_ingestEvents:
  assumes "queue_ok w"
  shows "wp (ingestEvents evs)
    (\<lambda>r w'. queue_ok w' \<and> w_flushScheduled w' \<and> w_db w' = w_db w
       \<and> w_queue w' = w_queue w @ map toEventRecord (take (ir_accepted r) evs)
       \<and> ir_queued r = length (w_queue w') \<and> ir_accepted r + ir_dropped r = min MAX_INGEST_EVENTS (length evs))
    (\<lambda>_ _. False) w"
proof -
  let ?es = "take MAX_INGEST_EVENTS evs"
  have "take (MAX_IN_MEMORY_QUEUE - length (w_queue w)) ?es =
      take (length (take (MAX_IN_MEMORY_QUEUE - length (w_queue w)) ?es)) evs"
    by (simp add: min.commute) (metis length_take take_all_iff take_take min.cobounded1 nle_le)
  then show ?thesis using assms unfolding ingestEvents_def scheduleFlush_def wp_sbind
    by (intro wp_mono [OF wp_ingest_loop]) (auto simp: wp_simps queue_ok_def min.commute)
qed

subsection \<open>A flush counts every event of the batch once\<close>

lemma map_of_get_or_create:
  "map_of (get_or_create k z f ds) k' =
    (if k' = k then Some (f (or_else (map_of ds k) z)) else map_of ds k')"
  by (induction ds) auto

lemma keys_get_or_create: "distinct (map fst ds) \<Longrightarrow> distinct (map fst (get_or_create k z f ds))
    \<and> set (map fst (get_or_create k z f ds)) = insert k (set (map fst ds))"
  by (induction ds) auto

datatype counter = Interactions | Clicks | CtaClicks | Conversions

primrec delta_counter :: "counter \<Rightarrow> workerEventDelta \<Rightarrow> int" where
  "delta_counter Interactions d = wd_interactions d"
| "delta_counter Clicks d = wd_clicks d"
| "delta_counter CtaClicks d = wd_ctaClicks d"
| "delta_counter Conversions d = wd_conversions d"

primrec row_counter :: "counter \<Rightarrow> trackingWorkerAggregate \<Rightarrow> int" where
  "row_counter Interactions d = tw_interactions d"
| "row_counter Clicks d = tw_clicks d"
| "row_counter CtaClicks d = tw_ctaClicks d"
| "row_counter Conversions d = tw_conversions d"

text \<open>What an event counts for, read off its name alone.\<close>

definition event_counters :: "string \<Rightarrow> counter set" where
  "event_counters n =
     (if n \<in> {''marketplace.worker.card.click'', ''dashboard.worker.card.click''} then {Interactions, Clicks}
      else if n \<in> {''marketplace.cta.click'', ''dashboard.cta.click''} then {Interactions, CtaClicks}
      else if n = ''job.create.submit'' then {Interactions, Conversions} else {})"

definition counts_for :: "counter \<Rightarrow> string \<Rightarrow> trackingEventRecord \<Rightarrow> bool" where
  "counts_for c k ev \<longleftrightarrow> c \<in> event_counters (te_name ev) \<and> readWorkerProfileId ev = Some k"

definition selects :: "string \<Rightarrow> trackingEventRecord \<Rightarrow> bool" where
  "selects s ev \<longleftrightarrow> te_name ev = ''marketplace.category.select'' \<and> readCategorySlug ev = Some s"

definition worker_count :: "counter \<Rightarrow> string \<Rightarrow> db \<Rightarrow> int" where
  "worker_count c k d = (case find_row workerAggregates_t k d of None \<Rightarrow> 0 | Some r \<Rightarrow> row_counter c r)"

definition category_count :: "string \<Rightarrow> db \<Rightarrow> int" where
  "category_count k d = (case find_row categoryAggregates_t k d of None \<Rightarrow> 0 | Some r \<Rightarrow> tc_interactions r)"

definition worker_delta :: "counter \<Rightarrow> string \<Rightarrow> deltas \<Rightarrow> int" where
  "worker_delta c k ds = (case map_of (fst ds) k of None \<Rightarrow> 0 | Some d \<Rightarrow> delta_counter c d)"

definition category_delta :: "string \<Rightarrow> deltas \<Rightarrow> int" where
  "category_delta k ds = (case map_of (snd ds) k of None \<Rightarrow> 0 | Some d \<Rightarrow> kd_interactions d)"

definition keyed :: "deltas \<Rightarrow> bool" where
  "keyed ds \<longleftrightarrow> distinct (map fst (fst ds)) \<and> distinct (map fst (snd ds))"

lemma on_worker_counts:
  assumes "\<And>d. delta_counter c (f d) = delta_counter c d + (if hit then 1 else 0)" "delta_counter c empty_worker_delta = 0"
  shows "worker_delta c k (on_worker ev f ds) = worker_delta c k ds + (if hit \<and> readWorkerProfileId ev = Some k then 1 else 0)"
    "category_delta s (on_worker ev f ds) = category_delta s ds" "keyed ds \<Longrightarrow> keyed (on_worker ev f ds)"
  using assms by (auto simp: on_worker_def worker_delta_def category_delta_def keyed_def map_of_get_or_create keys_get_or_create
      or_else_def split: option.splits)

lemma empty_delta_counter: "delta_counter c empty_worker_delta = 0"
  by (cases c) (simp_all add: empty_worker_delta_def)

lemma apply_event_counts:
  shows "worker_delta c k (applyEventToAggregateMaps E ev ds) = worker_delta c k ds + (if counts_for c k ev then 1 else 0)" (is ?W)
    and "category_delta s (applyEventToAggregateMaps E ev ds) = category_delta s ds + (if selects s ev then 1 else 0)" (is ?C)
    and "keyed ds \<Longrightarrow> keyed (applyEventToAggregateMaps E ev ds)" (is "_ \<Longrightarrow> ?K")
proof -
  let ?t = "resolveEventTimestamp E (te_timestamp ev)"
  let ?click = "\<lambda>d. d\<lparr>wd_interactions := wd_interactions d + 1, wd_clicks := wd_clicks d + 1, wd_lastEventAt := Some ?t\<rparr>"
  let ?cta = "\<lambda>d. d\<lparr>wd_interactions := wd_interactions d + 1, wd_ctaClicks := wd_ctaClicks d + 1, wd_lastEventAt := Some ?t\<rparr>"
  let ?conv = "\<lambda>d. d\<lparr>wd_interactions := wd_interactions d + 1, wd_conversions := wd_conversions d + 1, wd_lastEventAt := Some ?t\<rparr>"
  have click: "delta_counter c (?click d) = delta_counter c d + (if c \<in> {Interactions, Clicks} then 1 else 0)"
    and cta: "delta_counter c (?cta d) = delta_counter c d + (if c \<in> {Interactions, CtaClicks} then 1 else 0)"
    and conv: "delta_counter c (?conv d) = delta_counter c d + (if c \<in> {Interactions, Conversions} then 1 else 0)" for c d
    by (cases c; simp)+
  note hits = on_worker_counts [where f = ?click, OF click empty_delta_counter]
    on_worker_counts [where f = ?cta, OF cta empty_delta_counter] on_worker_counts [where f = ?conv, OF conv empty_delta_counter]
  show ?W by (simp add: applyEventToAggregateMaps_def Let_def hits counts_for_def event_counters_def)
      (simp add: worker_delta_def split: option.split)
  show ?C by (simp add: applyEventToAggregateMaps_def Let_def hits selects_def)
      (auto simp: category_delta_def map_of_get_or_create or_else_def empty_category_delta_def split: option.split)
  assume "keyed ds"
  then show ?K by (simp add: applyEventToAggregateMaps_def Let_def hits)
      (auto simp: keyed_def keys_get_or_create split: option.split)
qed

lemma fold_counts:
  "worker_delta c k (fold (applyEventToAggregateMaps E) evs ds) = worker_delta c k ds + int (length (filter (counts_for c k) evs))"
  "category_delta s (fold (applyEventToAggregateMaps E) evs ds) = category_delta s ds + int (length (filter (selects s) evs))"
  "keyed ds \<Longrightarrow> keyed (fold (applyEventToAggregateMaps E) evs ds)"
  by (induction evs arbitrary: ds) (simp_all add: apply_event_counts)

lemma batch_counts:
  "worker_delta c k (batch_deltas E evs) = int (length (filter (counts_for c k) evs))"
  "category_delta s (batch_deltas E evs) = int (length (filter (selects s) evs))"
  "keyed (batch_deltas E evs)"
  unfolding batch_deltas_def fold_counts
  by (simp add: worker_delta_def, simp add: category_delta_def, rule fold_counts, simp add: keyed_def)

lemma find_row_None: "find_row T k d = None \<longleftrightarrow> (\<forall>x \<in> set (t_rows T d). t_key T x \<noteq> k)"
  by (auto simp: find_row_def find_None_iff)

lemma wp_upsert_new:
  assumes "find_row T k (w_db w) = None" "\<And>a b. \<not> t_clash T a b" "t_key T fresh = k"
  shows "wp (upsert E T k fresh f) Q X w \<longleftrightarrow>
    Q () (w\<lparr>w_ids := Suc (w_ids w), w_db := t_put T (t_rows T (w_db w) @ [fresh]) (w_db w)\<rparr>)"
  using assms(2,3) assms(1) [unfolded find_row_None] by (auto simp: upsert_def wp_simps assms(1) Let_def)

lemma wp_upsert_old:
  assumes "find_row T k (w_db w) = Some r"
  shows "wp (upsert E T k fresh f) Q X w \<longleftrightarrow> Q () (w\<lparr>w_db := upd_rows T (e_now E) (\<lambda>r. t_key T r = k) f (w_db w)\<rparr>)"
  by (simp add: upsert_def wp_simps assms)

lemma wp_upsertWorker:
  "wp (upsertWorker E e)
    (\<lambda>_ w'. (\<forall>c k. worker_count c k (w_db w') = worker_count c k (w_db w) + (if k = fst e then delta_counter c (snd e) else 0))
       \<and> (\<forall>s. category_count s (w_db w') = category_count s (w_db w)) \<and> w_queue w' = w_queue w) (\<lambda>_ _. False) w"
proof (cases "find_row workerAggregates_t (fst e) (w_db w)")
  case None
  have "worker_count c k (w_db w \<lparr>workerAggregates := workerAggregates (w_db w) @ [r]\<rparr>)
      = (if k = tw_workerProfileId r then row_counter c r else worker_count c k (w_db w))"
    if "\<forall>x \<in> set (workerAggregates (w_db w)). tw_workerProfileId x \<noteq> tw_workerProfileId r" for c k r
    using tb_workerAggregates.find_row_append [of "w_db w" r k] that by (simp add: worker_count_def)
  note step = this
  have c: "row_counter c \<lparr>tw_workerProfileId = i, tw_interactions = wd_interactions d, tw_clicks = wd_clicks d,
      tw_ctaClicks = wd_ctaClicks d, tw_conversions = wd_conversions d, tw_lastEventAt = l, tw_createdAt = a, tw_updatedAt = b\<rparr>
      = delta_counter c d" for c i d l a b by (cases c) simp_all
  from None show ?thesis unfolding upsertWorker_def Let_def
    by (simp add: wp_upsert_new step c find_row_None category_count_def) (simp add: worker_count_def find_row_def find_None_iff [THEN iffD2])
next
  case (Some r)
  let ?d = "snd e"
  let ?f = "\<lambda>r. r\<lparr>tw_interactions := tw_interactions r + wd_interactions ?d, tw_clicks := tw_clicks r + wd_clicks ?d,
        tw_ctaClicks := tw_ctaClicks r + wd_ctaClicks ?d, tw_conversions := tw_conversions r + wd_conversions ?d,
        tw_lastEventAt := Some (or_else (wd_lastEventAt ?d) (e_now E))\<rparr>"
  have c: "row_counter c (?f r\<lparr>tw_updatedAt := n\<rparr>) = row_counter c r + delta_counter c ?d" for c n r by (cases c) simp_all
  have "worker_count c k (upd_rows workerAggregates_t (e_now E) (\<lambda>r. tw_workerProfileId r = fst e) ?f (w_db w))
      = worker_count c k (w_db w) + (if k = fst e then delta_counter c ?d else 0)" for c k
    using Some find_row_SomeD [of workerAggregates_t k "w_db w"]
    by (auto simp: worker_count_def tb_workerAggregates.find_row_upd c split: option.split)
  then show ?thesis using Some unfolding upsertWorker_def Let_def
    by (simp add: wp_upsert_old category_count_def) (simp add: find_row_def upd_rows_def)
qed

lemma wp_upsertCategory:
  "wp (upsertCategory E e)
    (\<lambda>_ w'. (\<forall>s. category_count s (w_db w') = category_count s (w_db w) + (if s = fst e then kd_interactions (snd e) else 0))
       \<and> (\<forall>c k. worker_count c k (w_db w') = worker_count c k (w_db w)) \<and> w_queue w' = w_queue w) (\<lambda>_ _. False) w"
proof (cases "find_row categoryAggregates_t (fst e) (w_db w)")
  case None
  have step: "category_count k (w_db w \<lparr>categoryAggregates := categoryAggregates (w_db w) @ [r]\<rparr>)
      = (if k = tc_categorySlug r then tc_interactions r else category_count k (w_db w))"
    if "\<forall>x \<in> set (categoryAggregates (w_db w)). tc_categorySlug x \<noteq> tc_categorySlug r" for k r
    using tb_categoryAggregates.find_row_append [of "w_db w" r k] that by (simp add: category_count_def)
  from None show ?thesis unfolding upsertCategory_def Let_def
    by (simp add: wp_upsert_new step find_row_None worker_count_def) (simp add: category_count_def find_row_def find_None_iff [THEN iffD2])
next
  case (Some r)
  let ?f = "\<lambda>r. r\<lparr>tc_interactions := tc_interactions r + kd_interactions (snd e),
        tc_lastEventAt := Some (or_else (kd_lastEventAt (snd e)) (e_now E))\<rparr>"
  have "category_count k (upd_rows categoryAggregates_t (e_now E) (\<lambda>r. tc_categorySlug r = fst e) ?f (w_db w))
      = category_count k (w_db w) + (if k = fst e then kd_interactions (snd e) else 0)" for k
    using Some find_row_SomeD [of categoryAggregates_t k "w_db w"]
    by (auto simp: category_count_def tb_categoryAggregates.find_row_upd split: option.split)
  then show ?thesis using Some unfolding upsertCategory_def Let_def
    by (simp add: wp_upsert_old worker_count_def) (simp add: find_row_def upd_rows_def)
qed

lemma wp_upsertWorkers:
  assumes "distinct (map fst ws)"
  shows "wp (sfor ws (upsertWorker E))
    (\<lambda>_ w'. (\<forall>c k. worker_count c k (w_db w') = worker_count c k (w_db w) + worker_delta c k (ws, []))
       \<and> (\<forall>s. category_count s (w_db w') = category_count s (w_db w)) \<and> w_queue w' = w_queue w) (\<lambda>_ _. False) w"
  using assms
proof (induction ws arbitrary: w)
  case (Cons e ws)
  have "map_of ws (fst e) = None" using Cons.prems by (simp add: map_of_eq_None_iff)
  then have "worker_delta c k (e # ws, []) = (if k = fst e then delta_counter c (snd e) else 0) + worker_delta c k (ws, [])" for c k
    by (simp add: worker_delta_def)
  with Cons.prems show ?case
    by (simp add: wp_sbind) (rule wp_mono [OF wp_upsertWorker], rule wp_mono [OF Cons.IH], auto)
qed (simp add: wp_sreturn worker_delta_def)

lemma wp_upsertCategories:
  assumes "distinct (map fst cs)"
  shows "wp (sfor cs (upsertCategory E))
    (\<lambda>_ w'. (\<forall>s. category_count s (w_db w') = category_count s (w_db w) + category_delta s ([], cs))
       \<and> (\<forall>c k. worker_count c k (w_db w') = worker_count c k (w_db w)) \<and> w_queue w' = w_queue w) (\<lambda>_ _. False) w"
  using assms
proof (induction cs arbitrary: w)
  case (Cons e cs)
  have "map_of cs (fst e) = None" using Cons.prems by (simp add: map_of_eq_None_iff)
  then have "category_delta k (([], e # cs)) = (if k = fst e then kd_interactions (snd e) else 0) + category_delta k ([], cs)" for k
    by (simp add: category_delta_def)
  with Cons.prems show ?case
    by (simp add: wp_sbind) (rule wp_mono [OF wp_upsertCategory], rule wp_mono [OF Cons.IH], auto)
qed (simp add: wp_sreturn category_delta_def)

lemma wp_persistDeltas:
  assumes "keyed ds"
  shows "wp (persistDeltas E ds)
    (\<lambda>_ w'. (\<forall>c k. worker_count c k (w_db w') = worker_count c k (w_db w) + worker_delta c k ds)
       \<and> (\<forall>s. category_count s (w_db w') = category_count s (w_db w) + category_delta s ds) \<and> w_queue w' = w_queue w) (\<lambda>_ _. False) w"
proof -
  have split: "worker_delta c k (fst ds, []) = worker_delta c k ds" "category_delta s ([], snd ds) = category_delta s ds" for c k s
    by (simp_all add: worker_delta_def category_delta_def)
  have "wp (sthen (sfor (fst ds) (upsertWorker E)) (sfor (snd ds) (upsertCategory E)))
    (\<lambda>_ w'. (\<forall>c k. worker_count c k (w_db w') = worker_count c k (w_db w) + worker_delta c k ds)
       \<and> (\<forall>s. category_count s (w_db w') = category_count s (w_db w) + category_delta s ds) \<and> w_queue w' = w_queue w) (\<lambda>_ _. False) w"
    using assms unfolding wp_sthen keyed_def
    by (intro wp_mono [OF wp_upsertWorkers] wp_mono [OF wp_upsertCategories]) (auto simp: split)
  then show ?thesis
    by (simp add: persistDeltas_def wp_simps worker_delta_def category_delta_def)
qed

lemma wp_flushQueue:
  "wp (flushQueue E)
    (\<lambda>_ w'. (\<forall>c k. worker_count c k (w_db w') = worker_count c k (w_db w) + int (length (filter (counts_for c k) (w_queue w))))
       \<and> (\<forall>s. category_count s (w_db w') = category_count s (w_db w) + int (length (filter (selects s) (w_queue w))))
       \<and> w_queue w' = []) (\<lambda>_ _. False) w"
proof (cases "w_queue w = []")
  case False
  then show ?thesis
    by (simp add: flushQueue_def wp_simps) (rule wp_mono [OF wp_persistDeltas [OF batch_counts(3)]], auto simp: batch_counts wp_simps)
qed (simp add: flushQueue_def wp_simps)

end
