(* ===== verification/Sides.thy ===== *)
theory Sides
  imports Bystanders Messages AdminOps Tracking
begin

text \<open>
  The operations beside jobs, requests and payments: for each module the interface of an
  invariant that looks at none of its tables, and the operations as steps of the system.  Deleting
  an account is not a step: its cascades remove payment history (theory AdminOps).
\<close>

lemma keeps_sum [keeps_rules]:
  "(\<And>e. keeps J (f e)) \<Longrightarrow> (\<And>v. keeps J (g v)) \<Longrightarrow> keeps J (case x of Inl e \<Rightarrow> f e | Inr v \<Rightarrow> g v)"
  by (cases x) simp_all

lemma keeps_prod [keeps_rules]: "(\<And>a b. keeps J (f a b)) \<Longrightarrow> keeps J (case p of (a, b) \<Rightarrow> f a b)"
  by (cases p) simp

lemma keeps_randomUUID [keeps_rules]: "keeps J (randomUUID E)"
  by (simp add: randomUUID_def keeps_rules keeps_smodify)

lemma keeps_randomHex [keeps_rules]: "keeps J (randomHex E)"
  by (simp add: randomHex_def keeps_rules keeps_smodify)

subsection \<open>Invariants that look at no table of a module\<close>

locale category_bystander =
  fixes J :: "db \<Rightarrow> bool"
  assumes frames_categories: "frames J categories_t"
begin

lemma categories: "keeps J (createCategory E cc)" "keeps J (updateCategory E i uc)" "keeps J (removeCategory E i)"
  by (simp_all add: createCategory_def updateCategory_def removeCategory_def normalizeSlug_def handlePrismaConflict_def
      category_data_def Let_def keeps_rules keeps_frame keeps_updateUnique_frame frames_categories)

end

locale profile_bystander =
  fixes J :: "db \<Rightarrow> bool"
  assumes frames_profiles: "frames J workerProfiles_t"
    and frames_profileCategories: "J (d\<lparr>profileCategories := xs\<rparr>) = J d"
begin

lemma replaced: "keeps J (replaceCategories E p cats)"
  by (simp add: replaceCategories_def keeps_rules keeps_smodify frames_profileCategories)

lemma profiles: "keeps J (upsertMe E u up)" "keeps J (updateMe E u up)"
  by (simp_all add: upsertMe_def updateMe_def ensureCategoriesExist_def
      getProfile_def profile_of_def Let_def keeps_rules keeps_frame frames_profiles replaced)

end

locale review_bystander =
  fixes J :: "db \<Rightarrow> bool"
  assumes frames_reviews: "frames J reviews_t" and frames_rated: "frames J workerProfiles_t"
begin

lemma reviewed: "keeps J (createReview E u cv)"
  by (simp add: createReview_def reviewWarn_def reviewAudit_def saveReview_def keeps_rules keeps_frame frames_reviews frames_rated)

end

locale safety_bystander =
  fixes J :: "db \<Rightarrow> bool"
  assumes frames_interventions: "frames J interventions_t" and frames_warned: "frames J notifications_t"
begin

lemma evaluate: "keeps J (evaluateMessageAttempt E input)"
  by (simp add: evaluateMessageAttempt_def Let_def keeps_rules keeps_frame frames_interventions split: option.split)

lemma safety: "keeps J (appealIntervention E i u reason)" "keeps J (reviewIntervention E i u dec note)"
  by (simp_all add: appealIntervention_def reviewIntervention_def notifyReviewed_def Let_def keeps_rules keeps_frame
      frames_interventions frames_warned)

end

locale chat_bystander =
  fixes J :: "db \<Rightarrow> bool"
  assumes frames_messages: "frames J messages_t" and frames_attachments: "frames J attachments_t"
    and frames_told: "frames J notifications_t"
begin

lemma chat: "keeps J (markJobRead E j u)" "keeps J (createUploadPresign E j u ui)"
  by (simp_all add: markJobRead_def createUploadPresign_def buildMessageAttachmentUpload_def createPresignedPut_def
      Let_def keeps_rules keeps_frame frames_messages split: option.split)

end

locale message_bystander = safety_bystander + chat_bystander
begin

lemma messages: "keeps J (sendMessage E j u cm)"
  by (simp add: sendMessage_def saveMessage_def saveAttachment_def notifyMessage_def validateMessageAttachmentReference_def
      Let_def keeps_rules keeps_frame frames_messages frames_attachments frames_warned evaluate split: option.split)

end

locale audit_bystander =
  fixes J :: "db \<Rightarrow> bool"
  assumes frames_logs: "frames J auditLogs_t"
begin

lemma logged: "keeps J (logAdminAction E a)"
  by (simp add: keeps_rules frames_logs)

end

locale access_bystander = audit_bystander +
  assumes frames_challenges: "frames J challenges_t"
begin

lemma access: "keeps J (canActivate E ep gr)" "keeps J (confirmByPassword E u pw pu ci)"
  by (simp_all add: canActivate_def consumeChallenge_def resolveAccessContext_def isProviderUser_def
      refuseReauth_def consume_def confirmByPassword_def issueChallenge_def
      Let_def keeps_rules keeps_frame frames_logs frames_challenges split: option.split)

end

locale account_bystander = audit_bystander +
  assumes frames_users: "frames J users_t" and frames_sessions: "frames J sessions_t"
    and frames_settings: "frames J settings_t"
begin

lemmas account_frames = frames_logs frames_users frames_sessions frames_settings

lemma auth: "keeps J (register E rd ci)" "keeps J (login E email pw ci)" "keeps J (refresh E tok ci)"
    "keeps J (logout E tok)" "keeps J (logoutAll E u)" "keeps J (revokeSession E u s)"
  by (simp_all add: register_def login_def refresh_def logout_def logoutAll_def revokeSession_def
      issueTokens_def openSession_def signTokens_def revokeSessionChain_def refuseRefresh_def authAudit_def authWarn_def
      Let_def keeps_rules keeps_frame keeps_updateUnique_frame account_frames)

lemma admin: "keeps J (updateUserRole E u role sub actor)" "keeps J (updateUserStatus E u act actor)"
    "keeps J (upsertPlatformSetting E k v actor)" "keeps J (exportUsersSnapshot E actor)"
  by (simp_all add: updateUserRole_def updateUserStatus_def revokeSessionsOf_def upsertPlatformSetting_def
      normalizeSettingKey_def exportUsersSnapshot_def Let_def keeps_rules keeps_frame account_frames)

end

locale recovery_bystander = account_bystander +
  assumes frames_recovery: "frames J recoveryRequests_t"
begin

lemma recovery: "keeps J (requestPasswordRecovery E email)" "keeps J (updatePasswordRecoveryRequest E i st note a r ci)"
  by (simp_all add: requestPasswordRecovery_def updatePasswordRecoveryRequest_def authAudit_def authWarn_def
      Let_def keeps_rules keeps_frame account_frames frames_recovery)

end

locale tracking_bystander =
  fixes J :: "db \<Rightarrow> bool"
  assumes frames_workerAggregates: "frames J workerAggregates_t" and frames_categoryAggregates: "frames J categoryAggregates_t"
begin

lemma tracking: "keeps J (ingestEvents evs)" "keeps J (flushQueue E)"
  by (simp_all add: ingestEvents_def ingestEvent_def flushQueue_def persistDeltas_def scheduleFlush_def upsertWorker_def
      upsertCategory_def upsert_def Let_def keeps_rules keeps_smodify keeps_frame
      frames_workerAggregates frames_categoryAggregates)

end

locale side_bystander = category_bystander + profile_bystander + review_bystander + message_bystander
  + access_bystander + recovery_bystander + tracking_bystander

subsection \<open>The operations beside jobs, requests and payments as steps\<close>

inductive side_step :: "world \<Rightarrow> world \<Rightarrow> bool" where
  create_category: "side_step w (snd (createCategory E cc w))"
| update_category: "side_step w (snd (updateCategory E i uc w))"
| remove_category: "side_step w (snd (removeCategory E i w))"
| upsert_profile: "side_step w (snd (upsertMe E u up w))"
| update_profile: "side_step w (snd (updateMe E u up w))"
| review: "1 \<le> cv_rating cv \<Longrightarrow> cv_rating cv \<le> 5 \<Longrightarrow> side_step w (snd (createReview E u cv w))"
| send_message: "side_step w (snd (sendMessage E j u cm w))"
| read_messages: "side_step w (snd (markJobRead E j u w))"
| presign: "side_step w (snd (createUploadPresign E j u ui w))"
| appeal: "side_step w (snd (appealIntervention E i u reason w))"
| review_intervention: "side_step w (snd (reviewIntervention E i u dec note w))"
| guard: "side_step w (snd (canActivate E ep gr w))"
| log_action: "side_step w (snd (logAdminAction E a w))"
| confirm: "side_step w (snd (confirmByPassword E u pw pu ci w))"
| register: "side_step w (snd (register E rd ci w))"
| login: "side_step w (snd (login E email pw ci w))"
| refresh: "side_step w (snd (refresh E tok ci w))"
| logout: "side_step w (snd (logout E tok w))"
| logout_all: "side_step w (snd (logoutAll E u w))"
| revoke_session: "side_step w (snd (revokeSession E u s w))"
| request_recovery: "side_step w (snd (requestPasswordRecovery E email w))"
| update_recovery: "side_step w (snd (updatePasswordRecoveryRequest E i st note a r ci w))"
| update_role: "side_step w (snd (updateUserRole E u role sub actor w))"
| update_status: "side_step w (snd (updateUserStatus E u act actor w))"
| upsert_setting: "side_step w (snd (upsertPlatformSetting E k v actor w))"
| export_users: "side_step w (snd (exportUsersSnapshot E actor w))"
| ingest: "side_step w (snd (ingestEvents evs w))"
| flush: "side_step w (snd (flushQueue E w))"

text \<open>An invariant survives every such step when it survives the operations, module by module.\<close>

lemma side_stepI:
  assumes "side_step w w'" "J (w_db w)"
    and "\<And>E cc. keeps J (createCategory E cc)" "\<And>E i uc. keeps J (updateCategory E i uc)" "\<And>E i. keeps J (removeCategory E i)"
    and "\<And>E u up. keeps J (upsertMe E u up)" "\<And>E u up. keeps J (updateMe E u up)"
    and "\<And>E u cv. 1 \<le> cv_rating cv \<Longrightarrow> cv_rating cv \<le> 5 \<Longrightarrow> keeps J (createReview E u cv)"
    and "\<And>E j u cm. keeps J (sendMessage E j u cm)" "\<And>E j u. keeps J (markJobRead E j u)"
    and "\<And>E j u ui. keeps J (createUploadPresign E j u ui)"
    and "\<And>E i u reason. keeps J (appealIntervention E i u reason)"
    and "\<And>E i u dec note. keeps J (reviewIntervention E i u dec note)"
    and "\<And>E ep gr. keeps J (canActivate E ep gr)" "\<And>E a. keeps J (logAdminAction E a)"
    and "\<And>E u pw pu ci. keeps J (confirmByPassword E u pw pu ci)"
    and "\<And>E rd ci. keeps J (register E rd ci)" "\<And>E email pw ci. keeps J (login E email pw ci)"
    and "\<And>E tok ci. keeps J (refresh E tok ci)" "\<And>E tok. keeps J (logout E tok)" "\<And>E u. keeps J (logoutAll E u)"
    and "\<And>E u s. keeps J (revokeSession E u s)" "\<And>E email. keeps J (requestPasswordRecovery E email)"
    and "\<And>E i st note a r ci. keeps J (updatePasswordRecoveryRequest E i st note a r ci)"
    and "\<And>E u role sub actor. keeps J (updateUserRole E u role sub actor)"
    and "\<And>E u act actor. keeps J (updateUserStatus E u act actor)"
    and "\<And>E k v actor. keeps J (upsertPlatformSetting E k v actor)" "\<And>E actor. keeps J (exportUsersSnapshot E actor)"
    and "\<And>evs. keeps J (ingestEvents evs)" "\<And>E. keeps J (flushQueue E)"
  shows "J (w_db w')"
  using assms(1) by cases (simp_all add: keepsD assms(2-))

context side_bystander
begin

lemma side_kept: "side_step w w' \<Longrightarrow> J (w_db w) \<Longrightarrow> J (w_db w')"
  by (erule side_stepI) (simp_all add: categories profiles reviewed messages chat safety access logged auth recovery admin tracking)

end

end
