(* ===== verification/System.thy ===== *)
theory System
  imports Sides
begin

text \<open>
  The system as a state machine: one step is one request to the API or one tick of a timer, of
  the core (jobs, requests, payments: \<open>core_step\<close>) or of the modules beside it (\<open>side_step\<close>).  A state is reachable when a run from a freshly
  seeded database leads to it; the invariants of the components hold of every reachable state
  by induction on the run.
\<close>

subsection \<open>Steps and reachable states\<close>

inductive core_step :: "world \<Rightarrow> world \<Rightarrow> bool" where
  restart: "core_step w (w\<lparr>w_ops := (\<lambda>_. None), w_warned := [], w_metrics := [],
    w_queue := [], w_flushScheduled := False\<rparr>)"
| create_intent: "core_step w (snd (createIntent E u j p w))"
| pay_intent: "core_step w (snd (payIntent E i u py w))"
| webhook: "core_step w (snd (handleWebhook E p wh s t w))"
| reconcile_one: "core_step w (snd (reconcileTransaction E i sm w))"
| reconcile_batch: "core_step w (snd (reconcilePendingChargeTransactions E src l a w))"
| reconcile_tick: "core_step w (snd (runCycle E rn w))"
| request_refund: "valid_refund_dto rd \<Longrightarrow> core_step w (snd (createJobRefundRequest E j ac rd w))"
| cancel_refund: "core_step w (snd (cancelRefundRequest E r ac w))"
| approve_refund: "core_step w (snd (adminApproveRefund E u r n w))"
| reject_refund: "core_step w (snd (adminRejectRefund E u r s n w))"
| create_refund: "valid_refund_dto rd \<Longrightarrow> core_step w (snd (adminCreateRefund E u i rd w))"
| create_payout: "0 < pd_amount pd \<Longrightarrow> core_step w (snd (adminCreatePayout E u pd w))"
| approve_payout: "core_step w (snd (adminApprovePayout E u p w))"
| process_payout: "core_step w (snd (adminProcessPayout E u p pp w))"
| release_funds: "core_step w (snd (adminReleaseProviderFunds E u j w))"
| create_incident: "core_step w (snd (createIncident E u ci w))"
| update_incident: "core_step w (snd (updateIncident E i u ui w))"
| mark_read: "core_step w (snd (markRead E n u w))"
| mark_all_read: "core_step w (snd (markAllRead E u w))"
| update_job: "core_step w (snd (updateStatus E j u nxt reason w))"
| create_request: "core_step w (snd (createRequest E u cd w))"
| recreate_request: "core_step w (snd (recreateRequest E u i rc w))"
| update_request: "core_step w (snd (updateRequest E u i ud w))"
| get_request: "core_step w (snd (getMineById E u i w))"
| list_mine: "core_step w (snd (listMineRequests E u q w))"
| list_open: "core_step w (snd (listOpenForProvider E u q w))"
| list_proposals: "core_step w (snd (listMineProposals E u w))"
| list_request_proposals: "core_step w (snd (listRequestProposals E i ac w))"
| sweep: "core_step w (snd (sweepTick E w))"
| list_invitations: "core_step w (snd (listRequestInvitations E i u w))"
| invite: "core_step w (snd (createInvitation E i u p w))"
| my_invitations: "core_step w (snd (listMineInvitations E u w))"
| decline: "core_step w (snd (declineInvitation E i u w))"
| propose: "core_step w (snd (submitProposal E i u pr w))"
| select: "core_step w (snd (selectProposal E i k u percent w))"

inductive step :: "world \<Rightarrow> world \<Rightarrow> bool" where
  core: "core_step w w' \<Longrightarrow> step w w'"
| side: "side_step w w' \<Longrightarrow> step w w'"

definition seeded :: "db \<Rightarrow> bool" where
  "seeded d \<longleftrightarrow> d = empty_db\<lparr>users := users d, categories := categories d, workerProfiles := workerProfiles d\<rparr>
     \<and> constraints categories_t d \<and> (\<forall>c \<in> set (categories d). valid_slug (ca_slug c))
     \<and> unique_ids workerProfiles_t d \<and> (\<forall>p \<in> set (workerProfiles d). wp_ratingAvg p = 0 \<and> wp_ratingCount p = 0)"

inductive reachable :: "world \<Rightarrow> bool" where
  start: "seeded d \<Longrightarrow> reachable (init_world d)"
| run: "reachable w \<Longrightarrow> step w w' \<Longrightarrow> reachable w'"

inductive_cases reachableE: "reachable w"

text \<open>An invariant holds when the seed satisfies it and every operation keeps it.\<close>

definition kept :: "(db \<Rightarrow> bool) \<Rightarrow> bool" where
  "kept J \<longleftrightarrow> (\<forall>w w'. step w w' \<longrightarrow> J (w_db w) \<longrightarrow> J (w_db w'))"

lemma keptI:
  assumes "\<And>w w'. core_step w w' \<Longrightarrow> J (w_db w) \<Longrightarrow> J (w_db w')" "\<And>w w'. side_step w w' \<Longrightarrow> J (w_db w) \<Longrightarrow> J (w_db w')"
  shows "kept J"
  using assms by (auto simp: kept_def elim!: step.cases)

lemma kept_reachable:
  assumes "kept J" "\<And>d. seeded d \<Longrightarrow> J d" "reachable w"
  shows "J (w_db w)"
  using assms(3)
proof induction
  case (start d)
  then show ?case using assms(2) by (simp add: init_world_def)
next
  case (run w w')
  then show ?case using assms(1) by (simp add: kept_def)
qed

lemma kept_conj: "kept J \<Longrightarrow> kept K \<Longrightarrow> kept (\<lambda>d. J d \<and> K d)"
  by (auto simp: kept_def)

lemma kept_steps: "step\<^sup>*\<^sup>* w w' \<Longrightarrow> kept J \<Longrightarrow> J (w_db w) \<Longrightarrow> J (w_db w')"
  by (induction rule: rtranclp_induct) (auto simp: kept_def)

subsection \<open>The bystanders\<close>

lemma requests_ok_cong:
  assumes "serviceRequests d' = serviceRequests d" "proposals d' = proposals d" "job_links d' = job_links d"
  shows "requests_ok d' = requests_ok d"
proof -
  have "sel d' = sel d" by (simp add: fun_eq_iff sel_def find_row_def assms)
  then show ?thesis
    by (simp add: requests_ok_def proposal_ok_def unique_ids_def find_row_def assms)
qed

lemma job_links_upd:
  assumes "\<And>j. jb_requestId (f j) = jb_requestId j" "\<And>j. jb_proposalId (f j) = jb_proposalId j"
  shows "job_links (upd_rows jobs_t n P f d) = job_links d"
  using tb_jobs.map_upd [of "\<lambda>j. (jb_requestId j, jb_proposalId j)" n f P d] assms
  by (simp add: job_links_def)

lemma requests_ok_jobs:
  assumes "\<And>j. jb_requestId (f j) = jb_requestId j" "\<And>j. jb_proposalId (f j) = jb_proposalId j"
  shows "requests_ok (upd_rows jobs_t n P f d) = requests_ok d"
proof (rule requests_ok_cong)
  show "job_links (upd_rows jobs_t n P f d) = job_links d" by (rule job_links_upd [OF assms])
qed (simp_all add: upd_rows_def)

interpretation requests_at_payment: payment_bystander requests_ok
proof unfold_locales
  show "keeps requests_ok (update E jobs_t i (\<lambda>r. r\<lparr>jb_contactUnlockedAt := Some (e_now E)\<rparr>))" for E i
    by (rule keeps_update) (simp add: requests_ok_jobs)
qed (simp_all add: keeps_rules keeps_frame)

interpretation jobs_at_payment: payment_bystander jobs_ok
proof unfold_locales
  show "keeps jobs_ok (update E jobs_t i (\<lambda>r. r\<lparr>jb_contactUnlockedAt := Some (e_now E)\<rparr>))" for E i
  proof (rule keeps_update)
    fix d n assume ok: "jobs_ok d"
    let ?f = "\<lambda>r. r\<lparr>jb_contactUnlockedAt := Some (e_now E)\<rparr>"
    have "\<forall>j \<in> set (t_rows jobs_t (upd_rows jobs_t n (\<lambda>r. t_key jobs_t r = i) ?f d)). job_ok j"
      unfolding tb_jobs.ball_upd using ok by (simp add: jobs_ok_def)
    moreover have "unique_ids jobs_t (upd_rows jobs_t n (\<lambda>r. t_key jobs_t r = i) ?f d)"
      using ok by (simp add: tb_jobs.unique_ids_upd jobs_ok_def)
    ultimately show "jobs_ok (upd_rows jobs_t n (\<lambda>r. t_key jobs_t r = i) ?f d)"
      by (simp add: jobs_ok_def)
  qed
qed (simp_all add: keeps_rules keeps_frame)

interpretation funds_at_request: request_bystander funds_ok
  by unfold_locales (simp_all add: keeps_rules)

interpretation once_at_request: request_bystander once_ok
  by unfold_locales (simp_all add: keeps_rules)

lemma cases_more_frames [keeps_rules]:
  "frames cases_ok users_t" "frames cases_ok serviceRequests_t" "frames cases_ok invitations_t"
  "frames cases_ok proposals_t" "frames cases_ok jobs_t" "frames cases_ok notifications_t"
  "frames cases_ok reviews_t" "frames cases_ok intents_t" "frames cases_ok transactions_t"
  "frames cases_ok ledger_t" "frames cases_ok payouts_t" "frames cases_ok refunds_t"
  "frames cases_ok workerProfiles_t" "frames cases_ok paymentEvents_t"
  by (simp_all add: frames_def cases_ok_def unique_ids_def)

interpretation cases_at_request: request_bystander cases_ok
  by unfold_locales (simp_all add: keeps_rules)

interpretation jobs_at_request: request_bystander jobs_ok
  by unfold_locales (simp_all add: keeps_rules)

subsection \<open>The selections\<close>

lemma keeps_requests_updateStatus: "keeps requests_ok (updateStatus E j u nxt reason)"
  unfolding keeps_wp
proof (intro allI impI)
  fix w :: world assume ok: "requests_ok (w_db w)"
  show "wp (updateStatus E j u nxt reason) (\<lambda>_ w'. requests_ok (w_db w')) (\<lambda>_ w'. requests_ok (w_db w')) w"
  proof (rule wp_updateStatus)
    fix job and w' :: world
    assume w': "w_db w' = (status_written E j u nxt reason job (w_db w))\<lparr>notifications := notifications (w_db w')\<rparr>"
    have "requests_ok (status_written E j u nxt reason job (w_db w)) =
        requests_ok (upd_rows jobs_t (e_now E) (\<lambda>r. jb_id r = j) (status_data E u nxt reason job) (w_db w))"
      by (rule requests_ok_cong) (simp_all add: status_written_def Let_def upd_rows_def job_links_def)
    then have "requests_ok (status_written E j u nxt reason job (w_db w))"
      using ok by (simp add: requests_ok_jobs status_data_def)
    then have "requests_ok (w_db w')" by (subst w') (simp only: requests_ok_notifications)
    then show "requests_ok (w_db w') \<and> (\<forall>e. nxt = JOB_CANCELED \<longrightarrow> requests_ok (w_db w'))" by simp
  qed (simp add: ok)
qed

interpretation requests_aside: side_bystander requests_ok
  by unfold_locales (unfold frames_def, (intro allI requests_ok_cong; simp add: job_links_def)+)

lemma kept_requests: "kept requests_ok"
proof (rule keptI)
  fix w w' assume "core_step w w'" and ok: "requests_ok (w_db w)"
  from this(1) show "requests_ok (w_db w')"
    by (cases rule: core_step.cases)
      (auto intro!: keepsD ok requests_at_payment.charges requests_at_payment.settlement requests_at_payment.refunds
        requests_at_payment.payouts requests_at_payment.support requests_at_payment.reading
        keeps_requests_updateStatus keeps_requests_create keeps_requests_read keeps_requests_invitations
        keeps_requests_submit keeps_requests_select)
qed (rule requests_aside.side_kept)

subsection \<open>The other invariants\<close>

interpretation jobs_aside: side_bystander jobs_ok
  by unfold_locales (simp_all add: frames_def jobs_ok_def unique_ids_def)

interpretation funds_aside: side_bystander funds_ok
  by unfold_locales (simp_all add: frames_def funds_ok_def money_ok_def amounts_ok_def unique_ids_def)

interpretation once_aside: side_bystander once_ok
  by unfold_locales (simp_all add: frames_def once_ok_def unique_ids_def)

interpretation cases_aside: side_bystander cases_ok
  by unfold_locales (simp_all add: frames_def cases_ok_def unique_ids_def)

lemma kept_jobs: "kept jobs_ok"
proof (rule keptI)
  fix w w' assume "core_step w w'" and ok: "jobs_ok (w_db w)"
  from this(1) show "jobs_ok (w_db w')"
    by (cases rule: core_step.cases)
      (auto intro!: keepsD ok jobs_at_payment.charges jobs_at_payment.settlement jobs_at_payment.refunds
        jobs_at_payment.payouts jobs_at_payment.support jobs_at_payment.reading keeps_jobs_updateStatus
        jobs_at_request.requests jobs_at_request.invitations jobs_at_request.submit keeps_jobs_select)
qed (rule jobs_aside.side_kept)

interpretation funds_at_support: support_bystander funds_ok
  by unfold_locales (simp_all add: keeps_rules)

interpretation funds_at_inbox: inbox_bystander funds_ok
  by unfold_locales (simp_all add: keeps_rules)

lemma keeps_funds_createPayout_pos: "0 < pd_amount dto \<Longrightarrow> keeps funds_ok (adminCreatePayout E u dto)"
  by (rule keeps_funds_adminCreatePayout) simp

lemma kept_funds: "kept funds_ok"
proof (rule keptI)
  fix w w' assume "core_step w w'" and ok: "funds_ok (w_db w)"
  from this(1) show "funds_ok (w_db w')"
    by (cases rule: core_step.cases)
      (auto intro!: keepsD ok keeps_funds_createIntent keeps_funds_payIntent funds_settlement
        keeps_funds_createJobRefundRequest keeps_funds_decisions keeps_funds_adminCreateRefund
        keeps_funds_createPayout_pos keeps_funds_adminApprovePayout keeps_funds_adminProcessPayout
        keeps_funds_adminRelease funds_at_support.support funds_at_inbox.reading keeps_funds_updateStatus
        funds_at_request.requests funds_at_request.invitations funds_at_request.submit keeps_funds_select)
qed (rule funds_aside.side_kept)

lemma charges_of_others: "charges_of t (payout_entries p x u) = 0" "charges_of t (release_entries i h u) = 0"
    "charges_of t (refund_entries i x a b c d u) = 0"
  by (simp_all add: payout_entries_def release_entries_def refund_entries_def ledgerInput_def)

lemma keeps_once_refunds: "keeps once_ok (createJobRefundRequest E j a dto)" "keeps once_ok (cancelRefundRequest E r a)"
    "keeps once_ok (adminApproveRefund E u r n)" "keeps once_ok (adminRejectRefund E u r s n)"
    "keeps once_ok (adminCreateRefund E u k dto)"
proof -
  have shut: "keeps once_ok (closeRefund E i f d)" for i f d
    by (simp add: closeRefund_def keeps_rules keeps_frame keeps_sync_frame)
  have post: "keeps once_ok (appendRefundLedgerEntries E intent t a p q u)" for intent t a p q u
    by (simp add: appendRefundLedgerEntries_def Let_def keeps_rules keeps_once_append charges_of_others)
  have process: "keeps once_ok (processRefundRequest E r u nt)" for r u nt
    by (simp add: processRefundRequest_def settleRefund_def keeps_rules keeps_frame keeps_sync_frame post)
  show "keeps once_ok (createJobRefundRequest E j a dto)" "keeps once_ok (cancelRefundRequest E r a)"
    "keeps once_ok (adminApproveRefund E u r n)" "keeps once_ok (adminRejectRefund E u r s n)"
    "keeps once_ok (adminCreateRefund E u k dto)"
    by (simp_all add: createJobRefundRequest_def cancelRefundRequest_def adminApproveRefund_def
        adminRejectRefund_def adminCreateRefund_def Let_def keeps_rules keeps_frame keeps_ensure_frame process shut)
qed

lemma keeps_once_payouts: "keeps once_ok (adminCreatePayout E u pd)" "keeps once_ok (adminApprovePayout E u p)"
    "keeps once_ok (adminProcessPayout E u p pp)" "keeps once_ok (adminReleaseProviderFunds E u j)"
  by (simp_all add: adminCreatePayout_def adminApprovePayout_def adminProcessPayout_def recordPayout_def
      settlePayout_def adminReleaseProviderFunds_def releaseHeld_def
      keeps_rules keeps_frame keeps_once_append charges_of_others)

interpretation once_at_support: support_bystander once_ok
  by unfold_locales (simp_all add: keeps_rules)

interpretation once_at_inbox: inbox_bystander once_ok
  by unfold_locales (simp_all add: keeps_rules)

lemma keeps_once_jobs: "keeps once_ok (updateStatus E j u nxt reason)" "keeps once_ok (selectProposal E i k u percent)"
  by (simp_all add: keeps_updateStatus_frame keeps_selectProposal keeps_rules keeps_frame)

lemma kept_once: "kept once_ok"
proof (rule keptI)
  fix w w' assume "core_step w w'" and ok: "once_ok (w_db w)"
  from this(1) show "once_ok (w_db w')"
    by (cases rule: core_step.cases)
      (auto intro!: keepsD ok keeps_once_createIntent keeps_once_payIntent once_settlement keeps_once_refunds
        keeps_once_payouts once_at_support.support once_at_inbox.reading keeps_once_jobs
        once_at_request.requests once_at_request.invitations once_at_request.submit)
qed (rule once_aside.side_kept)

interpretation cases_at_charge: charge_bystander cases_ok
  by unfold_locales (simp_all add: keeps_rules keeps_frame)

interpretation cases_at_payout: payout_bystander cases_ok
  by unfold_locales (simp_all add: keeps_rules)

interpretation cases_at_inbox: inbox_bystander cases_ok
  by unfold_locales (simp_all add: keeps_rules)

lemma keeps_cases_refunds: "keeps cases_ok (createJobRefundRequest E j a dto)" "keeps cases_ok (cancelRefundRequest E r a)"
    "keeps cases_ok (adminApproveRefund E u r n)" "keeps cases_ok (adminRejectRefund E u r s n)"
    "keeps cases_ok (adminCreateRefund E u k dto)"
proof -
  have shut: "keeps cases_ok (closeRefund E i f d)" for i f d
    by (simp add: closeRefund_def keeps_rules keeps_frame keeps_cases_sync)
  have process: "keeps cases_ok (processRefundRequest E r u nt)" for r u nt
    by (simp add: processRefundRequest_def settleRefund_def appendRefundLedgerEntries_def Let_def keeps_rules
        keeps_frame keeps_cases_sync keeps_appendEntries_frame)
  show "keeps cases_ok (createJobRefundRequest E j a dto)" "keeps cases_ok (cancelRefundRequest E r a)"
    "keeps cases_ok (adminApproveRefund E u r n)" "keeps cases_ok (adminRejectRefund E u r s n)"
    "keeps cases_ok (adminCreateRefund E u k dto)"
    by (simp_all add: createJobRefundRequest_def cancelRefundRequest_def adminApproveRefund_def
        adminRejectRefund_def adminCreateRefund_def Let_def keeps_rules keeps_frame keeps_cases_ensure process shut)
qed

lemma keeps_cases_jobs: "keeps cases_ok (updateStatus E j u nxt reason)" "keeps cases_ok (selectProposal E i k u percent)"
  by (simp_all add: keeps_updateStatus_frame keeps_selectProposal keeps_rules keeps_frame)

lemma kept_cases: "kept cases_ok"
proof (rule keptI)
  fix w w' assume "core_step w w'" and ok: "cases_ok (w_db w)"
  from this(1) show "cases_ok (w_db w')"
    by (cases rule: core_step.cases)
      (auto intro!: keepsD ok cases_at_charge.charges cases_at_charge.settlement keeps_cases_refunds
        cases_at_payout.payouts keeps_cases_createIncident keeps_cases_updateIncident cases_at_inbox.reading
        keeps_cases_jobs
        cases_at_request.requests cases_at_request.invitations cases_at_request.submit)
qed (rule cases_aside.side_kept)

subsection \<open>The seed\<close>

lemma seeded_empty [simp]:
  assumes "seeded d"
  shows "jobs d = []" "ledger d = []" "intents d = []" "transactions d = []" "refunds d = []" "payouts d = []"
    "incidents d = []" "serviceRequests d = []" "proposals d = []" "invitations d = []" "reviews d = []"
    "interventions d = []" "messages d = []" "attachments d = []" "recoveryRequests d = []" "sessions d = []"
    "challenges d = []" "auditLogs d = []"
  using assms unfolding seeded_def empty_db_def by (metis db.select_convs db.surjective db.update_convs)+

lemma seeded_ok:
  assumes "seeded d"
  shows "jobs_ok d" "funds_ok d" "once_ok d" "cases_ok d" "requests_ok d"
  using assms
  by (simp_all add: jobs_ok_def unique_ids_def funds_ok_def money_ok_def amounts_ok_def once_ok_def cases_ok_def
      requests_ok_def find_row_def sel_def job_links_def book_ok_def total_of_eq)

end
