(* ===== verification/Sample.thy ===== *)
theory Sample
  imports System "HOL-Library.Code_Target_Nat"
begin

text \<open>
  A sample run, for the witnesses: a customer asks for a job, a provider proposes, the customer
  selects the proposal and pays the deposit.
\<close>

definition sample_env :: env where
  "sample_env = \<lparr>e_now = 7, e_cuid = (\<lambda>n. replicate (Suc n) (CHR ''x'')),
     e_uuid = (\<lambda>n. replicate (Suc n) (CHR ''u'')), e_dateParse = (\<lambda>_. NotFinite), e_hmac = (\<lambda>_ _. ''h''),
     e_feeBps = NotFinite, e_releaseDelayHours = NotFinite, e_depositPercent = NotFinite,
     e_defaultProvider = None, e_requestExpiryHours = NotFinite, e_requestSweepMs = NotFinite,
     e_reconcileBatch = NotFinite, e_reconcileMinAge = NotFinite, e_reconcileProviders = None,
     e_reconcileEnabled = None, e_reconcileIntervalMs = NotFinite, e_nodeEnv = None,
     e_webhookSecretOf = (\<lambda>_. None), e_webhookSecret = Some ''s'', e_webhookTolerance = NotFinite,
     e_webhookSkew = NotFinite, e_settlementOf = (\<lambda>_. None), e_settlement = NotFinite,
     e_localeString = (\<lambda>_. ''t''), e_randomHex = (\<lambda>n. replicate (Suc n) (CHR ''r'')), e_sha256 = (\<lambda>s. CHR ''#'' # s),
     e_bcryptHash = (\<lambda>s. s), e_bcryptCompare = (\<lambda>s h. s = h),
     e_jwtSign = (\<lambda>k j t. json_stringify j), e_jwtVerify = (\<lambda>k t. None),
     e_accessSecret = None, e_refreshSecret = None, e_reauthTtl = NotFinite, e_s3AccessKey = None,
     e_s3SecretKey = None, e_s3Region = None, e_s3Bucket = None, e_signedUrl = (\<lambda>b k c n. k)\<rparr>"

definition sample_user :: "id \<Rightarrow> userRole \<Rightarrow> user" where
  "sample_user i r = \<lparr>us_id = i, us_email = i, us_name = Some i, us_passwordHash = ''p'', us_role = r,
     us_adminSubrole = None, us_isActive = True, us_createdAt = 0, us_updatedAt = 0\<rparr>"

definition sample_seed :: db where
  "sample_seed = empty_db
     \<lparr>users := [sample_user ''c'' UR_USER, sample_user ''p'' UR_USER, sample_user ''a'' UR_ADMIN],
      categories := [\<lparr>ca_id = ''k'', ca_name = ''k'', ca_slug = ''k'', ca_description = None, ca_isActive = True,
        ca_sortOrder = 0, ca_createdAt = 0, ca_updatedAt = 0\<rparr>],
      workerProfiles := [\<lparr>wp_id = ''w'', wp_userId = ''p'', wp_publicName = None, wp_bio = None,
        wp_location = None, wp_serviceAreaPreferences = [], wp_hourlyRate = None, wp_experienceYears = 1,
        wp_isAvailable = True, wp_availabilityStatus = WA_AVAILABLE_NOW, wp_ratingAvg = 0, wp_ratingCount = 0,
        wp_createdAt = 0, wp_updatedAt = 0\<rparr>]\<rparr>"

definition sample_request :: createRequestDto where
  "sample_request = \<lparr>cd_categoryId = ''k'', cd_title = ''t'', cd_description = ''d'', cd_location = None\<rparr>"

definition sample_0 :: world where "sample_0 = init_world sample_seed"
definition sample_1 :: world where "sample_1 = snd (createRequest sample_env ''c'' sample_request sample_0)"
definition sample_2 :: world where
  "sample_2 = snd (submitProposal sample_env ''x'' ''p'' \<lparr>sp_price = 40, sp_comment = None\<rparr> sample_1)"
definition sample_3 :: world where
  "sample_3 = snd (selectProposal sample_env ''x'' ''xx'' ''c'' None sample_2)"

definition sample_pay :: payInput where "sample_pay = \<lparr>py_idempotencyKey = Some ''k'', py_simulate = None\<rparr>"

definition sample_4 :: world where
  "sample_4 = snd (payIntent sample_env ''xxxxx'' ''c'' sample_pay sample_3)"

text \<open>The provider works the job off; a day later the held funds are released and paid out.\<close>

definition sample_5 :: world where
  "sample_5 = snd (updateStatus sample_env ''xxxx'' ''p'' JOB_COMPLETED None
     (snd (updateStatus sample_env ''xxxx'' ''p'' JOB_IN_PROGRESS None
       (snd (updateStatus sample_env ''xxxx'' ''p'' JOB_ACCEPTED None sample_4)))))"

definition next_day :: env where
  "next_day = sample_env\<lparr>e_releaseDelayHours := Fin 0\<rparr>"

definition sample_6 :: world where
  "sample_6 = snd (adminReleaseProviderFunds next_day ''a'' ''xxxx'' sample_5)"

definition sample_payout :: payoutDto where
  "sample_payout = \<lparr>pd_providerUserId = ''p'', pd_amount = 8, pd_currency = None, pd_provider = None,
     pd_paymentIntentId = Some ''xxxxx'', pd_jobId = None\<rparr>"

definition sample_7 :: world where
  "sample_7 = snd (adminCreatePayout next_day ''a'' sample_payout sample_6)"

text \<open>The other way: after the payment the customer asks for the money back.\<close>

definition sample_refund :: refundRequestDto where
  "sample_refund = \<lparr>rr_amount = Some 6, rr_reason = ''r'', rr_evidenceItems = Some ['' e'']\<rparr>"

definition sample_actor :: intentActor where "sample_actor = \<lparr>ia_userId = ''c'', ia_role = None\<rparr>"

definition sample_8 :: world where
  "sample_8 = snd (createJobRefundRequest sample_env ''xxxx'' sample_actor sample_refund sample_4)"

subsection \<open>The run is a run of the system\<close>

lemma seeded_sample: "seeded sample_seed"
  by (simp add: seeded_def sample_seed_def empty_db_def constraints_def unique_ids_def valid_slug_def slug_char_def)

lemma reachable_steps:
  "reachable sample_0" "reachable sample_1" "reachable sample_2" "reachable sample_3" "reachable sample_4"
proof -
  show r0: "reachable sample_0" unfolding sample_0_def by (rule reachable.start [OF seeded_sample])
  show r1: "reachable sample_1" unfolding sample_1_def by (rule reachable.run [OF r0 core_step.create_request [THEN step.core]])
  show r2: "reachable sample_2" unfolding sample_2_def by (rule reachable.run [OF r1 core_step.propose [THEN step.core]])
  show r3: "reachable sample_3" unfolding sample_3_def by (rule reachable.run [OF r2 core_step.select [THEN step.core]])
  show "reachable sample_4" unfolding sample_4_def by (rule reachable.run [OF r3 core_step.pay_intent [THEN step.core]])
qed

lemma reachable_later: "reachable sample_5" "reachable sample_6" "reachable sample_7" "reachable sample_8"
proof -
  show r5: "reachable sample_5" unfolding sample_5_def
    by (intro reachable.run [OF _ core_step.update_job [THEN step.core]] reachable_steps(5))
  show r6: "reachable sample_6" unfolding sample_6_def by (rule reachable.run [OF r5 core_step.release_funds [THEN step.core]])
  have "0 < pd_amount sample_payout" by (simp add: sample_payout_def)
  then show "reachable sample_7" unfolding sample_7_def by (intro reachable.run [OF r6 core_step.create_payout [THEN step.core]])
  have "valid_refund_dto sample_refund" by (simp add: sample_refund_def valid_refund_dto_def)
  then show "reachable sample_8" unfolding sample_8_def
    by (intro reachable.run [OF reachable_steps(5) core_step.request_refund [THEN step.core]])
qed

text \<open>What the run leaves; a run is evaluated once for all that is asked of it.\<close>

lemma found_row: "map_option f x = Some v \<Longrightarrow> x = Some (the x) \<and> f (the x) = v"
  by (cases x) auto

lemma sample_4_run: "(let w = sample_4 in
    (map (\<lambda>b. bal b ''xxxxx'' (ledger (w_db w))) [LB_CUSTOMER_EXTERNAL, LB_PLATFORM_RESERVED, LB_PROVIDER_HELD],
     map_option jb_status (find_row jobs_t ''xxxx'' (w_db w)))) = ([-12, 2, 10], Some JOB_REQUESTED)"
  by code_simp

lemmas sample_4_state = sample_4_run [unfolded Let_def prod.inject]

lemma sample_4_book:
  "map (\<lambda>b. bal b ''xxxxx'' (ledger (w_db sample_4))) [LB_CUSTOMER_EXTERNAL, LB_PLATFORM_RESERVED, LB_PROVIDER_HELD] = [-12, 2, 10]"
  by (rule sample_4_state [THEN conjunct1])

text \<open>A call that returned, as an equation.\<close>

lemma call_returned: "case fst (m w) of Inl _ \<Rightarrow> False | Inr _ \<Rightarrow> True \<Longrightarrow> m w = (Inr (projr (fst (m w))), snd (m w))"
  by (cases "m w") (auto split: sum.splits)

subsection \<open>The same through an external provider\<close>

text \<open>The customer pays twice, as a pending payment allows; both payments settle by webhook.\<close>

definition mpesa_env :: env where
  "mpesa_env = sample_env\<lparr>e_defaultProvider := Some ''MPESA''\<rparr>"

definition mpesa_3 :: world where
  "mpesa_3 = snd (selectProposal mpesa_env ''x'' ''xx'' ''c'' None sample_2)"

definition pay_as :: "string \<Rightarrow> payInput" where
  "pay_as k = \<lparr>py_idempotencyKey = Some k, py_simulate = None\<rparr>"

definition mpesa_4 :: world where
  "mpesa_4 = snd (payIntent mpesa_env ''xxxxx'' ''c'' (pay_as ''k'') mpesa_3)"

definition mpesa_5 :: world where
  "mpesa_5 = snd (payIntent mpesa_env ''xxxxx'' ''c'' (pay_as ''l'') mpesa_4)"

definition hook :: "string \<Rightarrow> id \<Rightarrow> webhookDto" where
  "hook ev t = \<lparr>wh_externalEventId = Some ev, wh_providerReference = None, wh_transactionId = Some t,
     wh_status = Some ''SUCCESS'', wh_payload = None\<rparr>"

definition deliver :: "string \<Rightarrow> id \<Rightarrow> world \<Rightarrow> world" where
  "deliver ev t w = snd (handleWebhook mpesa_env PP_MPESA (hook ev t) (Some ''h'') (Some ''0'') w)"

definition mpesa_6 :: world where "mpesa_6 = deliver ''a'' ''xxxxxxxx'' mpesa_5"
definition mpesa_7 :: world where "mpesa_7 = deliver ''b'' ''xxxxxxxxxx'' mpesa_6"

text \<open>Or the job is cancelled while the payment is pending.\<close>

definition canceled_5 :: world where
  "canceled_5 = snd (updateStatus mpesa_env ''xxxx'' ''c'' JOB_CANCELED (Some ''r'') mpesa_4)"

definition canceled_6 :: world where "canceled_6 = deliver ''a'' ''xxxxxxxx'' canceled_5"

lemma reachable_deliver: "reachable w \<Longrightarrow> reachable (deliver ev t w)"
  unfolding deliver_def by (rule reachable.run [OF _ core_step.webhook [THEN step.core]])

lemma reachable_mpesa: "reachable mpesa_3" "reachable mpesa_4" "reachable mpesa_5" "reachable mpesa_7" "reachable canceled_6"
proof -
  show r3: "reachable mpesa_3" unfolding mpesa_3_def by (rule reachable.run [OF reachable_steps(3) core_step.select [THEN step.core]])
  show r4: "reachable mpesa_4" unfolding mpesa_4_def by (rule reachable.run [OF r3 core_step.pay_intent [THEN step.core]])
  show r5: "reachable mpesa_5" unfolding mpesa_5_def by (rule reachable.run [OF r4 core_step.pay_intent [THEN step.core]])
  show "reachable mpesa_7" unfolding mpesa_7_def mpesa_6_def by (intro reachable_deliver r5)
  have "reachable canceled_5" unfolding canceled_5_def by (rule reachable.run [OF r4 core_step.update_job [THEN step.core]])
  then show "reachable canceled_6" unfolding canceled_6_def by (rule reachable_deliver)
qed

lemma mpesa_7_run: "(let d = w_db mpesa_7 in
    (map (\<lambda>i. (pi_id i, pi_amount i)) (intents d), bal LB_CUSTOMER_EXTERNAL ''xxxxx'' (ledger d))) = ([(''xxxxx'', 12)], - 24)"
  by code_simp

lemmas mpesa_7_state = mpesa_7_run [unfolded Let_def prod.inject]

lemma canceled_6_run: "(let d = w_db canceled_6 in (map jb_status (jobs d), map pi_status (intents d))) = ([JOB_CANCELED], [PI_PAID_PARTIAL])"
  by code_simp

lemmas canceled_6_state = canceled_6_run [unfolded Let_def prod.inject]

subsection \<open>Rows of the runs\<close>

definition mpesa_tx :: paymentTransaction where
  "mpesa_tx = the (find_row transactions_t ''xxxxxxxx'' (w_db mpesa_4))"

definition mpesa_intent :: paymentIntent where
  "mpesa_intent = the (find_row intents_t ''xxxxx'' (w_db mpesa_4))"

definition mpesa_op :: storedOperation where
  "mpesa_op = the (w_ops mpesa_4 (PP_MPESA, ''mpesa-charge-uuuuuuu''))"

definition sample_job :: job where
  "sample_job = the (find_row jobs_t ''xxxx'' (w_db mpesa_4))"

lemma mpesa_4_run: "(let w = mpesa_4 in
    (map_option (\<lambda>t. (tx_id t, tx_paymentIntentId t, tx_provider t, tx_providerReference t)) (find_row transactions_t ''xxxxxxxx'' (w_db w)),
     map_option (\<lambda>i. (pi_jobId i, pi_customerId i, pi_status i, pi_providerNetAmount i)) (find_row intents_t ''xxxxx'' (w_db w)),
     map_option jb_id (find_row jobs_t ''xxxx'' (w_db w)),
     map_option (\<lambda>p. (so_status p, so_createdAtMs p)) (w_ops w (PP_MPESA, ''mpesa-charge-uuuuuuu'')),
     ledger (w_db w), map (\<lambda>t. (tx_id t, tx_idempotencyKey t)) (transactions (w_db w))))
   = (Some (''xxxxxxxx'', Some ''xxxxx'', PP_MPESA, Some ''mpesa-charge-uuuuuuu''), Some (''xxxx'', ''c'', PI_PENDING_CONFIRMATION, 10),
      Some ''xxxx'', Some (GW_PENDING, 7), [], [(''xxxxxxxx'', ''k'')])"
  by code_simp

lemmas mpesa_4_state = mpesa_4_run [unfolded Let_def prod.inject]

lemma mpesa_rows:
  "find_row transactions_t ''xxxxxxxx'' (w_db mpesa_4) = Some mpesa_tx"
  "find_row intents_t ''xxxxx'' (w_db mpesa_4) = Some mpesa_intent"
  "find_row jobs_t ''xxxx'' (w_db mpesa_4) = Some sample_job"
  "w_ops mpesa_4 (PP_MPESA, ''mpesa-charge-uuuuuuu'') = Some mpesa_op"
  using mpesa_4_state by (auto simp: mpesa_tx_def mpesa_intent_def sample_job_def mpesa_op_def)

lemma mpesa_columns:
  "tx_id mpesa_tx = ''xxxxxxxx'' \<and> tx_paymentIntentId mpesa_tx = Some ''xxxxx'' \<and> tx_provider mpesa_tx = PP_MPESA
    \<and> tx_providerReference mpesa_tx = Some ''mpesa-charge-uuuuuuu'' \<and> so_status mpesa_op = GW_PENDING
    \<and> so_createdAtMs mpesa_op = 7 \<and> pi_jobId mpesa_intent = ''xxxx'' \<and> pi_customerId mpesa_intent = ''c''
    \<and> pi_status mpesa_intent = PI_PENDING_CONFIRMATION \<and> pi_providerNetAmount mpesa_intent = 10 \<and> ledger (w_db mpesa_4) = []"
  using mpesa_4_state unfolding mpesa_rows by simp

text \<open>A quarter of an hour later.\<close>

definition later :: env where "later = mpesa_env\<lparr>e_now := 900007\<rparr>"

lemma inj_cuid: "inj (e_cuid sample_env)" "e_cuid mpesa_env = e_cuid sample_env" "e_cuid later = e_cuid sample_env"
  by (auto simp: sample_env_def mpesa_env_def later_def inj_def dest: arg_cong [where f = length])

definition settled :: "gatewayStatus \<Rightarrow> statusInput" where
  "settled g = \<lparr>si_transaction = mpesa_tx, si_gatewayStatus = g, si_rawPayload = None, si_reason = None\<rparr>"

lemma settled_rows: "find_row transactions_t (tx_id (si_transaction (settled g))) (w_db mpesa_4) = Some mpesa_tx"
  using mpesa_rows(1) mpesa_columns by (simp add: settled_def)

subsection \<open>Later runs\<close>

definition sample_9 :: world where "sample_9 = snd (adminRejectRefund sample_env ''a'' ''xxxxxxxxxxxx'' ''no'' None sample_8)"

definition sample_10 :: world where "sample_10 = snd (adminApprovePayout next_day ''a'' ''xxxxxxxxxxxxxx'' sample_7)"

lemma reachable_last: "reachable sample_9" "reachable sample_10"
  unfolding sample_9_def sample_10_def
  by (rule reachable.run [OF reachable_later(4) core_step.reject_refund [THEN step.core]] reachable.run [OF reachable_later(3) core_step.approve_payout [THEN step.core]])+

lemma then_update: "step\<^sup>*\<^sup>* w w' \<Longrightarrow> step\<^sup>*\<^sup>* w (snd (updateStatus E j u nxt reason w'))"
  by (erule rtranclp.rtrancl_into_rtrancl) (rule core_step.update_job [THEN step.core])

lemma sample_steps: "step\<^sup>*\<^sup>* sample_4 sample_5" "step\<^sup>*\<^sup>* sample_8 sample_9" "step\<^sup>*\<^sup>* sample_7 sample_10" "step\<^sup>*\<^sup>* sample_2 sample_3"
proof -
  show "step\<^sup>*\<^sup>* sample_4 sample_5" unfolding sample_5_def
    by (intro then_update rtranclp.rtrancl_refl)
  show "step\<^sup>*\<^sup>* sample_8 sample_9" unfolding sample_9_def by (rule r_into_rtranclp, rule core_step.reject_refund [THEN step.core])
  show "step\<^sup>*\<^sup>* sample_7 sample_10" unfolding sample_10_def by (rule r_into_rtranclp, rule core_step.approve_payout [THEN step.core])
  show "step\<^sup>*\<^sup>* sample_2 sample_3" unfolding sample_3_def by (rule r_into_rtranclp, rule core_step.select [THEN step.core])
qed

end
