(* ===== verification/History.thy ===== *)
theory History
  imports System
begin

text \<open>
  What a row may become over time.  \<open>progress\<close> compares a row with what it was at an earlier state
  of the run; the interface \<open>progressing\<close> says what a table needs for it, and intents, jobs,
  requests, refunds and payouts interpret it: the terms a row was created with never change and
  its status only moves forward.
\<close>

subsection \<open>Progress of the rows of a table\<close>

definition progress :: "'r tbl \<Rightarrow> ('r \<Rightarrow> 'r \<Rightarrow> bool) \<Rightarrow> db \<Rightarrow> db \<Rightarrow> bool" where
  "progress T R d0 d \<longleftrightarrow> (\<forall>i r. find_row T i d0 = Some r \<longrightarrow> (\<exists>r'. find_row T i d = Some r' \<and> R r r'))"

lemma progressD: "progress T R d0 d \<Longrightarrow> find_row T i d0 = Some r \<Longrightarrow> \<exists>r'. find_row T i d = Some r' \<and> R r r'"
  by (simp add: progress_def)

lemma frames_progress: "(\<And>xs d. t_rows T (t_put U xs d) = t_rows T d) \<Longrightarrow> frames (progress T R d0) U"
  by (simp add: frames_def progress_def find_row_def)

locale progressing = lawful_table T for T :: "'r tbl" +
  fixes R :: "'r \<Rightarrow> 'r \<Rightarrow> bool"
  assumes R_refl: "R r r" and R_trans: "R a b \<Longrightarrow> R b c \<Longrightarrow> R a c"
begin

lemma start: "progress T R d d"
  by (simp add: progress_def R_refl)

lemma extend:
  assumes "progress T R d0 d" "\<And>i r. find_row T i d = Some r \<Longrightarrow> \<exists>r'. find_row T i d' = Some r' \<and> R r r'"
  shows "progress T R d0 d'"
  using assms R_trans unfolding progress_def by blast

lemma append:
  assumes "progress T R d0 d" "\<forall>x \<in> set (t_rows T d). t_key T x \<noteq> t_key T r"
  shows "progress T R d0 (t_put T (t_rows T d @ [r]) d)"
proof (rule extend [OF assms(1)])
  fix i x assume "find_row T i d = Some x"
  then have "i \<noteq> t_key T r" using assms(2) find_row_SomeD [of T i d x] by auto
  then show "\<exists>r'. find_row T i (t_put T (t_rows T d @ [r]) d) = Some r' \<and> R x r'"
    using \<open>find_row T i d = Some x\<close> find_row_append [OF assms(2)] by (simp add: R_refl)
qed

lemma upd:
  assumes "progress T R d0 d" "\<And>r. t_key T (f r) = t_key T r"
    and "\<And>i r. find_row T i d = Some r \<Longrightarrow> P r \<Longrightarrow> R r (t_touch T n (f r))"
  shows "progress T R d0 (upd_rows T n P f d)"
  by (rule extend [OF assms(1)]) (use assms(2,3) in \<open>auto simp: find_row_upd R_refl\<close>)

lemma upd_one:
  assumes "progress T R d0 d" "\<And>r. t_key T (f r) = t_key T r"
    and "\<And>r. find_row T i d = Some r \<Longrightarrow> R r (t_touch T n (f r))"
  shows "progress T R d0 (upd_rows T n (\<lambda>r. t_key T r = i) f d)"
  using assms by (intro upd) (auto dest: find_row_SomeD)

lemma keeps_progress_create: "keeps (progress T R d0) (create E T mk)"
  by (rule keeps_create) (simp add: append)

lemma keeps_progress_update:
  assumes "\<And>r. t_key T (f r) = t_key T r" "\<And>r n. R r (t_touch T n (f r))"
  shows "keeps (progress T R d0) (update E T i f)"
  by (rule keeps_update) (simp add: upd_one assms)

lemma keeps_progress_updateMany:
  assumes "\<And>r. t_key T (f r) = t_key T r" "\<And>r n. P r \<Longrightarrow> R r (t_touch T n (f r))"
  shows "keeps (progress T R d0) (updateMany E T P f)"
  by (rule keeps_updateMany) (simp add: upd assms)

end

lemma steps_progress:
  assumes "kept (progress T R d0)" "step\<^sup>*\<^sup>* w w'" "progress T R d0 (w_db w)"
  shows "progress T R d0 (w_db w')"
  using kept_steps [OF assms(2,1,3)] .

subsection \<open>Intents keep their terms\<close>

definition same_terms :: "paymentIntent \<Rightarrow> paymentIntent \<Rightarrow> bool" where
  "same_terms a b \<longleftrightarrow> a\<lparr>pi_status := PI_CREATED, pi_updatedAt := 0\<rparr> = b\<lparr>pi_status := PI_CREATED, pi_updatedAt := 0\<rparr>"

interpretation intent_terms: progressing intents_t same_terms
  by unfold_locales (simp_all add: same_terms_def)

abbreviation intents_progress :: "db \<Rightarrow> db \<Rightarrow> bool" where
  "intents_progress \<equiv> progress intents_t same_terms"

lemma intents_frames [keeps_rules]:
  "frames (intents_progress d0) users_t" "frames (intents_progress d0) serviceRequests_t"
  "frames (intents_progress d0) invitations_t" "frames (intents_progress d0) proposals_t"
  "frames (intents_progress d0) jobs_t" "frames (intents_progress d0) notifications_t"
  "frames (intents_progress d0) transactions_t" "frames (intents_progress d0) ledger_t"
  "frames (intents_progress d0) payouts_t" "frames (intents_progress d0) refunds_t"
  "frames (intents_progress d0) incidents_t" "frames (intents_progress d0) incidentEvents_t"
  "frames (intents_progress d0) paymentEvents_t"
  by (simp_all add: frames_progress)

lemma keeps_intent_status [keeps_rules]:
  "keeps (intents_progress d0) (update E intents_t i (\<lambda>r. r\<lparr>pi_status := s\<rparr>))"
  "keeps (intents_progress d0) (updateMany E intents_t P (\<lambda>r. r\<lparr>pi_status := s\<rparr>))"
  by (rule intent_terms.keeps_progress_update intent_terms.keeps_progress_updateMany; simp add: same_terms_def)+

lemmas intents_rules = keeps_rules keeps_frame intent_terms.keeps_progress_create

interpretation intents_at_charge: charge_bystander "intents_progress d0" for d0
  by unfold_locales (simp_all add: intents_rules)

interpretation intents_at_refund: refund_bystander "intents_progress d0" for d0
  by unfold_locales (simp_all add: keeps_rules)

interpretation intents_at_payout: payout_bystander "intents_progress d0" for d0
  by unfold_locales (simp_all add: keeps_rules)

interpretation intents_at_support: support_bystander "intents_progress d0" for d0
  by unfold_locales (simp_all add: keeps_rules)

interpretation intents_at_inbox: inbox_bystander "intents_progress d0" for d0
  by unfold_locales (simp_all add: keeps_rules)

interpretation intents_at_request: request_bystander "intents_progress d0" for d0
  by unfold_locales (simp_all add: keeps_rules)

lemma keeps_intents_jobs: "keeps (intents_progress d0) (updateStatus E j u nxt reason)"
    "keeps (intents_progress d0) (selectProposal E i k u percent)"
  by (simp_all add: keeps_updateStatus_frame keeps_selectProposal intents_rules)

interpretation intents_aside: side_bystander "intents_progress d0" for d0
  by unfold_locales (simp_all add: frames_def progress_def find_row_def)

lemma kept_intents: "kept (intents_progress d0)"
proof (rule keptI)
  fix w w' assume "core_step w w'" and ok: "intents_progress d0 (w_db w)"
  from this(1) show "intents_progress d0 (w_db w')"
    by (cases rule: core_step.cases)
      (auto intro!: keepsD ok intents_at_charge.charges intents_at_charge.settlement intents_at_refund.refunds
        intents_at_payout.payouts intents_at_support.support intents_at_inbox.reading
        intents_at_request.requests intents_at_request.invitations intents_at_request.submit keeps_intents_jobs)
qed (rule intents_aside.side_kept)

subsection \<open>Jobs keep their terms and move forward\<close>

definition job_terms :: "job \<Rightarrow> job" where
  "job_terms j = j\<lparr>jb_status := JOB_REQUESTED, jb_acceptedAt := None, jb_startedAt := None, jb_completedAt := None,
     jb_canceledAt := None, jb_canceledBy := None, jb_cancelReason := None, jb_contactUnlockedAt := None,
     jb_updatedAt := 0\<rparr>"

definition job_moved :: "job \<Rightarrow> job \<Rightarrow> bool" where
  "job_moved a b \<longleftrightarrow> job_step\<^sup>*\<^sup>* (jb_status a) (jb_status b) \<and> job_terms a = job_terms b"

interpretation job_progress: progressing jobs_t job_moved
  by unfold_locales (auto simp: job_moved_def)

abbreviation jobs_progress :: "db \<Rightarrow> db \<Rightarrow> bool" where
  "jobs_progress \<equiv> progress jobs_t job_moved"

lemma jobs_frames:
  "frames (jobs_progress d0) serviceRequests_t" "frames (jobs_progress d0) invitations_t"
  "frames (jobs_progress d0) proposals_t" "frames (jobs_progress d0) notifications_t"
  "frames (jobs_progress d0) transactions_t" "frames (jobs_progress d0) ledger_t"
  "frames (jobs_progress d0) payouts_t" "frames (jobs_progress d0) refunds_t"
  "frames (jobs_progress d0) incidents_t" "frames (jobs_progress d0) incidentEvents_t"
  "frames (jobs_progress d0) paymentEvents_t" "frames (jobs_progress d0) intents_t"
  by (simp_all add: frames_progress)

interpretation jobs_move_payment: payment_bystander "jobs_progress d0" for d0
proof unfold_locales
  show "keeps (jobs_progress d0) (update E jobs_t i (\<lambda>r. r\<lparr>jb_contactUnlockedAt := Some (e_now E)\<rparr>))" for d0 E i
    by (rule job_progress.keeps_progress_update) (simp_all add: job_moved_def job_terms_def)
qed (simp_all add: jobs_frames keeps_frame)

interpretation jobs_move_request: request_bystander "jobs_progress d0" for d0
  by unfold_locales (simp_all add: jobs_frames)

lemma job_moved_status:
  assumes "status_checked d u nxt reason job wu"
  shows "job_moved job ((status_data E u nxt reason job job)\<lparr>jb_updatedAt := n\<rparr>)"
proof -
  have "job_step (jb_status job) nxt"
    using assms by (auto simp: status_checked_def intro: allowed_job_step)
  then show ?thesis by (simp add: job_moved_def job_terms_def status_data_def r_into_rtranclp)
qed

lemma jobs_progress_written:
  assumes "jobs_progress d0 d" "find_row jobs_t j d = Some job" "status_checked d u nxt reason job wu"
  shows "jobs_progress d0 (status_written E j u nxt reason job d)"
proof -
  have "jobs_progress d0 (upd_rows jobs_t (e_now E) (\<lambda>r. t_key jobs_t r = j) (status_data E u nxt reason job) d)"
    using assms job_moved_status [OF assms(3)] by (intro job_progress.upd_one) simp_all
  then show ?thesis by (simp add: progress_def find_row_def jobs_written)
qed

lemma keeps_jobs_progress_updateStatus: "keeps (jobs_progress d0) (updateStatus E j u nxt reason)"
  unfolding keeps_wp
proof (intro allI impI)
  fix w :: world assume J: "jobs_progress d0 (w_db w)"
  show "wp (updateStatus E j u nxt reason) (\<lambda>_ w'. jobs_progress d0 (w_db w')) (\<lambda>_ w'. jobs_progress d0 (w_db w')) w"
  proof (rule wp_updateStatus)
    fix job and w' :: world
    assume "find_row jobs_t j (w_db w) = Some job"
      "status_checked (w_db w) u nxt reason job (worker_user (w_db w) job)"
      and w': "w_db w' = (status_written E j u nxt reason job (w_db w))\<lparr>notifications := notifications (w_db w')\<rparr>"
    then have "jobs_progress d0 (status_written E j u nxt reason job (w_db w))"
      using J by (intro jobs_progress_written)
    then have "jobs_progress d0 (w_db w')" by (subst w') (simp add: progress_def find_row_def)
    then show "jobs_progress d0 (w_db w') \<and> (\<forall>e. nxt = JOB_CANCELED \<longrightarrow> jobs_progress d0 (w_db w'))" by simp
  qed (simp add: J)
qed

lemma keeps_jobs_progress_select: "keeps (jobs_progress d0) (selectProposal E i k u percent)"
  by (rule keeps_selectProposal) (simp_all add: jobs_frames keeps_frame job_progress.keeps_progress_create)

interpretation jobs_move_aside: side_bystander "jobs_progress d0" for d0
  by unfold_locales (simp_all add: frames_def progress_def find_row_def)

lemma kept_jobs_progress: "kept (jobs_progress d0)"
proof (rule keptI)
  fix w w' assume "core_step w w'" and ok: "jobs_progress d0 (w_db w)"
  from this(1) show "jobs_progress d0 (w_db w')"
    by (cases rule: core_step.cases)
      (auto intro!: keepsD ok jobs_move_payment.charges jobs_move_payment.settlement jobs_move_payment.refunds
        jobs_move_payment.payouts jobs_move_payment.support jobs_move_payment.reading
        keeps_jobs_progress_updateStatus jobs_move_request.requests jobs_move_request.invitations
        jobs_move_request.submit keeps_jobs_progress_select)
qed (rule jobs_move_aside.side_kept)

subsection \<open>Requests: a selection is final\<close>

definition request_step :: "serviceRequestStatus \<Rightarrow> serviceRequestStatus \<Rightarrow> bool" where
  "request_step a b \<longleftrightarrow> a = SR_OPEN \<and> b \<noteq> SR_OPEN"

interpretation request_life: finite_lifecycle request_step "\<lambda>s. if s = SR_OPEN then 0 else 1" "\<lambda>s. s \<noteq> SR_OPEN" 1
  by unfold_locales (auto simp: request_step_def)

definition request_moved :: "serviceRequest \<Rightarrow> serviceRequest \<Rightarrow> bool" where
  "request_moved a b \<longleftrightarrow> request_step\<^sup>*\<^sup>* (sr_status a) (sr_status b) \<and> sr_customerId b = sr_customerId a
     \<and> sr_categoryId b = sr_categoryId a \<and> sr_createdAt b = sr_createdAt a
     \<and> (sr_selectedProposalId a \<noteq> None \<longrightarrow> sr_selectedProposalId b = sr_selectedProposalId a)"

interpretation request_progress: progressing serviceRequests_t request_moved
  by unfold_locales (auto simp: request_moved_def)

abbreviation requests_progress :: "db \<Rightarrow> db \<Rightarrow> bool" where
  "requests_progress \<equiv> progress serviceRequests_t request_moved"

lemma requests_frames:
  "frames (requests_progress d0) jobs_t" "frames (requests_progress d0) invitations_t"
  "frames (requests_progress d0) proposals_t" "frames (requests_progress d0) notifications_t"
  "frames (requests_progress d0) transactions_t" "frames (requests_progress d0) ledger_t"
  "frames (requests_progress d0) payouts_t" "frames (requests_progress d0) refunds_t"
  "frames (requests_progress d0) incidents_t" "frames (requests_progress d0) incidentEvents_t"
  "frames (requests_progress d0) paymentEvents_t" "frames (requests_progress d0) intents_t"
  by (simp_all add: frames_progress)

interpretation requests_move_payment: payment_bystander "requests_progress d0" for d0
  by unfold_locales (simp_all add: requests_frames keeps_frame)

lemma request_moved_expire: "sr_status r = SR_OPEN \<Longrightarrow> request_moved r (r\<lparr>sr_status := SR_EXPIRED, sr_updatedAt := n\<rparr>)"
  by (auto simp: request_moved_def request_step_def)

lemma requests_progress_invitations:
  "requests_progress d0 (upd_rows invitations_t n P f d) = requests_progress d0 d"
  by (simp add: progress_def find_row_def upd_rows_def)

lemma requests_progress_expired: "requests_progress d0 d \<Longrightarrow> requests_progress d0 (expired_db E ids d)"
  unfolding expired_db_def requests_progress_invitations
  by (rule request_progress.upd) (simp_all add: request_moved_expire)

lemmas requests_progress_expire = keeps_expire [of "requests_progress d0" for d0, OF requests_progress_expired]

lemma keeps_request_data_progress:
  "keeps (requests_progress d0) (update E serviceRequests_t i (request_data E' dto r))"
  by (rule request_progress.keeps_progress_update) (simp_all add: request_moved_def request_data_def)

lemma keeps_requests_progress:
  "keeps (requests_progress d0) (createRequest E u cd)" "keeps (requests_progress d0) (recreateRequest E u i rc)"
  "keeps (requests_progress d0) (updateRequest E u i ud)" "keeps (requests_progress d0) (getMineById E u i)"
  "keeps (requests_progress d0) (listMineRequests E u q)" "keeps (requests_progress d0) (listOpenForProvider E u q)"
  "keeps (requests_progress d0) (sweepTick E)" "keeps (requests_progress d0) (listMineProposals E u)"
  "keeps (requests_progress d0) (listRequestProposals E i a)"
  "keeps (requests_progress d0) (listRequestInvitations E i u)" "keeps (requests_progress d0) (createInvitation E i u p)"
  "keeps (requests_progress d0) (listMineInvitations E u)" "keeps (requests_progress d0) (declineInvitation E i u)"
  "keeps (requests_progress d0) (submitProposal E i u pr)"
  "keeps (requests_progress d0) (updateStatus E j u nxt reason)"
  by (simp_all add: createRequest_def recreateRequest_def updateRequest_def getMineById_def listMineRequests_def
      listOpenForProvider_def sweepTick_def listMineProposals_def listRequestProposals_def
      listRequestInvitations_def createInvitation_def listMineInvitations_def declineInvitation_def
      expirePendingInvitationsForRequest_def expirePendingInvitationsForProvider_def markOpened_def
      notifyInvited_def notifyDeclined_def submitProposal_def saveProposal_def markInvitationAccepted_def
      notifyProposed_def keeps_updateStatus_frame keeps_rules keeps_frame requests_frames
      request_progress.keeps_progress_create keeps_request_data_progress requests_progress_expire)

lemma requests_progress_selected:
  assumes ok: "requests_progress d0 d" "requests_ok d" and c: "can_select E d i k u request proposal profile"
  shows "requests_progress d0 (selected_db E request proposal job intent d)"
proof (rule request_progress.extend [OF ok(1)])
  fix j r assume r: "find_row serviceRequests_t j d = Some r"
  have req: "find_row serviceRequests_t i d = Some request" "sr_status request = SR_OPEN"
    using c by (simp_all add: can_select_def acceptable_def)
  have "request_ok request" using ok(2) req(1) by (simp add: requests_ok_def)
  with req(2) have none: "sr_selectedProposalId request = None" by (simp add: request_ok_def)
  have same: "sr_id r = sr_id request \<Longrightarrow> r = request"
    using r find_row_SomeD [OF r] find_row_SomeD [OF req(1)] req(1) by auto
  have eq: "find_row serviceRequests_t j (selected_db E request proposal job intent d) =
      find_row serviceRequests_t j (closed_db E request proposal d)"
    by (simp add: find_row_def selected_db_def)
  have "request_moved request (request\<lparr>sr_status := SR_CLOSED, sr_selectedProposalId := x, sr_updatedAt := n\<rparr>)" for x n
    using req(2) none by (auto simp: request_moved_def request_step_def)
  then show "\<exists>r'. find_row serviceRequests_t j (selected_db E request proposal job intent d) = Some r' \<and> request_moved r r'"
    using r same unfolding eq find_closed_request by (auto simp: request_progress.R_refl)
qed

lemma requests_progress_select:
  assumes ok: "requests_progress d0 (w_db w)" "requests_ok (w_db w)"
  shows "requests_progress d0 (w_db (snd (selectProposal E i k u percent w)))"
proof -
  have "wp (selectProposal E i k u percent) (\<lambda>_ w'. requests_progress d0 (w_db w'))
      (\<lambda>_ w'. requests_progress d0 (w_db w')) w"
  proof (rule wp_selectProposal [OF ok(2)])
    fix request proposal profile jid iid job intent and w' :: world
    assume c: "can_select E (w_db w) i k u request proposal profile"
      and w': "w_db w' = (selected_db E request proposal job intent (w_db w))\<lparr>notifications := notifications (w_db w')\<rparr>"
    have "requests_progress d0 (w_db w')"
      using requests_progress_selected [OF ok c, of job intent]
      by (subst w') (simp add: progress_def find_row_def)
    then show "requests_progress d0 (w_db w') \<and> (\<forall>e. requests_progress d0 (w_db w'))" by simp
  qed (use ok requests_progress_expired in auto)
  then show ?thesis by (simp add: wp_const)
qed

interpretation requests_move_aside: side_bystander "requests_progress d0" for d0
  by unfold_locales (simp_all add: frames_def progress_def find_row_def)

text \<open>The selection looks at what the invariant promises, so the two are kept together.\<close>

lemma kept_requests_progress: "kept (\<lambda>d. requests_ok d \<and> requests_progress d0 d)"
  unfolding kept_def
proof (intro allI impI conjI)
  fix w w' assume st: "step w w'" and ok: "requests_ok (w_db w) \<and> requests_progress d0 (w_db w)"
  show "requests_ok (w_db w')" using kept_requests st ok by (auto simp: kept_def)
  from ok have ok: "requests_ok (w_db w)" "requests_progress d0 (w_db w)" by auto
  from st show "requests_progress d0 (w_db w')"
  proof cases
    case side
    then show ?thesis using ok(2) by (rule requests_move_aside.side_kept)
  next
    case core
    then show ?thesis
      by (cases rule: core_step.cases)
       (auto intro!: keepsD ok requests_move_payment.charges requests_move_payment.settlement requests_move_payment.refunds
        requests_move_payment.payouts requests_move_payment.support requests_move_payment.reading
        keeps_requests_progress requests_progress_select)
  qed
qed

end
