(* ===== verification/Decisions.thy ===== *)
theory Decisions
  imports History
begin

text \<open>
  What becomes of a refund request and of a payout: it is decided once, and afterwards it never
  changes; and what is refunded of an intent never exceeds what was paid.  A decision passes
  through intermediate states inside its transaction, so the proofs use triples \<open>leads J K m\<close>
  that may change the predicate on the way.
\<close>

subsection \<open>Triples\<close>

text \<open>From \<open>J\<close>, the method returns with \<open>K\<close> or throws with \<open>X\<close>.\<close>

definition leads :: "(db \<Rightarrow> bool) \<Rightarrow> (db \<Rightarrow> bool) \<Rightarrow> (db \<Rightarrow> bool) \<Rightarrow> 'a svc \<Rightarrow> bool" where
  "leads J K X m \<longleftrightarrow> (\<forall>w. J (w_db w) \<longrightarrow> wp m (\<lambda>_ w'. K (w_db w')) (\<lambda>_ w'. X (w_db w')) w)"

lemma keeps_leads: "keeps J m \<longleftrightarrow> leads J J J m"
  by (simp add: leads_def keeps_wp)

lemma leads_keeps: "keeps J m \<Longrightarrow> (\<And>d. J d \<Longrightarrow> X d) \<Longrightarrow> leads J J X m"
  unfolding leads_def keeps_wp by (blast intro: wp_mono)

lemma leads_sbind: "leads J K X m \<Longrightarrow> (\<And>v. leads K L X (f v)) \<Longrightarrow> leads J L X (sbind m f)"
  unfolding leads_def wp_sbind by (blast intro: wp_mono)

lemma leads_sthen: "leads J K X m \<Longrightarrow> leads K L X k \<Longrightarrow> leads J L X (sthen m k)"
  by (simp add: sthen_def leads_sbind)

lemma leads_pre: "leads K L X m \<Longrightarrow> (\<And>d. J d \<Longrightarrow> K d) \<Longrightarrow> leads J L X m"
  unfolding leads_def by blast

lemma leads_guard: "(c \<Longrightarrow> leads J K X m) \<Longrightarrow> (\<And>d. J d \<Longrightarrow> X d) \<Longrightarrow> leads J K X (sthen (sguard c e) m)"
  by (simp add: leads_def wp_sthen wp_sguard)

lemma leads_require:
  "(\<And>r. leads (\<lambda>d. J d \<and> find_row T i d = Some r) K X (f r)) \<Longrightarrow> (\<And>d. J d \<Longrightarrow> X d) \<Longrightarrow>
    leads J K X (sbind (require T i e) f)"
  by (auto simp: leads_def wp_sbind wp_require split: option.split)

lemma leads_find:
  "(\<And>r. leads (\<lambda>d. J d \<and> find_row T i d = Some r) K X (f r)) \<Longrightarrow> (\<And>d. J d \<Longrightarrow> X d) \<Longrightarrow>
    leads J K X (sbind (findUniqueOrThrow T i) f)"
  by (auto simp: leads_def wp_sbind wp_findUniqueOrThrow split: option.split)

lemma leads_update:
  "(\<And>d r n. J d \<Longrightarrow> find_row T i d = Some r \<Longrightarrow> K (upd_rows T n (\<lambda>x. t_key T x = i) f d)) \<Longrightarrow>
    (\<And>d. J d \<Longrightarrow> X d) \<Longrightarrow> leads J K X (update E T i f)"
  by (auto simp: leads_def wp_update split: option.split)

lemma leads_create:
  "(\<And>d i. J d \<Longrightarrow> \<forall>x \<in> set (t_rows T d). t_key T x \<noteq> t_key T (mk i) \<Longrightarrow> K (t_put T (t_rows T d @ [mk i]) d)) \<Longrightarrow>
    (\<And>d. J d \<Longrightarrow> X d) \<Longrightarrow> leads J K X (create E T mk)"
  by (auto simp: leads_def wp_create Let_def)

text \<open>Inside a transaction an exception may leave anything: it is rolled back.\<close>

lemma leads_transact: "leads J K (\<lambda>_. True) m \<Longrightarrow> (\<And>d. J d \<Longrightarrow> X d) \<Longrightarrow> leads J K X (transact m)"
  unfolding leads_def wp_transact by (auto elim: wp_mono)

text \<open>Steps that only read carry every fact along.\<close>

lemma leads_read: "(\<And>I. keeps I m) \<Longrightarrow> (\<And>d. J d \<Longrightarrow> X d) \<Longrightarrow> (\<And>v. leads J K X (f v)) \<Longrightarrow> leads J K X (sbind m f)"
  by (rule leads_sbind [OF leads_keeps])

lemma leads_rest: "keeps K m \<Longrightarrow> (\<And>d. J d \<Longrightarrow> K d) \<Longrightarrow> leads J K K m"
  by (rule leads_pre [where K = K]) (simp_all add: keeps_leads)

subsection \<open>Refund requests are decided once\<close>

definition refund_step :: "refundStatus \<Rightarrow> refundStatus \<Rightarrow> bool" where
  "refund_step a b \<longleftrightarrow> (a = RF_PENDING \<and> b \<noteq> RF_PENDING) \<or>
     (a = RF_APPROVED \<and> b \<in> set [RF_PROCESSING, RF_SUCCEEDED, RF_FAILED])"

fun refund_rank :: "refundStatus \<Rightarrow> nat" where
  "refund_rank RF_PENDING = 0"
| "refund_rank RF_APPROVED = 1"
| "refund_rank _ = 2"

definition refund_final :: "refundStatus \<Rightarrow> bool" where
  "refund_final s \<longleftrightarrow> s \<notin> set [RF_PENDING, RF_APPROVED]"

interpretation refund_life: finite_lifecycle refund_step refund_rank refund_final 2
proof unfold_locales
  fix a b
  show "refund_step a b \<Longrightarrow> refund_rank a < refund_rank b"
    by (cases a; cases b) (simp_all add: refund_step_def)
  show "refund_final a \<Longrightarrow> \<not> refund_step a b"
    by (cases a) (simp_all add: refund_step_def refund_final_def)
  show "refund_rank a \<le> 2" by (cases a) simp_all
qed

definition refund_terms :: "refundRequest \<Rightarrow> id \<times> id \<times> id \<times> int \<times> string \<times> string \<times> string list \<times> time" where
  "refund_terms r = (rf_jobId r, rf_paymentIntentId r, rf_requestedByUserId r, rf_amount r, rf_currency r,
     rf_reason r, rf_evidenceItems r, rf_createdAt r)"

definition refund_moved :: "refundRequest \<Rightarrow> refundRequest \<Rightarrow> bool" where
  "refund_moved a b \<longleftrightarrow> refund_step\<^sup>*\<^sup>* (rf_status a) (rf_status b) \<and> refund_terms a = refund_terms b"

interpretation refund_progress: progressing refunds_t refund_moved
  by unfold_locales (auto simp: refund_moved_def)

abbreviation refunds_progress :: "db \<Rightarrow> db \<Rightarrow> bool" where
  "refunds_progress \<equiv> progress refunds_t refund_moved"

text \<open>What is paid back of an intent is covered by it; every refund has its intent; no request is
  left in the middle of its decision.\<close>

definition refunds_ok :: "db \<Rightarrow> bool" where
  "refunds_ok d \<longleftrightarrow> unique_ids refunds_t d
     \<and> (\<forall>r \<in> set (refunds d). rf_status r \<noteq> RF_APPROVED \<and> find_row intents_t (rf_paymentIntentId r) d \<noteq> None)
     \<and> (\<forall>i intent. find_row intents_t i d = Some intent \<longrightarrow> refunded_of i (refunds d) \<le> pi_amount intent)"

definition refunds_good :: "db \<Rightarrow> db \<Rightarrow> bool" where
  "refunds_good d0 d \<longleftrightarrow> refunds_ok d \<and> refunds_progress d0 d"

lemma refunds_good_frames:
  "frames (refunds_good d0) users_t" "frames (refunds_good d0) serviceRequests_t"
  "frames (refunds_good d0) invitations_t" "frames (refunds_good d0) proposals_t"
  "frames (refunds_good d0) jobs_t" "frames (refunds_good d0) notifications_t"
  "frames (refunds_good d0) transactions_t" "frames (refunds_good d0) ledger_t"
  "frames (refunds_good d0) payouts_t" "frames (refunds_good d0) incidents_t"
  "frames (refunds_good d0) incidentEvents_t" "frames (refunds_good d0) paymentEvents_t"
  by (simp_all add: frames_def refunds_good_def refunds_ok_def progress_def find_row_def unique_ids_def)

lemma refunds_good_intents:
  assumes "refunds_good d0 d" "\<And>r. pi_id (f r) = pi_id r" "\<And>r. pi_amount (f r) = pi_amount r"
  shows "refunds_good d0 (upd_rows intents_t n P f d)"
proof -
  have rows: "refunds (upd_rows intents_t n P f d) = refunds d"
    "unique_ids refunds_t (upd_rows intents_t n P f d) = unique_ids refunds_t d"
    "refunds_progress d0 (upd_rows intents_t n P f d) = refunds_progress d0 d"
    by (simp_all add: upd_rows_def unique_ids_def progress_def find_row_def)
  show ?thesis
    using assms by (auto simp: refunds_good_def refunds_ok_def rows tb_intents.find_row_upd)
qed

lemma refunded_of_none: "\<forall>r \<in> set rs. rf_paymentIntentId r \<noteq> i \<Longrightarrow> refunded_of i rs = 0"
  by (simp add: refunded_of_def filter_False)

lemma keeps_refunds_new_intent:
  assumes "\<And>i. 0 \<le> pi_amount (mk i)"
  shows "keeps (refunds_good d0) (create E intents_t mk)"
proof (rule keeps_create)
  fix d i assume J: "refunds_good d0 d"
    and new: "\<forall>x \<in> set (t_rows intents_t d). t_key intents_t x \<noteq> t_key intents_t (mk i) \<and> \<not> t_clash intents_t x (mk i)"
  have find: "find_row intents_t k (d\<lparr>intents := intents d @ [mk i]\<rparr>) =
      (if k = pi_id (mk i) then Some (mk i) else find_row intents_t k d)" for k
    using tb_intents.find_row_append [of d "mk i" k] new by simp
  have fresh: "find_row intents_t (pi_id (mk i)) d = None"
    using new by (auto simp: find_row_def find_None_iff)
  have "\<forall>r \<in> set (refunds d). rf_paymentIntentId r \<noteq> pi_id (mk i)"
    using J fresh by (auto simp: refunds_good_def refunds_ok_def)
  then have "refunded_of (pi_id (mk i)) (refunds d) = 0" by (rule refunded_of_none)
  moreover have "refunds_progress d0 (d\<lparr>intents := x\<rparr>) = refunds_progress d0 d"
    "unique_ids refunds_t (d\<lparr>intents := x\<rparr>) = unique_ids refunds_t d" for x
    by (simp_all add: progress_def find_row_def unique_ids_def)
  ultimately show "refunds_good d0 (t_put intents_t (t_rows intents_t d @ [mk i]) d)"
    using J assms [of i] by (auto simp: refunds_good_def refunds_ok_def find)
qed

lemmas refunds_good_rules = keeps_rules keeps_frame refunds_good_frames

lemma split_ok_amount: "split_ok i \<Longrightarrow> 0 \<le> pi_amount i"
  by (auto simp: split_ok_def)

interpretation refunds_at_charge: charge_bystander "refunds_good d0" for d0
proof unfold_locales
  show "keeps (refunds_good d0) (create E intents_t (newIntent E u j a wu p))" for d0 E u j a wu p
    by (rule keeps_refunds_new_intent) (rule split_ok_amount [OF split_ok_newIntent])
  show "keeps (refunds_good d0) (update E intents_t i (\<lambda>r. r\<lparr>pi_status := s\<rparr>))" for d0 E i s
    by (rule keeps_update) (simp add: refunds_good_intents)
qed (simp_all add: refunds_good_rules)

interpretation refunds_at_payout: payout_bystander "refunds_good d0" for d0
  by unfold_locales (simp_all add: refunds_good_frames)

interpretation refunds_at_support: support_bystander "refunds_good d0" for d0
  by unfold_locales (simp_all add: refunds_good_frames)

interpretation refunds_at_inbox: inbox_bystander "refunds_good d0" for d0
  by unfold_locales (simp_all add: refunds_good_frames)

interpretation refunds_at_request: request_bystander "refunds_good d0" for d0
  by unfold_locales (simp_all add: refunds_good_frames)

lemma keeps_refunds_jobs: "keeps (refunds_good d0) (updateStatus E j u nxt reason)"
    "keeps (refunds_good d0) (selectProposal E i k u percent)"
proof -
  have "keeps (refunds_good d0) (updateMany E intents_t P (\<lambda>i. i\<lparr>pi_status := PI_CANCELED\<rparr>))" for P
    by (rule keeps_updateMany) (simp add: refunds_good_intents)
  then show "keeps (refunds_good d0) (updateStatus E j u nxt reason)"
    by (simp add: keeps_updateStatus_frame refunds_good_frames)
  show "keeps (refunds_good d0) (selectProposal E i k u percent)"
    by (rule keeps_selectProposal)
      (simp_all add: refunds_good_rules keeps_refunds_new_intent split_ok_amount [OF split_ok_depositIntent])
qed

subsection \<open>Requesting and closing\<close>

text \<open>A new request is pending, on an intent that exists.\<close>

lemma refunds_good_append:
  assumes J: "refunds_good d0 d" and new: "\<forall>x \<in> set (refunds d). rf_id x \<noteq> rf_id r"
    and r: "rf_status r = RF_PENDING" "find_row intents_t (rf_paymentIntentId r) d \<noteq> None"
  shows "refunds_good d0 (d\<lparr>refunds := refunds d @ [r]\<rparr>)"
proof -
  have fr: "find_row intents_t i (d\<lparr>refunds := x\<rparr>) = find_row intents_t i d" for i x
    by (simp add: find_row_def)
  have "refunds_progress d0 (d\<lparr>refunds := refunds d @ [r]\<rparr>)"
    using refund_progress.append [of d0 d r] J new by (simp add: refunds_good_def)
  moreover have "unique_ids refunds_t (d\<lparr>refunds := refunds d @ [r]\<rparr>)"
    using tb_refunds.unique_ids_append [of d r] J new by (simp add: refunds_good_def refunds_ok_def)
  moreover have "refunded_of i (refunds d @ [r]) = refunded_of i (refunds d)" for i
    using r(1) by (simp add: refunded_of_def)
  ultimately show ?thesis
    using J r by (auto simp: refunds_good_def refunds_ok_def fr)
qed

text \<open>Writing the one row of a pending request.\<close>

lemma refunded_of_Cons: "refunded_of i (x # xs) =
    (if rf_paymentIntentId x = i \<and> rf_status x = RF_SUCCEEDED then rf_amount x else 0) + refunded_of i xs"
  by (simp add: refunded_of_def)

lemma refunds_upd: "refunds (upd_rows refunds_t n P f d) =
    map (\<lambda>r. if P r then (f r)\<lparr>rf_updatedAt := n\<rparr> else r) (refunds d)"
  by (simp add: upd_rows_def cong: if_cong)

lemma refunded_upd:
  assumes "\<And>x. rf_paymentIntentId (f x) = rf_paymentIntentId x" "\<And>x. rf_amount (f x) = rf_amount x"
    and "unique_ids refunds_t d" "find_row refunds_t k d = Some r" "rf_status r \<noteq> RF_SUCCEEDED"
  shows "refunded_of i (refunds (upd_rows refunds_t n (\<lambda>x. rf_id x = k) f d)) = refunded_of i (refunds d) +
    (if rf_status (f r) = RF_SUCCEEDED \<and> rf_paymentIntentId r = i then rf_amount r else 0)"
proof -
  have r: "r \<in> set (refunds d)" "rf_id r = k" using find_row_SomeD [OF assms(4)] by simp_all
  have others: "x \<in> set (refunds d) \<Longrightarrow> rf_id x = k \<Longrightarrow> x = r" for x
    using tb_refunds.unique_row [OF assms(3,4)] by simp
  let ?g = "\<lambda>x. if rf_id x = k then (f x)\<lparr>rf_updatedAt := n\<rparr> else x"
  let ?extra = "if rf_status (f r) = RF_SUCCEEDED \<and> rf_paymentIntentId r = i then rf_amount r else 0"
  have "refunded_of i (map ?g xs) = refunded_of i xs + (if r \<in> set xs then ?extra else 0)"
    if "distinct (map rf_id xs)" "\<forall>x \<in> set xs. rf_id x = k \<longrightarrow> x = r" for xs
    using that
  proof (induction xs)
    case (Cons x xs)
    have IH: "refunded_of i (map ?g xs) = refunded_of i xs + (if r \<in> set xs then ?extra else 0)"
      using Cons by simp
    show ?case
    proof (cases "x = r")
      case True
      then have "r \<notin> set xs" using Cons.prems(1) by auto
      then show ?thesis using IH True r(2) assms(1,2,5) by (simp add: refunded_of_Cons)
    next
      case False
      then have "rf_id x \<noteq> k" using Cons.prems(2) by auto
      then show ?thesis using IH False by (simp add: refunded_of_Cons)
    qed
  qed (simp add: refunded_of_def)
  moreover have "refunds (upd_rows refunds_t n (\<lambda>x. rf_id x = k) f d) = map ?g (refunds d)"
    by (rule refunds_upd)
  ultimately show ?thesis
    using assms(3) others r(1) by (simp add: unique_ids_def)
qed

lemma refunds_upd_intents: "find_row intents_t i (upd_rows refunds_t n P f d) = find_row intents_t i d"
  by (simp add: find_row_def upd_rows_def)

text \<open>Deciding a request of an invariant state: to any final status but a success that is not covered.\<close>

lemma refunds_good_decide:
  assumes J: "refunds_good d0 d" and r: "find_row refunds_t k d = Some r" "rf_status r = RF_PENDING"
    and f: "\<And>x. rf_id (f x) = rf_id x" "\<And>x. refund_terms (f x) = refund_terms x" "rf_status (f r) = s" "refund_final s"
    and cap: "\<And>intent. s = RF_SUCCEEDED \<Longrightarrow> find_row intents_t (rf_paymentIntentId r) d = Some intent \<Longrightarrow>
      refunded_of (rf_paymentIntentId r) (refunds d) + rf_amount r \<le> pi_amount intent"
  shows "refunds_good d0 (upd_rows refunds_t n (\<lambda>x. rf_id x = k) f d)"
proof -
  let ?d = "upd_rows refunds_t n (\<lambda>x. rf_id x = k) f d"
  have U: "unique_ids refunds_t d" using J by (simp add: refunds_good_def refunds_ok_def)
  have terms: "rf_paymentIntentId (f x) = rf_paymentIntentId x" "rf_amount (f x) = rf_amount x" for x
    using f(2) [of x] by (simp_all add: refund_terms_def)
  have moved: "refund_moved r ((f r)\<lparr>rf_updatedAt := n\<rparr>)"
    using r(2) f(2) [of r] f(3,4) by (auto simp: refund_moved_def refund_terms_def refund_step_def refund_final_def)
  have "refunds_progress d0 ?d"
    using refund_progress.upd_one [of d0 d f k n] J r(1) f(1) moved by (simp add: refunds_good_def)
  moreover have "unique_ids refunds_t ?d" using U f(1) by (simp add: tb_refunds.unique_ids_upd)
  moreover have "\<forall>x \<in> set (refunds ?d). rf_status x \<noteq> RF_APPROVED \<and> find_row intents_t (rf_paymentIntentId x) d \<noteq> None"
  proof -
    define Q where "Q x \<longleftrightarrow> rf_status x \<noteq> RF_APPROVED \<and> find_row intents_t (rf_paymentIntentId x) d \<noteq> None" for x :: refundRequest
    have all: "\<forall>x \<in> set (t_rows refunds_t d). Q x"
      using J unfolding Q_def refunds_good_def refunds_ok_def refunds_t_simps(1) by blast
    moreover have "r \<in> set (t_rows refunds_t d)" using find_row_SomeD [OF r(1)] by simp
    ultimately have "Q r" by blast
    then have "Q (t_touch refunds_t n (f r))"
      using f(3,4) terms(1) by (simp add: Q_def refund_final_def)
    from tb_refunds.ball_upd_row [where Q = Q and f = f and n = n, OF U r(1) all this] show ?thesis
      unfolding Q_def refunds_t_simps(1,3) .
  qed
  moreover have "refunded_of i (refunds ?d) \<le> pi_amount x" if "find_row intents_t i d = Some x" for i x
  proof -
    have base: "refunded_of i (refunds d) \<le> pi_amount x"
      using J that by (simp add: refunds_good_def refunds_ok_def)
    have "refunded_of i (refunds ?d) = refunded_of i (refunds d) +
        (if s = RF_SUCCEEDED \<and> rf_paymentIntentId r = i then rf_amount r else 0)"
      using refunded_upd [OF terms U r(1), of i n] r(2) f(3) by simp
    then show ?thesis using base cap [of x] that by (cases "s = RF_SUCCEEDED \<and> rf_paymentIntentId r = i") auto
  qed
  ultimately show ?thesis
    by (simp add: refunds_good_def refunds_ok_def refunds_upd_intents)
qed

subsection \<open>The decision of an approval\<close>

lemma refunds_good_cong: "refunds d = refunds d' \<Longrightarrow> intents d = intents d' \<Longrightarrow> refunds_good d0 d = refunds_good d0 d'"
  by (simp add: refunds_good_def refunds_ok_def progress_def find_row_def unique_ids_def)

definition pending_row :: "db \<Rightarrow> refundRequest \<Rightarrow> db \<Rightarrow> bool" where
  "pending_row d0 r d \<longleftrightarrow> refunds_good d0 d \<and> find_row refunds_t (rf_id r) d = Some r \<and> rf_status r = RF_PENDING"

definition covered :: "db \<Rightarrow> refundRequest \<Rightarrow> db \<Rightarrow> bool" where
  "covered d0 r d \<longleftrightarrow> pending_row d0 r d \<and>
     (\<forall>intent. find_row intents_t (rf_paymentIntentId r) d = Some intent \<longrightarrow>
        refunded_of (rf_paymentIntentId r) (refunds d) + rf_amount r \<le> pi_amount intent)"

definition approving :: "db \<Rightarrow> refundRequest \<Rightarrow> db \<Rightarrow> bool" where
  "approving d0 r d \<longleftrightarrow> (\<exists>d1 n u x. covered d0 r d1 \<and> intents d = intents d1 \<and> refunds d =
     refunds (upd_rows refunds_t n (\<lambda>y. rf_id y = rf_id r)
       (\<lambda>y. y\<lparr>rf_status := RF_APPROVED, rf_approvedByUserId := u, rf_decisionNote := x\<rparr>) d1))"

lemma approving_frames [keeps_rules]:
  "frames (approving d0 r) transactions_t" "frames (approving d0 r) notifications_t"
  by (simp_all add: frames_def approving_def)

lemma refunds_upd_twice:
  assumes "refunds d = refunds (upd_rows refunds_t n' (\<lambda>y. rf_id y = k) f d1)" "\<And>y. rf_id (f y) = rf_id y"
  shows "refunds (upd_rows refunds_t n (\<lambda>y. rf_id y = k) g d) =
    refunds (upd_rows refunds_t n (\<lambda>y. rf_id y = k) (\<lambda>y. g ((f y)\<lparr>rf_updatedAt := n'\<rparr>)) d1)"
  unfolding refunds_upd assms(1) map_map
  by (rule map_cong [OF refl]) (simp add: assms(2))

lemma approving_settled:
  assumes "approving d0 r d" "\<And>x. rf_id (f x) = rf_id x" "\<And>x. refund_terms (f x) = refund_terms x"
    and "\<And>x. rf_status (f x) = s" "refund_final s"
  shows "refunds_good d0 (upd_rows refunds_t n (\<lambda>x. rf_id x = rf_id r) f d)"
proof -
  obtain d1 n' u x where d1: "covered d0 r d1" "intents d = intents d1" "refunds d =
     refunds (upd_rows refunds_t n' (\<lambda>y. rf_id y = rf_id r)
       (\<lambda>y. y\<lparr>rf_status := RF_APPROVED, rf_approvedByUserId := u, rf_decisionNote := x\<rparr>) d1)"
    using assms(1) unfolding approving_def by blast
  let ?g = "\<lambda>y. y\<lparr>rf_status := RF_APPROVED, rf_approvedByUserId := u, rf_decisionNote := x\<rparr>"
  let ?f = "\<lambda>y. f ((?g y)\<lparr>rf_updatedAt := n'\<rparr>)"
  have c: "refunds_good d0 d1" "find_row refunds_t (rf_id r) d1 = Some r" "rf_status r = RF_PENDING"
    using d1(1) by (simp_all add: covered_def pending_row_def)
  have "refunds_good d0 (upd_rows refunds_t n (\<lambda>x. rf_id x = rf_id r) ?f d1)"
  proof (rule refunds_good_decide [where r = r and s = s, OF c])
    show "refund_terms (?f y) = refund_terms y" for y
      unfolding assms(3) by (simp add: refund_terms_def)
    show "rf_id (?f y) = rf_id y" for y unfolding assms(2) by simp
    show "rf_status (?f r) = s" by (rule assms(4))
    show "refunded_of (rf_paymentIntentId r) (refunds d1) + rf_amount r \<le> pi_amount intent"
      if "find_row intents_t (rf_paymentIntentId r) d1 = Some intent" for intent
      using d1(1) that by (simp add: covered_def)
  qed (rule assms(5))
  moreover have "refunds_good d0 (upd_rows refunds_t n (\<lambda>x. rf_id x = rf_id r) f d) =
      refunds_good d0 (upd_rows refunds_t n (\<lambda>x. rf_id x = rf_id r) ?f d1)"
  proof (rule refunds_good_cong)
    show "refunds (upd_rows refunds_t n (\<lambda>x. rf_id x = rf_id r) f d) =
        refunds (upd_rows refunds_t n (\<lambda>x. rf_id x = rf_id r) ?f d1)"
      by (rule refunds_upd_twice [OF d1(3)]) simp
    have "intents (upd_rows refunds_t n P h e) = intents e" for P h e
      by (simp add: upd_rows_def)
    then show "intents (upd_rows refunds_t n (\<lambda>x. rf_id x = rf_id r) f d) =
        intents (upd_rows refunds_t n (\<lambda>x. rf_id x = rf_id r) ?f d1)"
      by (simp only: d1(2))
  qed
  ultimately show ?thesis by simp
qed

lemma next_refund_final: "refund_final (next_refund_status t)"
  by (cases t) (simp_all add: refund_final_def)

lemma keeps_gw [keeps_rules]: "keeps J (requestRefund E g x)"
  by (rule gw_refund.keeps_call)

lemma leads_settleRefund: "leads (approving d0 r) (refunds_good d0) (\<lambda>_. True) (settleRefund E r intent u x result)"
  unfolding settleRefund_def Let_def
proof (intro leads_sbind leads_sthen)
  show "leads (approving d0 r) (approving d0 r) (\<lambda>_. True) (create E transactions_t (refund_transaction E r result))"
    by (rule leads_keeps) (simp_all add: keeps_rules keeps_frame)
  show "leads (approving d0 r) (refunds_good d0) (\<lambda>_. True) (update E refunds_t (rf_id r)
      (\<lambda>y. y\<lparr>rf_status := next_refund_status (tx_status t), rf_transactionId := Some (tx_id t),
          rf_providerReference := tx_providerReference t, rf_processedAt := tx_processedAt t,
          rf_failureReason := tx_failureReason t\<rparr>))" for t
    by (rule leads_update)
      (simp_all add: approving_settled refund_terms_def next_refund_final)
  show "leads (refunds_good d0) (refunds_good d0) (\<lambda>_. True) (sreturn ())"
    by (rule leads_keeps) (simp_all add: keeps_rules)
  show "leads (refunds_good d0) (refunds_good d0) (\<lambda>_. True) (syncRefundCaseDecision E i)" for i
    by (rule leads_keeps) (simp_all add: keeps_sync_frame refunds_good_frames)
  show "leads (refunds_good d0) (refunds_good d0) (\<lambda>_. True) (swhen c (appendRefundLedgerEntries E intent k a p q u))" for c k a p q
    by (rule leads_keeps)
      (simp_all add: appendRefundLedgerEntries_def Let_def keeps_rules keeps_appendEntries_frame refunds_good_frames)
  show "leads (refunds_good d0) (refunds_good d0) (\<lambda>_. True) (findUniqueOrThrow refunds_t (rf_id r))"
    by (rule leads_keeps) (simp_all add: keeps_rules)
qed (rule leads_keeps, simp_all add: keeps_rules)

lemma leads_remaining:
  assumes "\<And>n. leads (\<lambda>d. J d \<and> (\<exists>it. find_row intents_t i d = Some it \<and>
      n = max 0 (pi_amount it - refunded_of i (refunds d)))) K X (f n)" "\<And>d. J d \<Longrightarrow> X d"
  shows "leads J K X (sbind (getRemainingRefundableAmount i) f)"
  using assms
  by (auto simp: leads_def getRemainingRefundableAmount_def wp_simps split: option.split)

lemma leads_fact: "(\<And>d. J d \<Longrightarrow> P) \<Longrightarrow> (P \<Longrightarrow> leads J K X m) \<Longrightarrow> leads J K X m"
  unfolding leads_def by blast

lemma covered_approving:
  "covered d0 r d \<Longrightarrow> approving d0 r (upd_rows refunds_t n (\<lambda>y. rf_id y = rf_id r)
     (\<lambda>y. y\<lparr>rf_status := RF_APPROVED, rf_approvedByUserId := u, rf_decisionNote := x\<rparr>) d)"
  unfolding approving_def
  by (intro exI [of _ d] exI [of _ n] exI [of _ u] exI [of _ x]) (simp add: upd_rows_def)

lemma leads_approve: "leads (covered d0 r) (refunds_good d0) (\<lambda>_. True)
    (sbind (require refunds_t (rf_id r) refundNotFound) (\<lambda>refundRec.
      sthen (sguard (rf_status refundRec = RF_PENDING) onlyPendingApprove)
      (sthen (sbind (update E refunds_t (rf_id refundRec)
         (\<lambda>r. r\<lparr>rf_status := RF_APPROVED, rf_approvedByUserId := Some u,
           rf_decisionNote := or_opt (trim_or_null note) (rf_decisionNote refundRec)\<rparr>)) (\<lambda>_. sreturn ()))
       (sbind (getAdapter (rf_provider refundRec)) (\<lambda>gateway.
        sbind (requestRefund E gateway (input refundRec)) (\<lambda>result.
        settleRefund E refundRec intent u note result))))))"
proof (rule leads_require)
  fix r'
  have same: "covered d0 r d \<and> find_row refunds_t (rf_id r) d = Some r' \<Longrightarrow> r' = r" for d
    by (auto simp: covered_def pending_row_def)
  show "leads (\<lambda>d. covered d0 r d \<and> find_row refunds_t (rf_id r) d = Some r') (refunds_good d0) (\<lambda>_. True)
    (sthen (sguard (rf_status r' = RF_PENDING) onlyPendingApprove)
      (sthen (sbind (update E refunds_t (rf_id r')
         (\<lambda>r. r\<lparr>rf_status := RF_APPROVED, rf_approvedByUserId := Some u,
           rf_decisionNote := or_opt (trim_or_null note) (rf_decisionNote r')\<rparr>)) (\<lambda>_. sreturn ()))
       (sbind (getAdapter (rf_provider r')) (\<lambda>gateway.
        sbind (requestRefund E gateway (input r')) (\<lambda>result.
        settleRefund E r' intent u note result)))))"
  proof (rule leads_fact [OF same])
    assume "r' = r"
    then show ?thesis
      by (intro leads_guard leads_sthen [where K = "approving d0 r"] leads_sbind [where K = "approving d0 r" and m = "update _ _ _ _"]
          leads_update leads_read leads_settleRefund)
        (simp_all add: covered_approving leads_keeps leads_settleRefund keeps_rules)
  qed
qed simp

lemma covered_pending:
  assumes J: "refunds_good d0 d" and r: "find_row refunds_t k d = Some r" "rf_status r = RF_PENDING"
    and it: "find_row intents_t (rf_paymentIntentId r) d = Some it"
    and le: "rf_amount r \<le> max 0 (pi_amount it - refunded_of (rf_paymentIntentId r) (refunds d))"
  shows "covered d0 r d"
proof -
  have "refunded_of (rf_paymentIntentId r) (refunds d) \<le> pi_amount it"
    using J it by (simp add: refunds_good_def refunds_ok_def)
  then show ?thesis
    using assms find_row_SomeD [OF r(1)] by (simp add: covered_def pending_row_def)
qed

lemma keeps_refunds_process: "keeps (refunds_good d0) (processRefundRequest E k u note)"
  unfolding keeps_leads processRefundRequest_def
proof (rule leads_require, rule leads_guard, rule leads_find, rule leads_guard, rule leads_remaining, rule leads_guard,
    rule leads_transact, rule leads_pre [OF leads_approve])
  fix refund intent n d
  assume "rf_status refund = RF_PENDING" "rf_amount refund \<le> n"
    and d: "((refunds_good d0 d \<and> find_row refunds_t k d = Some refund) \<and>
      find_row intents_t (rf_paymentIntentId refund) d = Some intent) \<and>
      (\<exists>it. find_row intents_t (pi_id intent) d = Some it \<and> n = max 0 (pi_amount it - refunded_of (pi_id intent) (refunds d)))"
  moreover have "pi_id intent = rf_paymentIntentId refund" using d by (auto dest: find_row_SomeD)
  ultimately show "covered d0 refund d"
    by (auto intro!: covered_pending)
qed auto

subsection \<open>The other refund operations\<close>

lemma leads_close:
  assumes "\<And>x. rf_id (f x) = rf_id x" "\<And>x. refund_terms (f x) = refund_terms x" "\<And>x. rf_status (f x) = s"
    and "refund_final s" "s \<noteq> RF_SUCCEEDED"
  shows "leads (pending_row d0 r) (refunds_good d0) (refunds_good d0) (closeRefund E (rf_id r) f dc)"
  unfolding closeRefund_def
proof (rule leads_transact)
  have "leads (pending_row d0 r) (refunds_good d0) (\<lambda>_. True) (update E refunds_t (rf_id r) f)"
    by (rule leads_update) (auto simp: pending_row_def assms intro!: refunds_good_decide)
  then show "leads (pending_row d0 r) (refunds_good d0) (\<lambda>_. True)
      (sthen (sbind (update E refunds_t (rf_id r) f) (\<lambda>_. sreturn ()))
       (sthen (sbind (syncRefundCaseDecision E dc) (\<lambda>_. sreturn ())) (findUniqueOrThrow refunds_t (rf_id r))))"
    by (rule leads_sthen [OF leads_sbind])
      (rule leads_keeps, simp_all add: keeps_rules keeps_sync_frame refunds_good_frames)+
qed (simp add: pending_row_def)

lemma pending_rowI:
  assumes "refunds_good d0 d \<and> find_row refunds_t k d = Some r" "rf_status r = RF_PENDING"
  shows "pending_row d0 r d"
proof -
  have "rf_id r = k" using assms(1) find_row_SomeD [of refunds_t k d r] by simp
  then show ?thesis using assms by (simp add: pending_row_def)
qed

lemma leads_close_then:
  assumes "rf_status r = RF_PENDING" "\<And>v. keeps (refunds_good d0) (g v)"
    and "\<And>x. rf_id (f x) = rf_id x" "\<And>x. refund_terms (f x) = refund_terms x" "\<And>x. rf_status (f x) = s"
    and "refund_final s" "s \<noteq> RF_SUCCEEDED"
  shows "leads (\<lambda>d. refunds_good d0 d \<and> find_row refunds_t k d = Some r) (refunds_good d0) (refunds_good d0)
    (sbind (closeRefund E (rf_id r) f dc) g)"
proof (rule leads_sbind)
  show "leads (\<lambda>d. refunds_good d0 d \<and> find_row refunds_t k d = Some r) (refunds_good d0) (refunds_good d0)
      (closeRefund E (rf_id r) f dc)"
    by (rule leads_pre [OF leads_close [OF assms(3-7)]]) (rule pending_rowI [OF _ assms(1)])
  show "leads (refunds_good d0) (refunds_good d0) (refunds_good d0) (g v)" for v
    using assms(2) by (simp add: keeps_leads)
qed

lemma keeps_notify_good: "keeps (refunds_good d0) (notifyRefundRequested E a r u)"
    "keeps (refunds_good d0) (notifyRefundStatusUpdate E a r u t s n aud)"
  by (simp_all add: keeps_rules refunds_good_frames)

lemma keeps_refunds_cancel: "keeps (refunds_good d0) (cancelRefundRequest E k a)"
  unfolding keeps_leads cancelRefundRequest_def
  by (intro leads_require leads_read [where m = "findUniqueOrThrow _ _"] leads_read [where m = "resolveJobAccess _ _"]
      leads_guard leads_close_then keeps_sthen keeps_notify_good)
    (auto simp: refund_terms_def refund_final_def keeps_rules)

lemma keeps_refunds_reject: "keeps (refunds_good d0) (adminRejectRefund E u k s n)"
  unfolding keeps_leads adminRejectRefund_def Let_def
  by (intro leads_require leads_read [where m = "findUniqueOrThrow _ _"]
      leads_guard leads_close_then keeps_sthen keeps_sbind keeps_notify_good)
    (auto simp: refund_terms_def refund_final_def keeps_rules)

lemma keeps_refunds_approve: "keeps (refunds_good d0) (adminApproveRefund E u k n)"
  by (simp add: adminApproveRefund_def Let_def keeps_rules keeps_refunds_process refunds_good_frames)

text \<open>New requests are on intents that were read.\<close>

lemma leads_new_refund:
  assumes "\<And>d. J d \<Longrightarrow> refunds_good d0 d \<and> find_row intents_t (pi_id intent) d \<noteq> None" "\<And>d. J d \<Longrightarrow> X d"
  shows "leads J (refunds_good d0) X (create E refunds_t (newRefund E j intent u a reason ev))"
proof (rule leads_create)
  fix d i assume "J d" "\<forall>x \<in> set (t_rows refunds_t d). t_key refunds_t x \<noteq> t_key refunds_t (newRefund E j intent u a reason ev i)"
  then show "refunds_good d0 (t_put refunds_t (t_rows refunds_t d @ [newRefund E j intent u a reason ev i]) d)"
    using assms(1) [of d] refunds_good_append [of d0 d "newRefund E j intent u a reason ev i"] by (simp add: newRefund_def)
qed (rule assms(2))

lemma find_row_member: "x \<in> set (t_rows T d) \<Longrightarrow> find_row T (t_key T x) d \<noteq> None"
  by (auto simp: find_row_def find_None_iff)

lemma find_row_key: "find_row intents_t k d = Some i \<Longrightarrow> \<exists>y. find_row intents_t (pi_id i) d = Some y"
  using find_row_SomeD [of intents_t k d i] by auto

lemma leads_latest:
  assumes "\<And>x :: paymentIntent option. leads (\<lambda>d. J d \<and> (\<forall>i. x = Some i \<longrightarrow> find_row intents_t (pi_id i) d \<noteq> None)) K X (f x)"
  shows "leads J K X (sbind (getLatestPaidIntent j) f)"
  unfolding leads_def
proof (intro allI impI)
  fix w :: world assume J: "J (w_db w)"
  let ?x = "first_of (sort_desc pi_order (filter (\<lambda>i. pi_jobId i = j \<and> paid_status (pi_status i)) (intents (w_db w))))"
  have "find_row intents_t (pi_id i) (w_db w) \<noteq> None" if "?x = Some i" for i :: paymentIntent
    using find_row_member [of i intents_t "w_db w"] that by (auto dest!: first_of_SomeD)
  then show "wp (sbind (getLatestPaidIntent j) f) (\<lambda>_ w'. K (w_db w')) (\<lambda>_ w'. X (w_db w')) w"
    using assms [of ?x] J by (simp add: leads_def getLatestPaidIntent_def wp_simps)
qed

lemma leads_sopt:
  "(\<And>v. x = Some v \<Longrightarrow> leads J K X (f v)) \<Longrightarrow> (\<And>d. J d \<Longrightarrow> X d) \<Longrightarrow> leads J K X (sbind (sopt x e) f)"
  by (auto simp: leads_def wp_simps split: option.split)

lemma leads_new_then:
  assumes "\<And>d. J d \<Longrightarrow> refunds_good d0 d \<and> find_row intents_t (pi_id intent) d \<noteq> None" "\<And>d. J d \<Longrightarrow> X d"
    and "\<And>v. keeps (refunds_good d0) (g v)" "\<And>d. refunds_good d0 d \<Longrightarrow> X d"
  shows "leads J (refunds_good d0) X (sbind (create E refunds_t (newRefund E j intent u a reason ev)) g)"
  by (rule leads_sbind [where K = "refunds_good d0"])
    (use assms in \<open>auto intro!: leads_new_refund leads_keeps\<close>)

lemma leads_bind_rest: "leads J K K m \<Longrightarrow> (\<And>v. keeps K (f v)) \<Longrightarrow> leads J K K (sbind m f)"
  by (rule leads_sbind [where K = K]) (simp_all add: keeps_leads)

lemma keeps_refunds_request: "keeps (refunds_good d0) (createJobRefundRequest E j a dto)"
  unfolding keeps_leads createJobRefundRequest_def
  by (rule leads_read [where m = "getAccessibleJobOrThrow _ _"], simp add: keeps_rules, simp, rule leads_latest, rule leads_sopt,
    rule leads_read, simp add: keeps_rules, simp, rule leads_guard, rule leads_read, simp add: keeps_rules, simp,
    rule leads_guard, rule leads_guard, rule leads_bind_rest, rule leads_transact, rule leads_new_then)
    (auto simp: keeps_rules refunds_good_frames keeps_ensure_frame)

lemma keeps_refunds_admin_create: "keeps (refunds_good d0) (adminCreateRefund E u k dto)"
  unfolding keeps_leads adminCreateRefund_def
  by (rule leads_require, rule leads_guard, rule leads_read, simp add: keeps_rules, simp, rule leads_guard, rule leads_guard,
    rule leads_new_then)
    (auto simp: keeps_rules refunds_good_frames keeps_refunds_process intro: find_row_key)

interpretation refunds_aside: side_bystander "refunds_good d0" for d0
  by unfold_locales (unfold frames_def, (intro allI refunds_good_cong; simp)+)

lemma kept_refunds: "kept (refunds_good d0)"
proof (rule keptI)
  fix w w' assume "core_step w w'" and ok: "refunds_good d0 (w_db w)"
  from this(1) show "refunds_good d0 (w_db w')"
    by (cases rule: core_step.cases)
      (auto intro!: keepsD ok refunds_at_charge.charges refunds_at_charge.settlement keeps_refunds_request
        keeps_refunds_cancel keeps_refunds_approve keeps_refunds_reject keeps_refunds_admin_create
        refunds_at_payout.payouts refunds_at_support.support refunds_at_inbox.reading
        refunds_at_request.requests refunds_at_request.invitations refunds_at_request.submit keeps_refunds_jobs)
qed (rule refunds_aside.side_kept)

lemma seeded_refunds_ok: "seeded d \<Longrightarrow> refunds_ok d"
  by (simp add: refunds_ok_def unique_ids_def refunded_of_def find_row_def)

lemma kept_refunds_ok: "kept refunds_ok"
proof -
  have "refunds_ok (w_db w')" if "step w w'" "refunds_ok (w_db w)" for w w'
    using kept_refunds [of "w_db w"] that refund_progress.start [of "w_db w"]
    by (auto simp: kept_def refunds_good_def)
  then show ?thesis by (simp add: kept_def)
qed

text \<open>Once out of \<open>RF_PENDING\<close> a request is as it will be.\<close>

lemma refunds_final:
  assumes "refunds_good d0 d" "find_row refunds_t i d0 = Some r" "refund_final (rf_status r)"
  shows "\<exists>r'. find_row refunds_t i d = Some r' \<and> rf_status r' = rf_status r \<and> refund_terms r' = refund_terms r"
  using progressD [of refunds_t refund_moved d0 d i r] assms refund_life.terminal_steps [of "rf_status r"]
  by (auto simp: refunds_good_def refund_moved_def)

subsection \<open>Payouts are decided once\<close>

definition payout_step :: "payoutStatus \<Rightarrow> payoutStatus \<Rightarrow> bool" where
  "payout_step a b \<longleftrightarrow> (a = PO_PENDING \<and> b = PO_APPROVED) \<or>
     (a = PO_APPROVED \<and> b \<in> set [PO_PROCESSING, PO_PAID, PO_FAILED])"

fun payout_rank :: "payoutStatus \<Rightarrow> nat" where
  "payout_rank PO_PENDING = 0"
| "payout_rank PO_APPROVED = 1"
| "payout_rank _ = 2"

definition payout_final :: "payoutStatus \<Rightarrow> bool" where
  "payout_final s \<longleftrightarrow> s \<notin> set [PO_PENDING, PO_APPROVED]"

interpretation payout_life: finite_lifecycle payout_step payout_rank payout_final 2
proof unfold_locales
  fix a b
  show "payout_step a b \<Longrightarrow> payout_rank a < payout_rank b"
    by (cases a; cases b) (simp_all add: payout_step_def)
  show "payout_final a \<Longrightarrow> \<not> payout_step a b"
    by (cases a) (simp_all add: payout_step_def payout_final_def)
  show "payout_rank a \<le> 2" by (cases a) simp_all
qed

definition payout_terms :: "payout \<Rightarrow> id \<times> id option \<times> id option \<times> int \<times> string \<times> paymentProvider \<times> time" where
  "payout_terms p = (po_providerUserId p, po_jobId p, po_paymentIntentId p, po_amount p, po_currency p,
     po_provider p, po_createdAt p)"

definition payout_moved :: "payout \<Rightarrow> payout \<Rightarrow> bool" where
  "payout_moved a b \<longleftrightarrow> payout_step\<^sup>*\<^sup>* (po_status a) (po_status b) \<and> payout_terms a = payout_terms b"

interpretation payout_progress: progressing payouts_t payout_moved
  by unfold_locales (auto simp: payout_moved_def)

abbreviation payouts_progress :: "db \<Rightarrow> db \<Rightarrow> bool" where
  "payouts_progress \<equiv> progress payouts_t payout_moved"

lemma payouts_frames:
  "frames (payouts_progress d0) users_t" "frames (payouts_progress d0) serviceRequests_t"
  "frames (payouts_progress d0) invitations_t" "frames (payouts_progress d0) proposals_t"
  "frames (payouts_progress d0) jobs_t" "frames (payouts_progress d0) notifications_t"
  "frames (payouts_progress d0) transactions_t" "frames (payouts_progress d0) ledger_t"
  "frames (payouts_progress d0) refunds_t" "frames (payouts_progress d0) incidents_t"
  "frames (payouts_progress d0) incidentEvents_t" "frames (payouts_progress d0) paymentEvents_t"
  "frames (payouts_progress d0) intents_t"
  by (simp_all add: frames_progress)

interpretation payouts_at_charge: charge_bystander "payouts_progress d0" for d0
  by unfold_locales (simp_all add: payouts_frames keeps_frame)

interpretation payouts_at_refund: refund_bystander "payouts_progress d0" for d0
  by unfold_locales (simp_all add: payouts_frames)

interpretation payouts_at_support: support_bystander "payouts_progress d0" for d0
  by unfold_locales (simp_all add: payouts_frames)

interpretation payouts_at_inbox: inbox_bystander "payouts_progress d0" for d0
  by unfold_locales (simp_all add: payouts_frames)

interpretation payouts_at_request: request_bystander "payouts_progress d0" for d0
  by unfold_locales (simp_all add: payouts_frames)

text \<open>Writing the payout that was read.\<close>

lemma leads_payout_update:
  assumes "\<And>x. po_id (f x) = po_id x" "\<And>x. payout_terms (f x) = payout_terms x" "payout_step (po_status r) (po_status (f r))"
    and "\<And>d. payouts_progress d0 d \<Longrightarrow> X d"
  shows "leads (\<lambda>d. payouts_progress d0 d \<and> find_row payouts_t k d = Some r) (payouts_progress d0) X
    (update E payouts_t (po_id r) f)"
proof (rule leads_update)
  fix d r' n
  assume d: "payouts_progress d0 d \<and> find_row payouts_t k d = Some r"
  then have k: "po_id r = k" using find_row_SomeD [of payouts_t k d r] by simp
  have "payout_moved r ((f r)\<lparr>po_updatedAt := n\<rparr>)"
    using assms(2) [of r] assms(3) by (auto simp: payout_moved_def payout_terms_def)
  then show "payouts_progress d0 (upd_rows payouts_t n (\<lambda>x. t_key payouts_t x = po_id r) f d)"
    using d assms(1) k by (intro payout_progress.upd_one) simp_all
qed (use assms(4) in auto)

lemma keeps_payouts_approve: "keeps (payouts_progress d0) (adminApprovePayout E u k)"
  unfolding keeps_leads adminApprovePayout_def
  by (intro leads_require leads_guard leads_payout_update)
    (simp_all add: payout_terms_def payout_step_def)

lemma next_payout_step: "payout_step PO_APPROVED (next_payout_status t)"
  by (cases t) (simp_all add: payout_step_def)

lemma leads_recordPayout:
  assumes "po_status r = PO_APPROVED"
  shows "leads (\<lambda>d. payouts_progress d0 d \<and> find_row payouts_t k d = Some r) (payouts_progress d0) (\<lambda>_. True)
    (recordPayout E r u dto result)"
proof -
  have create: "keeps (\<lambda>d. payouts_progress d0 d \<and> find_row payouts_t k d = Some r)
      (create E transactions_t (payout_transaction E r dto result))"
    by (rule keeps_create_frame) (simp add: frames_def progress_def find_row_def)
  show ?thesis
    unfolding recordPayout_def
    by (rule leads_sbind [OF leads_keeps [OF create]], simp, rule leads_sbind, rule leads_payout_update)
      (simp_all add: payout_terms_def assms next_payout_step settlePayout_def leads_keeps keeps_rules
        keeps_appendEntries_frame payouts_frames)
qed

lemma keeps_payouts_process: "keeps (payouts_progress d0) (adminProcessPayout E u k dto)"
proof -
  have inner: "keeps (payouts_progress d0) (transact (sbind (require payouts_t i payoutNotFound) (\<lambda>r.
      sthen (sguard (po_status r = PO_APPROVED) onlyApprovedPayout)
      (sbind (findBy transactions_t P) (\<lambda>duplicate.
       if duplicate \<noteq> None then findUniqueOrThrow payouts_t (po_id r) else recordPayout E r u dto result)))))"
    for i P result
    unfolding keeps_leads
  proof (rule leads_transact, rule leads_require, rule leads_guard, rule leads_read, rule keeps_findBy)
    fix v and r :: payout assume "po_status r = PO_APPROVED"
    moreover have "leads (\<lambda>d. payouts_progress d0 d \<and> find_row payouts_t i d = Some r) (payouts_progress d0) (\<lambda>_. True)
        (findUniqueOrThrow payouts_t (po_id r))" for r :: payout
      by (rule leads_pre [OF leads_keeps [OF keeps_findUniqueOrThrow]]) auto
    ultimately show "leads (\<lambda>d. payouts_progress d0 d \<and> find_row payouts_t i d = Some r) (payouts_progress d0) (\<lambda>_. True)
      (if v \<noteq> None then findUniqueOrThrow payouts_t (po_id r) else recordPayout E r u dto result)"
      using leads_recordPayout by simp
  qed auto
  show ?thesis
    unfolding adminProcessPayout_def
    by (intro keeps_sbind keeps_require keeps_sthen keeps_sguard keeps_findBy keeps_if keeps_findUniqueOrThrow
        keeps_getAdapter gw_payout.keeps_call inner)
qed

lemma keeps_payouts_others:
  "keeps (payouts_progress d0) (adminCreatePayout E u pd)" "keeps (payouts_progress d0) (adminReleaseProviderFunds E u j)"
  "keeps (payouts_progress d0) (updateStatus E j u nxt reason)"
  "keeps (payouts_progress d0) (selectProposal E i k u percent)"
  by (simp_all add: adminCreatePayout_def adminReleaseProviderFunds_def releaseHeld_def keeps_updateStatus_frame
      keeps_selectProposal keeps_rules keeps_frame keeps_appendEntries_frame payouts_frames payout_progress.keeps_progress_create)

interpretation payouts_aside: side_bystander "payouts_progress d0" for d0
  by unfold_locales (simp_all add: frames_def progress_def find_row_def)

lemma kept_payouts: "kept (payouts_progress d0)"
proof (rule keptI)
  fix w w' assume "core_step w w'" and ok: "payouts_progress d0 (w_db w)"
  from this(1) show "payouts_progress d0 (w_db w')"
    by (cases rule: core_step.cases)
      (auto intro!: keepsD ok payouts_at_charge.charges payouts_at_charge.settlement payouts_at_refund.refunds
        keeps_payouts_approve keeps_payouts_process keeps_payouts_others payouts_at_support.support
        payouts_at_inbox.reading payouts_at_request.requests payouts_at_request.invitations payouts_at_request.submit)
qed (rule payouts_aside.side_kept)

lemma payouts_final:
  assumes "payouts_progress d0 d" "find_row payouts_t i d0 = Some p" "payout_final (po_status p)"
  shows "\<exists>p'. find_row payouts_t i d = Some p' \<and> po_status p' = po_status p \<and> payout_terms p' = payout_terms p"
  using progressD [of payouts_t payout_moved d0 d i p] assms payout_life.terminal_steps [of "po_status p"]
  by (auto simp: payout_moved_def)

end
