(* ===== verification/Contracts.thy ===== *)
theory Contracts
  imports Decisions
begin

text \<open>
  What single operations promise their callers: a webhook and a selection can be repeated, a
  pending charge of a simulated provider settles, a late failure and a selection leave exactly
  the rows they name.
\<close>

subsection \<open>Webhooks are handled at most once\<close>

definition event_known :: "paymentProvider \<Rightarrow> webhookDto \<Rightarrow> db \<Rightarrow> bool" where
  "event_known p dto d \<longleftrightarrow> (\<exists>e \<in> set (paymentEvents d). pe_provider e = p
     \<and> pe_externalEventId e = map_option js_trim (wh_externalEventId dto))"

lemma event_known_frames:
  "frames (event_known p dto) transactions_t" "frames (event_known p dto) intents_t"
  "frames (event_known p dto) ledger_t" "frames (event_known p dto) jobs_t"
  by (simp_all add: frames_def event_known_def)

lemma event_known_apply: "keeps (event_known p dto) (applyGatewayStatus E input)"
  by (simp add: applyGatewayStatus_def applyToIntent_def settleCharge_def ensureChargeLedgerEntries_def
      keeps_rules keeps_frame keeps_appendEntries_frame event_known_frames)

lemma event_known_update:
  assumes "\<And>e. pe_provider (f e) = pe_provider e" "\<And>e. pe_externalEventId (f e) = pe_externalEventId e"
  shows "keeps (event_known p dto) (update E paymentEvents_t i f)"
proof (rule keeps_update)
  fix d n assume J: "event_known p dto d"
  let ?Q = "\<lambda>e. \<not> (pe_provider e = p \<and> pe_externalEventId e = map_option js_trim (wh_externalEventId dto))"
  show "event_known p dto (upd_rows paymentEvents_t n (\<lambda>r. t_key paymentEvents_t r = i) f d)"
    using J tb_paymentEvents.ball_upd [of n "\<lambda>r. pe_id r = i" f d ?Q] assms
    by (auto simp: event_known_def split: if_splits)
qed

lemma leads_store:
  "leads (\<lambda>d. d = d0) (event_known p dto) (\<lambda>d. d = d0 \<or> event_known p dto d)
     (storeAndApply E p dto (map_option js_trim (wh_externalEventId dto)) v)"
proof -
  have rest: "keeps (event_known p dto) (sbind (webhookTarget p dto) (\<lambda>target.
     case (target, truthy (wh_status dto)) of
       (Some transaction, Some status) \<Rightarrow>
         sbind (transact (
           sbind (require transactions_t (tx_id transaction) transactionNotFound) (\<lambda>transactionRecord.
           applyGatewayStatus E \<lparr>si_transaction = transactionRecord,
             si_gatewayStatus = parseGatewayStatus status, si_rawPayload = wh_payload dto,
             si_reason = None\<rparr>))) (\<lambda>updated.
         sthen (update E paymentEvents_t (pe_id event)
           (\<lambda>r. r\<lparr>pe_processed := True, pe_processedAt := Some (e_now E),
             pe_transactionId := Some (tx_id updated), pe_paymentIntentId := tx_paymentIntentId updated\<rparr>))
         (sreturn (Processed (pe_id event) (tx_id updated))))
     | _ \<Rightarrow>
         sthen (update E paymentEvents_t (pe_id event)
           (\<lambda>r. r\<lparr>pe_processed := False, pe_processedAt := Some (e_now E),
             pe_transactionId := or_opt (map_option tx_id target) (pe_transactionId r),
             pe_paymentIntentId := (case target of None \<Rightarrow> pe_paymentIntentId r
               | Some t \<Rightarrow> tx_paymentIntentId t)\<rparr>))
         (sreturn (Recorded (pe_id event)))))" for event
    by (simp add: webhookTarget_def keeps_rules event_known_apply event_known_update split: option.split)
  show ?thesis
    unfolding storeAndApply_def
  proof (rule leads_sbind [OF leads_create leads_keeps [OF rest]])
    show "event_known p dto (t_put paymentEvents_t (t_rows paymentEvents_t d @
        [newEvent E p dto (map_option js_trim (wh_externalEventId dto)) v i]) d)" for d i
      by (simp add: event_known_def newEvent_def)
  qed simp_all
qed

lemma duplicate_known:
  assumes "accepts E p dto s t" "event_known p dto (w_db w)"
  shows "\<exists>i. handleWebhook E p dto s t w = (Inr (Deduplicated i), w)"
proof -
  have "find (\<lambda>e. pe_provider e = p \<and> pe_externalEventId e = map_option js_trim (wh_externalEventId dto))
      (paymentEvents (w_db w)) \<noteq> None"
    using assms(2) unfolding event_known_def find_None_iff by blast
  then show ?thesis using webhook_duplicate [OF assms(1)] by blast
qed

text \<open>Whatever the first delivery of an accepted event did, apart from failing before it was stored, the
  second does nothing.\<close>

lemma webhook_again:
  assumes "accepts E p dto s t" "accepts E' p dto s' t'"
  shows "wp (handleWebhook E p dto s t)
    (\<lambda>_ w'. \<exists>i. handleWebhook E' p dto s' t' w' = (Inr (Deduplicated i), w'))
    (\<lambda>_ w'. w_db w' = w_db w \<or> (\<exists>i. handleWebhook E' p dto s' t' w' = (Inr (Deduplicated i), w'))) w"
proof -
  let ?P = "\<lambda>e. pe_provider e = p \<and> pe_externalEventId e = map_option js_trim (wh_externalEventId dto)"
  have again: "event_known p dto (w_db w') \<Longrightarrow> \<exists>i. handleWebhook E' p dto s' t' w' = (Inr (Deduplicated i), w')" for w'
    by (rule duplicate_known [OF assms(2)])
  show ?thesis
  proof (cases "find ?P (paymentEvents (w_db w))")
    case (Some ev)
    then have "event_known p dto (w_db w)" by (auto simp: event_known_def find_Some_iff)
    then show ?thesis
      unfolding wp_def webhook_duplicate [OF assms(1) Some] by (simp add: again)
  next
    case None
    have "wp (storeAndApply E p dto (map_option js_trim (wh_externalEventId dto)) v)
        (\<lambda>_ w'. event_known p dto (w_db w')) (\<lambda>_ w'. w_db w' = w_db w \<or> event_known p dto (w_db w')) w" for v
      using leads_store [of "w_db w" p dto E v] by (simp add: leads_def)
    then have "wp (storeAndApply E p dto (map_option js_trim (wh_externalEventId dto)) v)
        (\<lambda>_ w'. \<exists>i. handleWebhook E' p dto s' t' w' = (Inr (Deduplicated i), w'))
        (\<lambda>_ w'. w_db w' = w_db w \<or> (\<exists>i. handleWebhook E' p dto s' t' w' = (Inr (Deduplicated i), w'))) w" for v
      by (rule wp_mono) (use again in blast)+
    then show ?thesis
      using assms(1) None unfolding handleWebhook_def Let_def
      by (auto simp: wp_sthen wp_sbind wp_sguard wp_sreturn wp_findBy accepts_def trim_or_null_def)
  qed
qed

subsection \<open>A selection can be repeated\<close>

text \<open>What a selection leaves, and what a later call reads.\<close>

definition selected_for :: "id \<Rightarrow> id \<Rightarrow> id \<Rightarrow> job \<Rightarrow> db \<Rightarrow> bool" where
  "selected_for i k u job d \<longleftrightarrow> (\<exists>request. find_row serviceRequests_t i d = Some request \<and> sr_customerId request = u
     \<and> sr_status request = SR_CLOSED \<and> sr_selectedProposalId request = Some k) \<and> request_job d i = Some job"

lemma select_repeated:
  assumes "selected_for i k u job (w_db w)"
  shows "\<exists>r. selectProposal E i k u percent w = (Inr r, w) \<and> sl_job r = job \<and> sl_selectedProposalId r = k \<and> sl_idempotent r"
proof -
  obtain request where r: "find_row serviceRequests_t i (w_db w) = Some request" "sr_customerId request = u"
    "sr_status request = SR_CLOSED" "sr_selectedProposalId request = Some k" "request_job (w_db w) i = Some job"
    using assms by (auto simp: selected_for_def)
  have "selectProposal E i k u percent w = (Inr \<lparr>sl_request = request, sl_selectedProposalId = k, sl_job = job,
      sl_paymentIntent = first_of (job_intents (w_db w) (jb_id job)), sl_idempotent = True\<rparr>, w)"
    using r by (simp add: run_wp selectProposal_def refreshRequestStatusIfExpired_def isRequestPastExpiry_def wp_simps)
  then show ?thesis by simp
qed

lemma selected_for_selected_db:
  assumes ok: "requests_ok d" and c: "can_select E d i k u request proposal profile"
    and job: "jb_requestId job = Some i"
  shows "selected_for i k u job ((selected_db E request proposal job intent d)\<lparr>notifications := x\<rparr>)"
proof -
  have r: "find_row serviceRequests_t i d = Some request" "sr_customerId request = u" "acceptable E request"
    "find_row proposals_t k d = Some proposal" using c by (simp_all add: can_select_def)
  have ids: "sr_id request = i" "pr_id proposal = k"
    using find_row_SomeD [OF r(1)] find_row_SomeD [OF r(4)] by simp_all
  have "find (\<lambda>j. jb_requestId j = Some i) (jobs d) = None"
    by (rule no_job_link [OF ok acceptable_sel [OF ok r(1,3)]])
  then have "\<forall>j \<in> set (jobs d). jb_requestId j \<noteq> Some i" by (simp add: find_None_iff)
  then have "find (\<lambda>j. jb_requestId j = Some i) (jobs d @ [job]) = Some job"
    using job by (intro find_appended) auto
  then have "request_job ((selected_db E request proposal job intent d)\<lparr>notifications := x\<rparr>) i = Some job"
    by (simp add: request_job_def selected_db_def)
  moreover have "find_row serviceRequests_t i ((selected_db E request proposal job intent d)\<lparr>notifications := x\<rparr>) =
      find_row serviceRequests_t i (closed_db E request proposal d)"
    by (simp add: find_row_def selected_db_def)
  ultimately show ?thesis
    using r ids by (simp add: selected_for_def find_closed_request)
qed

lemma selectProposal_again:
  assumes ok: "requests_ok (w_db w)"
  shows "wp (selectProposal E i k u percent)
    (\<lambda>r w1. \<exists>r'. selectProposal E' i k u percent' w1 = (Inr r', w1) \<and> sl_job r' = sl_job r
       \<and> sl_selectedProposalId r' = k \<and> sl_idempotent r') (\<lambda>_ _. True) w"
proof (rule wp_selectProposal [OF ok])
  fix request job and w' :: world
  assume r: "find_row serviceRequests_t i (w_db w) = Some request" "sr_customerId request = u"
    "sr_selectedProposalId request = Some k" "request_job (w_db w) i = Some job" and w': "w_db w' = w_db w"
  have "request_ok request" using ok r(1) by (simp add: requests_ok_def)
  then have "selected_for i k u job (w_db w')" using r w' by (simp add: selected_for_def request_ok_def)
  then show "\<exists>r'. selectProposal E' i k u percent' w' = (Inr r', w') \<and> sl_job r' = sl_job
      \<lparr>sl_request = request, sl_selectedProposalId = k, sl_job = job,
         sl_paymentIntent = first_of (job_intents (w_db w) (jb_id job)), sl_idempotent = True\<rparr>
       \<and> sl_selectedProposalId r' = k \<and> sl_idempotent r'"
    using select_repeated by simp
next
  fix request proposal profile jid iid job intent and w' :: world
  assume c: "can_select E (w_db w) i k u request proposal profile"
    and job: "job = selectedJob E u request proposal (wp_id profile) jid"
    and w': "w_db w' = (selected_db E request proposal job intent (w_db w))\<lparr>notifications := notifications (w_db w')\<rparr>"
  have "sr_id request = i" using c find_row_SomeD [of serviceRequests_t i "w_db w" request] by (simp add: can_select_def)
  then have "selected_for i k u job (w_db w')"
    by (subst w') (rule selected_for_selected_db [OF ok c], simp add: job selectedJob_def)
  then show "(\<exists>r'. selectProposal E' i k u percent' w' = (Inr r', w') \<and> sl_job r' = sl_job (selection_of E request proposal job intent)
       \<and> sl_selectedProposalId r' = k \<and> sl_idempotent r') \<and> (\<forall>e. True)"
    using select_repeated by (simp add: selection_of_def)
qed simp

subsection \<open>A late failure\<close>

text \<open>
  A failure that arrives after a success sets the intent back to failed; the ledger keeps the
  charge.  The code does not look at the status the intent or the transaction had.
\<close>

lemma late_failure:
  assumes "find_row transactions_t (tx_id (si_transaction input)) (w_db w) = Some r"
    and "tx_paymentIntentId r = Some i" "find_row intents_t i (w_db w) = Some intent"
    and "si_gatewayStatus input = GW_FAILED"
  shows "wp (applyGatewayStatus E input)
    (\<lambda>t w'. tx_status t = TX_FAILED \<and> ledger (w_db w') = ledger (w_db w)
       \<and> (\<exists>intent'. find_row intents_t i (w_db w') = Some intent' \<and> pi_status intent' = PI_FAILED))
    (\<lambda>_ _. False) w"
proof -
  have id: "pi_id intent = i" "tx_id r = tx_id (si_transaction input)"
    using find_row_SomeD [OF assms(1)] find_row_SomeD [OF assms(3)] by simp_all
  have fr: "find_row intents_t i (upd_rows transactions_t n P f d) = find_row intents_t i d" for n P f d
    by (simp add: find_row_def upd_rows_def)
  have led: "ledger (upd_rows intents_t n P g d) = ledger d" "ledger (upd_rows transactions_t n P' f d) = ledger d" for n P g d P' f
    by (simp_all add: upd_rows_def)
  show ?thesis
    unfolding applyGatewayStatus_def applyToIntent_def
    using assms id
    by (simp add: wp_simps fr led tb_intents.find_row_upd mapGatewayToIntentStatus_def split: option.split)
qed

subsection \<open>A pending charge of a simulated provider settles\<close>

text \<open>The identifiers that the next rows of a table get are new.\<close>

definition fresh_ids :: "env \<Rightarrow> 'r tbl \<Rightarrow> world \<Rightarrow> bool" where
  "fresh_ids E T w \<longleftrightarrow> inj (e_cuid E) \<and> (\<forall>x \<in> set (t_rows T (w_db w)). \<forall>n \<ge> w_ids w. t_key T x \<noteq> e_cuid E n)"

lemma createRows_fresh:
  assumes "fresh_ids E ledger_t w" "\<And>i mk. mk \<in> set mks \<Longrightarrow> le_id (mk i) = i"
  shows "wp (createRows E ledger_t mks) (\<lambda>_ w'. \<exists>ids n. length ids = length mks \<and>
      w' = w\<lparr>w_ids := n, w_db := (w_db w)\<lparr>ledger := ledger (w_db w) @ map2 (\<lambda>mk i. mk i) mks ids\<rparr>\<rparr>) (\<lambda>_ _. False) w"
  using assms
proof (induction mks arbitrary: w)
  case Nil
  show ?case
    by (simp add: wp_sreturn, rule exI [of _ "w_ids w"]) simp
next
  case (Cons mk mks)
  let ?i = "e_cuid E (w_ids w)"
  let ?w = "w\<lparr>w_ids := Suc (w_ids w), w_db := (w_db w)\<lparr>ledger := ledger (w_db w) @ [mk ?i]\<rparr>\<rparr>"
  have "\<not> (\<exists>x \<in> set (ledger (w_db w)). le_id x = ?i)"
    using Cons.prems(1) by (auto simp: fresh_ids_def)
  moreover have "fresh_ids E ledger_t ?w"
    using Cons.prems by (auto simp: fresh_ids_def inj_eq)
  then have "wp (createRows E ledger_t mks) (\<lambda>_ w'. \<exists>ids n. length ids = length mks \<and>
      w' = ?w\<lparr>w_ids := n, w_db := (w_db ?w)\<lparr>ledger := ledger (w_db ?w) @ map2 (\<lambda>mk i. mk i) mks ids\<rparr>\<rparr>) (\<lambda>_ _. False) ?w"
    using Cons.prems(2) by (intro Cons.IH) auto
  then have "wp (createRows E ledger_t mks) (\<lambda>_ w'. \<exists>ids n. length ids = length (mk # mks) \<and>
      w' = w\<lparr>w_ids := n, w_db := (w_db w)\<lparr>ledger := ledger (w_db w) @ map2 (\<lambda>mk i. mk i) (mk # mks) ids\<rparr>\<rparr>) (\<lambda>_ _. False) ?w"
  proof (rule wp_mono)
    fix w' :: world
    assume "\<exists>ids n. length ids = length mks \<and> w' = ?w\<lparr>w_ids := n, w_db := (w_db ?w)\<lparr>ledger := ledger (w_db ?w) @ map2 (\<lambda>mk i. mk i) mks ids\<rparr>\<rparr>"
    then obtain ids n where "length ids = length mks"
      "w' = ?w\<lparr>w_ids := n, w_db := (w_db ?w)\<lparr>ledger := ledger (w_db ?w) @ map2 (\<lambda>mk i. mk i) mks ids\<rparr>\<rparr>" by blast
    then show "\<exists>ids n. length ids = length (mk # mks) \<and>
      w' = w\<lparr>w_ids := n, w_db := (w_db w)\<lparr>ledger := ledger (w_db w) @ map2 (\<lambda>mk i. mk i) (mk # mks) ids\<rparr>\<rparr>"
      by (intro exI [of _ "?i # ids"] exI [of _ n]) simp
  qed simp
  ultimately show ?case
    using Cons.prems(2) [of mk ?i] by (simp add: wp_sbind wp_create Let_def)
qed

lemma appendEntries_fresh:
  assumes "fresh_ids E ledger_t w"
  shows "wp (appendEntries E es) (\<lambda>_ w'. \<exists>fs n. stamped es fs \<and>
      w' = w\<lparr>w_ids := n, w_db := (w_db w)\<lparr>ledger := ledger (w_db w) @ fs\<rparr>\<rparr>) (\<lambda>_ _. False) w"
proof (cases "es = []")
  case True
  then show ?thesis
    by (auto simp: appendEntries_def wp_sreturn stamped_def intro!: exI [of _ "[]"] exI [of _ "w_ids w"])
next
  case False
  let ?mk = "\<lambda>e i. e\<lparr>le_id := i, le_createdAt := e_now E\<rparr>"
  have eq: "map2 (\<lambda>mk i. mk i) (map ?mk es) ids = map2 ?mk es ids" for ids
    by (simp add: zip_map1 split_def comp_def)
  have "wp (createRows E ledger_t (map ?mk es)) (\<lambda>_ w'. \<exists>ids n. length ids = length (map ?mk es) \<and>
      w' = w\<lparr>w_ids := n, w_db := (w_db w)\<lparr>ledger := ledger (w_db w) @ map2 (\<lambda>mk i. mk i) (map ?mk es) ids\<rparr>\<rparr>) (\<lambda>_ _. False) w"
    by (rule createRows_fresh [OF assms]) auto
  then have "wp (createRows E ledger_t (map ?mk es)) (\<lambda>_ w'. \<exists>fs n. stamped es fs \<and>
      w' = w\<lparr>w_ids := n, w_db := (w_db w)\<lparr>ledger := ledger (w_db w) @ fs\<rparr>\<rparr>) (\<lambda>_ _. False) w"
  proof (rule wp_mono)
    fix w' :: world
    assume "\<exists>ids n. length ids = length (map ?mk es) \<and>
      w' = w\<lparr>w_ids := n, w_db := (w_db w)\<lparr>ledger := ledger (w_db w) @ map2 (\<lambda>mk i. mk i) (map ?mk es) ids\<rparr>\<rparr>"
    then obtain ids n where "length ids = length es"
      "w' = w\<lparr>w_ids := n, w_db := (w_db w)\<lparr>ledger := ledger (w_db w) @ map2 ?mk es ids\<rparr>\<rparr>"
      unfolding eq length_map by blast
    then show "\<exists>fs n. stamped es fs \<and> w' = w\<lparr>w_ids := n, w_db := (w_db w)\<lparr>ledger := ledger (w_db w) @ fs\<rparr>\<rparr>"
      unfolding stamped_def by blast
  qed simp
  with False show ?thesis
    by (simp add: appendEntries_def createMany_def wp_transact)
qed

text \<open>Applying a success of a charge whose rows exist never fails, and afterwards the charge is in the book.\<close>

lemma charged_stamped: "stamped (charge_entries intent t) fs \<Longrightarrow> charged t (es @ fs)"
  using stamped_charges [of "charge_entries intent t" fs t] charges_of_charge [of t intent t] not_charged [of t fs]
  by (auto simp: charged_def)

lemma settleCharge_success:
  assumes "find_row jobs_t (pi_jobId intent) (w_db w) = Some job" "fresh_ids E ledger_t w"
  shows "wp (settleCharge E intent t)
    (\<lambda>_ w'. charged t (ledger (w_db w')) \<and> intents (w_db w') = intents (w_db w)
       \<and> (\<exists>job'. find_row jobs_t (pi_jobId intent) (w_db w') = Some job' \<and> jb_contactUnlockedAt job' = Some (e_now E)))
    (\<lambda>_ _. False) w"
proof -
  let ?upd = "update E jobs_t (pi_jobId intent) (\<lambda>r. r\<lparr>jb_contactUnlockedAt := Some (e_now E)\<rparr>)"
  let ?Q = "\<lambda>_ w'. charged t (ledger (w_db w')) \<and> intents (w_db w') = intents (w_db w)
       \<and> (\<exists>job'. find_row jobs_t (pi_jobId intent) (w_db w') = Some job' \<and> jb_contactUnlockedAt job' = Some (e_now E))"
  have job: "wp (sthen ?upd (sreturn ())) ?Q (\<lambda>_ _. False) w1"
    if "charged t (ledger (w_db w1))" "intents (w_db w1) = intents (w_db w)" "jobs (w_db w1) = jobs (w_db w)" for w1 :: world
  proof -
    have f: "find_row jobs_t (pi_jobId intent) (w_db w1) = Some job"
      using assms(1) that(3) by (simp add: find_row_def)
    have "find_row jobs_t (pi_jobId intent) (upd_rows jobs_t (e_now E) (\<lambda>r. t_key jobs_t r = pi_jobId intent)
        (\<lambda>r. r\<lparr>jb_contactUnlockedAt := Some (e_now E)\<rparr>) (w_db w1)) =
        Some (job\<lparr>jb_contactUnlockedAt := Some (e_now E), jb_updatedAt := e_now E\<rparr>)"
      using f find_row_SomeD [OF f] by (simp add: tb_jobs.find_row_upd)
    then show ?thesis
      using f that by (simp add: wp_sthen wp_update wp_sreturn) (simp add: upd_rows_def)
  qed
  have "wp (appendEntries E (charge_entries intent t)) (\<lambda>_. wp (sthen ?upd (sreturn ())) ?Q (\<lambda>_ _. False)) (\<lambda>_ _. False) w"
    using appendEntries_fresh [OF assms(2)]
    by (rule wp_mono) (auto intro!: job charged_stamped)
  then show ?thesis
    unfolding settleCharge_def ensureChargeLedgerEntries_def wp_sthen [of "sbind _ _"] wp_sbind wp_findBy
    using job [of w] find_charged [of t "ledger (w_db w)"]
    by (cases "charged t (ledger (w_db w))") (auto simp: wp_sreturn)
qed

lemma apply_success:
  assumes "find_row transactions_t (tx_id (si_transaction input)) (w_db w) = Some r"
    and "tx_paymentIntentId r = Some i" "find_row intents_t i (w_db w) = Some intent"
    and "si_gatewayStatus input = GW_SUCCEEDED" "find_row jobs_t (pi_jobId intent) (w_db w) = Some job"
    and fresh: "fresh_ids E ledger_t w"
  shows "wp (applyGatewayStatus E input)
    (\<lambda>t w'. tx_status t = TX_SUCCEEDED \<and> charged (tx_id r) (ledger (w_db w'))
       \<and> (\<exists>intent'. find_row intents_t i (w_db w') = Some intent' \<and> paid_status (pi_status intent'))
       \<and> (\<exists>job'. find_row jobs_t (pi_jobId intent) (w_db w') = Some job' \<and> jb_contactUnlockedAt job' = Some (e_now E)))
    (\<lambda>_ _. False) w"
proof -
  have id: "pi_id intent = i" "tx_id (si_transaction input) = tx_id r"
    using find_row_SomeD [OF assms(1)] find_row_SomeD [OF assms(3)] by simp_all
  let ?s = "mapGatewayToIntentStatus GW_SUCCEEDED (pi_metadata intent)"
  have s: "?s \<in> set [PI_PAID_PARTIAL, PI_SUCCEEDED, PI_FAILED, PI_PENDING_CONFIRMATION]" "paid_status ?s"
    by (simp_all add: mapGatewayToIntentStatus_def paid_status_def)
  have settle: "wp (settleCharge E intent (tx_id r))
      (\<lambda>_ w'. charged (tx_id r) (ledger (w_db w'))
       \<and> (\<exists>intent'. find_row intents_t i (w_db w') = Some intent' \<and> paid_status (pi_status intent'))
       \<and> (\<exists>job'. find_row jobs_t (pi_jobId intent) (w_db w') = Some job' \<and> jb_contactUnlockedAt job' = Some (e_now E)))
      (\<lambda>_ _. False) w2"
    if w2: "jobs (w_db w2) = jobs (w_db w)" "ledger (w_db w2) = ledger (w_db w)" "w_ids w2 = w_ids w"
      "find_row intents_t i (w_db w2) = Some intent'" "paid_status (pi_status intent')" for w2 :: world and intent'
  proof (rule wp_mono [OF settleCharge_success])
    show "find_row jobs_t (pi_jobId intent) (w_db w2) = Some job" using assms(5) w2(1) by (simp add: find_row_def)
    show "fresh_ids E ledger_t w2" using fresh w2(2,3) by (simp add: fresh_ids_def)
  qed (use w2(4,5) in \<open>auto simp: find_row_def\<close>)
  have intent: "wp (applyToIntent E GW_SUCCEEDED t i)
      (\<lambda>_ w'. charged (tx_id r) (ledger (w_db w'))
       \<and> (\<exists>intent'. find_row intents_t i (w_db w') = Some intent' \<and> paid_status (pi_status intent'))
       \<and> (\<exists>job'. find_row jobs_t (pi_jobId intent) (w_db w') = Some job' \<and> jb_contactUnlockedAt job' = Some (e_now E)))
      (\<lambda>_ _. False) w1"
    if t: "tx_status t = TX_SUCCEEDED" "tx_id t = tx_id r"
      and w1: "jobs (w_db w1) = jobs (w_db w)" "ledger (w_db w1) = ledger (w_db w)" "w_ids w1 = w_ids w"
      "intents (w_db w1) = intents (w_db w)" for w1 :: world and t
  proof -
    have f: "find_row intents_t i (w_db w1) = Some intent" using assms(3) w1(4) by (simp add: find_row_def)
    let ?w2 = "w1\<lparr>w_db := upd_rows intents_t (e_now E) (\<lambda>r. t_key intents_t r = i) (\<lambda>r. r\<lparr>pi_status := ?s\<rparr>) (w_db w1)\<rparr>"
    have "find_row intents_t i (w_db ?w2) = Some (intent\<lparr>pi_status := ?s, pi_updatedAt := e_now E\<rparr>)"
      using f id by (simp add: tb_intents.find_row_upd)
    then have "wp (settleCharge E intent (tx_id r))
      (\<lambda>_ w'. charged (tx_id r) (ledger (w_db w'))
       \<and> (\<exists>intent'. find_row intents_t i (w_db w') = Some intent' \<and> paid_status (pi_status intent'))
       \<and> (\<exists>job'. find_row jobs_t (pi_jobId intent) (w_db w') = Some job' \<and> jb_contactUnlockedAt job' = Some (e_now E)))
      (\<lambda>_ _. False) ?w2"
      by (rule settle [rotated 3]) (use s(2) w1 in \<open>simp_all add: upd_rows_def\<close>)
    moreover note settle [OF w1(1-3) f]
    ultimately show ?thesis
      unfolding applyToIntent_def
      using f s(1,2) t id(1)
      by (cases "pi_status intent = ?s") (simp_all add: wp_sbind wp_require wp_sthen wp_swhen wp_update wp_sreturn)
  qed
  show ?thesis
    unfolding applyGatewayStatus_def
    using assms(1,2,4) id(2)
    by (simp add: wp_sbind wp_update wp_sthen wp_sreturn) (rule intent, simp_all add: upd_rows_def)
qed

text \<open>Fifteen minutes are the longest settlement delay that can be configured.\<close>

lemma wp_external_settled:
  assumes "w_ops w (p, ref) = Some op" "so_status op = GW_PENDING" "so_createdAtMs op + 900000 \<le> e_now E"
    and "\<And>r ops. gr_status r = GW_SUCCEEDED \<Longrightarrow> Q r (w\<lparr>w_ops := ops\<rparr>)"
  shows "wp (external_queryTransactionStatus E p ref (Some (JObj []))) Q X w"
proof -
  have "so_status (settle E p op) = GW_SUCCEEDED"
    using assms(2,3) settlement_delay_bounds(2) [of E p] by (simp add: settle_def)
  moreover have "parseDesiredStatus (Some (JObj [])) = None"
    by (simp add: parseDesiredStatus_def json_get_def)
  ultimately show ?thesis
    using assms(1) assms(4)
    by (simp add: external_queryTransactionStatus_def wp_simps Let_def setOperation_def)
qed

lemma reconcile_settles:
  assumes tx: "find_row transactions_t t (w_db w) = Some r" "tx_paymentIntentId r = Some i"
    and ext: "tx_provider r = PP_MPESA \<or> tx_provider r = PP_EMOLA" "tx_providerReference r = Some ref"
      "w_ops w (tx_provider r, ref) = Some op" "so_status op = GW_PENDING" "so_createdAtMs op + 900000 \<le> e_now E"
    and rows: "find_row intents_t i (w_db w) = Some intent" "find_row jobs_t (pi_jobId intent) (w_db w) = Some job"
    and fresh: "fresh_ids E ledger_t w"
  shows "wp (reconcileTransaction E t None)
    (\<lambda>t' w'. tx_status t' = TX_SUCCEEDED \<and> charged t (ledger (w_db w'))
       \<and> (\<exists>intent'. find_row intents_t i (w_db w') = Some intent' \<and> paid_status (pi_status intent'))
       \<and> (\<exists>job'. find_row jobs_t (pi_jobId intent) (w_db w') = Some job' \<and> jb_contactUnlockedAt job' = Some (e_now E)))
    (\<lambda>_ _. False) w"
proof -
  have t: "tx_id r = t" using find_row_SomeD [OF tx(1)] by simp
  let ?Q = "\<lambda>t' w'. tx_status t' = TX_SUCCEEDED \<and> charged t (ledger (w_db w'))
       \<and> (\<exists>intent'. find_row intents_t i (w_db w') = Some intent' \<and> paid_status (pi_status intent'))
       \<and> (\<exists>job'. find_row jobs_t (pi_jobId intent) (w_db w') = Some job' \<and> jb_contactUnlockedAt job' = Some (e_now E))"
  have applied: "wp (transact (applyGatewayStatus E \<lparr>si_transaction = r, si_gatewayStatus = gr_status res,
       si_rawPayload = x, si_reason = y\<rparr>)) ?Q (\<lambda>_ _. False) (w\<lparr>w_ops := ops\<rparr>)"
    if "gr_status res = GW_SUCCEEDED" for res ops x y
    unfolding wp_transact
    by (rule wp_mono [OF apply_success [where r = r and i = i and intent = intent and job = job]])
      (use tx rows fresh t that in \<open>simp_all add: fresh_ids_def\<close>)
  have query: "wp (external_queryTransactionStatus E (tx_provider r) ref (Some (JObj [])))
      (\<lambda>res. wp (transact (applyGatewayStatus E \<lparr>si_transaction = r, si_gatewayStatus = gr_status res,
       si_rawPayload = Some (gr_rawPayload res), si_reason = gr_reason res\<rparr>)) ?Q (\<lambda>_ _. False)) (\<lambda>_ _. False) w"
    by (rule wp_external_settled [OF ext(3-5)]) (rule applied)
  show ?thesis
    using ext(1)
  proof
    assume "tx_provider r = PP_MPESA"
    then show ?thesis using query tx(1) ext(2)
      by (simp add: reconcileTransaction_def getAdapter_def wp_sbind wp_require wp_sreturn)
  next
    assume "tx_provider r = PP_EMOLA"
    then show ?thesis using query tx(1) ext(2)
      by (simp add: reconcileTransaction_def getAdapter_def wp_sbind wp_require wp_sreturn)
  qed
qed

subsection \<open>Timestamps are read back as they are printed\<close>

lemma digit_char_code: "d < 10 \<Longrightarrow> (of_char (digit_char d) :: nat) = 48 + d"
  by (simp add: digit_char_def)

lemma is_digit_digit_char: "d < 10 \<Longrightarrow> is_digit (digit_char d)"
  by (simp add: is_digit_def digit_char_code)

lemma digits_value_snoc: "digits_value (s @ [c]) = digits_value s * 10 + (int (of_char c) - 48)"
  by (simp add: digits_value_def)

lemma show_nat_digits: "show_nat n \<noteq> [] \<and> list_all is_digit (show_nat n) \<and> digits_value (show_nat n) = int n"
proof (induction n rule: show_nat.induct)
  case (1 n)
  show ?case
  proof (cases "n < 10")
    case True
    then show ?thesis
      using digit_char_code [of n] by (simp add: show_nat.simps [of n] is_digit_def digits_value_def)
  next
    case False
    then have IH: "show_nat (n div 10) \<noteq> [] \<and> list_all is_digit (show_nat (n div 10)) \<and> digits_value (show_nat (n div 10)) = int (n div 10)"
      using 1 by simp
    have "int (n div 10) * 10 + int (n mod 10) = int n"
      by (metis div_mult_mod_eq of_nat_add of_nat_mult of_nat_numeral)
    then show ?thesis
      using IH False digit_char_code [of "n mod 10"] is_digit_digit_char [of "n mod 10"]
      by (simp add: show_nat.simps [of n] digits_value_snoc)
  qed
qed

lemma show_nat_length: "length (show_nat n) \<le> k \<longleftrightarrow> n < 10 ^ k" if "0 < k"
  using that
proof (induction k arbitrary: n)
  case (Suc k)
  show ?case
  proof (cases "n < 10")
    case True
    then have "n < 10 ^ Suc k" using less_le_trans [of n 10 "10 ^ Suc k"] by simp
    then show ?thesis using True by (simp add: show_nat.simps [of n])
  next
    case False
    then have len: "length (show_nat n) = Suc (length (show_nat (n div 10)))" by (simp add: show_nat.simps [of n])
    show ?thesis
    proof (cases "k = 0")
      case True
      then show ?thesis using False len show_nat_digits [of "n div 10"] by simp
    next
      case k: False
      have "n div 10 < 10 ^ k \<longleftrightarrow> n < 10 ^ Suc k" by (simp add: less_mult_imp_div_less div_less_iff_less_mult mult.commute)
      then show ?thesis using Suc.IH [of "n div 10"] k len by simp
    qed
  qed
qed simp

lemma is_digit_no_ws: "is_digit c \<Longrightarrow> \<not> js_ws c"
  by (auto simp: is_digit_def js_ws_def)

lemma trim_digits: "list_all is_digit s \<Longrightarrow> js_trim s = s"
proof -
  assume s: "list_all is_digit s"
  have keep: "dropWhile js_ws t = t" if "list_all is_digit t" for t
    using that is_digit_no_ws by (cases t) auto
  have "list_all is_digit (rev s)" using s by (simp add: list_all_iff)
  then show ?thesis using s by (simp add: js_trim_def keep)
qed

lemma timestamp_read:
  assumes "0 \<le> n"
  shows "parseWebhookTimestampMs E (show_int n) = Fin (of_int (if n < 10 ^ 10 then n * 1000 else n))"
proof -
  have s: "show_int n = show_nat (nat n)" using assms by (simp add: show_int_def)
  have "length (show_nat (nat n)) \<le> 10 \<longleftrightarrow> n < 10 ^ 10"
    using assms show_nat_length [of 10 "nat n"] by (simp add: nat_less_iff)
  then show ?thesis
    using assms show_nat_digits [of "nat n"] trim_digits [of "show_nat (nat n)"]
    by (simp add: s parseWebhookTimestampMs_def Let_def)
qed

subsection \<open>Checks and effects of the status machine\<close>

lemma updateStatus_contract:
  "wp (updateStatus E j u nxt reason)
    (\<lambda>r w'. jb_status r = nxt \<and> (\<exists>job. find_row jobs_t j (w_db w) = Some job \<and> job_terms r = job_terms job
       \<and> status_checked (w_db w) u nxt reason job (worker_user (w_db w) job)
       \<and> w_db w' = (status_written E j u nxt reason job (w_db w))\<lparr>notifications := notifications (w_db w')\<rparr>))
    (\<lambda>_ w'. w_db w' = w_db w \<or> nxt = JOB_CANCELED) w"
proof (rule wp_updateStatus)
  fix job and w' :: world
  assume a: "find_row jobs_t j (w_db w) = Some job" "status_checked (w_db w) u nxt reason job (worker_user (w_db w) job)"
    "w_db w' = (status_written E j u nxt reason job (w_db w))\<lparr>notifications := notifications (w_db w')\<rparr>"
  have b: "jb_status ((status_data E u nxt reason job job)\<lparr>jb_updatedAt := e_now E\<rparr>) = nxt"
    "job_terms ((status_data E u nxt reason job job)\<lparr>jb_updatedAt := e_now E\<rparr>) = job_terms job"
    by (simp_all add: job_terms_def status_data_def)
  show "(jb_status ((status_data E u nxt reason job job)\<lparr>jb_updatedAt := e_now E\<rparr>) = nxt \<and>
      (\<exists>job'. find_row jobs_t j (w_db w) = Some job' \<and>
        job_terms ((status_data E u nxt reason job job)\<lparr>jb_updatedAt := e_now E\<rparr>) = job_terms job'
       \<and> status_checked (w_db w) u nxt reason job' (worker_user (w_db w) job')
       \<and> w_db w' = (status_written E j u nxt reason job' (w_db w))\<lparr>notifications := notifications (w_db w')\<rparr>)) \<and>
      (\<forall>e. nxt = JOB_CANCELED \<longrightarrow> w_db w' = w_db w \<or> nxt = JOB_CANCELED)"
    using a b by blast
qed simp

lemma cancel_contract:
  "wp (updateStatus E j u JOB_CANCELED reason)
    (\<lambda>_ w'. filter (\<lambda>i. pi_jobId i = j \<and> cancelable_intent (pi_status i)) (intents (w_db w')) = []) (\<lambda>_ _. True) w"
proof (rule wp_mono [OF updateStatus_contract])
  fix r and w' :: world
  assume "jb_status r = JOB_CANCELED \<and> (\<exists>job. find_row jobs_t j (w_db w) = Some job \<and> job_terms r = job_terms job
       \<and> status_checked (w_db w) u JOB_CANCELED reason job (worker_user (w_db w) job)
       \<and> w_db w' = (status_written E j u JOB_CANCELED reason job (w_db w))\<lparr>notifications := notifications (w_db w')\<rparr>)"
  then obtain job where w': "w_db w' = (status_written E j u JOB_CANCELED reason job (w_db w))\<lparr>notifications := notifications (w_db w')\<rparr>"
    by (elim conjE exE) (rule that)
  have "intents (w_db w') = intents (status_written E j u JOB_CANCELED reason job (w_db w))"
    by (subst w') simp
  then show "filter (\<lambda>i. pi_jobId i = j \<and> cancelable_intent (pi_status i)) (intents (w_db w')) = []"
    using canceled_intents [of E j u reason job "w_db w"] by (auto simp: filter_empty_conv)
qed simp

subsection \<open>Expiry\<close>

lemma sweep_contract: "wp (sweepTick E) (\<lambda>n w'. filter (staleRequest E) (serviceRequests (w_db w')) = []
    \<and> n = length (filter (staleRequest E) (serviceRequests (w_db w)))) (\<lambda>_ _. False) w"
  unfolding sweepTick_def wp_stry
proof (rule wp_expireStale)
  fix w' :: world
  assume w': "w_db w' = expired_db E (map sr_id (filter (staleRequest E) (serviceRequests (w_db w)))) (w_db w)"
  have "filter (staleRequest E) (serviceRequests (w_db w')) = []"
    unfolding w' filter_empty_conv by (rule sweep_clears)
  then show "filter (staleRequest E) (serviceRequests (w_db w')) = [] \<and>
      length (filter (staleRequest E) (serviceRequests (w_db w))) = length (filter (staleRequest E) (serviceRequests (w_db w)))"
    by blast
qed

lemma submit_refused:
  assumes "find_row serviceRequests_t i (w_db w) = Some r" "\<not> acceptable E r"
  shows "wp (submitProposal E i u dto) (\<lambda>_ _. False) (\<lambda>_ w'. proposals (w_db w') = proposals (w_db w)) w"
proof -
  have ex: "proposals (expired_db E ids d) = proposals d" for ids d
    by (simp add: expired_db_def upd_rows_def)
  have "wp (sthen (requireOpen E r e) m) (\<lambda>_ _. False) (\<lambda>_ w'. proposals (w_db w') = proposals (w_db w)) w" for e and m :: "proposal svc"
    unfolding wp_sthen by (rule wp_requireOpen) (use assms(2) ex in auto)
  then show ?thesis
    using assms(1)
    by (simp add: submitProposal_def wp_sbind wp_findUnique wp_findBy wp_sopt wp_sthen [of "sguard _ _"] wp_sguard split: option.split)
qed

subsection \<open>What a selection leaves\<close>

definition selected_before :: "db \<Rightarrow> id \<Rightarrow> id \<Rightarrow> id \<Rightarrow> selection \<Rightarrow> bool" where
  "selected_before d i k u r \<longleftrightarrow> (\<exists>request. find_row serviceRequests_t i d = Some request
     \<and> sr_selectedProposalId request = Some k \<and> sr_customerId request = u
     \<and> request_job d i = Some (sl_job r) \<and> sl_idempotent r)"

definition selected_now :: "env \<Rightarrow> db \<Rightarrow> id \<Rightarrow> id \<Rightarrow> id \<Rightarrow> int option \<Rightarrow> selection \<Rightarrow> db \<Rightarrow> bool" where
  "selected_now E d i k u percent r d' \<longleftrightarrow> (\<exists>request proposal profile job intent.
     can_select E d i k u request proposal profile \<and> r = selection_of E request proposal job intent
     \<and> jb_agreedPrice job = Some (pr_price proposal) \<and> pi_jobId intent = jb_id job
     \<and> pi_amount intent = ds_depositAmount (deposit_split_of E (pr_price proposal) percent)
     \<and> d' = (selected_db E request proposal job intent d)\<lparr>notifications := notifications d'\<rparr>)"

lemma selectProposal_result:
  assumes ok: "requests_ok (w_db w)"
  shows "wp (selectProposal E i k u percent)
    (\<lambda>r w'. selected_before (w_db w) i k u r \<and> w_db w' = w_db w \<or> selected_now E (w_db w) i k u percent r (w_db w'))
    (\<lambda>_ w'. w_db w' = w_db w \<or> w_db w' = expired_db E [i] (w_db w)
       \<or> (\<exists>r. selected_now E (w_db w) i k u percent r (w_db w'))) w"
proof (rule wp_selectProposal [OF ok])
  fix request proposal profile jid iid job intent and w' :: world
  assume a: "can_select E (w_db w) i k u request proposal profile"
    "job = selectedJob E u request proposal (wp_id profile) jid"
    "intent = depositIntent E u request proposal (deposit_split_of E (pr_price proposal) percent) jid iid"
    "w_db w' = (selected_db E request proposal job intent (w_db w))\<lparr>notifications := notifications (w_db w')\<rparr>"
  then have "jb_agreedPrice job = Some (pr_price proposal)" "pi_jobId intent = jb_id job"
    "pi_amount intent = ds_depositAmount (deposit_split_of E (pr_price proposal) percent)"
    by (simp_all add: selectedJob_def depositIntent_def)
  with a(1,4) have "selected_now E (w_db w) i k u percent (selection_of E request proposal job intent) (w_db w')"
    unfolding selected_now_def by blast
  then show "(selected_before (w_db w) i k u (selection_of E request proposal job intent) \<and> w_db w' = w_db w
      \<or> selected_now E (w_db w) i k u percent (selection_of E request proposal job intent) (w_db w'))
     \<and> (\<forall>e. w_db w' = w_db w \<or> w_db w' = expired_db E [i] (w_db w) \<or> (\<exists>r. selected_now E (w_db w) i k u percent r (w_db w')))"
    by blast
qed (auto simp: selected_before_def)

end
