(* ===== verification/Runs.thy ===== *)
theory Runs
  imports Sample Contracts
begin

text \<open>
  What the sample runs satisfy: the hypotheses of the properties at their states.
\<close>

subsection \<open>Hypotheses that the runs satisfy\<close>

lemma asked_returns: "case fst (createIntent sample_env ''c'' ''xxxx'' None sample_3) of Inl _ \<Rightarrow> False | Inr _ \<Rightarrow> True"
  by code_simp

lemma mpesa_4_key: "find (\<lambda>t. tx_idempotencyKey t = charge_key mpesa_env mpesa_intent (pay_as ''k'')) (transactions (w_db mpesa_4)) = Some mpesa_tx"
proof -
  have "map (\<lambda>t. (tx_id t, tx_idempotencyKey t)) (transactions (w_db mpesa_4)) = [(''xxxxxxxx'', ''k'')]" using mpesa_4_state by blast
  then obtain t where "transactions (w_db mpesa_4) = [t]" "tx_id t = ''xxxxxxxx''" "tx_idempotencyKey t = ''k''" by auto
  moreover have "charge_key mpesa_env mpesa_intent (pay_as ''k'') = ''k''"
    by (simp add: charge_key_def pay_as_def trim_or_null_def js_trim_def js_ws_def)
  ultimately show ?thesis by (simp add: mpesa_tx_def find_row_def)
qed

lemma step_deliver: "step\<^sup>*\<^sup>* w (deliver ev t w)"
  unfolding deliver_def by (rule r_into_rtranclp, rule core_step.webhook [THEN step.core])

lemma signed_hook: "accepts mpesa_env PP_MPESA (hook ''a'' ''xxxxxxxx'') (Some ''h'') (Some ''0'')"
  by code_simp

lemma unsigned_hook: "\<not> verifyWebhookSignature mpesa_env PP_MPESA (hook ''a'' ''xxxxxxxx'') None (Some ''0'')"
  by code_simp

lemma fresh_stamp: "isWebhookTimestampFresh mpesa_env ''0''" "parseWebhookTimestampMs mpesa_env ''0'' = Fin 0"
  by code_simp+

lemma mpesa_cols:
  "tx_id mpesa_tx = ''xxxxxxxx''" "tx_paymentIntentId mpesa_tx = Some ''xxxxx''" "tx_provider mpesa_tx = PP_MPESA"
  "tx_providerReference mpesa_tx = Some ''mpesa-charge-uuuuuuu''" "so_status mpesa_op = GW_PENDING"
  "so_createdAtMs mpesa_op = 7" "pi_jobId mpesa_intent = ''xxxx''" "pi_customerId mpesa_intent = ''c''"
  "pi_status mpesa_intent = PI_PENDING_CONFIRMATION" "pi_providerNetAmount mpesa_intent = 10" "ledger (w_db mpesa_4) = []"
  using mpesa_columns by blast+

lemma mpesa_pending: "w_ops mpesa_4 (tx_provider mpesa_tx, ''mpesa-charge-uuuuuuu'') = Some mpesa_op" "so_status mpesa_op = GW_PENDING"
  by (simp_all only: mpesa_cols mpesa_rows)

lemma mpesa_job: "find_row jobs_t (pi_jobId mpesa_intent) (w_db mpesa_4) = Some sample_job"
  by (simp only: mpesa_cols mpesa_rows)

lemma later_now: "e_now later = 900007"
  by (simp add: later_def)

lemma fresh_mpesa: "fresh_ids later ledger_t mpesa_4"
  using inj_cuid by (simp add: fresh_ids_def mpesa_cols)

subsection \<open>Rows of the first run\<close>

definition request_2 :: serviceRequest where "request_2 = the (find_row serviceRequests_t ''x'' (w_db sample_2))"
definition request_3 :: serviceRequest where "request_3 = the (find_row serviceRequests_t ''x'' (w_db sample_3))"
definition job_4 :: job where "job_4 = the (find_row jobs_t ''xxxx'' (w_db sample_4))"
definition refund_9 :: refundRequest where "refund_9 = the (find_row refunds_t ''xxxxxxxxxxxx'' (w_db sample_9))"
definition payout_7 :: payout where "payout_7 = the (find_row payouts_t ''xxxxxxxxxxxxxx'' (w_db sample_7))"

lemma request_2_row: "find_row serviceRequests_t ''x'' (w_db sample_2) = Some request_2"
proof -
  have "find_row serviceRequests_t ''x'' (w_db sample_2) \<noteq> None" by code_simp
  then show ?thesis by (auto simp: request_2_def)
qed

lemma request_3_run: "map_option sr_status (find_row serviceRequests_t ''x'' (w_db sample_3)) = Some SR_CLOSED"
  by code_simp

lemma request_3_row: "find_row serviceRequests_t ''x'' (w_db sample_3) = Some request_3" "\<not> acceptable sample_env request_3"
  using found_row [OF request_3_run] by (auto simp: request_3_def acceptable_def)

lemma job_4_row: "find_row jobs_t ''xxxx'' (w_db sample_4) = Some job_4" "jb_status job_4 = JOB_REQUESTED"
  using found_row [OF sample_4_state [THEN conjunct2]] by (auto simp: job_4_def)

lemma refund_9_run: "map_option rf_status (find_row refunds_t ''xxxxxxxxxxxx'' (w_db sample_9)) = Some RF_FAILED"
  by code_simp

lemma refund_9_row: "find_row refunds_t ''xxxxxxxxxxxx'' (w_db sample_9) = Some refund_9" "rf_status refund_9 = RF_FAILED"
  using found_row [OF refund_9_run] by (auto simp: refund_9_def)

lemma payout_7_run: "map_option po_status (find_row payouts_t ''xxxxxxxxxxxxxx'' (w_db sample_7)) = Some PO_PENDING"
  by code_simp

lemma payout_7_row: "find_row payouts_t ''xxxxxxxxxxxxxx'' (w_db sample_7) = Some payout_7" "po_status payout_7 = PO_PENDING"
  using found_row [OF payout_7_run] by (auto simp: payout_7_def)

text \<open>One more step: the rejected refund is approved, in vain.\<close>

definition sample_11 :: world where "sample_11 = snd (adminApproveRefund sample_env ''a'' ''xxxxxxxxxxxx'' None sample_9)"

lemma step_11: "step\<^sup>*\<^sup>* sample_9 sample_11"
  unfolding sample_11_def by (rule r_into_rtranclp, rule core_step.approve_refund [THEN step.core])

definition no_refund :: decisionInput where
  "no_refund = \<lparr>dc_refundRequestId = ''xxxxxxxxxxxx'', dc_refundStatus = RF_FAILED, dc_actorUserId = Some ''a'',
     dc_actorName = None, dc_decisionNote = Some ''no'', dc_decisionTitle = None, dc_closeTitle = None\<rparr>"

lemma job_run: "(job_step ^^ 3) JOB_REQUESTED JOB_COMPLETED"
proof -
  have "job_step JOB_REQUESTED JOB_ACCEPTED" "job_step JOB_ACCEPTED JOB_IN_PROGRESS" "job_step JOB_IN_PROGRESS JOB_COMPLETED"
    by (simp_all add: job_step_def isTransitionAllowed_def)
  then show ?thesis by (auto simp: numeral_3_eq_3 relcompp_apply)
qed

end
