(* ===== verification/Guarantees.thy ===== *)
theory Guarantees
  imports History
begin

text \<open>
  The invariants of the modules beside the core, for every reachable state: the catalogue of
  categories, the rating aggregates, the sessions, the challenges, the moderation, the messages,
  the recovery requests and the audit log.
\<close>

subsection \<open>The core touches none of them\<close>

locale core_bystander =
  fixes J :: "db \<Rightarrow> bool"
  assumes core_frames: "frames J jobs_t" "frames J serviceRequests_t" "frames J invitations_t" "frames J proposals_t"
    "frames J notifications_t" "frames J intents_t" "frames J transactions_t" "frames J ledger_t" "frames J payouts_t"
    "frames J refunds_t" "frames J incidents_t" "frames J incidentEvents_t" "frames J paymentEvents_t"

sublocale core_bystander \<subseteq> payment_bystander J
  by unfold_locales (simp_all add: core_frames keeps_frame)

sublocale core_bystander \<subseteq> request_bystander J
  by unfold_locales (simp_all add: core_frames)

context core_bystander
begin

lemma core_kept:
  assumes "core_step w w'" "J (w_db w)"
  shows "J (w_db w')"
proof -
  have "keeps J (updateStatus E j u nxt reason)" "keeps J (selectProposal E i k u percent)" for E j u nxt reason i k percent
    by (simp_all add: keeps_updateStatus_frame keeps_selectProposal keeps_frame core_frames)
  with assms(1) show ?thesis
    by (cases rule: core_step.cases)
      (simp_all add: keepsD assms(2) charges settlement refunds payouts support reading requests invitations submit)
qed

lemma kept_if: "(\<And>w w'. side_step w w' \<Longrightarrow> J (w_db w) \<Longrightarrow> J (w_db w')) \<Longrightarrow> kept J"
  by (rule keptI) (simp_all add: core_kept)

end

subsection \<open>Who looks at what\<close>

text \<open>
  For each module an invariant of its own tables: the rest of the system frames it, so it is kept
  when the operations of the module keep it.
\<close>

locale beside_categories = core_bystander + profile_bystander + review_bystander + message_bystander + access_bystander + recovery_bystander + tracking_bystander
begin

lemma kept_own:
  assumes "\<And>E cc. keeps J (createCategory E cc)" "\<And>E i uc. keeps J (updateCategory E i uc)"
    "\<And>E i. keeps J (removeCategory E i)"
  shows "kept J"
  by (rule kept_if, erule side_stepI) (simp_all add: assms profiles reviewed messages chat safety access logged auth recovery admin tracking)

end

locale beside_ratings = core_bystander + category_bystander + message_bystander + access_bystander + recovery_bystander + tracking_bystander
begin

lemma kept_own:
  assumes "\<And>E u up. keeps J (upsertMe E u up)" "\<And>E u up. keeps J (updateMe E u up)"
    "\<And>E u cv. 1 \<le> cv_rating cv \<Longrightarrow> cv_rating cv \<le> 5 \<Longrightarrow> keeps J (createReview E u cv)"
  shows "kept J"
  by (rule kept_if, erule side_stepI) (simp_all add: assms categories messages chat safety access logged auth recovery admin tracking)

end

locale beside_moderation = core_bystander + category_bystander + profile_bystander + review_bystander + chat_bystander + access_bystander + recovery_bystander + tracking_bystander
begin

lemma kept_own:
  assumes "\<And>E i u reason. keeps J (appealIntervention E i u reason)"
    "\<And>E i u dec note. keeps J (reviewIntervention E i u dec note)"
    "\<And>E j u cm. keeps J (sendMessage E j u cm)"
  shows "kept J"
  by (rule kept_if, erule side_stepI) (simp_all add: assms categories profiles reviewed chat access logged auth recovery admin tracking)

end

locale beside_messages = core_bystander + category_bystander + profile_bystander + review_bystander + safety_bystander + access_bystander + recovery_bystander + tracking_bystander
begin

lemma kept_own:
  assumes "\<And>E j u cm. keeps J (sendMessage E j u cm)" "\<And>E j u. keeps J (markJobRead E j u)"
    "\<And>E j u ui. keeps J (createUploadPresign E j u ui)"
  shows "kept J"
  by (rule kept_if, erule side_stepI) (simp_all add: assms categories profiles reviewed safety access logged auth recovery admin tracking)

end

locale beside_sessions = core_bystander + category_bystander + profile_bystander + review_bystander + message_bystander + access_bystander + tracking_bystander
begin

lemma kept_own:
  assumes "\<And>E rd ci. keeps J (register E rd ci)" "\<And>E email pw ci. keeps J (login E email pw ci)"
    "\<And>E tok ci. keeps J (refresh E tok ci)" "\<And>E tok. keeps J (logout E tok)"
    "\<And>E u. keeps J (logoutAll E u)" "\<And>E u s. keeps J (revokeSession E u s)"
    "\<And>E email. keeps J (requestPasswordRecovery E email)"
    "\<And>E i st note a r ci. keeps J (updatePasswordRecoveryRequest E i st note a r ci)"
    "\<And>E u role sub actor. keeps J (updateUserRole E u role sub actor)"
    "\<And>E u act actor. keeps J (updateUserStatus E u act actor)"
    "\<And>E k v actor. keeps J (upsertPlatformSetting E k v actor)"
    "\<And>E actor. keeps J (exportUsersSnapshot E actor)"
  shows "kept J"
  by (rule kept_if, erule side_stepI) (simp_all add: assms categories profiles reviewed messages chat safety access logged tracking)

end

locale beside_recovery = core_bystander + category_bystander + profile_bystander + review_bystander + message_bystander + access_bystander + account_bystander + tracking_bystander
begin

lemma kept_own:
  assumes "\<And>E email. keeps J (requestPasswordRecovery E email)"
    "\<And>E i st note a r ci. keeps J (updatePasswordRecoveryRequest E i st note a r ci)"
  shows "kept J"
  by (rule kept_if, erule side_stepI) (simp_all add: assms categories profiles reviewed messages chat safety access logged auth admin tracking)

end

locale beside_challenges = core_bystander + category_bystander + profile_bystander + review_bystander + message_bystander + recovery_bystander + tracking_bystander
begin

lemma kept_own:
  assumes "\<And>E ep gr. keeps J (canActivate E ep gr)" "\<And>E u pw pu ci. keeps J (confirmByPassword E u pw pu ci)"
  shows "kept J"
  by (rule kept_if, erule side_stepI) (simp_all add: assms categories profiles reviewed messages chat safety logged auth recovery admin tracking)

end

locale beside_log = core_bystander + category_bystander + profile_bystander + review_bystander + message_bystander + tracking_bystander
begin

lemma kept_own:
  assumes "\<And>E ep gr. keeps J (canActivate E ep gr)" "\<And>E u pw pu ci. keeps J (confirmByPassword E u pw pu ci)"
    "\<And>E a. keeps J (logAdminAction E a)" "\<And>E rd ci. keeps J (register E rd ci)"
    "\<And>E email pw ci. keeps J (login E email pw ci)" "\<And>E tok ci. keeps J (refresh E tok ci)"
    "\<And>E tok. keeps J (logout E tok)" "\<And>E u. keeps J (logoutAll E u)"
    "\<And>E u s. keeps J (revokeSession E u s)" "\<And>E email. keeps J (requestPasswordRecovery E email)"
    "\<And>E i st note a r ci. keeps J (updatePasswordRecoveryRequest E i st note a r ci)"
    "\<And>E u role sub actor. keeps J (updateUserRole E u role sub actor)"
    "\<And>E u act actor. keeps J (updateUserStatus E u act actor)"
    "\<And>E k v actor. keeps J (upsertPlatformSetting E k v actor)"
    "\<And>E actor. keeps J (exportUsersSnapshot E actor)"
  shows "kept J"
  by (rule kept_if, erule side_stepI) (simp_all add: assms categories profiles reviewed messages chat safety tracking)

end

subsection \<open>Sessions\<close>

locale kept_sessions = session_invariant
begin

lemma admin: "keeps J (updateUserRole E u role sub actor)" "keeps J (updateUserStatus E u act actor)"
    "keeps J (upsertPlatformSetting E k v actor)" "keeps J (exportUsersSnapshot E actor)"
proof -
  have "frames J settings_t" by (auto simp: frames_def intro!: cong)
  then show "keeps J (updateUserRole E u role sub actor)" "keeps J (updateUserStatus E u act actor)"
    "keeps J (upsertPlatformSetting E k v actor)" "keeps J (exportUsersSnapshot E actor)"
    by (simp_all add: updateUserRole_def updateUserStatus_def revokeSessionsOf_def upsertPlatformSetting_def
        normalizeSettingKey_def exportUsersSnapshot_def Let_def keeps_rules keeps_frame frame keeps_revoke)
qed

end

sublocale kept_sessions \<subseteq> beside_sessions J
  by unfold_locales (unfold frames_def, (intro allI cong; simp)+)

context kept_sessions
begin

lemma kept: "kept J"
  by (rule kept_own) (simp_all add: auth admin)

end

interpretation kept_unique: kept_sessions "constraints sessions_t"
  by unfold_locales

interpretation kept_sealed: kept_sessions "sealed i" for i
  by unfold_locales

subsection \<open>Categories\<close>

definition catalogue_ok :: "db \<Rightarrow> bool" where
  "catalogue_ok d \<longleftrightarrow> constraints categories_t d \<and> (\<forall>c \<in> set (categories d). valid_slug (ca_slug c))"

lemma keeps_both: "keeps J m \<Longrightarrow> keeps K m \<Longrightarrow> keeps (\<lambda>d. J d \<and> K d) m"
  by (simp add: keeps_def)

lemma keeps_slugs:
  "keeps (\<lambda>d. \<forall>c \<in> set (categories d). valid_slug (ca_slug c)) (createCategory E cc)"
  "keeps (\<lambda>d. \<forall>c \<in> set (categories d). valid_slug (ca_slug c)) (updateCategory E i uc)"
  "keeps (\<lambda>d. \<forall>c \<in> set (categories d). valid_slug (ca_slug c)) (removeCategory E i)"
  unfolding keeps_wp
  by (auto simp: createCategory_def updateCategory_def removeCategory_def normalizeSlug_def handlePrismaConflict_def
      newCategory_def category_data_def upd_rows_def wp_simps Let_def slug_of_valid split: option.splits)

lemma keeps_catalogue: "keeps catalogue_ok (createCategory E cc)" "keeps catalogue_ok (updateCategory E i uc)"
    "keeps catalogue_ok (removeCategory E i)"
  unfolding catalogue_ok_def by (intro keeps_both keeps_categories keeps_slugs)+

interpretation catalogue: beside_categories catalogue_ok
  by unfold_locales (simp_all add: frames_def catalogue_ok_def constraints_def unique_ids_def)

lemma kept_catalogue: "kept catalogue_ok"
  by (rule catalogue.kept_own) (simp_all add: keeps_catalogue)

subsection \<open>Moderation, messages, recovery requests\<close>

interpretation moderation: beside_moderation interventions_ok
  by unfold_locales (simp_all add: frames_def interventions_ok_def unique_ids_def)

lemma kept_interventions: "kept interventions_ok"
  by (rule moderation.kept_own)
    (rule keeps_interventions_appeal keeps_interventions_review keeps_interventions_send)+

interpretation messaging: beside_messages messages_ok
  by unfold_locales (unfold frames_def, (intro allI messages_ok_cong; simp)+)

lemma keeps_messages_presign: "keeps messages_ok (createUploadPresign E j u ui)"
  by (simp add: createUploadPresign_def buildMessageAttachmentUpload_def createPresignedPut_def
      Let_def keeps_rules keeps_frame split: option.split)

lemma kept_messages: "kept messages_ok"
  by (rule messaging.kept_own) (rule keeps_messages_send keeps_messages_read keeps_messages_presign)+

interpretation recovering: beside_recovery recovery_ok
  by unfold_locales (simp_all add: frames_def recovery_ok_def unique_ids_def)

lemma kept_recovery: "kept recovery_ok"
  by (rule recovering.kept_own) (rule keeps_recovery_request keeps_recovery_update)+

subsection \<open>Reauthentication and the audit log\<close>

interpretation challenged: beside_challenges "constraints challenges_t"
  by unfold_locales (simp_all add: frames_def constraints_def unique_ids_def)

interpretation spending: beside_challenges "spent h" for h
  by unfold_locales (simp_all add: frames_def spent_def)

interpretation logging: beside_log "log_extends rows" for rows
  by unfold_locales (simp_all add: frames_def log_extends_def)

lemma keeps_guard:
  assumes "frames J auditLogs_t" "\<And>E u tok role purpose req. keeps J (consumeChallenge E u tok role purpose req)"
  shows "keeps J (canActivate E ep gr)"
  by (simp add: canActivate_def resolveAccessContext_def isProviderUser_def Let_def keeps_rules assms split: option.split)

lemma kept_challenges: "kept (constraints challenges_t)"
proof (rule challenged.kept_own)
  have "frames (constraints challenges_t) auditLogs_t" by (simp add: frames_def constraints_def unique_ids_def)
  then show "keeps (constraints challenges_t) (canActivate E ep gr)" for E ep gr
    by (rule keeps_guard) (rule keeps_constraints_reauth)
qed (rule keeps_constraints_reauth)

lemma kept_spent: "kept (spent h)"
proof (rule spending.kept_own)
  have "frames (spent h) auditLogs_t" by (simp add: frames_def spent_def)
  then show "keeps (spent h) (canActivate E ep gr)" for E ep gr by (rule keeps_guard) (rule keeps_spent_reauth)
qed (rule keeps_spent_reauth)

lemma log_frames:
  "frames (log_extends rows) users_t" "frames (log_extends rows) sessions_t" "frames (log_extends rows) settings_t"
  "frames (log_extends rows) challenges_t" "frames (log_extends rows) recoveryRequests_t"
  by (simp_all add: frames_def log_extends_def)

lemma kept_log: "kept (log_extends rows)"
  by (rule logging.kept_own)
    (simp_all add: canActivate_def consumeChallenge_def resolveAccessContext_def isProviderUser_def refuseReauth_def
      consume_def confirmByPassword_def issueChallenge_def register_def login_def refresh_def logout_def logoutAll_def
      revokeSession_def issueTokens_def openSession_def signTokens_def revokeSessionChain_def refuseRefresh_def
      requestPasswordRecovery_def updatePasswordRecoveryRequest_def updateUserRole_def updateUserStatus_def
      revokeSessionsOf_def upsertPlatformSetting_def normalizeSettingKey_def exportUsersSnapshot_def authAudit_def
      authWarn_def Let_def keeps_rules keeps_frame keeps_updateUnique_frame log_frames split: option.split)

subsection \<open>Rating aggregates\<close>

definition rated_ok :: "workerProfile \<Rightarrow> db \<Rightarrow> bool" where
  "rated_ok p d \<longleftrightarrow> wp_ratingCount p = length (ratings_of (wp_id p) d) \<and> wp_ratingAvg p = ratingAverage (ratings_of (wp_id p) d)"

definition ratings_ok :: "db \<Rightarrow> bool" where
  "ratings_ok d \<longleftrightarrow> unique_ids workerProfiles_t d \<and> constraints reviews_t d \<and> (\<forall>p \<in> set (workerProfiles d). rated_ok p d)
     \<and> (\<forall>r \<in> set (reviews d). 1 \<le> rv_rating r \<and> rv_rating r \<le> 5 \<and> rv_workerProfileId r \<in> wp_id ` set (workerProfiles d))"

interpretation rating: beside_ratings ratings_ok
  by unfold_locales (simp_all add: frames_def ratings_ok_def rated_ok_def ratings_of_def constraints_def unique_ids_def)

lemma ratings_ok_upd:
  assumes "ratings_ok d" "\<And>p. wp_id (f p) = wp_id p" "\<And>p. wp_ratingAvg (f p) = wp_ratingAvg p" "\<And>p. wp_ratingCount (f p) = wp_ratingCount p"
  shows "ratings_ok (upd_rows workerProfiles_t n P f d)"
proof -
  let ?d = "upd_rows workerProfiles_t n P f d"
  have rs: "reviews ?d = reviews d" by (simp add: upd_rows_def)
  then have of: "ratings_of i ?d = ratings_of i d" for i by (simp add: ratings_of_def)
  have "\<forall>p \<in> set (workerProfiles ?d). rated_ok p d"
    using assms by (simp add: tb_workerProfiles.ball_upd [simplified] ratings_ok_def rated_ok_def)
  moreover have "wp_id ` set (workerProfiles ?d) = wp_id ` set (workerProfiles d)"
    using tb_workerProfiles.map_upd [of wp_id n f P d] assms(2) by (simp flip: set_map)
  moreover have "unique_ids workerProfiles_t ?d" using assms by (simp add: tb_workerProfiles.unique_ids_upd ratings_ok_def)
  ultimately show ?thesis using assms(1) by (simp add: ratings_ok_def rs of rated_ok_def constraints_def unique_ids_def)
qed

lemma ratings_ok_new:
  assumes "ratings_ok d" "\<forall>x \<in> set (workerProfiles d). wp_id x \<noteq> wp_id p" "wp_ratingAvg p = 0" "wp_ratingCount p = 0"
  shows "ratings_ok (d\<lparr>workerProfiles := workerProfiles d @ [p]\<rparr>)"
proof -
  have "rv_workerProfileId r \<noteq> wp_id p" if "r \<in> set (reviews d)" for r
    using assms(1,2) that by (force simp: ratings_ok_def)
  then have "ratings_of (wp_id p) d = []" by (simp add: ratings_of_def filter_empty_conv)
  moreover have "ratings_of i (d\<lparr>workerProfiles := ps\<rparr>) = ratings_of i d" for i ps by (simp add: ratings_of_def)
  ultimately show ?thesis using assms
    by (auto simp: ratings_ok_def rated_ok_def ratingAverage_def unique_ids_def constraints_def)
qed

lemma keeps_ratings_profiles: "keeps ratings_ok (upsertMe E u up)" "keeps ratings_ok (updateMe E u up)"
proof -
  have upd: "keeps ratings_ok (update E workerProfiles_t i (upsert_data up))" "keeps ratings_ok (update E workerProfiles_t i (update_data up))" for i
    by (rule keeps_update, rule ratings_ok_upd; simp add: upsert_data_def update_data_def Let_def split: option.split)+
  have new: "keeps ratings_ok (create E workerProfiles_t (\<lambda>i. upsert_data up (emptyProfile E u i)))"
    by (rule keeps_create) (simp add: ratings_ok_new upsert_data_def emptyProfile_def)
  have "ratings_ok (d\<lparr>profileCategories := xs\<rparr>) = ratings_ok d" for d xs
    by (simp add: ratings_ok_def rated_ok_def ratings_of_def constraints_def unique_ids_def)
  then have cats: "keeps ratings_ok (replaceCategories E p cats)" for p cats
    by (simp add: replaceCategories_def keeps_rules keeps_smodify)
  show "keeps ratings_ok (upsertMe E u up)" "keeps ratings_ok (updateMe E u up)"
    by (simp_all add: upsertMe_def updateMe_def ensureCategoriesExist_def profile_of_def keeps_rules upd new cats)
qed

lemma keeps_ratings_review:
  assumes "1 \<le> cv_rating cv" "cv_rating cv \<le> 5"
  shows "keeps ratings_ok (createReview E u cv)"
  unfolding keeps_wp
proof (intro allI impI)
  fix w :: world assume ok: "ratings_ok (w_db w)"
  show "wp (createReview E u cv) (\<lambda>_ w'. ratings_ok (w_db w')) (\<lambda>_ w'. ratings_ok (w_db w')) w"
  proof (rule wp_mono [OF createReview_contract], goal_cases)
    case (1 r w')
    then obtain job p where new: "\<forall>x \<in> set (reviews (w_db w)). rv_id x \<noteq> rv_id r"
      "find (\<lambda>x. rv_jobId x = cv_jobId cv) (reviews (w_db w)) = None" and r: "r = newReview E u job cv (rv_id r)"
      and p: "find_row workerProfiles_t (jb_workerProfileId job) (w_db w) = Some p"
      and w': "w_db w' = upd_rows workerProfiles_t (e_now E) (\<lambda>p. wp_id p = jb_workerProfileId job)
           (\<lambda>p. p\<lparr>wp_ratingAvg := ratingAverage (ratings_of (jb_workerProfileId job) (w_db w) @ [cv_rating cv]),
              wp_ratingCount := Suc (length (ratings_of (jb_workerProfileId job) (w_db w)))\<rparr>)
           ((w_db w)\<lparr>reviews := reviews (w_db w) @ [r]\<rparr>)" by blast
    have rv: "rv_workerProfileId r = jb_workerProfileId job" "rv_rating r = cv_rating cv" "rv_jobId r = cv_jobId cv"
      by (subst r, simp add: newReview_def)+
    have rs: "reviews (w_db w') = reviews (w_db w) @ [r]" by (simp add: w' upd_rows_def)
    have of: "ratings_of i (w_db w') = ratings_of i (w_db w) @ (if i = jb_workerProfileId job then [cv_rating cv] else [])" for i
      by (auto simp: ratings_of_def rs rv)
    have ids: "map wp_id (workerProfiles (w_db w')) = map wp_id (workerProfiles (w_db w))"
      unfolding w' by (subst tb_workerProfiles.map_upd [simplified]) simp_all
    have "\<forall>q \<in> set (workerProfiles (w_db w')). rated_ok q (w_db w')"
      using ok unfolding rated_ok_def of by (subst (1) w') (auto simp: upd_rows_def ratings_ok_def rated_ok_def)
    moreover have "constraints reviews_t (w_db w')"
      using ok new rv by (auto simp: ratings_ok_def constraints_def unique_ids_def rs find_None_iff)
    moreover have "jb_workerProfileId job \<in> wp_id ` set (workerProfiles (w_db w))" using find_row_SomeD [OF p] by (auto intro: rev_image_eqI)
    ultimately show ?case using ok ids assms
      by (simp add: ratings_ok_def rs rv unique_ids_def flip: set_map)
  qed (simp add: ok)
qed

lemma kept_ratings: "kept ratings_ok"
  by (rule rating.kept_own) (simp_all add: keeps_ratings_profiles keeps_ratings_review)

subsection \<open>A review is of a completed job\<close>

definition reviewed_ok :: "db \<Rightarrow> bool" where
  "reviewed_ok d \<longleftrightarrow> (\<forall>r \<in> set (reviews d). \<exists>j. find_row jobs_t (rv_jobId r) d = Some j \<and> jb_status j = JOB_COMPLETED
     \<and> jb_clientId j = rv_reviewerId r \<and> jb_workerProfileId j = rv_workerProfileId r)"

locale beside_reviewed = category_bystander + profile_bystander + message_bystander + access_bystander
  + recovery_bystander + tracking_bystander
begin

lemma side_kept_own:
  assumes "side_step w w'" "J (w_db w)" "\<And>E u cv. keeps J (createReview E u cv)"
  shows "J (w_db w')"
  using assms(1,2)
  by (rule side_stepI) (simp_all add: assms(3) categories profiles messages chat safety access logged auth recovery admin tracking)

end

interpretation reviewed: beside_reviewed reviewed_ok
  by unfold_locales (simp_all add: frames_def reviewed_ok_def find_row_def)

lemma keeps_reviewed: "keeps reviewed_ok (createReview E u cv)"
  unfolding keeps_wp
proof (intro allI impI)
  fix w :: world assume ok: "reviewed_ok (w_db w)"
  have "reviewed_ok (upd_rows workerProfiles_t n P f (d\<lparr>reviews := rs\<rparr>)) = reviewed_ok (d\<lparr>reviews := rs\<rparr>)" for n P f d rs
    by (simp add: reviewed_ok_def find_row_def upd_rows_def)
  note upd = this
  have new: "reviewed_ok ((w_db w)\<lparr>reviews := reviews (w_db w) @ [newReview E u job cv i]\<rparr>)"
    if "find_row jobs_t (cv_jobId cv) (w_db w) = Some job" "jb_clientId job = u" "jb_status job = JOB_COMPLETED" for job i
    using ok that by (auto simp: reviewed_ok_def find_row_def newReview_def)
  show "wp (createReview E u cv) (\<lambda>_ w'. reviewed_ok (w_db w')) (\<lambda>_ w'. reviewed_ok (w_db w')) w"
  proof (rule wp_mono [OF createReview_contract], goal_cases)
    case (1 r w')
    then obtain job where "find_row jobs_t (cv_jobId cv) (w_db w) = Some job" "jb_clientId job = u" "jb_status job = JOB_COMPLETED"
      "r = newReview E u job cv (rv_id r)" "\<exists>n P f. w_db w' = upd_rows workerProfiles_t n P f ((w_db w)\<lparr>reviews := reviews (w_db w) @ [r]\<rparr>)"
      by blast
    then show ?case using new [of job "rv_id r"] upd by auto
  qed (simp add: ok)
qed

interpretation same_reviews: core_bystander "\<lambda>d. reviews d = rs" for rs
  by unfold_locales (simp_all add: frames_def)

lemma kept_reviewed: "kept reviewed_ok"
proof (rule keptI)
  fix w w' assume st: "core_step w w'" and ok: "reviewed_ok (w_db w)"
  have "reviews (w_db w') = reviews (w_db w)" using st by (rule same_reviews.core_kept) simp
  moreover have "jobs_progress (w_db w) (w_db w')"
    using kept_jobs_progress [of "w_db w"] st job_progress.start by (auto simp: kept_def intro: step.core)
  then have "\<exists>b. find_row jobs_t i (w_db w') = Some b \<and> job_moved a b" if "find_row jobs_t i (w_db w) = Some a" for i a
    using that by (rule progressD)
  moreover have "jb_status b = JOB_COMPLETED \<and> jb_clientId b = jb_clientId a \<and> jb_workerProfileId b = jb_workerProfileId a"
    if "job_moved a b" "jb_status a = JOB_COMPLETED" for a b
    using that job_life.terminal_steps [of "jb_status a" "jb_status b"] unfolding job_moved_def job_terms_def
    by (cases a; cases b) simp
  ultimately show "reviewed_ok (w_db w')"
    unfolding reviewed_ok_def
  proof (intro ballI, goal_cases)
    case (1 r)
    then obtain j where "find_row jobs_t (rv_jobId r) (w_db w) = Some j" "jb_status j = JOB_COMPLETED"
      "jb_clientId j = rv_reviewerId r" "jb_workerProfileId j = rv_workerProfileId r"
      using ok unfolding reviewed_ok_def by auto
    with 1(2) [of "rv_jobId r" j] 1(3) [of j] show ?case by auto
  qed
qed (rule reviewed.side_kept_own, assumption+, rule keeps_reviewed)

subsection \<open>The seed\<close>

lemma seeded_rows:
  assumes "seeded d"
  shows "constraints categories_t d" "\<forall>c \<in> set (categories d). valid_slug (ca_slug c)"
    "unique_ids workerProfiles_t d" "\<forall>p \<in> set (workerProfiles d). wp_ratingAvg p = 0 \<and> wp_ratingCount p = 0"
  using assms unfolding seeded_def by blast+

lemma seeded_modules:
  assumes "seeded d"
  shows "catalogue_ok d" "ratings_ok d" "reviewed_ok d" "interventions_ok d" "messages_ok d" "recovery_ok d"
    "constraints sessions_t d" "constraints challenges_t d" "log_extends [] d"
  using seeded_rows [OF assms] seeded_empty [OF assms]
  by (simp_all add: catalogue_ok_def ratings_ok_def rated_ok_def ratings_of_def ratingAverage_def reviewed_ok_def
      interventions_ok_def messages_ok_def attachments_of_def recovery_ok_def constraints_def unique_ids_def log_extends_def)

lemma reachable_modules:
  assumes "reachable w"
  shows "catalogue_ok (w_db w)" "ratings_ok (w_db w)" "reviewed_ok (w_db w)" "interventions_ok (w_db w)" "messages_ok (w_db w)"
    "recovery_ok (w_db w)" "constraints sessions_t (w_db w)" "constraints challenges_t (w_db w)" "log_extends [] (w_db w)"
  using kept_reachable [OF kept_catalogue seeded_modules(1) assms] kept_reachable [OF kept_ratings seeded_modules(2) assms]
    kept_reachable [OF kept_reviewed seeded_modules(3) assms] kept_reachable [OF kept_interventions seeded_modules(4) assms]
    kept_reachable [OF kept_messages seeded_modules(5) assms] kept_reachable [OF kept_recovery seeded_modules(6) assms]
    kept_reachable [OF kept_unique.kept seeded_modules(7) assms] kept_reachable [OF kept_challenges seeded_modules(8) assms]
    kept_reachable [OF kept_log seeded_modules(9) assms]
  by simp_all

end
