(* ===== verification/Endpoints.thy ===== *)
theory Endpoints
  imports Access
begin

text \<open>
  The controllers as a table: for every handler its route, its guards and the metadata of
  \<^verbatim>\<open>@RequireAppRoles\<close>, \<^verbatim>\<open>@RequirePermissions\<close> and \<^verbatim>\<open>@RequireReauth\<close>, read as Nest reads it (the guards of
  the class before those of the handler, metadata of the handler over metadata of the class), and
  the admission of a request through \<^verbatim>\<open>JwtAuthGuard\<close> and \<^verbatim>\<open>AccessPolicyGuard\<close>.
\<close>

subsection \<open>Routes and their metadata\<close>

datatype verb = GET | POST | PATCH | PUT | DELETE
datatype routeGuard = JwtAuthGuard | AccessPolicyGuard

record controllerMeta =
  ct_path :: string
  ct_guards :: "routeGuard list"
  ct_audited :: bool
  ct_roles :: "appRole list option"

record handlerMeta =
  hd_verb :: verb
  hd_path :: string
  hd_name :: string
  hd_guards :: "routeGuard list"
  hd_audited :: bool
  hd_roles :: "appRole list option"
  hd_permissions :: "string list"
  hd_reauth :: reauthRequirement

definition handler :: "verb \<Rightarrow> string \<Rightarrow> string \<Rightarrow> handlerMeta" where
  "handler v p n = \<lparr>hd_verb = v, hd_path = p, hd_name = n, hd_guards = [], hd_audited = False, hd_roles = None,
     hd_permissions = [], hd_reauth = NoReauth\<rparr>"

record endpoint =
  en_verb :: verb
  en_path :: string
  en_name :: string
  en_guards :: "routeGuard list"
  en_policy :: endpointPolicy
  en_audited :: bool

definition join_path :: "string \<Rightarrow> string \<Rightarrow> string" where
  "join_path a b = (if b = [] then a else a @ ''/'' @ b)"

text \<open>\<^verbatim>\<open>reflector.getAllAndOverride(key, [handler, class]) ?? []\<close>; no class sets permissions or
  reauthentication.\<close>

definition endpointOf :: "controllerMeta \<Rightarrow> handlerMeta \<Rightarrow> endpoint" where
  "endpointOf c h =
     \<lparr>en_verb = hd_verb h, en_path = join_path (ct_path c) (hd_path h), en_name = hd_name h,
      en_guards = ct_guards c @ hd_guards h,
      en_policy = \<lparr>ep_roles = or_else (case hd_roles h of Some rs \<Rightarrow> Some rs | None \<Rightarrow> ct_roles c) [],
        ep_permissions = hd_permissions h, ep_reauth = hd_reauth h\<rparr>,
      en_audited = (ct_audited c \<or> hd_audited h)\<rparr>"

definition adminOpsEndpoints :: "endpoint list" where
  "adminOpsEndpoints = map (endpointOf \<lparr>ct_path = ''admin/ops'', ct_guards = [JwtAuthGuard, AccessPolicyGuard], ct_audited = True, ct_roles = Some [AR_ADMIN, AR_OPS_ADMIN, AR_SUPPORT_ADMIN, AR_SUPER_ADMIN]\<rparr>)
     [handler GET ''overview'' ''getOverview'',
      (handler GET ''audit-logs'' ''listAuditLogs'')\<lparr>hd_permissions := [''admin.audit.read'']\<rparr>,
      (handler PATCH ''users/:id/role'' ''updateUserRole'')\<lparr>hd_permissions := [''admin.roles.manage''], hd_reauth := Reauth (Some ''admin.user.role.change'')\<rparr>,
      (handler PATCH ''users/:id/status'' ''updateUserStatus'')\<lparr>hd_permissions := [''admin.users.manage''], hd_reauth := Reauth (Some ''admin.user.status.change'')\<rparr>,
      (handler DELETE ''users/:id'' ''deleteUser'')\<lparr>hd_permissions := [''admin.users.manage''], hd_reauth := Reauth (Some ''admin.user.delete'')\<rparr>,
      (handler POST ''exports/users'' ''exportUsersSnapshot'')\<lparr>hd_permissions := [''admin.reports.read''], hd_reauth := Reauth (Some ''admin.data.export'')\<rparr>,
      (handler PUT ''settings/:key'' ''upsertPlatformSetting'')\<lparr>hd_permissions := [''admin.settings.manage''], hd_reauth := Reauth (Some ''admin.setting.change'')\<rparr>]"

definition appEndpoints :: "endpoint list" where
  "appEndpoints = map (endpointOf \<lparr>ct_path = '''', ct_guards = [], ct_audited = False, ct_roles = None\<rparr>)
     [handler GET '''' ''getHello'']"

definition authEndpoints :: "endpoint list" where
  "authEndpoints = map (endpointOf \<lparr>ct_path = ''auth'', ct_guards = [], ct_audited = False, ct_roles = None\<rparr>)
     [handler POST ''register'' ''register'',
      handler POST ''login'' ''login'',
      handler POST ''refresh'' ''refresh'',
      handler POST ''password-recovery/request'' ''requestPasswordRecovery'',
      (handler POST ''reauth/confirm'' ''confirmReauth'')\<lparr>hd_guards := [JwtAuthGuard]\<rparr>,
      handler POST ''logout'' ''logout'',
      (handler POST ''logout-all'' ''logoutAll'')\<lparr>hd_guards := [JwtAuthGuard]\<rparr>,
      (handler GET ''password-recovery/requests'' ''listPasswordRecoveryRequests'')\<lparr>hd_guards := [JwtAuthGuard, AccessPolicyGuard], hd_roles := Some [AR_ADMIN, AR_OPS_ADMIN, AR_SUPPORT_ADMIN, AR_SUPER_ADMIN]\<rparr>,
      (handler POST ''password-recovery/requests/:id'' ''updatePasswordRecoveryRequest'')\<lparr>hd_guards := [JwtAuthGuard, AccessPolicyGuard], hd_roles := Some [AR_ADMIN, AR_OPS_ADMIN, AR_SUPPORT_ADMIN, AR_SUPER_ADMIN]\<rparr>,
      (handler GET ''sessions'' ''sessions'')\<lparr>hd_guards := [JwtAuthGuard]\<rparr>,
      (handler DELETE ''sessions/:id'' ''revokeSession'')\<lparr>hd_guards := [JwtAuthGuard]\<rparr>,
      (handler GET ''me'' ''me'')\<lparr>hd_guards := [JwtAuthGuard]\<rparr>]"

definition categoriesEndpoints :: "endpoint list" where
  "categoriesEndpoints = map (endpointOf \<lparr>ct_path = ''categories'', ct_guards = [], ct_audited = False, ct_roles = None\<rparr>)
     [handler GET '''' ''list'',
      handler GET '':id'' ''getById'',
      (handler POST '''' ''create'')\<lparr>hd_guards := [JwtAuthGuard, AccessPolicyGuard], hd_audited := True, hd_permissions := [''admin.categories.manage''], hd_reauth := Reauth (Some ''admin.categories.create'')\<rparr>,
      (handler PATCH '':id'' ''update'')\<lparr>hd_guards := [JwtAuthGuard, AccessPolicyGuard], hd_audited := True, hd_permissions := [''admin.categories.manage''], hd_reauth := Reauth (Some ''admin.categories.update'')\<rparr>,
      (handler DELETE '':id'' ''remove'')\<lparr>hd_guards := [JwtAuthGuard, AccessPolicyGuard], hd_audited := True, hd_permissions := [''admin.categories.manage''], hd_reauth := Reauth (Some ''admin.categories.remove'')\<rparr>]"

definition jobsEndpoints :: "endpoint list" where
  "jobsEndpoints = map (endpointOf \<lparr>ct_path = ''jobs'', ct_guards = [JwtAuthGuard, AccessPolicyGuard], ct_audited = False, ct_roles = None\<rparr>)
     [(handler POST '''' ''create'')\<lparr>hd_roles := Some [AR_CUSTOMER, AR_ADMIN, AR_OPS_ADMIN, AR_SUPPORT_ADMIN, AR_SUPER_ADMIN]\<rparr>,
      (handler GET ''me/client'' ''listMyClientJobs'')\<lparr>hd_permissions := [''customer.jobs.read.own'']\<rparr>,
      (handler GET ''me/worker'' ''listMyWorkerJobs'')\<lparr>hd_permissions := [''provider.jobs.read.own'']\<rparr>,
      (handler GET '':id'' ''getById'')\<lparr>hd_permissions := [''customer.jobs.read.own'']\<rparr>,
      (handler PATCH '':id/quote'' ''proposeQuote'')\<lparr>hd_roles := Some [AR_PROVIDER, AR_ADMIN, AR_OPS_ADMIN, AR_SUPPORT_ADMIN, AR_SUPER_ADMIN]\<rparr>,
      (handler PATCH '':id/status'' ''updateStatus'')\<lparr>hd_roles := Some [AR_CUSTOMER, AR_PROVIDER, AR_ADMIN, AR_OPS_ADMIN, AR_SUPPORT_ADMIN, AR_SUPER_ADMIN]\<rparr>]"

definition messagesEndpoints :: "endpoint list" where
  "messagesEndpoints = map (endpointOf \<lparr>ct_path = ''messages'', ct_guards = [JwtAuthGuard, AccessPolicyGuard], ct_audited = False, ct_roles = Some [AR_CUSTOMER, AR_PROVIDER, AR_ADMIN, AR_SUPPORT_ADMIN, AR_OPS_ADMIN, AR_SUPER_ADMIN]\<rparr>)
     [handler GET ''me'' ''listMine'',
      handler GET ''jobs/:jobId'' ''listByJob'',
      handler POST ''jobs/:jobId'' ''send'',
      handler POST ''jobs/:jobId/uploads/presign'' ''presignUpload'',
      handler POST ''jobs/:jobId/read'' ''markJobRead'']"

definition notificationsEndpoints :: "endpoint list" where
  "notificationsEndpoints = map (endpointOf \<lparr>ct_path = ''notifications'', ct_guards = [JwtAuthGuard, AccessPolicyGuard], ct_audited = False, ct_roles = Some [AR_CUSTOMER, AR_PROVIDER, AR_ADMIN, AR_SUPPORT_ADMIN, AR_OPS_ADMIN, AR_SUPER_ADMIN]\<rparr>)
     [handler GET ''me'' ''listMine'',
      handler POST ''me/read-all'' ''markAllRead'',
      handler POST '':id/read'' ''markRead'']"

definition observabilityEndpoints :: "endpoint list" where
  "observabilityEndpoints = map (endpointOf \<lparr>ct_path = ''observability'', ct_guards = [], ct_audited = False, ct_roles = None\<rparr>)
     [handler GET ''metrics'' ''metrics'',
      handler GET ''health'' ''health'',
      handler GET ''ready'' ''ready'']"

definition adminPaymentsEndpoints :: "endpoint list" where
  "adminPaymentsEndpoints = map (endpointOf \<lparr>ct_path = ''admin/payments'', ct_guards = [JwtAuthGuard, AccessPolicyGuard], ct_audited = True, ct_roles = Some [AR_ADMIN, AR_OPS_ADMIN, AR_SUPPORT_ADMIN, AR_SUPER_ADMIN]\<rparr>)
     [(handler GET ''overview'' ''overview'')\<lparr>hd_permissions := [''admin.payments.read'']\<rparr>,
      (handler GET ''intents'' ''intents'')\<lparr>hd_permissions := [''admin.payments.read'']\<rparr>,
      (handler GET ''transactions'' ''transactions'')\<lparr>hd_permissions := [''admin.payments.read'']\<rparr>,
      (handler GET ''refunds'' ''refunds'')\<lparr>hd_permissions := [''admin.payments.read'']\<rparr>,
      (handler GET ''payouts'' ''payouts'')\<lparr>hd_permissions := [''admin.payments.read'']\<rparr>,
      (handler POST ''refunds'' ''createRefund'')\<lparr>hd_permissions := [''admin.payments.manage''], hd_reauth := Reauth (Some ''admin.payments.refund'')\<rparr>,
      (handler POST ''refunds/:id/approve'' ''approveRefund'')\<lparr>hd_permissions := [''admin.payments.manage''], hd_reauth := Reauth (Some ''admin.payments.refund'')\<rparr>,
      (handler POST ''refunds/:id/reject'' ''rejectRefund'')\<lparr>hd_permissions := [''admin.payments.manage''], hd_reauth := Reauth (Some ''admin.payments.refund'')\<rparr>,
      (handler POST ''payouts'' ''createPayout'')\<lparr>hd_permissions := [''admin.payments.manage''], hd_reauth := Reauth (Some ''admin.payments.payout.create'')\<rparr>,
      (handler POST ''payouts/:id/approve'' ''approvePayout'')\<lparr>hd_permissions := [''admin.payments.manage''], hd_reauth := Reauth (Some ''admin.payments.payout.approve'')\<rparr>,
      (handler POST ''payouts/:id/process'' ''processPayout'')\<lparr>hd_permissions := [''admin.payments.manage''], hd_reauth := Reauth (Some ''admin.payments.payout.process'')\<rparr>,
      (handler POST ''release/:jobId'' ''releaseFunds'')\<lparr>hd_permissions := [''admin.payments.manage''], hd_reauth := Reauth (Some ''admin.payments.release'')\<rparr>,
      (handler POST ''reconcile/pending'' ''reconcilePending'')\<lparr>hd_permissions := [''admin.payments.manage'']\<rparr>]"

definition paymentsEndpoints :: "endpoint list" where
  "paymentsEndpoints = map (endpointOf \<lparr>ct_path = ''payments'', ct_guards = [], ct_audited = False, ct_roles = None\<rparr>)
     [(handler POST ''intents'' ''createIntent'')\<lparr>hd_guards := [JwtAuthGuard, AccessPolicyGuard], hd_permissions := [''customer.payments.create'']\<rparr>,
      (handler POST ''intents/:id/pay'' ''payIntent'')\<lparr>hd_guards := [JwtAuthGuard, AccessPolicyGuard], hd_permissions := [''customer.payments.create'']\<rparr>,
      (handler GET ''intents/:id'' ''getIntentById'')\<lparr>hd_guards := [JwtAuthGuard, AccessPolicyGuard], hd_roles := Some [AR_CUSTOMER, AR_PROVIDER]\<rparr>,
      (handler GET ''jobs/:jobId'' ''getJobFinancialState'')\<lparr>hd_guards := [JwtAuthGuard, AccessPolicyGuard], hd_roles := Some [AR_CUSTOMER, AR_PROVIDER]\<rparr>,
      (handler POST ''jobs/:jobId/refund-requests'' ''createJobRefundRequest'')\<lparr>hd_guards := [JwtAuthGuard, AccessPolicyGuard], hd_roles := Some [AR_CUSTOMER, AR_PROVIDER, AR_ADMIN, AR_OPS_ADMIN, AR_SUPPORT_ADMIN, AR_SUPER_ADMIN]\<rparr>,
      (handler POST ''refunds/:id/cancel'' ''cancelRefundRequest'')\<lparr>hd_guards := [JwtAuthGuard, AccessPolicyGuard], hd_roles := Some [AR_CUSTOMER, AR_PROVIDER, AR_ADMIN, AR_OPS_ADMIN, AR_SUPPORT_ADMIN, AR_SUPER_ADMIN]\<rparr>,
      (handler GET ''me'' ''listMyCustomerIntents'')\<lparr>hd_guards := [JwtAuthGuard, AccessPolicyGuard], hd_permissions := [''customer.payments.read.own'']\<rparr>,
      (handler GET ''provider/summary'' ''getProviderSummary'')\<lparr>hd_guards := [JwtAuthGuard, AccessPolicyGuard], hd_permissions := [''provider.earnings.read.own'']\<rparr>,
      handler POST ''webhooks/:provider'' ''webhook'',
      (handler POST ''transactions/:id/reconcile'' ''reconcileTransaction'')\<lparr>hd_guards := [JwtAuthGuard, AccessPolicyGuard], hd_permissions := [''admin.payments.manage'']\<rparr>]"

definition reviewsEndpoints :: "endpoint list" where
  "reviewsEndpoints = map (endpointOf \<lparr>ct_path = ''reviews'', ct_guards = [], ct_audited = False, ct_roles = None\<rparr>)
     [handler GET ''worker/:workerProfileId'' ''listByWorker'',
      (handler GET ''me'' ''listMine'')\<lparr>hd_guards := [JwtAuthGuard, AccessPolicyGuard], hd_permissions := [''customer.reviews.read.own'']\<rparr>,
      (handler POST '''' ''create'')\<lparr>hd_guards := [JwtAuthGuard, AccessPolicyGuard], hd_permissions := [''customer.reviews.create'']\<rparr>]"

definition serviceRequestsEndpoints :: "endpoint list" where
  "serviceRequestsEndpoints = map (endpointOf \<lparr>ct_path = ''service-requests'', ct_guards = [JwtAuthGuard, AccessPolicyGuard], ct_audited = False, ct_roles = None\<rparr>)
     [(handler POST '''' ''create'')\<lparr>hd_permissions := [''customer.requests.create'']\<rparr>,
      (handler POST '':id/recreate'' ''recreate'')\<lparr>hd_permissions := [''customer.requests.create'']\<rparr>,
      (handler PATCH '':id'' ''update'')\<lparr>hd_permissions := [''customer.requests.update'']\<rparr>,
      (handler GET ''me'' ''listMine'')\<lparr>hd_permissions := [''customer.requests.read.own'']\<rparr>,
      (handler GET ''open'' ''listOpen'')\<lparr>hd_permissions := [''provider.requests.read.open'']\<rparr>,
      (handler GET ''invitations/mine'' ''listMineInvitations'')\<lparr>hd_permissions := [''provider.requests.read.invites'']\<rparr>,
      (handler POST ''invitations/:invitationId/decline'' ''declineInvitation'')\<lparr>hd_permissions := [''provider.requests.decline.invite'']\<rparr>,
      (handler GET '':id/invitations'' ''listInvitations'')\<lparr>hd_permissions := [''customer.requests.read.own'']\<rparr>,
      (handler POST '':id/invitations'' ''createInvitation'')\<lparr>hd_permissions := [''customer.requests.invite'']\<rparr>,
      (handler GET ''proposals/mine'' ''listMineProposals'')\<lparr>hd_permissions := [''provider.requests.read.open'']\<rparr>,
      (handler GET '':id'' ''getMineById'')\<lparr>hd_permissions := [''customer.requests.read.own'']\<rparr>,
      (handler POST '':id/proposals'' ''submitProposal'')\<lparr>hd_permissions := [''provider.requests.propose'']\<rparr>,
      (handler GET '':id/proposals'' ''listProposals'')\<lparr>hd_roles := Some [AR_CUSTOMER, AR_PROVIDER, AR_ADMIN, AR_OPS_ADMIN, AR_SUPPORT_ADMIN, AR_SUPER_ADMIN]\<rparr>,
      (handler POST '':id/select/:proposalId'' ''selectProposal'')\<lparr>hd_permissions := [''customer.requests.select'']\<rparr>]"

definition supportOpsEndpoints :: "endpoint list" where
  "supportOpsEndpoints = map (endpointOf \<lparr>ct_path = ''admin/support'', ct_guards = [JwtAuthGuard, AccessPolicyGuard], ct_audited = True, ct_roles = Some [AR_ADMIN, AR_OPS_ADMIN, AR_SUPPORT_ADMIN, AR_SUPER_ADMIN]\<rparr>)
     [(handler GET ''incidents'' ''listIncidents'')\<lparr>hd_permissions := [''admin.ops.read'']\<rparr>,
      (handler POST ''incidents'' ''createIncident'')\<lparr>hd_permissions := [''admin.support.manage'']\<rparr>,
      (handler PATCH ''incidents/:id'' ''updateIncident'')\<lparr>hd_permissions := [''admin.support.manage'']\<rparr>]"

definition trackingEndpoints :: "endpoint list" where
  "trackingEndpoints = map (endpointOf \<lparr>ct_path = ''tracking'', ct_guards = [], ct_audited = False, ct_roles = None\<rparr>)
     [handler POST ''events'' ''ingest'',
      handler GET ''ranking/workers'' ''listWorkerRanking'']"

definition adminTrustSafetyEndpoints :: "endpoint list" where
  "adminTrustSafetyEndpoints = map (endpointOf \<lparr>ct_path = ''admin/trust-safety'', ct_guards = [JwtAuthGuard, AccessPolicyGuard], ct_audited = False, ct_roles = Some [AR_ADMIN, AR_SUPPORT_ADMIN, AR_OPS_ADMIN, AR_SUPER_ADMIN]\<rparr>)
     [(handler GET ''interventions'' ''list'')\<lparr>hd_permissions := [''admin.moderation.manage'']\<rparr>,
      (handler POST ''interventions/:id/review'' ''review'')\<lparr>hd_permissions := [''admin.moderation.manage'']\<rparr>]"

definition trustSafetyEndpoints :: "endpoint list" where
  "trustSafetyEndpoints = map (endpointOf \<lparr>ct_path = ''trust-safety'', ct_guards = [JwtAuthGuard, AccessPolicyGuard], ct_audited = False, ct_roles = Some [AR_CUSTOMER, AR_PROVIDER, AR_ADMIN, AR_SUPPORT_ADMIN, AR_OPS_ADMIN, AR_SUPER_ADMIN]\<rparr>)
     [handler POST ''interventions/:id/appeal'' ''appeal'']"

definition workerProfileEndpoints :: "endpoint list" where
  "workerProfileEndpoints = map (endpointOf \<lparr>ct_path = ''worker-profile'', ct_guards = [], ct_audited = False, ct_roles = None\<rparr>)
     [handler GET '''' ''list'',
      (handler GET ''me'' ''getMe'')\<lparr>hd_guards := [JwtAuthGuard, AccessPolicyGuard], hd_permissions := [''provider.profile.manage'']\<rparr>,
      (handler PUT ''me'' ''upsertMe'')\<lparr>hd_guards := [JwtAuthGuard, AccessPolicyGuard], hd_permissions := [''provider.profile.manage'']\<rparr>,
      (handler PATCH ''me'' ''updateMe'')\<lparr>hd_guards := [JwtAuthGuard, AccessPolicyGuard], hd_permissions := [''provider.profile.manage'']\<rparr>,
      handler GET '':userId'' ''getByUserId'']"

definition api :: "endpoint list" where
  "api = adminOpsEndpoints @ appEndpoints @ authEndpoints @ categoriesEndpoints @ jobsEndpoints @ messagesEndpoints @ notificationsEndpoints @ observabilityEndpoints @ adminPaymentsEndpoints @ paymentsEndpoints @ reviewsEndpoints @ serviceRequestsEndpoints @ supportOpsEndpoints @ trackingEndpoints @ adminTrustSafetyEndpoints @ trustSafetyEndpoints @ workerProfileEndpoints"

subsection \<open>Admission\<close>

text \<open>\<open>JwtAuthGuard\<close> has validated the bearer's token (\<open>validateBearer\<close>) or found none.\<close>

definition admit :: "env \<Rightarrow> endpoint \<Rightarrow> guardedRequest \<Rightarrow> accessContext option svc" where
  "admit E ep req =
     sthen (sguard (JwtAuthGuard \<in> set (en_guards ep) \<longrightarrow> gq_user req \<noteq> None) (UnauthorizedException ''Unauthorized''))
     (if AccessPolicyGuard \<in> set (en_guards ep) then canActivate E (en_policy ep) req else sreturn None)"

subsection \<open>What the table guarantees\<close>

definition admin_roles :: "appRole list" where
  "admin_roles = [AR_ADMIN, AR_OPS_ADMIN, AR_SUPPORT_ADMIN, AR_SUPER_ADMIN]"

lemmas api_defs = api_def adminOpsEndpoints_def appEndpoints_def authEndpoints_def categoriesEndpoints_def jobsEndpoints_def
  messagesEndpoints_def notificationsEndpoints_def observabilityEndpoints_def adminPaymentsEndpoints_def
  paymentsEndpoints_def reviewsEndpoints_def serviceRequestsEndpoints_def supportOpsEndpoints_def
  trackingEndpoints_def adminTrustSafetyEndpoints_def trustSafetyEndpoints_def workerProfileEndpoints_def
  endpointOf_def handler_def join_path_def

definition admin_only :: "endpoint \<Rightarrow> bool" where
  "admin_only ep \<longleftrightarrow> AccessPolicyGuard \<in> set (en_guards ep) \<and>
     (ep_roles (en_policy ep) \<noteq> [] \<and> list_all (\<lambda>r. r \<in> set admin_roles) (ep_roles (en_policy ep))
      \<or> list_ex (\<lambda>p. p \<notin> set customerPermissions \<and> p \<notin> set providerPermissions) (ep_permissions (en_policy ep)))"

lemma admin_table: "ep \<in> set api \<Longrightarrow> js_starts_with (en_path ep) ''admin/'' \<Longrightarrow> admin_only ep"
proof -
  have "list_all (\<lambda>ep. js_starts_with (en_path ep) ''admin/'' \<longrightarrow> admin_only ep) api" by code_simp
  then show "ep \<in> set api \<Longrightarrow> js_starts_with (en_path ep) ''admin/'' \<Longrightarrow> admin_only ep" by (simp add: list_all_iff)
qed

lemma hasAnyRole_user:
  "r \<in> {AR_CUSTOMER, AR_PROVIDER} \<Longrightarrow> hasAnyRole r rs \<Longrightarrow> rs \<noteq> [] \<Longrightarrow> \<not> list_all (\<lambda>x. x \<in> set admin_roles) rs"
  by (auto simp: hasAnyRole_def admin_roles_def list_all_iff)

lemma admit_admin:
  assumes "admin_only ep"
  shows "wp (admit E ep req) (\<lambda>_ _. \<exists>u. gq_user req = Some u \<and> us_role u = UR_ADMIN)
    (\<lambda>e _. e \<in> {UnauthorizedException ''Unauthorized'', authenticationNeeded, permissionMissing, reauthNeeded}) w"
proof -
  have "wp (canActivate E (en_policy ep) req) (\<lambda>_ _. \<exists>u. gq_user req = Some u \<and> us_role u = UR_ADMIN)
    (\<lambda>e _. e \<in> {UnauthorizedException ''Unauthorized'', authenticationNeeded, permissionMissing, reauthNeeded}) w"
  proof (rule wp_mono [OF guard_contract], goal_cases)
    case (1 r w')
    show ?case
    proof (cases r)
      case None
      then show ?thesis using 1 assms by (auto simp: admin_only_def)
    next
      case (Some c)
      then obtain u where u: "gq_user req = Some u" "us_role u \<noteq> UR_ADMIN \<longrightarrow> ax_role c \<in> {AR_CUSTOMER, AR_PROVIDER}"
        "ax_permissions c = rolePermissions (ax_role c)" "hasAnyRole (ax_role c) (ep_roles (en_policy ep))"
        "hasAllPermissions (ax_permissions c) (ep_permissions (en_policy ep))" using 1 by auto
      have "us_role u = UR_ADMIN"
      proof (rule ccontr)
        assume "us_role u \<noteq> UR_ADMIN"
        then have "ax_role c \<in> {AR_CUSTOMER, AR_PROVIDER}" using u(2) by simp
        then show False using u(3-5) assms hasAnyRole_user [of "ax_role c" "ep_roles (en_policy ep)"]
          by (auto simp: admin_only_def rolePermissions_def hasAllPermissions_def list_all_iff list_ex_iff)
      qed
      with u(1) show ?thesis by blast
    qed
  qed auto
  then show ?thesis using assms by (simp add: admit_def wp_simps admin_only_def)
qed

text \<open>The endpoints through which an administrator moves money.\<close>

definition moves_money :: "endpoint \<Rightarrow> bool" where
  "moves_money ep \<longleftrightarrow> ep \<in> set adminPaymentsEndpoints \<and> en_verb ep = POST \<and> en_name ep \<noteq> ''reconcilePending''"

lemma money_table:
  assumes "moves_money ep"
  shows "AccessPolicyGuard \<in> set (en_guards ep) \<and> ''admin.payments.manage'' \<in> set (ep_permissions (en_policy ep))
    \<and> ep_reauth (en_policy ep) \<noteq> NoReauth \<and> en_audited ep"
proof -
  have "list_all (\<lambda>ep. en_verb ep = POST \<and> en_name ep \<noteq> ''reconcilePending'' \<longrightarrow>
      AccessPolicyGuard \<in> set (en_guards ep) \<and> ''admin.payments.manage'' \<in> set (ep_permissions (en_policy ep))
      \<and> ep_reauth (en_policy ep) \<noteq> NoReauth \<and> en_audited ep) adminPaymentsEndpoints" by code_simp
  then show ?thesis using assms by (simp add: list_all_iff moves_money_def)
qed

lemma admit_money:
  assumes "moves_money ep"
  shows "wp (admit E ep req)
    (\<lambda>r w'. \<exists>u c. gq_user req = Some u \<and> r = Some c \<and> us_role u = UR_ADMIN \<and> us_adminSubrole u \<noteq> Some AS_SUPPORT_ADMIN
       \<and> spent (e_sha256 E (js_trim (or_else (gq_reauthToken req) []))) (w_db w'))
    (\<lambda>_ _. True) w"
proof -
  note tab = money_table [OF assms]
  have "wp (canActivate E (en_policy ep) req)
    (\<lambda>r w'. \<exists>u c. gq_user req = Some u \<and> r = Some c \<and> us_role u = UR_ADMIN \<and> us_adminSubrole u \<noteq> Some AS_SUPPORT_ADMIN
       \<and> spent (e_sha256 E (js_trim (or_else (gq_reauthToken req) []))) (w_db w')) (\<lambda>_ _. True) w"
  proof (rule wp_mono [OF guard_contract], goal_cases)
    case (1 r w')
    obtain c where r: "r = Some c" using 1 tab by (cases r) auto
    then obtain u where c: "gq_user req = Some u" "ax_permissions c = rolePermissions (ax_role c)"
      "us_role u = UR_ADMIN \<longrightarrow> ax_role c = resolveAdminRole (us_adminSubrole u)"
      "us_role u \<noteq> UR_ADMIN \<longrightarrow> ax_role c \<in> {AR_CUSTOMER, AR_PROVIDER}"
      "hasAllPermissions (ax_permissions c) (ep_permissions (en_policy ep))"
      "spent (e_sha256 E (js_trim (or_else (gq_reauthToken req) []))) (w_db w')"
      using 1 tab by auto
    then have p: "''admin.payments.manage'' \<in> set (rolePermissions (ax_role c))"
      using tab by (auto simp: hasAllPermissions_def list_all_iff)
    moreover have "''admin.payments.manage'' \<notin> set (rolePermissions r)" if "r \<in> {AR_CUSTOMER, AR_PROVIDER, AR_SUPPORT_ADMIN}" for r
      using that by (auto simp: rolePermissions_def customerPermissions_def providerPermissions_def supportAdminPermissions_def)
    ultimately have "us_role u = UR_ADMIN" "us_adminSubrole u \<noteq> Some AS_SUPPORT_ADMIN"
      using c(3,4) by (auto simp: resolveAdminRole_def)
    then show ?case using r c by blast
  qed simp
  then show ?thesis using tab by (simp add: admit_def wp_simps)
qed

text \<open>A profile turns a customer into a provider, who lacks the customer's permissions.\<close>

definition for_customers :: "endpoint \<Rightarrow> bool" where
  "for_customers ep \<longleftrightarrow> AccessPolicyGuard \<in> set (en_guards ep)
     \<and> list_ex (\<lambda>p. js_starts_with p ''customer.'') (ep_permissions (en_policy ep))"

lemma provider_lacks: "js_starts_with p ''customer.'' \<Longrightarrow> p \<notin> set providerPermissions"
proof -
  have "list_all (\<lambda>p. \<not> js_starts_with p ''customer.'') providerPermissions" by code_simp
  then show "js_starts_with p ''customer.'' \<Longrightarrow> p \<notin> set providerPermissions" by (auto simp: list_all_iff)
qed

lemma provider_refused:
  assumes "for_customers ep" "gq_user req = Some u" "us_role u \<noteq> UR_ADMIN" "us_id u \<noteq> []"
    and "us_id u \<in> wp_userId ` set (workerProfiles (w_db w))"
  shows "wp (admit E ep req) (\<lambda>_ _. False) (\<lambda>e _. e = permissionMissing) w"
proof -
  have role: "us_role u = UR_USER" using assms(3) by (cases "us_role u") auto
  have "find (\<lambda>p. wp_userId p = us_id u) (workerProfiles (w_db w)) \<noteq> None" using assms(5) by (auto simp: find_None_iff)
  moreover have "\<not> hasAllPermissions providerPermissions (ep_permissions (en_policy ep))"
    using assms(1) provider_lacks by (auto simp: for_customers_def hasAllPermissions_def list_all_iff list_ex_iff)
  moreover have "ep_permissions (en_policy ep) \<noteq> []" using assms(1) by (auto simp: for_customers_def list_ex_iff)
  moreover have "truthy (Some (us_id u)) = Some (us_id u)" using assms(4) by (cases "us_id u") auto
  ultimately show ?thesis using assms(1,2)
    by (auto simp: admit_def canActivate_def resolveAccessContext_def isProviderUser_def rolePermissions_def wp_simps role for_customers_def
        intro!: wp_logForbiddenAccess)
qed

lemma upsertMe_profile:
  "wp (upsertMe E u up) (\<lambda>_ w'. u \<in> wp_userId ` set (workerProfiles (w_db w'))) (\<lambda>_ _. True) w"
proof -
  let ?K = "\<lambda>d. u \<in> wp_userId ` set (workerProfiles d)"
  have rest: "wp m (\<lambda>_ w'. ?K (w_db w')) (\<lambda>_ _. True) w1" if "keeps ?K m" "?K (w_db w1)" for m :: "'a svc" and w1 :: world
    using that unfolding keeps_wp by (blast intro: wp_mono)
  have cats: "keeps ?K (replaceCategories E i cs)" for i cs
    by (simp add: replaceCategories_def keeps_rules keeps_smodify)
  have tail: "wp (sthen (replaceCategories E i cs) (findUniqueOrThrow workerProfiles_t i)) (\<lambda>_ w'. ?K (w_db w')) (\<lambda>_ _. True) w1"
    if "?K (w_db w1)" for i cs and w1 :: world
    using that by (intro rest) (simp_all add: keeps_rules cats)
  have old: "?K (upd_rows workerProfiles_t n (\<lambda>r. wp_id r = i) (upsert_data up) d)" if "?K d" for n i d
    using that tb_workerProfiles.map_upd [of wp_userId n "upsert_data up" "\<lambda>r. wp_id r = i" d]
    by (simp add: upsert_data_def flip: set_map)
  have "wp (sbind (profile_of u) (\<lambda>existing. sbind (case existing of
            Some p \<Rightarrow> update E workerProfiles_t (wp_id p) (upsert_data up)
          | None \<Rightarrow> create E workerProfiles_t (\<lambda>i. upsert_data up (emptyProfile E u i))) (\<lambda>upserted.
        sthen (replaceCategories E (wp_id upserted) (up_categoryIds up)) (findUniqueOrThrow workerProfiles_t (wp_id upserted)))))
      (\<lambda>_ w'. ?K (w_db w')) (\<lambda>_ _. True) w1" for w1 :: world
  proof (cases "find (\<lambda>p. wp_userId p = u) (workerProfiles (w_db w1))")
    case None
    then show ?thesis
      by (simp add: profile_of_def wp_findBy wp_sbind wp_create Let_def) (auto intro!: tail simp: upsert_data_def emptyProfile_def)
  next
    case (Some p)
    then have "?K (w_db w1)" by (auto simp: find_Some_iff)
    then have "?K (upd_rows workerProfiles_t (e_now E) (\<lambda>r. wp_id r = wp_id p) (upsert_data up) (w_db w1))" by (rule old)
    then show ?thesis using Some
      by (simp add: profile_of_def wp_findBy wp_sbind wp_update split: option.split) (intro impI allI tail, simp)
  qed
  note body = this
  have pre: "wp (case up_categoryIds up of None \<Rightarrow> sreturn () | Some ids \<Rightarrow> ensureCategoriesExist ids) (\<lambda>_. Q) (\<lambda>_ _. True) w1"
    if "\<And>w2. Q w2" for Q and w1 :: world
    using that by (auto simp: ensureCategoriesExist_def wp_simps split: option.split)
  show ?thesis unfolding upsertMe_def wp_sthen
    by (rule pre, subst wp_sbind, subst wp_transact, rule wp_mono [OF body]) (simp_all add: wp_sread)
qed

end
