(* ===== verification/Journeys.thy ===== *)
theory Journeys
  imports Runs Guarantees Endpoints
begin

text \<open>
  Properties across the modules of access: a reauthentication admits one request, a suspension
  shuts an account out; and sample runs of the modules beside the core, for the witnesses.
\<close>

lemma only_row:
  assumes "distinct (map f xs)" "r \<in> set xs" "\<And>x. x \<in> set xs \<Longrightarrow> g x = g r \<Longrightarrow> f x = f r"
  shows "filter (\<lambda>x. g x = g r) xs = [r]"
  using assms
proof (induction xs)
  case (Cons x xs)
  show ?case
  proof (cases "x = r")
    case True
    have "g y \<noteq> g r" if "y \<in> set xs" for y
    proof
      assume "g y = g r"
      then have "f y = f r" using Cons.prems(3) [of y] that by simp
      then have "f r \<in> f ` set xs" using imageI [OF that, of f] by simp
      then show False using Cons.prems(1) True by simp
    qed
    then show ?thesis using True by (simp add: filter_empty_conv)
  next
    case False
    then have r: "r \<in> set xs" using Cons.prems(2) by simp
    then have "f r \<in> f ` set xs" by simp
    then have "g x \<noteq> g r" using Cons.prems(1) Cons.prems(3) [of x] by auto
    then show ?thesis using Cons.IH [OF _ r] Cons.prems by simp
  qed
qed simp

subsection \<open>A deletion either happens or not\<close>

lemma wp_deleteUser:
  fixes w :: world
  assumes "\<And>r w' rows. refunds (w_db w') = refunds (delete_user u (w_db w)) \<Longrightarrow> Q r w'" "\<And>e w'. w_db w' = w_db w \<Longrightarrow> X e w'"
  shows "wp (deleteUser E u actor) Q X w"
proof (cases "find_row users_t u (w_db w)")
  case (Some t)
  then have "us_id t = u" using find_row_SomeD [OF Some] by simp
  then show ?thesis using Some
    by (auto simp: deleteUser_def logUserDeletion_def wp_simps intro!: assms wp_logAdminAction)
qed (simp add: deleteUser_def wp_simps assms)

subsection \<open>A reauthentication admits one request\<close>

lemma wp_resolveAccess:
  "wp (resolveAccessContext u r s) (\<lambda>_ w'. w' = w) (\<lambda>_ _. False) w"
  by (auto simp: resolveAccessContext_def isProviderUser_def wp_simps split: option.split)

lemma spent_blocks:
  fixes w :: world
  assumes ok: "constraints challenges_t (w_db w)" "spent (e_sha256 E (js_trim (or_else (gq_reauthToken req) []))) (w_db w)"
    and policy: "ep_reauth p \<noteq> NoReauth" "ep_permissions p \<noteq> []"
  shows "wp (canActivate E p req) (\<lambda>_ _. False) (\<lambda>_ _. True) w"
proof (cases "truthy (map_option us_id (gq_user req))")
  case None
  then show ?thesis using policy by (auto simp: canActivate_def wp_simps intro!: wp_logForbiddenAccess)
next
  case (Some u)
  have "wp (resolveAccessContext (Some u) (map_option us_role (gq_user req)) (Option.bind (gq_user req) us_adminSubrole))
      (\<lambda>c. wp (if hasAnyRole (ax_role c) (ep_roles p) \<and> hasAllPermissions (ax_permissions c) (ep_permissions p) then
          (if ep_reauth p = NoReauth then sreturn (Some c)
           else sbind (consumeChallenge E u (or_else (gq_reauthToken req) []) (roleName (ax_role c))
             (reauthPurpose (ep_reauth p)) (gq_info req)) (\<lambda>r.
             if r = ReauthOk then sreturn (Some c) else sthrow reauthNeeded))
        else sthen (logForbiddenAccess E (Some u) (ax_role c) (gq_info req) (ep_roles p) (ep_permissions p)
            ''insufficient_permissions'') (sthrow permissionMissing)) (\<lambda>_ _. False) (\<lambda>_ _. True)) (\<lambda>_ _. True) w"
  proof (rule wp_mono [OF wp_resolveAccess], goal_cases)
    case (1 c w')
    have "wp (consumeChallenge E u (or_else (gq_reauthToken req) []) role purpose info)
        (\<lambda>r. wp (if r = ReauthOk then sreturn (Some c) else sthrow reauthNeeded) (\<lambda>_ _. False) (\<lambda>_ _. True)) (\<lambda>_ _. True) w" for role purpose info
      by (rule wp_mono [OF spent_refused [OF ok]]) (auto simp: wp_simps)
    then show ?case using 1 policy by (auto simp: wp_simps intro!: wp_logForbiddenAccess)
  qed simp
  then show ?thesis using policy Some by (simp add: canActivate_def wp_sbind)
qed

lemma keeps_admit:
  assumes "frames J auditLogs_t" "\<And>E u tok role purpose req. keeps J (consumeChallenge E u tok role purpose req)"
  shows "keeps J (admit E ep req)"
  by (simp add: admit_def keeps_rules keeps_guard assms)

lemma money_admits_once:
  assumes "reachable w" "moves_money ep" "moves_money ep'" "admit E ep req w = (Inr r, w1)" "step\<^sup>*\<^sup>* w1 w2"
    and "e_sha256 E' (js_trim (or_else (gq_reauthToken req') [])) = e_sha256 E (js_trim (or_else (gq_reauthToken req) []))"
  shows "wp (admit E' ep' req') (\<lambda>_ _. False) (\<lambda>_ _. True) w2"
proof -
  have "spent (e_sha256 E (js_trim (or_else (gq_reauthToken req) []))) (w_db w1)"
    using wp_returned [OF admit_money [OF assms(2)] assms(4)] by blast
  then have spent2: "spent (e_sha256 E' (js_trim (or_else (gq_reauthToken req') []))) (w_db w2)"
    using kept_steps [OF assms(5) kept_spent] assms(6) by simp
  have "frames (constraints challenges_t) auditLogs_t" by (simp add: frames_def constraints_def unique_ids_def)
  then have "keeps (constraints challenges_t) (admit E ep req)" by (rule keeps_admit) (rule keeps_constraints_reauth)
  then have "constraints challenges_t (w_db w1)" using keepsD [of "constraints challenges_t" "admit E ep req" w] reachable_modules(8) [OF assms(1)] assms(4) by simp
  then have ok2: "constraints challenges_t (w_db w2)" using kept_steps [OF assms(5) kept_challenges] by simp
  note tab = money_table [OF assms(3)]
  then have "ep_permissions (en_policy ep') \<noteq> []" by auto
  with spent_blocks [OF ok2 spent2] tab show ?thesis by (simp add: admit_def wp_simps)
qed

subsection \<open>A suspension shuts the account out\<close>

lemma inactive_upd:
  assumes "find_row users_t u d \<noteq> None"
  shows "map_option us_isActive (find_row users_t u (upd_rows users_t n (\<lambda>x. us_id x = u) (\<lambda>x. x\<lparr>us_isActive := b\<rparr>) d)) = Some b"
proof -
  obtain t where t: "find_row users_t u d = Some t" using assms by auto
  then have "us_id t = u" using find_row_SomeD [OF t] by simp
  with t show ?thesis by (simp add: tb_users.find_row_upd)
qed

lemma wp_suspend:
  "wp (updateUserStatus E u False actor)
    (\<lambda>r w'. map_option us_isActive (find_row users_t u (w_db w')) = Some False \<and> signed_out u (w_db w')) (\<lambda>_ _. True) w"
proof (cases "find_row users_t u (w_db w)")
  case (Some t)
  then have t: "us_id t = u" using find_row_SomeD [OF Some] by simp
  have rows: "find_row users_t u (upd_rows sessions_t n P f d) = find_row users_t u d" for n P f d
    by (simp add: find_row_def upd_rows_def)
  show ?thesis using Some t inactive_upd [of u "w_db w" "e_now E" False]
    by (auto simp: updateUserStatus_def revokeSessionsOf_def logUserStatusChange_def wp_simps signed_out_revoked rows
        intro!: wp_logAdminAction) (auto simp: signed_out_def upd_rows_def find_row_def)
qed (simp add: updateUserStatus_def wp_simps)

lemma wp_validateBearer:
  assumes "map_option us_isActive (find_row users_t u (w_db w)) = Some False"
  shows "wp (validateBearer E tok) (\<lambda>v w'. us_id v \<noteq> u) (\<lambda>_ _. True) w"
proof -
  have "us_id v \<noteq> u" if "find_row users_t i (w_db w) = Some v" "us_isActive v" for i v
    using that assms find_row_SomeD [OF that(1)] by auto
  then show ?thesis by (auto simp: validateBearer_def wp_simps split: option.split json.split)
qed

subsection \<open>Runs of the modules beside the core\<close>

text \<open>The customer reviews the finished job.\<close>

definition review_1 :: createReviewDto where "review_1 = \<lparr>cv_jobId = ''xxxx'', cv_rating = 5, cv_comment = None\<rparr>"
definition reviewed_1 :: world where "reviewed_1 = snd (createReview sample_env ''c'' review_1 sample_5)"

lemma reachable_reviewed: "reachable reviewed_1"
proof -
  have "side_step sample_5 reviewed_1" unfolding reviewed_1_def by (rule side_step.review) (simp_all add: review_1_def)
  then show ?thesis using reachable.run [OF reachable_later(1) step.side] by blast
qed

lemma reviewed_1_run: "(let d = w_db reviewed_1 in (map (\<lambda>p. (wp_ratingCount p, wp_ratingAvg p)) (workerProfiles d),
    map (\<lambda>r. (rv_jobId r, rv_rating r)) (reviews d))) = ([(1, 500)], [(''xxxx'', 5)])"
  by code_simp

lemmas reviewed_1_state = reviewed_1_run [unfolded Let_def prod.inject]

text \<open>A customer signs in and has the token rotated.\<close>

definition account_env :: env where
  "account_env = sample_env\<lparr>e_jwtVerify := \<lambda>k t. Some (JObj [(''type'', JStr ''refresh''), (''sid'', JStr ''xxx''),
     (''did'', JStr ''u''), (''sub'', JStr ''c''), (''jti'', JStr t)])\<rparr>"

definition no_client :: clientInfo where "no_client = \<lparr>ci_deviceId = None, ci_ip = None, ci_userAgent = None\<rparr>"
definition signed_in :: world where "signed_in = snd (login account_env ''c'' ''p'' no_client sample_0)"

definition token_1 :: string where
  "token_1 = ar_refreshToken (projr (fst (login account_env ''c'' ''p'' no_client sample_0)))"

definition rotation :: "(exn + authResponse) \<times> world" where
  "rotation = refresh account_env (Some token_1) no_client signed_in"

lemma reachable_signed_in: "reachable signed_in"
  unfolding signed_in_def by (rule reachable.run [OF reachable_steps(1) side_step.login [THEN step.side]])

lemma rotation_run: "(case rotation of (Inr r, w) \<Rightarrow> e_sha256 account_env token_1 \<noteq> e_sha256 account_env (ar_refreshToken r) | _ \<Rightarrow> False)"
  by code_simp

lemma rotation_returned: obtains r w where "refresh account_env (Some token_1) no_client signed_in = (Inr r, w)"
    "e_sha256 account_env token_1 \<noteq> e_sha256 account_env (ar_refreshToken r)"
  using rotation_run unfolding rotation_def by (auto split: prod.splits sum.splits)

text \<open>An administrator confirms the password and approves a refund.\<close>

definition confirmed :: world where "confirmed = snd (confirmByPassword sample_env ''a'' ''p'' None no_client sample_0)"

definition approval :: endpoint where "approval = adminPaymentsEndpoints ! 6"

definition by_admin :: guardedRequest where
  "by_admin = \<lparr>gq_info = \<lparr>rq_method = ''POST'', rq_path = ''/admin/payments'', rq_ip = None, rq_userAgent = None\<rparr>,
     gq_user = Some (sample_user ''a'' UR_ADMIN), gq_reauthToken = Some ''r''\<rparr>"

lemma reachable_confirmed: "reachable confirmed"
  unfolding confirmed_def by (rule reachable.run [OF reachable_steps(1) side_step.confirm [THEN step.side]])

lemma approval_run: "(case fst (admit sample_env approval by_admin confirmed) of Inr r \<Rightarrow> True | _ \<Rightarrow> False)"
  by code_simp

lemma approval_row: "approval \<in> set api" "js_starts_with (en_path approval) ''admin/''"
proof -
  show "approval \<in> set api" by (auto simp: approval_def api_def adminPaymentsEndpoints_def)
  show "js_starts_with (en_path approval) ''admin/''" by code_simp
qed

lemma approval_money: "moves_money approval"
proof -
  have "en_verb approval = POST \<and> en_name approval = ''approveRefund''" by code_simp
  then show ?thesis by (simp add: moves_money_def) (simp add: approval_def adminPaymentsEndpoints_def)
qed

text \<open>A customer makes a profile, then wants to select a proposal.\<close>

definition no_profile :: upsertProfileDto where
  "no_profile = \<lparr>up_publicName = None, up_bio = None, up_location = None, up_serviceAreaPreferences = None,
     up_hourlyRate = None, up_experienceYears = None, up_isAvailable = None, up_availabilityStatus = None,
     up_categoryIds = None\<rparr>"

definition selecting :: endpoint where
  "selecting = the (find (\<lambda>ep. en_name ep = ''selectProposal'') serviceRequestsEndpoints)"

definition by_customer :: guardedRequest where
  "by_customer = \<lparr>gq_info = gq_info by_admin, gq_user = Some (sample_user ''c'' UR_USER), gq_reauthToken = None\<rparr>"

lemma no_profile_run: "(case fst (upsertMe sample_env ''c'' no_profile sample_0) of Inr r \<Rightarrow> True | _ \<Rightarrow> False)"
  by code_simp

lemma selecting_row: "for_customers selecting"
  by code_simp

text \<open>An attachment after the payment; a telephone number before it; a refund by an administrator.\<close>

definition picture :: attachmentInput where
  "picture = \<lparr>ai_url = ''https://s/f'', ai_key = key_prefix ''c'' ''xxxx'' @ ''f.png'', ai_contentType = ''image/png'', ai_size = 9\<rparr>"

definition chat_1 :: world where
  "chat_1 = snd (sendMessage sample_env ''xxxx'' ''c'' \<lparr>cm_content = ''ola'', cm_attachments = [picture]\<rparr> sample_4)"

lemma reachable_chat: "reachable chat_1"
  unfolding chat_1_def by (rule reachable.run [OF reachable_steps(5) side_step.send_message [THEN step.side]])

lemma chat_1_run: "(let d = w_db chat_1 in (map jm_content (messages d), map ja_contentType (attachments d))) = ([''ola''], [Some ''image/png''])"
  by code_simp

lemmas chat_1_state = chat_1_run [unfolded Let_def prod.inject]

definition numbered :: createMessageDto where "numbered = \<lparr>cm_content = ''tel 841234567'', cm_attachments = []\<rparr>"

lemma numbered_content: "js_trim (cm_content numbered) = ''tel '' @ ''841234567'' @ []" "list_all is_digit ''841234567''"
  by code_simp+

lemma job_3_run: "map_option (contact_unlocked (w_db sample_3)) (find_row jobs_t ''xxxx'' (w_db sample_3)) = Some False"
  by code_simp

definition admin_refund :: world where "admin_refund = snd (adminCreateRefund sample_env ''a'' ''xxxxx'' sample_refund sample_4)"

lemma reachable_admin_refund: "reachable admin_refund"
proof -
  have "valid_refund_dto sample_refund" by (simp add: sample_refund_def valid_refund_dto_def)
  then show ?thesis unfolding admin_refund_def by (intro reachable.run [OF reachable_steps(5) core_step.create_refund [THEN step.core]])
qed

lemma admin_refund_run: "map (\<lambda>r. (rf_requestedByUserId r, rf_status r, rf_amount r, rf_paymentIntentId r)) (refunds (w_db admin_refund))
    = [(''a'', RF_SUCCEEDED, 6, ''xxxxx'')]"
  by code_simp
subsection \<open>A number is not sent before the contact is unlocked\<close>

lemma js_trim_idem [simp]: "js_trim (js_trim s) = js_trim s"
proof -
  let ?y = "dropWhile js_ws s"
  let ?z = "rev (dropWhile js_ws (rev ?y))"
  have "rev ?y = takeWhile js_ws (rev ?y) @ dropWhile js_ws (rev ?y)" by simp
  then have y: "?y = ?z @ rev (takeWhile js_ws (rev ?y))" by (metis rev_append rev_rev_ident)
  have "dropWhile js_ws ?z = ?z"
  proof (cases ?z)
    case (Cons c cs)
    then have "?y \<noteq> []" "hd ?y = c" by (subst y, simp)+
    then have "\<not> js_ws c" using hd_dropWhile [of js_ws s] by simp
    then show ?thesis unfolding Cons by simp
  next
    case Nil
    show ?thesis unfolding Nil by simp
  qed
  then show ?thesis by (simp add: js_trim_def)
qed

lemma wp_send_locked:
  fixes w :: world
  assumes "find_row jobs_t j (w_db w) = Some job" "\<not> contact_unlocked (w_db w) job"
    and "list_all is_digit ds" "8 \<le> length ds" "js_trim (cm_content dto) = pre @ ds @ post"
  shows "wp (sendMessage E j u dto) (\<lambda>r w'. (\<exists>m. r = Moderated m \<and> m \<noteq> Clear) \<and> messages (w_db w') = messages (w_db w))
    (\<lambda>_ w'. messages (w_db w') = messages (w_db w)) w"
proof (rule wp_sendMessage)
  fix job' access msg rows v w'
  assume "find_row jobs_t j (w_db w) = Some job'" "resolveConversationAccess (w_db w) u job' = Inr access"
    and free: "cn_contactUnlocked access \<or> (detectContactSharing (js_trim (cm_content dto)) = None
        \<and> (\<forall>t \<in> set (interventions (w_db w)). \<not> restricts (e_now E) j u t))"
  then have "\<not> cn_contactUnlocked access"
    using assms(1,2) by (auto simp: resolveConversationAccess_def Let_def split: option.splits if_splits)
  moreover have "detectContactSharing (js_trim (cm_content dto)) \<noteq> None"
    using digits_detected [OF assms(3,4), of "js_trim (cm_content dto)" pre post] assms(5) js_trim_idem [of "cm_content dto"] by auto
  ultimately show "((\<exists>m. Sent v = Moderated m \<and> m \<noteq> Clear) \<and> messages (w_db w') = messages (w_db w)) \<and> (\<forall>e. messages (w_db w') = messages (w_db w))"
    using free by simp
next
  fix m and w' :: world assume m: "m \<noteq> Clear" and w': "w_db w' = (w_db w)\<lparr>interventions := interventions (w_db w')\<rparr>"
  have "messages (w_db w') = messages (w_db w)" using arg_cong [OF w', of messages] by simp
  with m show "(\<exists>m'. Moderated m = Moderated m' \<and> m' \<noteq> Clear) \<and> messages (w_db w') = messages (w_db w)" by simp
qed simp

end
