(* ===== verification/Spec2Isabelle.thy ===== *)
theory Spec2Isabelle
  imports Journeys
begin

text \<open>
  A verification development for the API of a marketplace of services
  (\<^verbatim>\<open>src/apps/api/src\<close>, NestJS services over a PostgreSQL database accessed through Prisma).  A
  customer publishes a request, providers propose a price, the customer selects a proposal; that
  closes the request and creates a job with a deposit to pay.  The deposit goes through a payment
  gateway, is booked in a ledger, is held for the provider, and is released, paid out or refunded.

  \<^bold>\<open>How the code is modelled.\<close>  The database is one record of tables (\<open>db\<close>, theory Schema, after
  \<^verbatim>\<open>schema.prisma\<close>), a table a list of records in insertion order.  A service method is a function
  of an environment (\<open>env\<close>: clock, identifier and UUID supply, the process's variables, HMAC, date
  parsing) and its arguments to a state transformer with exceptions, \<open>world \<Rightarrow> (exn + 'a) \<times> world\<close>
  (theory Svc), composed as the code composes its statements: guards are thrown \<^verbatim>\<open>HttpException\<close>s,
  \<open>transact\<close> is \<^verbatim>\<open>prisma.$transaction\<close> with its rollback, \<open>stry\<close> is \<^verbatim>\<open>catch\<close>.  Prisma's
  \<^verbatim>\<open>findUnique\<close>, \<^verbatim>\<open>findFirst\<close>, \<^verbatim>\<open>create\<close>, \<^verbatim>\<open>update\<close>, \<^verbatim>\<open>updateMany\<close> and their errors P2002 and P2025
  are the functions of the same names.  Weakest preconditions (\<open>wp\<close>, for a return and for a throw)
  are simplification rules, so that a contract of an operation is one statement about both.

  \<^bold>\<open>The theories\<close>, with the code each one models:
  \<^item> Js\_Base: strings, numbers and JSON of JavaScript; Schema, Tables: the data model; Svc: the
    monad, Prisma, and \<^verbatim>\<open>observability/metrics.service.ts\<close>.  The locale \<open>lawful_table\<close> states what an
    access to one table promises and is interpreted for every table.
  \<^item> Pagination (\<^verbatim>\<open>common/pagination\<close>), Notifications (\<^verbatim>\<open>notifications/notifications.service.ts\<close>).
  \<^item> Policy, Ledger, Gateway: \<^verbatim>\<open>payment-policy.service.ts\<close>, \<^verbatim>\<open>ledger.service.ts\<close> and the gateway
    adapters.  Interfaces: \<open>fee_split\<close> (parts of an amount), \<open>double_entry\<close> (balances under
    posting), \<open>gateway_call\<close> (an answer, and no other effect).
  \<^item> Charges, Webhook, Refunds, Payouts: the parts of \<^verbatim>\<open>payments/payments.service.ts\<close> and the
    reconciliation runner.
  \<^item> SupportOps (\<^verbatim>\<open>support-ops.service.ts\<close>), Jobs (\<^verbatim>\<open>jobs.service.ts\<close>), Requests and Selection
    (\<^verbatim>\<open>service-requests.service.ts\<close>).
  \<^item> Lifecycle: status machines as a locale (a rank that grows, terminal states), interpreted for
    jobs, requests, refunds and payouts.  Bystanders: what each component needs of an invariant
    that it does not care about, as locales, so that one interpretation covers all its operations.
  \<^item> System: the API as a state machine.  \<open>step\<close> has one rule for each modelled operation that
    changes state, one for a restart of the process and one for the tables that belong to
    unmodelled modules; \<open>reachable\<close> starts at a seeded database; \<open>kept J\<close> says that every step
    keeps \<open>J\<close>.  History, Decisions: how rows move over runs.  Contracts: single operations.
  \<^item> Sample, Runs: concrete runs for the witnesses.

  \<^bold>\<open>What is proved.\<close>  Invariants of every reachable state (the ledger balances, no bucket but the
  customer's is negative, a transaction is charged once, refunds stay within the amount, requests,
  proposals and jobs agree, job and case columns agree with their status); the histories of rows
  over any run (terms never change, statuses only move forward); contracts of single operations
  with their errors; repeated calls; settlement of pending charges; bounds and round trips.  The
  last section holds what the code does not guarantee, as theorems about reachable states.

  \<^bold>\<open>Bounds.\<close>  No loop needs fuel: the code's loops run over lists it has fetched.  Money is an
  unbounded integer; the DTOs cap amounts at 100 million and \<open>round_div\<close> agrees with the code's
  double division up to \<open>2 ^ 52\<close>.  Strings are lists of Latin-1 code units.  An operation is one
  step: interleavings inside an operation, which the database's isolation would have to order, are
  not modelled.  \<open>fresh_ids\<close> is the one assumption about identifiers, used for liveness only.

  \<^bold>\<open>Not modelled.\<close>  Reviews, trust and safety, messages and uploads, worker profiles,
  categories, administration and tracking are planned.  Authentication rests on third-party cryptography;
  controllers, modules and DTOs are wiring; realtime is output; the web application is presentation.
\<close>

section \<open>The money\<close>

text \<open>C1. In every state the API can reach, every payment intent splits into fee and net, the
  six ledger buckets of every intent sum to zero, no bucket but the customer's is negative, and
  every refund and payout asks for a positive amount.\<close>

theorem reachable_funds:
  assumes "reachable w"
  shows "funds_ok (w_db w)"
  using kept_funds seeded_ok(2) assms by (rule kept_reachable)

theorem reachable_funds_witness:
  "funds_ok (w_db sample_4) \<and> map (\<lambda>b. bal b ''xxxxx'' (ledger (w_db sample_4)))
     [LB_CUSTOMER_EXTERNAL, LB_PLATFORM_RESERVED, LB_PROVIDER_HELD] = [-12, 2, 10]"
  using reachable_funds [OF reachable_steps(5)] sample_4_book by simp

text \<open>C2. In every reachable state a transaction has at most one customer charge in the ledger,
  whatever webhooks, reconciliations and repeated payments brought it there.\<close>

theorem reachable_charged_once:
  assumes "reachable w"
  shows "charges_of t (ledger (w_db w)) \<le> 1"
proof -
  have "once_ok (w_db w)" using kept_once seeded_ok(3) assms by (rule kept_reachable)
  then show ?thesis by (simp add: once_ok_def)
qed

theorem reachable_charged_once_witness: "charges_of ''xxxxxxxx'' (ledger (w_db sample_4)) \<le> 1"
  using reachable_charged_once [OF reachable_steps(5)] .

text \<open>C5. Applying a gateway status to a transaction is, on the balances, the double-entry posting of
  its charge: a success posts the charge of its intent once and every other status, and every
  repetition, posts nothing, for every bucket of every intent.\<close>

theorem status_posts_charge:
  assumes "find_row transactions_t (tx_id (si_transaction input)) (w_db w) = Some r"
    and "tx_paymentIntentId r = Some i" "find_row intents_t i (w_db w) = Some intent"
  shows "wp (applyGatewayStatus E input)
    (\<lambda>t w'. \<forall>b k. bal b k (ledger (w_db w')) = bal b k (ledger (w_db w)) +
        post_charge (si_gatewayStatus input) intent (tx_id r) (ledger (w_db w)) b k)
    (\<lambda>_ _. True) w"
  using assms by (rule apply_balances)

theorem status_posts_charge_witness:
  "wp (applyGatewayStatus mpesa_env (settled GW_SUCCEEDED))
    (\<lambda>t w'. \<forall>b k. bal b k (ledger (w_db w')) = bal b k (ledger (w_db mpesa_4)) +
        post_charge GW_SUCCEEDED mpesa_intent ''xxxxxxxx'' (ledger (w_db mpesa_4)) b k)
    (\<lambda>_ _. True) mpesa_4"
  using status_posts_charge [OF settled_rows [of GW_SUCCEEDED] _ mpesa_rows(2)] mpesa_columns
  by (simp add: settled_def)

text \<open>C7. Reconciling a charge that the external provider still holds as pending settles it once the
  longest settlement delay, fifteen minutes, is over: the call returns, the transaction has
  succeeded, the charge is in the ledger, the intent counts as paid and the contact is unlocked.\<close>

theorem reconcile_settles_charge:
  assumes "find_row transactions_t t (w_db w) = Some r" "tx_paymentIntentId r = Some i"
    and "tx_provider r = PP_MPESA \<or> tx_provider r = PP_EMOLA" "tx_providerReference r = Some ref"
    and "w_ops w (tx_provider r, ref) = Some op" "so_status op = GW_PENDING" "so_createdAtMs op + 900000 \<le> e_now E"
    and "find_row intents_t i (w_db w) = Some intent" "find_row jobs_t (pi_jobId intent) (w_db w) = Some job"
    and "fresh_ids E ledger_t w"
  shows "wp (reconcileTransaction E t None)
    (\<lambda>t' w'. tx_status t' = TX_SUCCEEDED \<and> charged t (ledger (w_db w'))
       \<and> (\<exists>intent'. find_row intents_t i (w_db w') = Some intent' \<and> paid_status (pi_status intent'))
       \<and> (\<exists>job'. find_row jobs_t (pi_jobId intent) (w_db w') = Some job' \<and> jb_contactUnlockedAt job' = Some (e_now E)))
    (\<lambda>_ _. False) w"
  using assms by (rule reconcile_settles)

theorem reconcile_settles_charge_witness:
  "wp (reconcileTransaction later ''xxxxxxxx'' None)
    (\<lambda>t' w'. tx_status t' = TX_SUCCEEDED \<and> charged ''xxxxxxxx'' (ledger (w_db w'))
       \<and> (\<exists>intent'. find_row intents_t ''xxxxx'' (w_db w') = Some intent' \<and> paid_status (pi_status intent'))
       \<and> (\<exists>job'. find_row jobs_t ''xxxx'' (w_db w') = Some job' \<and> jb_contactUnlockedAt job' = Some 900007))
    (\<lambda>_ _. False) mpesa_4"
  using reconcile_settles_charge [where E = later, OF mpesa_rows(1) mpesa_cols(2) _ mpesa_cols(4) mpesa_pending _ mpesa_rows(2) mpesa_job fresh_mpesa]
  by (simp add: mpesa_cols later_now)

text \<open>Asking twice for the payment intent of a job returns the same intent, and the second call
  writes nothing, whatever provider it names.\<close>

lemma intent_asked_again:
  assumes "createIntent E u j p w = (Inr r, w1)"
  shows "createIntent E' u j p' w1 = (Inr r, w1)"
  using assms by (rule createIntent_again)

lemma intent_asked_again_witness:
  "\<exists>r w1. createIntent sample_env ''c'' ''xxxx'' None sample_3 = (Inr r, w1) \<and>
     createIntent next_day ''c'' ''xxxx'' (Some PP_MPESA) w1 = (Inr r, w1)"
proof -
  obtain r w1 where "createIntent sample_env ''c'' ''xxxx'' None sample_3 = (Inr r, w1)"
    using call_returned [of "createIntent sample_env ''c'' ''xxxx'' None", OF asked_returns] by blast
  with intent_asked_again [OF this] show ?thesis by blast
qed

text \<open>Paying an intent again under the idempotency key of an earlier payment, while the intent is
  open, returns the intent as it is: no transaction, no gateway call, no ledger entry.\<close>

lemma payment_replayed:
  assumes "find_row intents_t i (w_db w) = Some r" "pi_customerId r = u"
    and "truthy (py_idempotencyKey dto) \<noteq> None"
    and "find (\<lambda>t. tx_idempotencyKey t = charge_key E r dto) (transactions (w_db w)) = Some t"
    and "tx_paymentIntentId t = Some i"
    and "pi_status r \<notin> set [PI_CREATED, PI_EXPIRED, PI_CANCELED]"
  shows "payIntent E i u dto w = (Inr (with_transactions (w_db w) r), w)"
  using assms by (rule payIntent_replay)

lemma payment_replayed_witness:
  "payIntent mpesa_env ''xxxxx'' ''c'' (pay_as ''k'') mpesa_4 = (Inr (with_transactions (w_db mpesa_4) mpesa_intent), mpesa_4)"
  by (rule payment_replayed [OF mpesa_rows(2) _ _ mpesa_4_key]) (simp_all add: mpesa_columns pay_as_def)

text \<open>A payment intent never changes its amounts, fee, parties, provider, job or metadata; over any
  run of the system only its status and its update time move.\<close>

lemma intents_keep_terms:
  assumes "step\<^sup>*\<^sup>* w w'" "find_row intents_t i (w_db w) = Some a"
  shows "\<exists>b. find_row intents_t i (w_db w') = Some b \<and> same_terms a b"
  using kept_steps [OF assms(1) kept_intents intent_terms.start] assms(2) by (rule progressD)

lemma intents_keep_terms_witness:
  "\<exists>b. find_row intents_t ''xxxxx'' (w_db (deliver ''a'' ''xxxxxxxx'' mpesa_4)) = Some b \<and> same_terms mpesa_intent b"
  by (rule intents_keep_terms [OF step_deliver mpesa_rows(2)])

text \<open>C32. A webhook without an event identifier, or whose signature does not verify, is refused and
  leaves the state as it was, for every provider but the internal one.\<close>

theorem forged_webhook_refused:
  assumes "p \<noteq> PP_INTERNAL"
    and "trim_or_null (wh_externalEventId dto) = None \<or> \<not> verifyWebhookSignature E p dto s t"
  shows "\<exists>e. handleWebhook E p dto s t w = (Inl e, w) \<and> e \<in> {missingEventId, badSignature}"
  using assms by (rule webhook_rejects)

theorem forged_webhook_refused_witness:
  "\<exists>e. handleWebhook mpesa_env PP_MPESA (hook ''a'' ''xxxxxxxx'') None (Some ''0'') mpesa_5 = (Inl e, mpesa_5)
     \<and> e \<in> {missingEventId, badSignature}"
  by (rule forged_webhook_refused) (simp_all add: unsigned_hook)

text \<open>C8. An accepted webhook event is handled once: after a delivery, whether it succeeded or failed,
  a later delivery of the same event is answered as deduplicated and changes nothing, unless the
  first one failed before writing.\<close>

theorem webhook_handled_once:
  assumes "accepts E p dto s t" "accepts E' p dto s' t'"
  shows "wp (handleWebhook E p dto s t)
    (\<lambda>_ w'. \<exists>i. handleWebhook E' p dto s' t' w' = (Inr (Deduplicated i), w'))
    (\<lambda>_ w'. w_db w' = w_db w \<or> (\<exists>i. handleWebhook E' p dto s' t' w' = (Inr (Deduplicated i), w'))) w"
  using assms by (rule webhook_again)

theorem webhook_handled_once_witness:
  "wp (handleWebhook mpesa_env PP_MPESA (hook ''a'' ''xxxxxxxx'') (Some ''h'') (Some ''0''))
    (\<lambda>_ w'. \<exists>i. handleWebhook mpesa_env PP_MPESA (hook ''a'' ''xxxxxxxx'') (Some ''h'') (Some ''0'') w' = (Inr (Deduplicated i), w'))
    (\<lambda>_ w'. w_db w' = w_db mpesa_5 \<or>
      (\<exists>i. handleWebhook mpesa_env PP_MPESA (hook ''a'' ''xxxxxxxx'') (Some ''h'') (Some ''0'') w' = (Inr (Deduplicated i), w'))) mpesa_5"
  by (rule webhook_handled_once [OF signed_hook signed_hook])

text \<open>A signed webhook is accepted only within the configured window, which is at most one hour in
  the past and ten minutes in the future.\<close>

lemma webhook_window:
  assumes "isWebhookTimestampFresh E ts" "parseWebhookTimestampMs E ts = Fin ms"
  shows "of_int (e_now E - 3600000) \<le> ms \<and> ms \<le> of_int (e_now E + 600000)"
  using assms by (rule fresh_bounds)

lemma webhook_window_witness: "of_int (7 - 3600000) \<le> (0 :: rat) \<and> (0 :: rat) \<le> of_int (7 + 600000)"
  using webhook_window [OF fresh_stamp] by (simp add: mpesa_env_def sample_env_def)

text \<open>A webhook timestamp is read back as it is printed: a decimal number of seconds (up to ten
  digits) or of milliseconds (more) denotes that instant.\<close>

lemma timestamp_roundtrip:
  "parseWebhookTimestampMs E (show_int (int n)) = Fin (of_int (if n < 10 ^ 10 then int n * 1000 else int n))"
  using timestamp_read [of "int n" E] by simp

text \<open>A reconciliation batch accounts for every transaction it scanned, at most 500: each is either
  an error or counted under exactly one status, and the batch never throws.\<close>

lemma reconcile_accounted:
  "wp (reconcilePendingChargeTransactions E src l a)
     (\<lambda>s _. accounted (rs_scanned s) s \<and> int (rs_scanned s) \<le> 500) (\<lambda>_ _. False) w"
  by (rule reconcile_accounts)


section \<open>The ledger\<close>

text \<open>The net of a bucket, which the code computes from the database's totals grouped by direction,
  is the sum over its entries, credits counted positive and debits negative.\<close>

lemma bucket_net_is_sum:
  "computeBucketNet b P w = (Inr (net_of (filter (\<lambda>e. le_balanceBucket e = b \<and> P e) (ledger (w_db w)))), w)"
  by (simp add: run_wp wp_simps)

section \<open>The payment gateways\<close>

text \<open>No gateway call throws: a charge, a refund, a payout and a status query each return an answer
  whose reason is set only for a failure, and change nothing but the adapter's own state.\<close>

lemma gateways_answer:
  "wp (requestCharge E a c) (\<lambda>r w'. honest r \<and> gw_frame w w') (\<lambda>_ _. False) w
   \<and> wp (requestRefund E a f) (\<lambda>r w'. honest r \<and> gw_frame w w') (\<lambda>_ _. False) w
   \<and> wp (requestPayout E a p) (\<lambda>r w'. honest r \<and> gw_frame w w') (\<lambda>_ _. False) w
   \<and> wp (queryTransactionStatus E a q) (\<lambda>r w'. honest r \<and> gw_frame w w') (\<lambda>_ _. False) w"
  by (intro conjI gw_charge.answers gw_refund.answers gw_payout.answers gw_status.answers)

section \<open>Requests and selections\<close>




text \<open>C4. Selecting a proposal has one of two outcomes: it was selected before and the call returns it
  with its job and writes nothing, or the request is open, the proposal belongs to it and is not
  rejected, its provider is available, and the state is the one with the request closed, the
  others rejected, the pending invitations expired, one new job and one new deposit intent, and
  notifications.  A failure leaves the state unchanged, or with the overdue request expired, or
  with the whole selection.\<close>

theorem selection_result:
  assumes "reachable w"
  shows "wp (selectProposal E i k u percent)
    (\<lambda>r w'. selected_before (w_db w) i k u r \<and> w_db w' = w_db w \<or> selected_now E (w_db w) i k u percent r (w_db w'))
    (\<lambda>_ w'. w_db w' = w_db w \<or> w_db w' = expired_db E [i] (w_db w)
       \<or> (\<exists>r. selected_now E (w_db w) i k u percent r (w_db w'))) w"
proof (rule selectProposal_result)
  show "requests_ok (w_db w)" using kept_requests seeded_ok(5) assms by (rule kept_reachable)
qed

theorem selection_result_witness:
  "wp (selectProposal sample_env ''x'' ''xx'' ''c'' None)
    (\<lambda>r w'. selected_before (w_db sample_2) ''x'' ''xx'' ''c'' r \<and> w_db w' = w_db sample_2
       \<or> selected_now sample_env (w_db sample_2) ''x'' ''xx'' ''c'' None r (w_db w'))
    (\<lambda>_ w'. w_db w' = w_db sample_2 \<or> w_db w' = expired_db sample_env [''x''] (w_db sample_2)
       \<or> (\<exists>r. selected_now sample_env (w_db sample_2) ''x'' ''xx'' ''c'' None r (w_db w'))) sample_2"
  by (rule selection_result [OF reachable_steps(3)])

text \<open>C13. A selection can be repeated: after a call that returned, the same customer's next call for the
  same request and proposal returns the same job, marked idempotent, and writes nothing.\<close>

theorem selection_repeatable:
  assumes "reachable w"
  shows "wp (selectProposal E i k u percent)
    (\<lambda>r w1. \<exists>r'. selectProposal E' i k u percent' w1 = (Inr r', w1) \<and> sl_job r' = sl_job r
       \<and> sl_selectedProposalId r' = k \<and> sl_idempotent r') (\<lambda>_ _. True) w"
proof (rule selectProposal_again)
  show "requests_ok (w_db w)" using kept_requests seeded_ok(5) assms by (rule kept_reachable)
qed

theorem selection_repeatable_witness:
  "wp (selectProposal sample_env ''x'' ''xx'' ''c'' None)
    (\<lambda>r w1. \<exists>r'. selectProposal next_day ''x'' ''xx'' ''c'' (Some 25) w1 = (Inr r', w1) \<and> sl_job r' = sl_job r
       \<and> sl_selectedProposalId r' = ''xx'' \<and> sl_idempotent r') (\<lambda>_ _. True) sample_2"
  by (rule selection_repeatable [OF reachable_steps(3)])

text \<open>The deposit of a positive price is at least one unit and at most the price, for every
  percentage the interface admits and every configured default.\<close>

lemma deposit_within_price:
  assumes "0 < price" "case percent of None \<Rightarrow> True | Some p \<Rightarrow> 20 \<le> p \<and> p \<le> 30"
  shows "1 \<le> ds_depositAmount (deposit_split_of E price percent)
    \<and> ds_depositAmount (deposit_split_of E price percent) \<le> price"
  using deposit_bounds [OF assms] by simp

lemma deposit_within_price_witness:
  "1 \<le> ds_depositAmount (deposit_split_of sample_env 40 (Some 25)) \<and> ds_depositAmount (deposit_split_of sample_env 40 (Some 25)) \<le> 40"
  by (rule deposit_within_price) simp_all



text \<open>A request that is closed, expired or overdue takes no proposal: the call fails and no proposal
  is written.\<close>

lemma closed_request_refuses:
  assumes "find_row serviceRequests_t i (w_db w) = Some r" "\<not> acceptable E r"
  shows "wp (submitProposal E i u dto) (\<lambda>_ _. False) (\<lambda>_ w'. proposals (w_db w') = proposals (w_db w)) w"
  using assms by (rule submit_refused)

lemma closed_request_refuses_witness:
  "wp (submitProposal sample_env ''x'' ''p'' \<lparr>sp_price = 30, sp_comment = None\<rparr>) (\<lambda>_ _. False)
    (\<lambda>_ w'. proposals (w_db w') = proposals (w_db sample_3)) sample_3"
  by (rule closed_request_refuses [OF request_3_row])

text \<open>The sweep always returns; it expires every overdue open request, counts them, and leaves none.\<close>

lemma sweep_leaves_none:
  "wp (sweepTick E) (\<lambda>n w'. filter (staleRequest E) (serviceRequests (w_db w')) = []
    \<and> n = length (filter (staleRequest E) (serviceRequests (w_db w)))) (\<lambda>_ _. False) w"
  by (rule sweep_contract)

section \<open>Jobs\<close>

text \<open>C30. In every reachable state the timestamps of a job agree with its status: an accepted job
  has its acceptance date, a completed one all three, a cancelled one its date, author and
  reason, and no other job has a cancellation.\<close>

theorem reachable_jobs:
  assumes "reachable w"
  shows "jobs_ok (w_db w)"
  using kept_jobs seeded_ok(1) assms by (rule kept_reachable)

theorem reachable_jobs_witness: "jobs_ok (w_db sample_5)"
  using reachable_jobs [OF reachable_later(1)] .



text \<open>C20. No work starts unpaid: a job is accepted, started or completed only while one of its payment
  intents has received a payment, and otherwise nothing is written.\<close>

theorem work_needs_payment:
  assumes "executing nxt"
  shows "wp (updateStatus E j u nxt reason)
    (\<lambda>_ _. \<exists>i \<in> set (intents (w_db w)). pi_jobId i = j \<and> paid_status (pi_status i)) (\<lambda>_ w'. w_db w' = w_db w) w"
proof (rule wp_mono [OF updateStatus_contract])
  fix r w'
  assume "jb_status r = nxt \<and> (\<exists>job. find_row jobs_t j (w_db w) = Some job \<and> job_terms r = job_terms job
       \<and> status_checked (w_db w) u nxt reason job (worker_user (w_db w) job)
       \<and> w_db w' = (status_written E j u nxt reason job (w_db w))\<lparr>notifications := notifications (w_db w')\<rparr>)"
  then obtain job where "find_row jobs_t j (w_db w) = Some job"
    "status_checked (w_db w) u nxt reason job (worker_user (w_db w) job)" by (elim conjE exE) (rule that)
  then show "\<exists>i \<in> set (intents (w_db w)). pi_jobId i = j \<and> paid_status (pi_status i)"
    using assms find_row_SomeD [of jobs_t j "w_db w" job] by (simp add: status_checked_def)
qed (use assms in \<open>auto simp: executing_def\<close>)

theorem work_needs_payment_witness:
  "wp (updateStatus sample_env ''xxxx'' ''p'' JOB_ACCEPTED None)
    (\<lambda>_ _. \<exists>i \<in> set (intents (w_db sample_3)). pi_jobId i = ''xxxx'' \<and> paid_status (pi_status i)) (\<lambda>_ w'. w_db w' = w_db sample_3) sample_3"
  by (rule work_needs_payment) (simp add: executing_def)





section \<open>Refunds\<close>

text \<open>C3. In every reachable state the refunds that succeeded for an intent add up to at most its amount,
  every refund belongs to an existing intent, and none is left between approval and settlement.\<close>

theorem reachable_refunds:
  assumes "reachable w"
  shows "refunds_ok (w_db w)"
  using kept_refunds_ok seeded_refunds_ok assms by (rule kept_reachable)

theorem reachable_refunds_witness: "refunds_ok (w_db sample_8)"
  using reachable_refunds [OF reachable_later(4)] .




section \<open>Payouts and releases\<close>

text \<open>C17. A payout is created only within the provider's available balance of its intent, the other open
  payouts of that intent included; otherwise nothing is written.\<close>

theorem payout_within_balance:
  "wp (adminCreatePayout E u dto)
     (\<lambda>p w'. po_amount p = pd_amount dto \<and> po_status p = PO_PENDING \<and>
       (\<exists>i. po_paymentIntentId p = Some i \<and>
         reserved_by_payouts i (payouts (w_db w')) \<le> bal LB_PROVIDER_AVAILABLE i (ledger (w_db w'))))
     (\<lambda>_ w'. w_db w' = w_db w) w"
  by (rule adminCreatePayout_bound)



text \<open>C21. A release moves the whole held balance of an intent to the available one and reports it; when
  nothing is held, or the write fails, nothing changes.\<close>

theorem release_moves_held:
  "wp (releaseHeld E intent u)
     (\<lambda>r w'. rl_releasedAmount r = bal LB_PROVIDER_HELD (pi_id intent) (ledger (w_db w))
       \<and> 0 < rl_releasedAmount r
       \<and> bal LB_PROVIDER_HELD (pi_id intent) (ledger (w_db w')) = 0
       \<and> bal LB_PROVIDER_AVAILABLE (pi_id intent) (ledger (w_db w')) =
         bal LB_PROVIDER_AVAILABLE (pi_id intent) (ledger (w_db w)) + rl_releasedAmount r)
     (\<lambda>_ w'. w_db w' = w_db w) w"
  by (rule releaseHeld_moves)

text \<open>C22. Funds are not released for a job that is not completed or whose release delay has not passed.\<close>

theorem early_release_refused:
  assumes "find_row jobs_t j (w_db w) = Some job"
    and "jb_status job \<noteq> JOB_COMPLETED \<or> \<not> canReleaseFunds E (jb_completedAt job)"
  shows "\<exists>e. adminReleaseProviderFunds E u j w = (Inl e, w)"
  using assms by (rule release_refused)

theorem early_release_refused_witness: "\<exists>e. adminReleaseProviderFunds sample_env ''a'' ''xxxx'' sample_4 = (Inl e, sample_4)"
  by (rule early_release_refused [OF job_4_row(1)]) (simp add: job_4_row(2))

section \<open>Support cases\<close>

text \<open>C31. In every reachable state a support case has a resolution date exactly when it is closed,
  its SLA date is the detection date plus its 1 to 168 hours, it keeps at most 12 distinct
  evidence items, and a case with an owner has an assumption date.\<close>

theorem reachable_cases:
  assumes "reachable w"
  shows "cases_ok (w_db w)"
  using kept_cases seeded_ok(4) assms by (rule kept_reachable)

theorem reachable_cases_witness: "cases_ok (w_db sample_8)"
  using reachable_cases [OF reachable_later(4)] .


text \<open>Opening the dispute case of a refund can be repeated: the second call returns the same case and
  writes nothing.\<close>

lemma dispute_case_repeatable:
  "wp (ensureRefundDisputeCase E input)
     (\<lambda>v w1. ensureRefundDisputeCase E' input w1 = (Inr v, w1)) (\<lambda>_ _. True) w"
  by (rule ensureRefundDisputeCase_again)

text \<open>In a reachable state the decision on a refund closes its dispute case: the case gets the status
  of the decision, its note and a resolution date.\<close>

lemma decision_closes_case:
  assumes "reachable w"
  shows "wp (syncRefundCaseDecision E input)
    (\<lambda>v _. pred_option (\<lambda>(i, es). oi_status i = decisionStatus input
       \<and> oi_resolutionNote i = Some (decisionNoteOf input) \<and> oi_resolvedAt i \<noteq> None) v) (\<lambda>_ _. True) w"
proof -
  have "cases_ok (w_db w)" using kept_cases seeded_ok(4) assms by (rule kept_reachable)
  then have "unique_ids incidents_t (w_db w)" by (simp add: cases_ok_def)
  then show ?thesis
    by (rule wp_mono [OF syncRefundCaseDecision_closes]) (auto simp: pred_option_def)
qed

lemma decision_closes_case_witness:
  "wp (syncRefundCaseDecision sample_env no_refund)
    (\<lambda>v _. pred_option (\<lambda>(i, es). oi_status i = decisionStatus no_refund
       \<and> oi_resolutionNote i = Some (decisionNoteOf no_refund) \<and> oi_resolvedAt i \<noteq> None) v) (\<lambda>_ _. True) sample_8"
  by (rule decision_closes_case [OF reachable_later(4)])

section \<open>Lists\<close>

text \<open>The pages of a list, read one after the other, are the list: the first n pages of a positive
  size m are its first n m rows, none twice and none missing.\<close>

lemma pages_roundtrip:
  "concat (map (\<lambda>k. pgn_data (page_of (page_no (int k + 1) (int (Suc m))) rs)) [0..<n]) = take (n * Suc m) rs"
  using pages_concat [of "int (Suc m)" rs n] by (simp only: nat_int)

section \<open>Reviews\<close>



text \<open>C27. In every reachable state a review is the only one of its job, the job is completed, the reviewer is
  its client and the reviewed profile its provider's, and the rating is between 1 and 5.\<close>

theorem reachable_reviews:
  assumes "reachable w" "r \<in> set (reviews (w_db w))"
  shows "(\<exists>j. find_row jobs_t (rv_jobId r) (w_db w) = Some j \<and> jb_status j = JOB_COMPLETED
      \<and> jb_clientId j = rv_reviewerId r \<and> jb_workerProfileId j = rv_workerProfileId r)
    \<and> 1 \<le> rv_rating r \<and> rv_rating r \<le> 5
    \<and> filter (\<lambda>x. rv_jobId x = rv_jobId r) (reviews (w_db w)) = [r]"
proof -
  note rated = reachable_modules(2) [OF assms(1)]
  then have cons: "constraints reviews_t (w_db w)" by (simp add: ratings_ok_def)
  have same: "rv_id x = rv_id r" if "x \<in> set (reviews (w_db w))" "rv_jobId x = rv_jobId r" for x
    using cons that assms(2) by (auto simp: constraints_def)
  have "distinct (map rv_id (reviews (w_db w)))" using cons by (simp add: constraints_def unique_ids_def)
  then have "filter (\<lambda>x. rv_jobId x = rv_jobId r) (reviews (w_db w)) = [r]" using only_row [OF _ assms(2)] same by blast
  moreover have "1 \<le> rv_rating r" "rv_rating r \<le> 5" using rated assms(2) unfolding ratings_ok_def by blast+
  ultimately show ?thesis using reachable_modules(3) [OF assms(1)] assms(2) unfolding reviewed_ok_def by blast
qed

theorem reachable_reviews_witness:
  "list_all (\<lambda>r. filter (\<lambda>x. rv_jobId x = rv_jobId r) (reviews (w_db reviewed_1)) = [r]) (reviews (w_db reviewed_1))
     \<and> map rv_jobId (reviews (w_db reviewed_1)) = [''xxxx'']"
proof -
  have "map rv_jobId (reviews (w_db reviewed_1)) = [''xxxx'']"
    using arg_cong [OF reviewed_1_state [THEN conjunct2], of "map fst"] by (simp add: comp_def)
  then show ?thesis using reachable_reviews [OF reachable_reviewed] by (auto simp: list_all_iff)
qed

section \<open>Accounts and sessions\<close>

text \<open>C9. A refresh token that is presented a second time ends its session for good: the second call is
  refused and revokes the session, and at any later state of any run no refresh token of that session
  is accepted again, the rotated one included.\<close>

theorem reused_token_ends_session:
  assumes "reachable w" "refresh E (Some t) ci w = (Inr r, w1)"
    and "e_sha256 E' = e_sha256 E" "verifyRefreshToken E' t = verifyRefreshToken E t"
    and "e_sha256 E t \<noteq> e_sha256 E (ar_refreshToken r)"
  shows "\<exists>p w2. verifyRefreshToken E t = Some p \<and> refresh E' (Some t) ci' w1 = (Inl badRefresh, w2)
    \<and> (\<forall>w3 F t' ci''. step\<^sup>*\<^sup>* w2 w3 \<longrightarrow> map_option rpl_sid (verifyRefreshToken F t') = Some (rpl_sid p) \<longrightarrow>
         wp (refresh F (Some t') ci'') (\<lambda>_ _. False) (\<lambda>_ w'. w_db w' = w_db w3) w3)"
proof -
  obtain p w2 where p: "verifyRefreshToken E t = Some p" "refresh E' (Some t) ci' w1 = (Inl badRefresh, w2)"
    "sealed (rpl_sid p) (w_db w2)"
    using rotation_reuse [OF reachable_modules(7) [OF assms(1)] assms(2-5), of ci'] by blast
  have "wp (refresh F (Some t') ci'') (\<lambda>_ _. False) (\<lambda>_ w'. w_db w' = w_db w3) w3"
    if "step\<^sup>*\<^sup>* w2 w3" "map_option rpl_sid (verifyRefreshToken F t') = Some (rpl_sid p)" for w3 F t' ci''
    by (rule revoked_refused [OF kept_steps [OF that(1) kept_sealed.kept p(3)]]) (use that(2) in auto)
  with p(1,2) show ?thesis by blast
qed

theorem reused_token_ends_session_witness:
  "\<exists>w1 w2. snd (refresh account_env (Some token_1) no_client signed_in) = w1
     \<and> refresh account_env (Some token_1) no_client w1 = (Inl badRefresh, w2)"
proof -
  obtain r w1 where r: "refresh account_env (Some token_1) no_client signed_in = (Inr r, w1)"
    "e_sha256 account_env token_1 \<noteq> e_sha256 account_env (ar_refreshToken r)" by (rule rotation_returned)
  show ?thesis using reused_token_ends_session [OF reachable_signed_in r(1) refl refl r(2), of no_client] r(1) by auto
qed



text \<open>C10. An administrator's password confirmation admits one request that moves money: after a request was
  admitted with a reauthentication token, no such request with that token is admitted in any later state.\<close>

theorem reauth_admits_once:
  assumes "reachable w" "moves_money ep" "moves_money ep'" "admit E ep req w = (Inr r, w1)" "step\<^sup>*\<^sup>* w1 w2"
    and "e_sha256 E' (js_trim (or_else (gq_reauthToken req') [])) = e_sha256 E (js_trim (or_else (gq_reauthToken req) []))"
  shows "wp (admit E' ep' req') (\<lambda>_ _. False) (\<lambda>_ _. True) w2"
  using assms by (rule money_admits_once)

theorem reauth_admits_once_witness:
  "\<exists>w1. snd (admit sample_env approval by_admin confirmed) = w1 \<and> wp (admit sample_env approval by_admin) (\<lambda>_ _. False) (\<lambda>_ _. True) w1"
proof -
  obtain r w1 where "admit sample_env approval by_admin confirmed = (Inr r, w1)"
    using approval_run by (cases "admit sample_env approval by_admin confirmed") (auto split: sum.splits)
  then show ?thesis using reauth_admits_once [OF reachable_confirmed approval_money approval_money _ rtranclp.rtrancl_refl refl] by auto
qed

text \<open>C12. An endpoint under \<^verbatim>\<open>admin/\<close> lets nobody pass but administrators: admission fails for everybody
  else, with one of four errors.\<close>

theorem admin_endpoints_closed:
  assumes "ep \<in> set api" "js_starts_with (en_path ep) ''admin/''"
  shows "wp (admit E ep req) (\<lambda>_ _. \<exists>u. gq_user req = Some u \<and> us_role u = UR_ADMIN)
    (\<lambda>e _. e \<in> {UnauthorizedException ''Unauthorized'', authenticationNeeded, permissionMissing, reauthNeeded}) w"
  using admin_table [OF assms] by (rule admit_admin)

theorem admin_endpoints_closed_witness:
  "wp (admit sample_env approval by_admin) (\<lambda>_ _. \<exists>u. gq_user by_admin = Some u \<and> us_role u = UR_ADMIN)
    (\<lambda>e _. e \<in> {UnauthorizedException ''Unauthorized'', authenticationNeeded, permissionMissing, reauthNeeded}) confirmed"
  by (rule admin_endpoints_closed) (simp_all add: approval_row)







text \<open>C38. Deleting an account forgets the refunds it asked for: whatever an administrator refunded on their own
  request is no longer counted against the payment intent once that account is deleted.\<close>

theorem deletion_unbooks_refund:
  assumes "reachable w" "r \<in> set (refunds (w_db w))" "rf_status r = RF_SUCCEEDED"
  shows "wp (deleteUser E (rf_requestedByUserId r) actor)
    (\<lambda>_ w'. refunded_of (rf_paymentIntentId r) (refunds (w_db w')) + rf_amount r \<le> refunded_of (rf_paymentIntentId r) (refunds (w_db w)))
    (\<lambda>_ w'. w_db w' = w_db w) w"
proof -
  have "funds_ok (w_db w)" using kept_funds seeded_ok(2) assms(1) by (rule kept_reachable)
  then have "\<forall>x \<in> set (refunds (w_db w)). 0 \<le> rf_amount x" by (auto simp: funds_ok_def amounts_ok_def)
  then show ?thesis using deletion_forgets_refund [OF assms(2) refl refl assms(3)] by (auto intro: wp_deleteUser)
qed

theorem deletion_unbooks_refund_witness:
  "\<exists>r \<in> set (refunds (w_db admin_refund)). rf_requestedByUserId r = ''a'' \<and> rf_amount r = 6 \<and>
     wp (deleteUser sample_env ''a'' \<lparr>aa_userId = ''b'', aa_role = AR_ADMIN, aa_request = gq_info by_admin\<rparr>)
       (\<lambda>_ w'. refunded_of ''xxxxx'' (refunds (w_db w')) + 6 \<le> refunded_of ''xxxxx'' (refunds (w_db admin_refund))) (\<lambda>_ _. True) admin_refund"
proof -
  obtain r where r: "refunds (w_db admin_refund) = [r]" "rf_requestedByUserId r = ''a''" "rf_status r = RF_SUCCEEDED" "rf_amount r = 6"
    "rf_paymentIntentId r = ''xxxxx''" using admin_refund_run by auto
  then have "r \<in> set (refunds (w_db admin_refund))" by simp
  from wp_mono [OF deletion_unbooks_refund [OF reachable_admin_refund this r(3)]] r(2,4,5) this show ?thesis
    by (intro bexI [of _ r]) auto
qed

section \<open>Messages\<close>

text \<open>C25. Before the contact is unlocked, a message with eight digits in a row is never stored: the call
  answers with a warning or a block.\<close>

theorem locked_chat_screened:
  assumes "find_row jobs_t j (w_db w) = Some job" "\<not> contact_unlocked (w_db w) job"
    and "list_all is_digit ds" "8 \<le> length ds" "js_trim (cm_content dto) = pre @ ds @ post"
  shows "wp (sendMessage E j u dto) (\<lambda>r w'. (\<exists>m. r = Moderated m \<and> m \<noteq> Clear) \<and> messages (w_db w') = messages (w_db w))
    (\<lambda>_ w'. messages (w_db w') = messages (w_db w)) w"
  using assms by (rule wp_send_locked)

theorem locked_chat_screened_witness:
  "wp (sendMessage sample_env ''xxxx'' ''c'' numbered) (\<lambda>r _. \<exists>m. r = Moderated m \<and> m \<noteq> Clear) (\<lambda>_ _. True) sample_3"
proof -
  have "find_row jobs_t ''xxxx'' (w_db sample_3) = Some (the (find_row jobs_t ''xxxx'' (w_db sample_3)))"
    "\<not> contact_unlocked (w_db sample_3) (the (find_row jobs_t ''xxxx'' (w_db sample_3)))"
    using found_row [OF job_3_run] by auto
  then show ?thesis
    by (rule wp_mono [OF locked_chat_screened [OF _ _ numbered_content(2) _ numbered_content(1)]]) auto
qed

text \<open>C26. In every reachable state a message has content, and an attachment belongs to a message, was uploaded
  by its sender under the key reserved for sender and job, is an image of at most 5 MB, and a message
  has at most six.\<close>

theorem reachable_messages:
  assumes "reachable w"
  shows "messages_ok (w_db w)"
  using assms by (rule reachable_modules)

theorem reachable_messages_witness:
  "messages_ok (w_db chat_1) \<and> map jm_content (messages (w_db chat_1)) = [''ola'']
     \<and> map ja_contentType (attachments (w_db chat_1)) = [Some ''image/png'']"
  using reachable_messages [OF reachable_chat] chat_1_state by simp

text \<open>C33. The reference that an upload hands out is accepted by the message that attaches it: for the key,
  type and size of a granted upload the validation of \<^verbatim>\<open>send\<close> passes, whatever the absolute URL.\<close>

theorem upload_attaches:
  "wp (buildMessageAttachmentUpload E jobId userId input)
    (\<lambda>up w'. mu_contentType up = ui_contentType input \<and> js_starts_with (mu_key up) (key_prefix userId jobId)
       \<and> (\<forall>url X. absolute_url url \<longrightarrow>
         wp (validateMessageAttachmentReference jobId userId
           \<lparr>ai_url = url, ai_key = mu_key up, ai_contentType = mu_contentType up, ai_size = mu_sizeBytes up\<rparr>)
           (\<lambda>a w''. ai_key a = mu_key up \<and> w'' = w') X w'))
    (\<lambda>e w'. w' = w) w"
  by (rule upload_accepted)

theorem upload_attaches_witness:
  "wp (buildMessageAttachmentUpload sample_env ''xxxx'' ''c''
      \<lparr>ui_fileName = ''f.png'', ui_contentType = ''image/png'', ui_sizeBytes = 9, ui_expiresIn = None\<rparr>)
    (\<lambda>up _. js_starts_with (mu_key up) (key_prefix ''c'' ''xxxx'')) (\<lambda>_ w'. w' = sample_4) sample_4"
  by (rule wp_mono [OF upload_attaches]) auto

section \<open>Tracking\<close>

text \<open>C28. A flush of the queue adds to every counter exactly the events of the queue that count for it,
  whatever the order and the grouping in which the code aggregates them, and empties the queue.\<close>

theorem flush_counts:
  "wp (flushQueue E)
    (\<lambda>_ w'. (\<forall>c k. worker_count c k (w_db w') = worker_count c k (w_db w) + int (length (filter (counts_for c k) (w_queue w))))
       \<and> (\<forall>s. category_count s (w_db w') = category_count s (w_db w) + int (length (filter (selects s) (w_queue w))))
       \<and> w_queue w' = []) (\<lambda>_ _. False) w"
  by (rule wp_flushQueue)

section \<open>Where the guarantees end\<close>





end
